(* ===== verification/Go_Prelude.thy ===== *)
theory Go_Prelude
  imports Complex_Main "HOL-Library.Word" "HOL-Library.Char_ord" "HOL-Library.List_Lexorder"
begin

text \<open>
  The part of Go's language and standard library the modelled packages use: strings as byte
  lists with the functions of package \<^verbatim>\<open>strings\<close>, decimal and hexadecimal conversion of package
  \<^verbatim>\<open>strconv\<close>, instants and durations of package \<^verbatim>\<open>time\<close> as integers of nanoseconds, and the
  outcome of a database statement. Case mapping and trimming are those of the ASCII range; bytes
  above 127 are kept as they are.
\<close>

named_theorems go_str \<open>unfolding rules for the Go string functions\<close>

section \<open>Time\<close>

text \<open>An instant is the number of nanoseconds since the Unix epoch, a duration a number of
  nanoseconds; \<^verbatim>\<open>now()\<close> of the database is an instant too.\<close>

type_synonym time = int
type_synonym duration = int

definition millisecond :: duration where "millisecond = 1000000"
definition second :: duration where "second = 1000000000"
definition minute :: duration where "minute = 60 * second"
definition hour :: duration where "hour = 60 * minute"

lemmas time_units = millisecond_def second_def minute_def hour_def

text \<open>\<^verbatim>\<open>time.Unix(sec, 0)\<close> and \<^verbatim>\<open>t.Unix()\<close>.\<close>

definition of_unix :: "int \<Rightarrow> time" where "of_unix s = s * second"
definition unix :: "time \<Rightarrow> int" where "unix t = t div second"

lemma unix_of_unix [simp]: "unix (of_unix s) = s"
  by (simp add: unix_def of_unix_def second_def)

lemma unix_mono: "s \<le> t \<Longrightarrow> unix s \<le> unix t"
  by (simp add: unix_def second_def zdiv_mono1)

section \<open>Strings\<close>

definition HasPrefix :: "string \<Rightarrow> string \<Rightarrow> bool" where
  "HasPrefix s p = (take (length p) s = p)"

definition HasSuffix :: "string \<Rightarrow> string \<Rightarrow> bool" where
  "HasSuffix s p = (length p \<le> length s \<and> drop (length s - length p) s = p)"

definition TrimPrefix :: "string \<Rightarrow> string \<Rightarrow> string" where
  "TrimPrefix s p = (if HasPrefix s p then drop (length p) s else s)"

definition CutPrefix :: "string \<Rightarrow> string \<Rightarrow> string option" where
  "CutPrefix s p = (if HasPrefix s p then Some (drop (length p) s) else None)"

text \<open>\<^verbatim>\<open>strings.Cut\<close> at a one-byte separator: \<open>None\<close> as second component when it is absent.\<close>

definition Cut :: "char \<Rightarrow> string \<Rightarrow> string \<times> string option" where
  "Cut c s = (takeWhile (\<lambda>x. x \<noteq> c) s,
     (case dropWhile (\<lambda>x. x \<noteq> c) s of [] \<Rightarrow> None | _ # r \<Rightarrow> Some r))"

text \<open>\<^verbatim>\<open>strings.SplitN(s, c, n)\<close> with \<open>Suc n\<close> parts at most.\<close>

fun SplitN :: "nat \<Rightarrow> char \<Rightarrow> string \<Rightarrow> string list" where
  "SplitN 0 c s = [s]"
| "SplitN (Suc n) c s = (case Cut c s of (a, None) \<Rightarrow> [a] | (a, Some r) \<Rightarrow> a # SplitN n c r)"

fun Split :: "char \<Rightarrow> string \<Rightarrow> string list" where
  "Split c [] = [[]]"
| "Split c (x # xs) = (if x = c then [] # Split c xs
     else (case Split c xs of [] \<Rightarrow> [[x]] | p # ps \<Rightarrow> (x # p) # ps))"

fun Join :: "string list \<Rightarrow> string \<Rightarrow> string" where
  "Join [] sep = []"
| "Join [x] sep = x"
| "Join (x # y # ys) sep = x @ sep @ Join (y # ys) sep"

definition is_space :: "char \<Rightarrow> bool" where
  "is_space c = (let n = (of_char c :: nat) in n = 32 \<or> (9 \<le> n \<and> n \<le> 13))"

definition TrimSpace :: "string \<Rightarrow> string" where
  "TrimSpace s = rev (dropWhile is_space (rev (dropWhile is_space s)))"

definition upper_char :: "char \<Rightarrow> char" where
  "upper_char c = (let n = (of_char c :: nat) in if 97 \<le> n \<and> n \<le> 122 then char_of (n - 32) else c)"

definition lower_char :: "char \<Rightarrow> char" where
  "lower_char c = (let n = (of_char c :: nat) in if 65 \<le> n \<and> n \<le> 90 then char_of (n + 32) else c)"

definition ToUpper :: "string \<Rightarrow> string" where "ToUpper s = map upper_char s"
definition ToLower :: "string \<Rightarrow> string" where "ToLower s = map lower_char s"

definition EqualFold :: "string \<Rightarrow> string \<Rightarrow> bool" where
  "EqualFold s t = (ToLower s = ToLower t)"

fun Contains :: "string \<Rightarrow> string \<Rightarrow> bool" where
  "Contains [] p = (p = [])"
| "Contains (x # xs) p = (HasPrefix (x # xs) p \<or> Contains xs p)"

text \<open>\<^verbatim>\<open>strings.ReplaceAll\<close> of a one-byte string.\<close>

definition ReplaceAll :: "string \<Rightarrow> char \<Rightarrow> string \<Rightarrow> string" where
  "ReplaceAll s c r = concat (map (\<lambda>x. if x = c then r else [x]) s)"

definition Repeat :: "string \<Rightarrow> nat \<Rightarrow> string" where
  "Repeat s n = concat (replicate n s)"

lemma HasPrefix_iff: "HasPrefix s p \<longleftrightarrow> (\<exists>t. s = p @ t)"
  unfolding HasPrefix_def by (metis append_eq_conv_conj append_take_drop_id)

lemma HasPrefixI [simp]: "HasPrefix (p @ t) p"
  by (simp add: HasPrefix_def)

lemma HasPrefix_Nil [simp]: "HasPrefix s []"
  by (simp add: HasPrefix_def)

lemma HasPrefix_trans: "HasPrefix s p \<Longrightarrow> HasPrefix p q \<Longrightarrow> HasPrefix s q"
  by (auto simp: HasPrefix_iff)

lemma HasSuffix_iff: "HasSuffix s p \<longleftrightarrow> (\<exists>t. s = t @ p)"
  unfolding HasSuffix_def
  by (metis append_take_drop_id diff_diff_cancel length_append length_drop le_add2
      append_eq_conv_conj add_diff_cancel_right')

lemma HasSuffixI [simp]: "HasSuffix (t @ p) p"
  by (auto simp: HasSuffix_iff)

lemma Cut_append [simp]: "c \<notin> set a \<Longrightarrow> Cut c (a @ c # r) = (a, Some r)"
proof -
  assume "c \<notin> set a"
  then have "dropWhile (\<lambda>x. x \<noteq> c) (a @ c # r) = c # r" "takeWhile (\<lambda>x. x \<noteq> c) (a @ c # r) = a"
    by (induction a) auto
  then show ?thesis by (simp add: Cut_def)
qed

lemma Cut_Some: "Cut c s = (a, Some r) \<Longrightarrow> s = a @ c # r \<and> c \<notin> set a"
proof -
  assume h: "Cut c s = (a, Some r)"
  then obtain x where d: "dropWhile (\<lambda>x. x \<noteq> c) s = x # r" and a: "a = takeWhile (\<lambda>x. x \<noteq> c) s"
    by (auto simp: Cut_def split: list.splits)
  have "x = c" using hd_dropWhile [of "\<lambda>x. x \<noteq> c" s] d by auto
  moreover have "s = a @ dropWhile (\<lambda>x. x \<noteq> c) s" by (simp add: a)
  moreover have "c \<notin> set a" using set_takeWhileD a by fastforce
  ultimately show ?thesis using d by simp
qed

lemma Cut_None: "Cut c s = (a, None) \<Longrightarrow> a = s \<and> c \<notin> set s"
  by (auto simp: Cut_def dropWhile_eq_Nil_conv takeWhile_eq_all_conv split: list.splits)

lemma TrimSpace_Nil [simp]: "TrimSpace [] = []"
  by (simp add: TrimSpace_def)

section \<open>Integers and strings\<close>

definition is_digit :: "char \<Rightarrow> bool" where
  "is_digit c = (48 \<le> (of_char c :: nat) \<and> (of_char c :: nat) \<le> 57)"

definition digit :: "nat \<Rightarrow> char" where
  "digit d = (if d < 10 then char_of (48 + d) else char_of (87 + d))"

text \<open>\<^verbatim>\<open>strconv.FormatUint(n, b)\<close> for a base between 2 and 16.\<close>

fun FormatUint :: "nat \<Rightarrow> nat \<Rightarrow> string" where
  "FormatUint b n = (if n < b \<or> b < 2 then [digit n] else FormatUint b (n div b) @ [digit (n mod b)])"

declare FormatUint.simps [simp del]

definition FormatInt :: "nat \<Rightarrow> int \<Rightarrow> string" where
  "FormatInt b n = (if n < 0 then CHR ''-'' # FormatUint b (nat (- n)) else FormatUint b (nat n))"

definition Itoa :: "int \<Rightarrow> string" where "Itoa n = FormatInt 10 n"

definition digit_val :: "nat \<Rightarrow> char \<Rightarrow> nat option" where
  "digit_val b c = (let n = (of_char c :: nat);
      d = (if 48 \<le> n \<and> n \<le> 57 then n - 48
           else if 97 \<le> n \<and> n \<le> 122 then n - 87
           else if 65 \<le> n \<and> n \<le> 90 then n - 55 else 99)
    in if d < b then Some d else None)"

fun parse_digits :: "nat \<Rightarrow> nat \<Rightarrow> string \<Rightarrow> nat option" where
  "parse_digits b acc [] = Some acc"
| "parse_digits b acc (c # cs) =
     (case digit_val b c of None \<Rightarrow> None | Some d \<Rightarrow> parse_digits b (acc * b + d) cs)"

text \<open>\<^verbatim>\<open>strconv.ParseUint(s, b, 64)\<close>: an empty string, a foreign digit or a value past 64 bits is
  an error.\<close>

definition ParseUint :: "nat \<Rightarrow> string \<Rightarrow> nat option" where
  "ParseUint b s = (if s = [] then None
     else case parse_digits b 0 s of None \<Rightarrow> None
       | Some n \<Rightarrow> if n < 2 ^ 64 then Some n else None)"

text \<open>\<^verbatim>\<open>strconv.ParseInt(s, b, 64)\<close>, with an optional sign.\<close>

definition ParseInt :: "nat \<Rightarrow> string \<Rightarrow> int option" where
  "ParseInt b s =
     (let neg = HasPrefix s ''-''; r = (if HasPrefix s ''-'' \<or> HasPrefix s ''+'' then tl s else s)
      in case ParseUint b r of None \<Rightarrow> None
         | Some n \<Rightarrow> if neg then (if n \<le> 2 ^ 63 then Some (- int n) else None)
                     else (if n < 2 ^ 63 then Some (int n) else None))"

lemma digit_val_digit [simp]: "d < b \<Longrightarrow> b \<le> 16 \<Longrightarrow> digit_val b (digit d) = Some d"
  by (auto simp: digit_val_def digit_def Let_def)

lemma parse_digits_append:
  "parse_digits b acc (s @ t) =
     (case parse_digits b acc s of None \<Rightarrow> None | Some n \<Rightarrow> parse_digits b n t)"
  by (induction s arbitrary: acc) (auto split: option.splits)

lemma FormatUint_nonempty [simp]: "FormatUint b n \<noteq> []"
  by (subst FormatUint.simps) simp

lemma parse_FormatUint:
  assumes "2 \<le> b" "b \<le> 16"
  shows "parse_digits b 0 (FormatUint b n) = Some n"
  using assms
proof (induction b n rule: FormatUint.induct)
  case (1 b n)
  show ?case
  proof (cases "n < b")
    case True
    with 1 show ?thesis by (subst FormatUint.simps) simp
  next
    case False
    with 1 have "parse_digits b 0 (FormatUint b (n div b)) = Some (n div b)" by simp
    with False 1 show ?thesis by (subst FormatUint.simps) (simp add: parse_digits_append)
  qed
qed

lemma ParseUint_FormatUint [simp]:
  "2 \<le> b \<Longrightarrow> b \<le> 16 \<Longrightarrow> n < 2 ^ 64 \<Longrightarrow> ParseUint b (FormatUint b n) = Some n"
  by (simp add: ParseUint_def parse_FormatUint)

definition hex_digits :: "char set" where
  "hex_digits = set ''0123456789abcdef''"

lemma digit_hex: "d < 16 \<Longrightarrow> digit d \<in> hex_digits"
proof -
  assume "d < 16"
  then have "d = 0 \<or> d = 1 \<or> d = 2 \<or> d = 3 \<or> d = 4 \<or> d = 5 \<or> d = 6 \<or> d = 7 \<or> d = 8 \<or> d = 9
      \<or> d = 10 \<or> d = 11 \<or> d = 12 \<or> d = 13 \<or> d = 14 \<or> d = 15"
    by presburger
  then show ?thesis by (elim disjE; hypsubst; code_simp)
qed

lemma set_FormatUint:
  "2 \<le> b \<Longrightarrow> b \<le> 16 \<Longrightarrow> set (FormatUint b n) \<subseteq> hex_digits"
proof (induction b n rule: FormatUint.induct)
  case (1 b n)
  show ?case
  proof (cases "n < b")
    case True
    then show ?thesis using digit_hex [of n] 1 by (subst FormatUint.simps) simp
  next
    case False
    have "n mod b < 16" using 1 by (meson le_trans less_le_trans mod_less_divisor zero_less_numeral less_le_trans)
    then have "digit (n mod b) \<in> hex_digits" by (rule digit_hex)
    moreover have "set (FormatUint b (n div b)) \<subseteq> hex_digits"
      using 1 False by simp
    ultimately show ?thesis using False 1 by (subst FormatUint.simps) simp
  qed
qed

lemma FormatUint_no_sign:
  assumes "2 \<le> b" "b \<le> 16" "c \<notin> hex_digits"
  shows "c \<notin> set (FormatUint b n)" "\<not> HasPrefix (FormatUint b n) [c]"
proof -
  show s: "c \<notin> set (FormatUint b n)" using set_FormatUint [of b n] assms by blast
  show "\<not> HasPrefix (FormatUint b n) [c]"
  proof
    assume "HasPrefix (FormatUint b n) [c]"
    then have "c \<in> set (FormatUint b n)" by (auto simp: HasPrefix_iff)
    with s show False ..
  qed
qed

lemma ParseInt_FormatInt:
  assumes b: "2 \<le> b" "b \<le> 16" and n: "- (2 ^ 63) \<le> n" "n < 2 ^ 63"
  shows "ParseInt b (FormatInt b n) = Some n"
proof (cases "n < 0")
  case True
  have "nat (- n) \<le> nat (2 ^ 63)" using n by (intro nat_mono) simp
  then have "nat (- n) \<le> 2 ^ 63" by simp
  with True b show ?thesis
    by (simp add: FormatInt_def ParseInt_def HasPrefix_def)
next
  case False
  have "nat n < 2 ^ 63" using n False by (simp add: nat_less_iff)
  with False b show ?thesis
    by (simp add: FormatInt_def ParseInt_def FormatUint_no_sign hex_digits_def)
qed

section \<open>Byte strings\<close>

text \<open>\<^verbatim>\<open>hex.EncodeToString\<close> and \<^verbatim>\<open>hex.DecodeString\<close>.\<close>

definition hex_byte :: "char \<Rightarrow> string" where
  "hex_byte c = (let n = (of_char c :: nat) in [digit (n div 16), digit (n mod 16)])"

definition hex_encode :: "string \<Rightarrow> string" where
  "hex_encode s = concat (map hex_byte s)"

fun hex_decode :: "string \<Rightarrow> string option" where
  "hex_decode [] = Some []"
| "hex_decode [c] = None"
| "hex_decode (a # b # r) =
     (case (digit_val 16 a, digit_val 16 b, hex_decode r) of
        (Some x, Some y, Some bs) \<Rightarrow> Some (char_of (x * 16 + y) # bs)
      | _ \<Rightarrow> None)"

lemma hex_decode_encode [simp]: "hex_decode (hex_encode s) = Some s"
proof (induction s)
  case Nil
  show ?case by (simp add: hex_encode_def)
next
  case (Cons c s)
  have "(of_char c :: nat) < 256" by simp
  then have "(of_char c :: nat) div 16 < 16" by (simp add: less_mult_imp_div_less)
  moreover have "char_of ((of_char c :: nat) div 16 * 16 + of_char c mod 16) = c" by simp
  ultimately show ?case using Cons by (simp add: hex_encode_def hex_byte_def Let_def)
qed

lemma set_hex_encode: "set (hex_encode s) \<subseteq> hex_digits"
proof (induction s)
  case (Cons c s)
  have "(of_char c :: nat) < 256" by simp
  then have "(of_char c :: nat) div 16 < 16" by (simp add: less_mult_imp_div_less)
  then show ?case using Cons digit_hex [of "of_char c div 16"] digit_hex [of "of_char c mod 16"]
    by (simp add: hex_encode_def hex_byte_def Let_def)
qed (simp add: hex_encode_def)

lemma length_hex_encode [simp]: "length (hex_encode s) = 2 * length s"
  by (induction s) (simp_all add: hex_encode_def hex_byte_def Let_def)

section \<open>Maps\<close>

text \<open>
  A Go map as an association list with distinct keys; iteration order is the list's, where Go
  leaves it open.
\<close>

definition map_put :: "'k \<Rightarrow> 'v \<Rightarrow> ('k \<times> 'v) list \<Rightarrow> ('k \<times> 'v) list" where
  "map_put k v m = (k, v) # filter (\<lambda>(k', _). k' \<noteq> k) m"

lemma distinct_filter_keys: "distinct (map f xs) \<Longrightarrow> distinct (map f (filter P xs))"
  by (induction xs) auto

lemma map_of_map_put [simp]: "map_of (map_put k v m) x = (if x = k then Some v else map_of m x)"
  by (induction m) (auto simp: map_put_def)

lemma dom_map_put [simp]: "fst ` set (map_put k v m) = insert k (fst ` set m)"
  by (auto simp: map_put_def image_iff)

lemma distinct_map_put: "distinct (map fst m) \<Longrightarrow> distinct (map fst (map_put k v m))"
  by (auto simp: map_put_def distinct_filter_keys)

lemma length_map_put_new: "k \<notin> fst ` set m \<Longrightarrow> length (map_put k v m) = Suc (length m)"
proof -
  assume "k \<notin> fst ` set m"
  then have "filter (\<lambda>(k', _). k' \<noteq> k) m = m" by (intro filter_True) force
  then show ?thesis by (simp add: map_put_def)
qed

section \<open>Database statements\<close>

text \<open>
  A repository method runs its statements in order; the environment decides which of them fail.
  \<open>faults i\<close> is true when the method's statement number \<open>i\<close> (from 0) fails.
\<close>

type_synonym faults = "nat \<Rightarrow> bool"

abbreviation no_faults :: faults where "no_faults \<equiv> \<lambda>_. False"

text \<open>A statement \<^verbatim>\<open>UPDATE t SET f WHERE p\<close> on a table kept as a list of rows, and the number of
  rows it reports as affected.\<close>

definition update_where :: "('r \<Rightarrow> bool) \<Rightarrow> ('r \<Rightarrow> 'r) \<Rightarrow> 'r list \<Rightarrow> 'r list" where
  "update_where p f rows = map (\<lambda>r. if p r then f r else r) rows"

definition rows_affected :: "('r \<Rightarrow> bool) \<Rightarrow> 'r list \<Rightarrow> nat" where
  "rows_affected p rows = length (filter p rows)"

lemma set_update_where: "set (update_where p f rows) = {if p r then f r else r | r. r \<in> set rows}"
  by (auto simp: update_where_def)

lemma update_where_None: "(\<And>r. r \<in> set rows \<Longrightarrow> \<not> p r) \<Longrightarrow> update_where p f rows = rows"
  by (simp add: update_where_def map_idI)

lemma length_update_where [simp]: "length (update_where p f rows) = length rows"
  by (simp add: update_where_def)

lemma map_update_where: "(\<And>r. k (f r) = k r) \<Longrightarrow> map k (update_where p f rows) = map k rows"
  by (simp add: update_where_def)

lemma ex_update_where: "x \<in> set (update_where p f rows) \<Longrightarrow>
    (\<exists>r \<in> set rows. p r \<and> x = f r) \<or> (x \<in> set rows \<and> \<not> p x)"
  by (auto simp: update_where_def split: if_splits)

lemma find_distinct: "distinct (map k rows) \<Longrightarrow> r \<in> set rows \<Longrightarrow> find (\<lambda>x. k x = k r) rows = Some r"
  by (induction rows) auto

lemma find_update_where:
  "(\<And>r. k (f r) = k r) \<Longrightarrow> find (\<lambda>r. k r = x) (update_where p f rows) =
     map_option (\<lambda>r. if p r then f r else r) (find (\<lambda>r. k r = x) rows)"
  by (induction rows) (simp_all add: update_where_def)

lemma find_filter_keep: "find P xs = Some x \<Longrightarrow> Q x \<Longrightarrow> find P (filter Q xs) = Some x"
  by (induction xs) (auto split: if_splits)

lemma distinct_filter_update:
  assumes "distinct (map k (filter P rows))" "\<And>r. k (f r) = k r" "\<And>r. P (f r) \<Longrightarrow> P r"
  shows "distinct (map k (filter P (update_where p f rows)))"
  using assms(1)
proof (induction rows)
  case (Cons r rows)
  have "k ` set (filter P (update_where p f rows)) \<subseteq> k ` set (filter P rows)"
    using assms(2,3) by (force simp: update_where_def split: if_splits)
  with Cons assms(2,3) show ?case by (auto simp: update_where_def split: if_splits)
qed (simp add: update_where_def)

lemma find_append: "find P (xs @ ys) = (case find P xs of None \<Rightarrow> find P ys | Some x \<Rightarrow> Some x)"
  by (induction xs) simp_all

lemma find_key: "find (\<lambda>d. k d = x) ds = Some d \<Longrightarrow> k d = x"
  by (induction ds) (auto split: if_splits)

lemma filter_update_where:
  assumes "\<And>r. Q r \<Longrightarrow> \<not> p r" "\<And>r. p r \<Longrightarrow> \<not> Q (f r)"
  shows "filter Q (update_where p f rows) = filter Q rows"
  using assms by (induction rows) (auto simp: update_where_def)

lemma filter_find: "distinct (map k xs) \<Longrightarrow> find (\<lambda>x. k x = v) xs = Some x \<Longrightarrow> filter (\<lambda>x. k x = v) xs = [x]"
  by (induction xs) (force simp: filter_empty_conv image_iff split: if_splits)+

end
