(* ===== verification/Cwmp_Types.thy ===== *)
theory Cwmp_Types
  imports Go_Prelude
begin

text \<open>
  Package \<^verbatim>\<open>internal/cwmp\<close>, the data received from a CPE: the device identity and its natural key
  (\<^verbatim>\<open>types.go\<close>), the Inform and its event codes (\<^verbatim>\<open>inform.go\<close>), faults (\<^verbatim>\<open>fault.go\<close>), the parsed
  body of an envelope (\<^verbatim>\<open>envelope.go\<close>) and TransferComplete (\<^verbatim>\<open>rpc.go\<close>). The lemmas show that the
  natural key identifies a device: two identities share a key exactly when they agree on the
  normalised OUI, the product class and the serial number.
\<close>

section \<open>Device identity\<close>

record DeviceID =
  Manufacturer :: string
  OUI :: string
  ProductClass :: string
  SerialNumber :: string

definition NormalizeOUI :: "string \<Rightarrow> string" where
  "NormalizeOUI oui = filter (\<lambda>c. c \<notin> {CHR '':'', CHR ''-'', CHR '' ''}) (ToUpper oui)"

definition Normalized :: "DeviceID \<Rightarrow> DeviceID" where
  "Normalized d = d\<lparr>OUI := NormalizeOUI (OUI d)\<rparr>"

definition backslash :: char where "backslash = CHR 0x5C"

definition esc :: "string \<Rightarrow> string" where
  "esc s = ReplaceAll (ReplaceAll s backslash [backslash, backslash]) (CHR ''+'') [backslash, CHR ''+'']"

definition NaturalKey :: "DeviceID \<Rightarrow> string" where
  "NaturalKey d =
     (let oui = esc (NormalizeOUI (OUI d))
      in if ProductClass d \<noteq> []
         then oui @ ''+'' @ esc (ProductClass d) @ ''+'' @ esc (SerialNumber d)
         else oui @ ''+'' @ esc (SerialNumber d))"

section \<open>Events, parameters, Inform\<close>

record EventStruct =
  EventCode :: string
  EventCommandKey :: string

record ParameterValueStruct =
  pv_Name :: string
  pv_Value :: string
  pv_Type :: string

record ParameterInfoStruct =
  pi_Name :: string
  pi_Writable :: string

record Inform =
  DeviceId :: DeviceID
  Event :: "EventStruct list"
  MaxEnvelopes :: int
  CurrentTime :: string
  RetryCount :: int
  InformParameterList :: "ParameterValueStruct list"

definition EventCodes :: "Inform \<Rightarrow> string list" where
  "EventCodes i = map EventCode (Event i)"

definition EventDiagnosticsComplete :: string where
  "EventDiagnosticsComplete = ''8''"

text \<open>The loop over the events returns at the first match.\<close>

fun has_event_code :: "EventStruct list \<Rightarrow> string \<Rightarrow> bool" where
  "has_event_code [] code = False"
| "has_event_code (e # es) code =
     (let token = fst (Cut (CHR '' '') (TrimSpace (EventCode e)))
      in if token \<noteq> [] \<and> token = code then True else has_event_code es code)"

definition HasEventCode :: "Inform \<Rightarrow> string \<Rightarrow> bool" where
  "HasEventCode i code = has_event_code (Event i) code"

section \<open>Faults and responses\<close>

record FaultStruct =
  FaultCode :: string
  FaultString :: string

record SoapFault =
  soap_FaultCode :: string
  soap_FaultString :: string
  soap_Detail :: "FaultStruct option option"

text \<open>\<open>soap_Detail\<close> is the \<^verbatim>\<open>*FaultDetail\<close>, whose only field is the \<^verbatim>\<open>*FaultStruct\<close>. Both methods
  accept a nil receiver.\<close>

definition CWMPCode :: "SoapFault option \<Rightarrow> string" where
  "CWMPCode f = (case f of None \<Rightarrow> []
     | Some sf \<Rightarrow> (case soap_Detail sf of Some (Some fs) \<Rightarrow> FaultCode fs | _ \<Rightarrow> []))"

definition CWMPMessage :: "SoapFault option \<Rightarrow> string" where
  "CWMPMessage f = (case f of None \<Rightarrow> []
     | Some sf \<Rightarrow> (case soap_Detail sf of
           Some (Some fs) \<Rightarrow> if FaultString fs \<noteq> [] then FaultString fs else soap_FaultString sf
         | _ \<Rightarrow> soap_FaultString sf))"

record TransferComplete =
  tc_CommandKey :: string
  tc_FaultStruct :: "FaultStruct option"

definition IsFault :: "TransferComplete \<Rightarrow> bool" where
  "IsFault tc = (case tc_FaultStruct tc of None \<Rightarrow> False
     | Some fs \<Rightarrow> FaultCode fs \<noteq> [] \<and> FaultCode fs \<noteq> ''0'')"

record ParameterAttributeStruct =
  pa_Name :: string
  pa_Notification :: int
  pa_AccessList :: "string list"

text \<open>
  The body of an inbound envelope: one optional element per message the ACS knows and the local
  names of the elements it does not know. The payloads the ACS reads are kept; the others are the
  status number of the response.
\<close>

record InboundBody =
  b_Inform :: "Inform option"
  b_GetRPCMethodsResponse :: "string list option"
  b_GetParameterNamesResponse :: "ParameterInfoStruct list option"
  b_GetParameterValuesResponse :: "ParameterValueStruct list option"
  b_SetParameterValuesResponse :: "int option"
  b_DownloadResponse :: "int option"
  b_TransferComplete :: "TransferComplete option"
  b_AddObjectResponse :: "(int \<times> int) option"
  b_DeleteObjectResponse :: "int option"
  b_RebootResponse :: "unit option"
  b_FactoryResetResponse :: "unit option"
  b_ScheduleInformResponse :: "unit option"
  b_SetParameterAttributesResponse :: "unit option"
  b_GetParameterAttributesResponse :: "ParameterAttributeStruct list option"
  b_UploadResponse :: "int option"
  b_Fault :: "SoapFault option"
  b_GetRPCMethods :: "unit option"
  b_Unmatched :: "string list"

definition empty_body :: InboundBody where
  "empty_body = \<lparr>b_Inform = None, b_GetRPCMethodsResponse = None, b_GetParameterNamesResponse = None,
     b_GetParameterValuesResponse = None, b_SetParameterValuesResponse = None, b_DownloadResponse = None,
     b_TransferComplete = None, b_AddObjectResponse = None, b_DeleteObjectResponse = None,
     b_RebootResponse = None, b_FactoryResetResponse = None, b_ScheduleInformResponse = None,
     b_SetParameterAttributesResponse = None, b_GetParameterAttributesResponse = None,
     b_UploadResponse = None, b_Fault = None, b_GetRPCMethods = None, b_Unmatched = []\<rparr>"

fun unsupported_request :: "string list \<Rightarrow> string" where
  "unsupported_request [] = []"
| "unsupported_request (n # ns) =
     (if n \<noteq> [] \<and> \<not> HasSuffix n ''Response'' then n else unsupported_request ns)"

definition UnsupportedRequest :: "InboundBody \<Rightarrow> string" where
  "UnsupportedRequest b = unsupported_request (b_Unmatched b)"

definition IsEmpty :: "InboundBody \<Rightarrow> bool" where
  "IsEmpty b \<longleftrightarrow> b_Inform b = None \<and> b_GetRPCMethodsResponse b = None \<and>
     b_GetParameterNamesResponse b = None \<and> b_GetParameterValuesResponse b = None \<and>
     b_SetParameterValuesResponse b = None \<and> b_DownloadResponse b = None \<and>
     b_TransferComplete b = None \<and> b_AddObjectResponse b = None \<and> b_DeleteObjectResponse b = None \<and>
     b_RebootResponse b = None \<and> b_FactoryResetResponse b = None \<and> b_ScheduleInformResponse b = None \<and>
     b_SetParameterAttributesResponse b = None \<and> b_GetParameterAttributesResponse b = None \<and>
     b_UploadResponse b = None \<and> b_Fault b = None \<and> b_GetRPCMethods b = None \<and>
     UnsupportedRequest b = []"

section \<open>The natural key identifies a device\<close>

definition esc_char :: "char \<Rightarrow> string" where
  "esc_char c = (if c = backslash then [backslash, backslash]
     else if c = CHR ''+'' then [backslash, CHR ''+''] else [c])"

lemma backslash_neq [simp]: "backslash \<noteq> CHR ''+''" "CHR ''+'' \<noteq> backslash"
  by (simp_all add: backslash_def)

lemma esc_concat: "esc s = concat (map esc_char s)"
  by (induction s) (auto simp: esc_def ReplaceAll_def esc_char_def)

lemma esc_Nil [simp]: "esc [] = []"
  and esc_Cons [simp]: "esc (c # s) = esc_char c @ esc s"
  by (simp_all add: esc_concat)

text \<open>An escaped field is followed by the end of the key or by an unescaped separator, so it can be
  read back from the left.\<close>

definition field_end :: "string \<Rightarrow> bool" where
  "field_end x \<longleftrightarrow> x = [] \<or> hd x = CHR ''+''"

lemma esc_char_neq_end: "field_end x \<Longrightarrow> esc_char c @ y \<noteq> x"
  by (auto simp: field_end_def esc_char_def split: if_splits)

lemma esc_char_inj: "esc_char c @ x = esc_char d @ y \<Longrightarrow> c = d \<and> x = y"
  by (auto simp: esc_char_def split: if_splits)

lemma esc_inj:
  assumes "esc a @ x = esc b @ y" "field_end x" "field_end y"
  shows "a = b \<and> x = y"
  using assms
proof (induction a arbitrary: b)
  case Nil
  then show ?case using esc_char_neq_end [of x] by (cases b) auto
next
  case (Cons c a)
  show ?case
  proof (cases b)
    case Nil
    with Cons.prems show ?thesis using esc_char_neq_end [of y] by auto
  next
    case (Cons d b')
    with Cons.prems have "esc_char c @ esc a @ x = esc_char d @ esc b' @ y" by simp
    then have "c = d" "esc a @ x = esc b' @ y" by (auto dest: esc_char_inj)
    with Cons.IH Cons.prems \<open>b = d # b'\<close> show ?thesis by auto
  qed
qed

lemma field_end_simps [simp]: "field_end []" "field_end (CHR ''+'' # x)"
  by (simp_all add: field_end_def)

lemma esc_inj_Nil [simp]: "esc a = esc b \<longleftrightarrow> a = b"
  using esc_inj [of a "[]" b "[]"] by auto

lemma esc_inj_sep: "esc a @ CHR ''+'' # x = esc b @ CHR ''+'' # y \<longleftrightarrow> a = b \<and> x = y"
  using esc_inj [of a "CHR ''+'' # x" b "CHR ''+'' # y"] by auto

lemma esc_sep_no_end: "esc a @ CHR ''+'' # x \<noteq> esc b"
  using esc_inj [of a "CHR ''+'' # x" b "[]"] by auto

lemma NaturalKey_eq_iff:
  "NaturalKey d = NaturalKey e \<longleftrightarrow>
     NormalizeOUI (OUI d) = NormalizeOUI (OUI e) \<and> ProductClass d = ProductClass e \<and>
     SerialNumber d = SerialNumber e"
proof -
  note no_end = esc_sep_no_end esc_sep_no_end [symmetric]
  show ?thesis
    by (cases "ProductClass d = []"; cases "ProductClass e = []")
      (auto simp: NaturalKey_def Let_def esc_inj_sep no_end)
qed

text \<open>C18. Two device identities have the same natural key exactly when they agree on the normalised
  OUI, the product class and the serial number; no forged identity aliases another device's row.\<close>

theorem NaturalKey_identifies:
  "NaturalKey d = NaturalKey e \<longleftrightarrow>
     NormalizeOUI (OUI d) = NormalizeOUI (OUI e) \<and> ProductClass d = ProductClass e \<and>
     SerialNumber d = SerialNumber e"
  by (rule NaturalKey_eq_iff)

section \<open>Normalisation\<close>

lemma upper_char_idem [simp]: "upper_char (upper_char c) = upper_char c"
proof (cases "97 \<le> (of_char c :: nat) \<and> (of_char c :: nat) \<le> 122")
  case True
  then have u: "upper_char c = char_of ((of_char c :: nat) - 32)" by (simp add: upper_char_def Let_def)
  have "(of_char c :: nat) - 32 < 256" using True by linarith
  then have "(of_char (char_of ((of_char c :: nat) - 32)) :: nat) = of_char c - 32"
    by simp
  moreover have "\<not> 97 \<le> (of_char c :: nat) - 32" using True by linarith
  ultimately show ?thesis by (simp add: u) (simp add: upper_char_def Let_def)
next
  case False
  then have "upper_char c = c" by (auto simp: upper_char_def Let_def)
  then show ?thesis by simp
qed

lemma ToUpper_idem [simp]: "ToUpper (ToUpper s) = ToUpper s"
  by (simp add: ToUpper_def)

lemma ToUpper_filter_upper:
  "ToUpper (filter P (ToUpper s)) = filter P (ToUpper s)"
  by (induction s) (simp_all add: ToUpper_def)

lemma NormalizeOUI_idem [simp]: "NormalizeOUI (NormalizeOUI s) = NormalizeOUI s"
  by (simp add: NormalizeOUI_def ToUpper_filter_upper)

lemma upper_lower_char [simp]: "upper_char (lower_char c) = upper_char c"
proof (cases "65 \<le> (of_char c :: nat) \<and> (of_char c :: nat) \<le> 90")
  case True
  then have l: "lower_char c = char_of ((of_char c :: nat) + 32)" by (simp add: lower_char_def Let_def)
  have "(of_char c :: nat) + 32 < 256" using True by linarith
  then have "(of_char (char_of ((of_char c :: nat) + 32)) :: nat) = of_char c + 32" by simp
  with True show ?thesis by (simp add: l) (simp add: upper_char_def Let_def)
next
  case False
  then have "lower_char c = c" by (auto simp: lower_char_def Let_def)
  then show ?thesis by simp
qed

lemma ToUpper_ToLower [simp]: "ToUpper (ToLower s) = ToUpper s"
  by (simp add: ToUpper_def ToLower_def)

definition oui_separator :: "char \<Rightarrow> bool" where
  "oui_separator c \<longleftrightarrow> c = CHR '':'' \<or> c = CHR ''-'' \<or> c = CHR '' ''"

lemma upper_char_separator: "oui_separator c \<Longrightarrow> upper_char c = c"
  by (auto simp: oui_separator_def upper_char_def Let_def)

lemma NormalizeOUI_separator: "oui_separator c \<Longrightarrow> NormalizeOUI (a @ c # b) = NormalizeOUI (a @ b)"
  using upper_char_separator [of c] by (auto simp: NormalizeOUI_def ToUpper_def oui_separator_def)

lemma NormalizeOUI_ToLower: "NormalizeOUI (ToLower s) = NormalizeOUI s"
  by (simp add: NormalizeOUI_def)

lemma Normalized_simps [simp]:
  "OUI (Normalized d) = NormalizeOUI (OUI d)" "ProductClass (Normalized d) = ProductClass d"
  "SerialNumber (Normalized d) = SerialNumber d" "Manufacturer (Normalized d) = Manufacturer d"
  by (simp_all add: Normalized_def)

text \<open>A device has one natural key whatever spelling of its OUI an Inform carries: normalising
  the identity first, dropping a separator byte or changing the letter case does not change the key,
  and normalising twice is normalising once.\<close>

theorem NaturalKey_spelling:
  assumes "oui_separator c"
  shows "NaturalKey (Normalized d) = NaturalKey d \<and>
    Normalized (Normalized d) = Normalized d \<and>
    NaturalKey (d\<lparr>OUI := a @ c # b\<rparr>) = NaturalKey (d\<lparr>OUI := a @ b\<rparr>) \<and>
    NaturalKey (d\<lparr>OUI := ToLower s\<rparr>) = NaturalKey (d\<lparr>OUI := s\<rparr>)"
  using assms
  by (simp add: NaturalKey_eq_iff NormalizeOUI_separator NormalizeOUI_ToLower)

theorem NaturalKey_spelling_witness:
  "oui_separator (CHR '':'') \<and>
   NaturalKey \<lparr>Manufacturer = [], OUI = ''00:13'', ProductClass = [], SerialNumber = ''S1''\<rparr> =
   NaturalKey \<lparr>Manufacturer = [], OUI = ''0013'', ProductClass = [], SerialNumber = ''S1''\<rparr>"
proof -
  have "oui_separator (CHR '':'')" by (simp add: oui_separator_def)
  then show ?thesis
    using NaturalKey_spelling [of "CHR '':''"
        "\<lparr>Manufacturer = [], OUI = [], ProductClass = [], SerialNumber = ''S1''\<rparr>" "''00''" "''13''"]
    by simp
qed

end
