(* ===== verification/Cwmp_Render.thy ===== *)
theory Cwmp_Render
  imports Cwmp_Types
begin

text \<open>
  Package \<^verbatim>\<open>internal/cwmp\<close>, the envelopes the ACS writes: XML escaping, the SOAP envelope and the
  namespace rules (\<^verbatim>\<open>render.go\<close>, \<^verbatim>\<open>envelope.go\<close>), and one renderer per RPC (\<^verbatim>\<open>rpc.go\<close>,
  \<^verbatim>\<open>download.go\<close>, \<^verbatim>\<open>upload.go\<close>, \<^verbatim>\<open>object.go\<close>, \<^verbatim>\<open>reboot.go\<close>, \<^verbatim>\<open>schedule_inform.go\<close>,
  \<^verbatim>\<open>attributes.go\<close>). The lemmas read an envelope back with a reference tokenizer: the CPE sees
  exactly the values the ACS put in, between a fixed sequence of tags, whatever bytes they contain.
\<close>

section \<open>Escaping\<close>

fun escapeXML :: "string \<Rightarrow> string" where
  "escapeXML [] = []"
| "escapeXML (c # s) =
     (if c = CHR ''&'' then ''&amp;''
      else if c = CHR ''<'' then ''&lt;''
      else if c = CHR ''>'' then ''&gt;''
      else if c = CHR 0x22 then ''&quot;''
      else [c]) @ escapeXML s"

section \<open>Envelope and namespace\<close>

definition DefaultCWMPNamespace :: string where
  "DefaultCWMPNamespace = ''urn:dslforum-org:cwmp-1-0''"

definition cwmp_ns_prefix :: string where
  "cwmp_ns_prefix = ''urn:dslforum-org:cwmp-1-''"

text \<open>\<^verbatim>\<open>cwmpNamespaceRE.FindString\<close>: the leftmost match, with the longest run of digits.\<close>

fun find_cwmp_ns :: "string \<Rightarrow> string" where
  "find_cwmp_ns [] = []"
| "find_cwmp_ns (c # s) =
     (let ds = takeWhile is_digit (drop (length cwmp_ns_prefix) (c # s))
      in if HasPrefix (c # s) cwmp_ns_prefix \<and> ds \<noteq> [] then cwmp_ns_prefix @ ds
         else find_cwmp_ns s)"

definition DetectCWMPNamespace :: "string \<Rightarrow> string" where
  "DetectCWMPNamespace raw =
     (let m = find_cwmp_ns raw in if m \<noteq> [] then m else DefaultCWMPNamespace)"

definition validCWMPNamespace :: "string \<Rightarrow> bool" where
  "validCWMPNamespace ns = (let m = find_cwmp_ns ns in m \<noteq> [] \<and> m = ns)"

definition nl :: string where "nl = [CHR 0x0A]"
definition dq :: string where "dq = [CHR 0x22]"

text \<open>The envelope template, cut at its three arguments.\<close>

definition xml_decl :: string where
  "xml_decl = ''?xml version='' @ dq @ ''1.0'' @ dq @ '' encoding='' @ dq @ ''UTF-8'' @ dq @ ''?''"

definition env_attrs :: string where
  "env_attrs = ''soap-env:Envelope xmlns:soap-env='' @ dq @ ''http://schemas.xmlsoap.org/soap/envelope/'' @ dq @
     '' xmlns:soap-enc='' @ dq @ ''http://schemas.xmlsoap.org/soap/encoding/'' @ dq @
     '' xmlns:xsd='' @ dq @ ''http://www.w3.org/2001/XMLSchema'' @ dq @
     '' xmlns:xsi='' @ dq @ ''http://www.w3.org/2001/XMLSchema-instance'' @ dq @ '' ''"

definition env_head :: string where
  "env_head = ''<'' @ xml_decl @ ''>'' @ nl @ ''<'' @ env_attrs"

definition env_ns_attr :: "string \<Rightarrow> string" where
  "env_ns_attr ns = ''xmlns:cwmp='' @ dq @ ns @ dq"

definition env_mid :: string where
  "env_mid = ''>'' @ nl @ ''  <soap-env:Header>'' @ nl @
     ''    <cwmp:ID soap-env:mustUnderstand='' @ dq @ ''1'' @ dq @ ''>''"

definition env_body :: string where
  "env_body = ''</cwmp:ID>'' @ nl @ ''  </soap-env:Header>'' @ nl @ ''  <soap-env:Body>'' @ nl @ ''    ''"

definition env_tail :: string where
  "env_tail = nl @ ''  </soap-env:Body>'' @ nl @ ''</soap-env:Envelope>''"

definition soapEnvelopeTemplate :: "string \<Rightarrow> string \<Rightarrow> string \<Rightarrow> string" where
  "soapEnvelopeTemplate a1 a2 a3 =
     env_head @ env_ns_attr a3 @ env_mid @ a1 @ env_body @ a2 @ env_tail"

definition renderEnvelopeNS :: "string \<Rightarrow> string \<Rightarrow> string \<Rightarrow> string" where
  "renderEnvelopeNS rid body ns =
     soapEnvelopeTemplate (escapeXML rid) body
       (if \<not> validCWMPNamespace ns then DefaultCWMPNamespace else ns)"

definition renderEnvelope :: "string \<Rightarrow> string \<Rightarrow> string" where
  "renderEnvelope rid body = renderEnvelopeNS rid body DefaultCWMPNamespace"

text \<open>\<^verbatim>\<open>bytes.Replace(s, old, new, 1)\<close> for a non-empty \<open>old\<close>.\<close>

fun replace_first :: "string \<Rightarrow> string \<Rightarrow> string \<Rightarrow> string" where
  "replace_first old new [] = []"
| "replace_first old new (c # s) =
     (if HasPrefix (c # s) old then new @ drop (length old) (c # s) else c # replace_first old new s)"

definition RewriteCWMPNamespace :: "string \<Rightarrow> string \<Rightarrow> string" where
  "RewriteCWMPNamespace envelope ns =
     (if envelope = [] \<or> ns = [] \<or> ns = DefaultCWMPNamespace \<or> \<not> validCWMPNamespace ns then envelope
      else replace_first (env_ns_attr DefaultCWMPNamespace) (env_ns_attr ns) envelope)"

section \<open>The RPCs\<close>

definition RenderInformResponseNS :: "string \<Rightarrow> string \<Rightarrow> string" where
  "RenderInformResponseNS rid ns =
     renderEnvelopeNS rid ''<cwmp:InformResponse><MaxEnvelopes>1</MaxEnvelopes></cwmp:InformResponse>'' ns"

definition RenderGetRPCMethods :: "string \<Rightarrow> string" where
  "RenderGetRPCMethods rid = renderEnvelope rid ''<cwmp:GetRPCMethods></cwmp:GetRPCMethods>''"

definition ACSSupportedMethods :: "string list" where
  "ACSSupportedMethods = [''Inform'', ''GetRPCMethods'', ''TransferComplete'']"

definition string_elem :: "string \<Rightarrow> string" where
  "string_elem s = ''<string>'' @ s @ ''</string>''"

definition RenderGetRPCMethodsResponseNS :: "string \<Rightarrow> string \<Rightarrow> string" where
  "RenderGetRPCMethodsResponseNS rid ns = renderEnvelopeNS rid
     (''<cwmp:GetRPCMethodsResponse><MethodList soap-enc:arrayType='' @ dq @ ''xsd:string['' @
      Itoa (int (length ACSSupportedMethods)) @ '']'' @ dq @ ''>'' @
      concat (map string_elem ACSSupportedMethods) @
      ''</MethodList></cwmp:GetRPCMethodsResponse>'') ns"

definition RenderMethodNotSupportedFaultNS :: "string \<Rightarrow> string \<Rightarrow> string" where
  "RenderMethodNotSupportedFaultNS rid ns = renderEnvelopeNS rid
     (''<soap-env:Fault><faultcode>Server</faultcode><faultstring>CWMP fault</faultstring>'' @
      ''<detail><cwmp:Fault><FaultCode>8000</FaultCode><FaultString>Method not supported</FaultString></cwmp:Fault></detail>'' @
      ''</soap-env:Fault>'') ns"

definition RenderGetParameterNames :: "string \<Rightarrow> string \<Rightarrow> bool \<Rightarrow> string" where
  "RenderGetParameterNames rid path nextLevel = renderEnvelope rid
     (''<cwmp:GetParameterNames><ParameterPath>'' @ escapeXML path @ ''</ParameterPath><NextLevel>'' @
      (if nextLevel then ''1'' else ''0'') @ ''</NextLevel></cwmp:GetParameterNames>'')"

definition RenderGetParameterValues :: "string \<Rightarrow> string list \<Rightarrow> string" where
  "RenderGetParameterValues rid names = renderEnvelope rid
     (''<cwmp:GetParameterValues><ParameterNames soap-enc:arrayType='' @ dq @ ''xsd:string['' @
      Itoa (int (length names)) @ '']'' @ dq @ ''>'' @
      concat (map (\<lambda>n. string_elem (escapeXML n)) names) @
      ''</ParameterNames></cwmp:GetParameterValues>'')"

definition MaxParameterKeyLength :: nat where "MaxParameterKeyLength = 32"

definition ClampParameterKey :: "string \<Rightarrow> string" where
  "ClampParameterKey key =
     (if length key > MaxParameterKeyLength then take MaxParameterKeyLength key else key)"

definition xsd_types :: "string list" where
  "xsd_types = [''xsd:string'', ''xsd:boolean'', ''xsd:int'', ''xsd:unsignedInt'', ''xsd:long'',
     ''xsd:unsignedLong'', ''xsd:dateTime'', ''xsd:base64Binary'', ''xsd:hexBinary'']"

definition value_type :: "string \<Rightarrow> string" where
  "value_type ty =
     (let v = (if ty \<noteq> [] \<and> \<not> HasPrefix ty ''xsd:'' then ''xsd:'' @ ty else ty)
      in if v \<in> set xsd_types then v else ''xsd:string'')"

definition spv_elem :: "ParameterValueStruct \<Rightarrow> string" where
  "spv_elem p = ''<ParameterValueStruct><Name>'' @ escapeXML (pv_Name p) @
     ''</Name><Value xsi:type='' @ dq @ value_type (pv_Type p) @ dq @ ''>'' @
     escapeXML (pv_Value p) @ ''</Value></ParameterValueStruct>''"

definition RenderSetParameterValues :: "string \<Rightarrow> ParameterValueStruct list \<Rightarrow> string \<Rightarrow> string" where
  "RenderSetParameterValues rid params parameterKey = renderEnvelope rid
     (''<cwmp:SetParameterValues><ParameterList soap-enc:arrayType='' @ dq @ ''cwmp:ParameterValueStruct['' @
      Itoa (int (length params)) @ '']'' @ dq @ ''>'' @
      concat (map spv_elem params) @
      ''</ParameterList><ParameterKey>'' @ escapeXML parameterKey @
      ''</ParameterKey></cwmp:SetParameterValues>'')"

definition RenderDownload ::
  "string \<Rightarrow> string \<Rightarrow> string \<Rightarrow> string \<Rightarrow> string \<Rightarrow> string \<Rightarrow> int \<Rightarrow> string \<Rightarrow> int \<Rightarrow> string" where
  "RenderDownload rid commandKey fileType url username password fileSize targetFilename delaySeconds =
     renderEnvelope rid
      (''<cwmp:Download>'' @
       ''<CommandKey>'' @ escapeXML commandKey @ ''</CommandKey>'' @
       ''<FileType>'' @ escapeXML fileType @ ''</FileType>'' @
       ''<URL>'' @ escapeXML url @ ''</URL>'' @
       ''<Username>'' @ escapeXML username @ ''</Username>'' @
       ''<Password>'' @ escapeXML password @ ''</Password>'' @
       ''<FileSize>'' @ FormatInt 10 fileSize @ ''</FileSize>'' @
       ''<TargetFileName>'' @ escapeXML targetFilename @ ''</TargetFileName>'' @
       ''<DelaySeconds>'' @ Itoa delaySeconds @ ''</DelaySeconds>'' @
       ''<SuccessURL></SuccessURL>'' @ ''<FailureURL></FailureURL>'' @ ''</cwmp:Download>'')"

definition RenderTransferCompleteResponseNS :: "string \<Rightarrow> string \<Rightarrow> string" where
  "RenderTransferCompleteResponseNS rid ns =
     renderEnvelopeNS rid ''<cwmp:TransferCompleteResponse></cwmp:TransferCompleteResponse>'' ns"

definition RenderUpload ::
  "string \<Rightarrow> string \<Rightarrow> string \<Rightarrow> string \<Rightarrow> string \<Rightarrow> string \<Rightarrow> int \<Rightarrow> string" where
  "RenderUpload rid commandKey fileType url username password delaySeconds = renderEnvelope rid
      (''<cwmp:Upload>'' @
       ''<CommandKey>'' @ escapeXML commandKey @ ''</CommandKey>'' @
       ''<FileType>'' @ escapeXML fileType @ ''</FileType>'' @
       ''<URL>'' @ escapeXML url @ ''</URL>'' @
       ''<Username>'' @ escapeXML username @ ''</Username>'' @
       ''<Password>'' @ escapeXML password @ ''</Password>'' @
       ''<DelaySeconds>'' @ Itoa delaySeconds @ ''</DelaySeconds>'' @ ''</cwmp:Upload>'')"

definition RenderAddObject :: "string \<Rightarrow> string \<Rightarrow> string \<Rightarrow> string" where
  "RenderAddObject rid objectPath parameterKey = renderEnvelope rid
     (''<cwmp:AddObject><ObjectName>'' @ escapeXML objectPath @ ''</ObjectName><ParameterKey>'' @
      escapeXML parameterKey @ ''</ParameterKey></cwmp:AddObject>'')"

definition RenderDeleteObject :: "string \<Rightarrow> string \<Rightarrow> string \<Rightarrow> string" where
  "RenderDeleteObject rid objectPath parameterKey = renderEnvelope rid
     (''<cwmp:DeleteObject><ObjectName>'' @ escapeXML objectPath @ ''</ObjectName><ParameterKey>'' @
      escapeXML parameterKey @ ''</ParameterKey></cwmp:DeleteObject>'')"

definition RenderReboot :: "string \<Rightarrow> string \<Rightarrow> string" where
  "RenderReboot rid commandKey = renderEnvelope rid
     (''<cwmp:Reboot><CommandKey>'' @ escapeXML commandKey @ ''</CommandKey></cwmp:Reboot>'')"

definition RenderFactoryReset :: "string \<Rightarrow> string" where
  "RenderFactoryReset rid = renderEnvelope rid ''<cwmp:FactoryReset></cwmp:FactoryReset>''"

definition RenderScheduleInform :: "string \<Rightarrow> string \<Rightarrow> int \<Rightarrow> string" where
  "RenderScheduleInform rid commandKey delaySeconds = renderEnvelope rid
     (''<cwmp:ScheduleInform><DelaySeconds>'' @ Itoa delaySeconds @ ''</DelaySeconds><CommandKey>'' @
      escapeXML commandKey @ ''</CommandKey></cwmp:ScheduleInform>'')"

record AttributeWrite =
  aw_Name :: string
  aw_Notification :: int

definition attr_elem :: "AttributeWrite \<Rightarrow> string" where
  "attr_elem a = ''<SetParameterAttributesStruct><Name>'' @ escapeXML (aw_Name a) @ ''</Name>'' @
     ''<NotificationChange>1</NotificationChange><Notification>'' @ Itoa (aw_Notification a) @
     ''</Notification><AccessListChange>0</AccessListChange><AccessList soap-enc:arrayType='' @ dq @
     ''xsd:string[0]'' @ dq @ ''></AccessList></SetParameterAttributesStruct>''"

definition RenderSetParameterAttributes :: "string \<Rightarrow> AttributeWrite list \<Rightarrow> string" where
  "RenderSetParameterAttributes rid attrs = renderEnvelope rid
     (''<cwmp:SetParameterAttributes><ParameterList soap-enc:arrayType='' @ dq @
      ''cwmp:SetParameterAttributesStruct['' @ Itoa (int (length attrs)) @ '']'' @ dq @ ''>'' @
      concat (map attr_elem attrs) @ ''</ParameterList></cwmp:SetParameterAttributes>'')"

definition RenderGetParameterAttributes :: "string \<Rightarrow> string list \<Rightarrow> string" where
  "RenderGetParameterAttributes rid names = renderEnvelope rid
     (''<cwmp:GetParameterAttributes><ParameterNames soap-enc:arrayType='' @ dq @ ''xsd:string['' @
      Itoa (int (length names)) @ '']'' @ dq @ ''>'' @
      concat (map (\<lambda>n. string_elem (escapeXML n)) names) @
      ''</ParameterNames></cwmp:GetParameterAttributes>'')"

section \<open>A reference tokenizer\<close>

text \<open>
  What a receiver's parser sees: the tags and the character data between them, with the four
  entities that escaping produces replaced. Character data is reported after every tag, also when it is empty.
\<close>

fun unescapeXML :: "string \<Rightarrow> string" where
  "unescapeXML [] = []"
| "unescapeXML (c # s) =
     (if c \<noteq> CHR ''&'' then c # unescapeXML s
      else if HasPrefix s ''amp;'' then CHR ''&'' # unescapeXML (drop 4 s)
      else if HasPrefix s ''lt;'' then CHR ''<'' # unescapeXML (drop 3 s)
      else if HasPrefix s ''gt;'' then CHR ''>'' # unescapeXML (drop 3 s)
      else if HasPrefix s ''quot;'' then CHR 0x22 # unescapeXML (drop 5 s)
      else c # unescapeXML s)"

datatype xml_tok = Tag string | Txt string

fun xml_text :: "string \<Rightarrow> string \<Rightarrow> xml_tok list"
  and xml_tag :: "string \<Rightarrow> string \<Rightarrow> xml_tok list" where
  "xml_text acc [] = [Txt (unescapeXML acc)]"
| "xml_text acc (c # s) =
     (if c = CHR ''<'' then Txt (unescapeXML acc) # xml_tag [] s else xml_text (acc @ [c]) s)"
| "xml_tag acc [] = []"
| "xml_tag acc (c # s) =
     (if c = CHR ''>'' then Tag acc # xml_text [] s else xml_tag (acc @ [c]) s)"

lemma unescape_escape [simp]: "unescapeXML (escapeXML s) = s"
  by (induction s) (auto simp: HasPrefix_def)

lemma escapeXML_no_markup: "CHR ''<'' \<notin> set (escapeXML s)" "CHR ''>'' \<notin> set (escapeXML s)"
  "CHR 0x22 \<notin> set (escapeXML s)"
  by (induction s) auto

lemma xml_text_append:
  "CHR ''<'' \<notin> set s \<Longrightarrow> xml_text acc (s @ r) = xml_text (acc @ s) r"
  by (induction s arbitrary: acc) auto

lemma xml_tag_append:
  "CHR ''>'' \<notin> set s \<Longrightarrow> xml_tag acc (s @ r) = xml_tag (acc @ s) r"
  by (induction s arbitrary: acc) auto

lemma set_FormatInt: "set (FormatInt 10 n) \<subseteq> insert (CHR ''-'') hex_digits"
  using set_FormatUint [of 10] by (auto simp: FormatInt_def)

lemma FormatInt_no_markup:
  "CHR ''<'' \<notin> set (FormatInt 10 n)" "CHR ''>'' \<notin> set (FormatInt 10 n)" "CHR ''&'' \<notin> set (FormatInt 10 n)"
  using set_FormatInt [of n] by (auto simp: hex_digits_def)

lemma unescape_plain: "CHR ''&'' \<notin> set s \<Longrightarrow> unescapeXML s = s"
  by (induction s) auto

lemma unescape_FormatInt [simp]: "unescapeXML (FormatInt 10 n) = FormatInt 10 n"
  by (simp add: unescape_plain FormatInt_no_markup)

lemma value_type_xsd: "value_type ty \<in> set xsd_types"
  by (simp add: value_type_def Let_def xsd_types_def)

lemma value_type_no_markup: "CHR ''>'' \<notin> set (value_type ty)"
  using value_type_xsd [of ty] by (auto simp: xsd_types_def)

lemmas xml_steps =
  xml_text_append [OF escapeXML_no_markup(1)] xml_text_append [OF FormatInt_no_markup(1)]
  xml_tag_append [OF FormatInt_no_markup(2)] xml_tag_append [OF value_type_no_markup]

section \<open>Namespaces\<close>

lemma find_cwmp_ns_shape:
  "find_cwmp_ns s = [] \<or> (\<exists>ds. ds \<noteq> [] \<and> (\<forall>c\<in>set ds. is_digit c) \<and> find_cwmp_ns s = cwmp_ns_prefix @ ds)"
proof (induction s)
  case (Cons c s)
  show ?case
  proof (cases "HasPrefix (c # s) cwmp_ns_prefix \<and> takeWhile is_digit (drop (length cwmp_ns_prefix) (c # s)) \<noteq> []")
    case True
    then show ?thesis by (auto simp: Let_def dest: set_takeWhileD)
  next
    case False
    then have "find_cwmp_ns (c # s) = find_cwmp_ns s" by (auto simp: Let_def)
    with Cons.IH show ?thesis by simp
  qed
qed simp

lemma cwmp_ns_prefix_ne: "cwmp_ns_prefix \<noteq> []"
  by (simp add: cwmp_ns_prefix_def)

lemma find_cwmp_ns_match:
  assumes "ds \<noteq> []" "\<forall>c\<in>set ds. is_digit c"
  shows "find_cwmp_ns (cwmp_ns_prefix @ ds) = cwmp_ns_prefix @ ds"
proof -
  obtain c r where cr: "cwmp_ns_prefix = c # r" using cwmp_ns_prefix_ne by (cases cwmp_ns_prefix) auto
  have "find_cwmp_ns (cwmp_ns_prefix @ ds) =
      (let e = takeWhile is_digit (drop (length cwmp_ns_prefix) (cwmp_ns_prefix @ ds))
       in if HasPrefix (cwmp_ns_prefix @ ds) cwmp_ns_prefix \<and> e \<noteq> [] then cwmp_ns_prefix @ e
          else find_cwmp_ns (r @ ds))"
    using find_cwmp_ns.simps(2) [of c "r @ ds"] unfolding append_Cons [symmetric] cr [symmetric] .
  also have "takeWhile is_digit (drop (length cwmp_ns_prefix) (cwmp_ns_prefix @ ds)) = ds"
    using assms by simp
  finally show ?thesis using assms by (simp add: HasPrefix_iff)
qed

lemma validCWMPNamespace_iff:
  "validCWMPNamespace ns \<longleftrightarrow> (\<exists>ds. ds \<noteq> [] \<and> (\<forall>c\<in>set ds. is_digit c) \<and> ns = cwmp_ns_prefix @ ds)"
  using find_cwmp_ns_shape [of ns] find_cwmp_ns_match
  by (auto simp: validCWMPNamespace_def Let_def cwmp_ns_prefix_ne)

lemma DefaultCWMPNamespace_split: "DefaultCWMPNamespace = cwmp_ns_prefix @ ''0''"
  by (simp add: DefaultCWMPNamespace_def cwmp_ns_prefix_def)

lemma valid_default [simp]: "validCWMPNamespace DefaultCWMPNamespace"
  unfolding validCWMPNamespace_iff DefaultCWMPNamespace_split
  by (rule exI [of _ "''0''"]) (simp add: is_digit_def)

lemma validCWMPNamespace_no_markup:
  assumes "validCWMPNamespace ns"
  shows "CHR ''>'' \<notin> set ns" "CHR 0x22 \<notin> set ns"
proof -
  have "\<not> is_digit (CHR ''>'')" "\<not> is_digit (CHR 0x22)" by (simp_all add: is_digit_def)
  with assms show "CHR ''>'' \<notin> set ns" "CHR 0x22 \<notin> set ns"
    by (auto simp: validCWMPNamespace_iff cwmp_ns_prefix_def)
qed

text \<open>The namespace the envelope ends up in, and what the receiver reads of the envelope's frame.\<close>

definition effective_ns :: "string \<Rightarrow> string" where
  "effective_ns ns = (if validCWMPNamespace ns then ns else DefaultCWMPNamespace)"

lemma effective_ns_valid: "validCWMPNamespace (effective_ns ns)"
  by (simp add: effective_ns_def)

definition env_open_toks :: "string \<Rightarrow> string \<Rightarrow> xml_tok list" where
  "env_open_toks rid ns =
     [Txt [], Tag xml_decl, Txt nl, Tag (env_attrs @ env_ns_attr ns),
      Txt (nl @ ''  ''), Tag ''soap-env:Header'', Txt (nl @ ''    ''),
      Tag (''cwmp:ID soap-env:mustUnderstand='' @ dq @ ''1'' @ dq), Txt rid, Tag ''/cwmp:ID'',
      Txt (nl @ ''  ''), Tag ''/soap-env:Header'', Txt (nl @ ''  ''), Tag ''soap-env:Body'']"

definition env_close_toks :: "xml_tok list" where
  "env_close_toks = [Txt (nl @ ''  ''), Tag ''/soap-env:Body'', Txt nl, Tag ''/soap-env:Envelope'', Txt []]"

lemma env_toks:
  "xml_text [] (renderEnvelopeNS rid body ns) =
     env_open_toks rid (effective_ns ns) @ xml_text (nl @ ''    '') (body @ env_tail)"
proof -
  have ns: "xml_tag acc (effective_ns ns @ r) = xml_tag (acc @ effective_ns ns) r" for acc r
    by (rule xml_tag_append) (rule validCWMPNamespace_no_markup(1) [OF effective_ns_valid])
  have eff: "(if \<not> validCWMPNamespace ns then DefaultCWMPNamespace else ns) = effective_ns ns"
    by (simp add: effective_ns_def)
  show ?thesis
    unfolding renderEnvelopeNS_def eff soapEnvelopeTemplate_def env_head_def env_ns_attr_def env_mid_def
      env_body_def env_open_toks_def xml_decl_def env_attrs_def nl_def dq_def
    by (simp add: ns xml_steps)
qed

lemma env_tail_toks: "xml_text [] env_tail = env_close_toks"
  by (simp add: env_tail_def env_close_toks_def nl_def)

text \<open>The tokens of a list of elements are the tokens of its elements.\<close>

lemma xml_text_concat:
  assumes "\<And>p r. xml_text [] (f p @ r) = g p @ xml_text [] r"
  shows "xml_text [] (concat (map f ps) @ r) = concat (map g ps) @ xml_text [] r"
  by (induction ps) (simp_all add: assms)

definition spv_toks :: "ParameterValueStruct \<Rightarrow> xml_tok list" where
  "spv_toks p = [Txt [], Tag ''ParameterValueStruct'', Txt [], Tag ''Name'', Txt (pv_Name p), Tag ''/Name'', Txt [],
     Tag (''Value xsi:type='' @ dq @ value_type (pv_Type p) @ dq), Txt (pv_Value p), Tag ''/Value'', Txt [],
     Tag ''/ParameterValueStruct'']"

lemma spv_elem_toks: "xml_text [] (spv_elem p @ r) = spv_toks p @ xml_text [] r"
  by (simp add: spv_elem_def spv_toks_def dq_def xml_steps)

lemma env_head_ne: "env_head \<noteq> []"
  by (simp add: env_head_def)

lemma invalid_empty: "\<not> validCWMPNamespace []"
  by (simp add: validCWMPNamespace_def)

lemma env_first_decl:
  "replace_first (env_ns_attr DefaultCWMPNamespace) new (env_head @ env_ns_attr DefaultCWMPNamespace @ r) =
     env_head @ new @ r"
  by (simp add: env_head_def xml_decl_def env_attrs_def nl_def dq_def env_ns_attr_def HasPrefix_def
      DefaultCWMPNamespace_def)


text \<open>
  A Download request, read back by the receiver: every argument is the text of its own element,
  whatever bytes the command key, URL, credentials and file name contain.
\<close>

theorem RenderDownload_read_back:
  "xml_text [] (RenderDownload rid ck ft url user pass sz target delay) =
     env_open_toks rid DefaultCWMPNamespace @
     [Txt (nl @ ''    ''), Tag ''cwmp:Download'',
      Txt [], Tag ''CommandKey'', Txt ck, Tag ''/CommandKey'',
      Txt [], Tag ''FileType'', Txt ft, Tag ''/FileType'',
      Txt [], Tag ''URL'', Txt url, Tag ''/URL'',
      Txt [], Tag ''Username'', Txt user, Tag ''/Username'',
      Txt [], Tag ''Password'', Txt pass, Tag ''/Password'',
      Txt [], Tag ''FileSize'', Txt (FormatInt 10 sz), Tag ''/FileSize'',
      Txt [], Tag ''TargetFileName'', Txt target, Tag ''/TargetFileName'',
      Txt [], Tag ''DelaySeconds'', Txt (Itoa delay), Tag ''/DelaySeconds'',
      Txt [], Tag ''SuccessURL'', Txt [], Tag ''/SuccessURL'',
      Txt [], Tag ''FailureURL'', Txt [], Tag ''/FailureURL'',
      Txt [], Tag ''/cwmp:Download''] @ env_close_toks"
  by (simp add: RenderDownload_def renderEnvelope_def env_toks effective_ns_def env_tail_toks xml_steps Itoa_def nl_def)

text \<open>
  C37. Rendering in the default namespace and rewriting just before sending gives byte for byte the
  envelope rendered in the session's namespace directly, for every request body and every stored
  namespace string; a string that is not a CWMP namespace leaves the default one.
\<close>

theorem RewriteCWMPNamespace_renders:
  "RewriteCWMPNamespace (renderEnvelope rid body) ns = renderEnvelopeNS rid body ns"
  by (auto simp: RewriteCWMPNamespace_def renderEnvelope_def renderEnvelopeNS_def soapEnvelopeTemplate_def
      env_first_decl env_head_ne invalid_empty)

text \<open>
  The namespace detected in any received bytes is a well-formed CWMP namespace, and the answer
  rendered with it declares exactly that namespace and echoes the request's ID, so nothing a CPE
  sends can add markup to the envelope's frame.
\<close>

theorem DetectCWMPNamespace_frame:
  "(\<exists>ds. ds \<noteq> [] \<and> list_all is_digit ds \<and> DetectCWMPNamespace raw = cwmp_ns_prefix @ ds) \<and>
   xml_text [] (renderEnvelopeNS rid body (DetectCWMPNamespace raw)) =
     env_open_toks rid (DetectCWMPNamespace raw) @ xml_text (nl @ ''    '') (body @ env_tail)"
proof -
  have v: "validCWMPNamespace (DetectCWMPNamespace raw)"
    using find_cwmp_ns_shape [of raw] valid_default
    by (auto simp: DetectCWMPNamespace_def Let_def validCWMPNamespace_iff)
  then have "effective_ns (DetectCWMPNamespace raw) = DetectCWMPNamespace raw"
    by (simp add: effective_ns_def)
  with v env_toks [of rid body "DetectCWMPNamespace raw"] show ?thesis
    by (simp add: validCWMPNamespace_iff list_all_iff)
qed

end
