(* ===== verification/Probe_Session.thy ===== *)
theory Probe_Session
  imports Cwmp_Render
begin

text \<open>
  Package \<^verbatim>\<open>internal/cwmp\<close>, \<^verbatim>\<open>session.go\<close>: the capability probe of one device (one request in
  flight, answered before the next) and the in-memory store of probe sessions. A step name is the
  string the code uses, the empty string standing for no request in flight. Sessions are shared by
  pointer, so the store is an index into a heap of sessions. The lemmas show that a probe sends its
  three requests in order, repeats a request byte for byte until it is answered, and ends; and that
  the store keeps one session per natural key.
\<close>

section \<open>One probe session\<close>

type_synonym ProbeStepName = string

definition StepGetRPCMethods :: ProbeStepName where
  "StepGetRPCMethods = ''GetRPCMethods''"
definition StepGetParameterNamesD2 :: ProbeStepName where
  "StepGetParameterNamesD2 = ''GetParameterNames(Device.)''"
definition StepGetParameterNamesIGD :: ProbeStepName where
  "StepGetParameterNamesIGD = ''GetParameterNames(InternetGatewayDevice.)''"

record ProbeResults =
  RPCMethods :: "string list"
  Device2Supported :: bool
  Device2ParamCount :: nat
  IGD1Supported :: bool
  IGD1ParamCount :: nat
  Faults :: "ProbeStepName \<rightharpoonup> string"

record ProbeSession =
  ps_DeviceKey :: string
  ps_DeviceID :: DeviceID
  ps_EventCodes :: "string list"
  Results :: ProbeResults
  queue :: "ProbeStepName list"
  current :: ProbeStepName
  currentRequest :: "string option"
  CreatedAt :: time
  LastActivity :: time
  Done :: bool

definition empty_results :: ProbeResults where
  "empty_results = \<lparr> RPCMethods = [], Device2Supported = False, Device2ParamCount = 0,
     IGD1Supported = False, IGD1ParamCount = 0, Faults = Map.empty \<rparr>"

definition probe_steps :: "ProbeStepName list" where
  "probe_steps = [StepGetRPCMethods, StepGetParameterNamesD2, StepGetParameterNamesIGD]"

definition newProbeSession :: "time \<Rightarrow> string \<Rightarrow> DeviceID \<Rightarrow> string list \<Rightarrow> ProbeSession" where
  "newProbeSession now deviceKey deviceID events =
     \<lparr> ps_DeviceKey = deviceKey, ps_DeviceID = deviceID, ps_EventCodes = events, Results = empty_results,
       queue = probe_steps, current = [], currentRequest = None,
       CreatedAt = now, LastActivity = now, Done = False \<rparr>"

text \<open>The request of a step; \<open>None\<close> for a name the switch does not know.\<close>

definition step_request :: "string \<Rightarrow> ProbeStepName \<Rightarrow> string option" where
  "step_request rid step =
     (if step = StepGetRPCMethods then Some (RenderGetRPCMethods rid)
      else if step = StepGetParameterNamesD2 then Some (RenderGetParameterNames rid ''Device.'' False)
      else if step = StepGetParameterNamesIGD then Some (RenderGetParameterNames rid ''InternetGatewayDevice.'' False)
      else None)"

definition NextRequest ::
  "time \<Rightarrow> string \<Rightarrow> ProbeSession \<Rightarrow> (string option \<times> ProbeStepName \<times> bool) \<times> ProbeSession" where
  "NextRequest now rid s =
     (if current s \<noteq> [] then ((currentRequest s, current s, True), s)
      else case queue s of
        [] \<Rightarrow> ((None, [], False), s\<lparr> Done := True \<rparr>)
      | step # q \<Rightarrow>
          (let s1 = s\<lparr> queue := q, LastActivity := now \<rparr> in
           case step_request rid step of
             None \<Rightarrow> ((None, [], False), s1)
           | Some body \<Rightarrow>
               ((Some body, step, True), s1\<lparr> current := step, currentRequest := Some body \<rparr>)))"

definition record_answer :: "ProbeStepName \<Rightarrow> InboundBody \<Rightarrow> ProbeResults \<Rightarrow> ProbeResults" where
  "record_answer step body r =
     (case b_Fault body of
        Some f \<Rightarrow> r\<lparr> Faults := (Faults r)(step \<mapsto> CWMPCode (Some f) @ '' '' @ CWMPMessage (Some f)) \<rparr>
      | None \<Rightarrow>
          if step = StepGetRPCMethods then
            (case b_GetRPCMethodsResponse body of Some ms \<Rightarrow> r\<lparr> RPCMethods := ms \<rparr> | None \<Rightarrow> r)
          else if step = StepGetParameterNamesD2 then
            (case b_GetParameterNamesResponse body of
               Some ps \<Rightarrow> r\<lparr> Device2Supported := True, Device2ParamCount := length ps \<rparr> | None \<Rightarrow> r)
          else if step = StepGetParameterNamesIGD then
            (case b_GetParameterNamesResponse body of
               Some ps \<Rightarrow> r\<lparr> IGD1Supported := True, IGD1ParamCount := length ps \<rparr> | None \<Rightarrow> r)
          else r)"

definition CompleteCurrent :: "time \<Rightarrow> InboundBody \<Rightarrow> ProbeSession \<Rightarrow> ProbeSession" where
  "CompleteCurrent now body s =
     s\<lparr> LastActivity := now, current := [], currentRequest := None,
        Results := record_answer (current s) body (Results s) \<rparr>"

definition Snapshot :: "ProbeSession \<Rightarrow> DeviceID \<times> string list \<times> ProbeResults" where
  "Snapshot s = (ps_DeviceID s, ps_EventCodes s, Results s)"

text \<open>The two calls a CPE's POSTs turn into, and a run of them with the requests it sends.\<close>

datatype probe_event = Poll time string | Answer time InboundBody

fun probe_step :: "probe_event \<Rightarrow> ProbeSession \<Rightarrow> (ProbeStepName \<times> string option) list \<times> ProbeSession" where
  "probe_step (Poll now rid) s =
     (case NextRequest now rid s of ((body, step, ok), s') \<Rightarrow> (if ok then [(step, body)] else [], s'))"
| "probe_step (Answer now body) s = ([], CompleteCurrent now body s)"

fun probe_run ::
  "probe_event list \<Rightarrow> ProbeSession \<Rightarrow> (ProbeStepName \<times> string option) list \<times> ProbeSession" where
  "probe_run [] s = ([], s)"
| "probe_run (e # es) s =
     (case probe_step e s of (out, s') \<Rightarrow> (case probe_run es s' of (outs, s'') \<Rightarrow> (out @ outs, s'')))"

section \<open>The session store\<close>

record SessionStore =
  heap :: "ProbeSession list"
  sessions :: "(string \<times> nat) list"

definition NewSessionStore :: SessionStore where
  "NewSessionStore = \<lparr> heap = [], sessions = [] \<rparr>"

definition StartOrResume ::
  "time \<Rightarrow> DeviceID \<Rightarrow> string list \<Rightarrow> SessionStore \<Rightarrow> nat \<times> SessionStore" where
  "StartOrResume now deviceID events st =
     (let key = NaturalKey deviceID;
          fresh = (length (heap st),
            st\<lparr> heap := heap st @ [newProbeSession now key deviceID events],
                sessions := map_put key (length (heap st)) (sessions st) \<rparr>)
      in case map_of (sessions st) key of
           Some a \<Rightarrow>
             if \<not> Done (heap st ! a)
             then (a, st\<lparr> heap := (heap st)[a := (heap st ! a)\<lparr> ps_EventCodes := events \<rparr>] \<rparr>)
             else fresh
         | None \<Rightarrow> fresh)"

definition SessionStore_Get :: "string \<Rightarrow> SessionStore \<Rightarrow> nat option" where
  "SessionStore_Get deviceKey st = map_of (sessions st) deviceKey"

text \<open>The order of \<^verbatim>\<open>All\<close> is that of a Go map iteration: any order; here, the index's.\<close>

definition SessionStore_All :: "SessionStore \<Rightarrow> nat list" where
  "SessionStore_All st = map snd (sessions st)"

definition Sweep :: "time \<Rightarrow> duration \<Rightarrow> SessionStore \<Rightarrow> SessionStore" where
  "Sweep now maxIdle st =
     (let cutoff = now - maxIdle
      in st\<lparr> sessions := filter (\<lambda>(_, a). \<not> LastActivity (heap st ! a) < cutoff) (sessions st) \<rparr>)"

text \<open>A handler works on the session it holds.\<close>

definition with_session :: "nat \<Rightarrow> (ProbeSession \<Rightarrow> ProbeSession) \<Rightarrow> SessionStore \<Rightarrow> SessionStore" where
  "with_session a f st = st\<lparr> heap := (heap st)[a := f (heap st ! a)] \<rparr>"

section \<open>Serial requests\<close>

lemmas step_name_defs = StepGetRPCMethods_def StepGetParameterNamesD2_def StepGetParameterNamesIGD_def

lemma probe_steps_distinct: "distinct ([] # probe_steps)"
  by (simp add: probe_steps_def step_name_defs)

lemma step_request_known: "step \<in> set probe_steps \<Longrightarrow> \<exists>body. step_request rid step = Some body"
  by (auto simp: probe_steps_def step_request_def)

text \<open>
  The request in flight, and the session's invariant: the steps in flight and waiting are known, in
  a row without repetition, and a session is done only when none is left.
\<close>

definition in_flight :: "ProbeSession \<Rightarrow> (ProbeStepName \<times> string option) list" where
  "in_flight s = (if current s = [] then [] else [(current s, currentRequest s)])"

definition probe_inv :: "ProbeSession \<Rightarrow> bool" where
  "probe_inv s \<longleftrightarrow>
     distinct (map fst (in_flight s) @ queue s) \<and>
     set (map fst (in_flight s) @ queue s) \<subseteq> set probe_steps \<and>
     (Done s \<longrightarrow> in_flight s = [] \<and> queue s = [])"

lemma probe_inv_new: "probe_inv (newProbeSession now key d evs)"
  using probe_steps_distinct by (simp add: probe_inv_def in_flight_def newProbeSession_def)

lemma empty_step_unknown: "[] \<notin> set probe_steps"
  using probe_steps_distinct by simp

lemma NextRequest_repeat: "current s \<noteq> [] \<Longrightarrow> NextRequest now rid s = ((currentRequest s, current s, True), s)"
  by (simp add: NextRequest_def)

lemma NextRequest_end:
  "current s = [] \<Longrightarrow> queue s = [] \<Longrightarrow> NextRequest now rid s = ((None, [], False), s\<lparr> Done := True \<rparr>)"
  by (simp add: NextRequest_def)

lemma NextRequest_send:
  assumes "current s = []" "queue s = step # q" "step_request rid step = Some body"
  shows "NextRequest now rid s =
    ((Some body, step, True), s\<lparr> queue := q, LastActivity := now, current := step, currentRequest := Some body \<rparr>)"
  using assms by (simp add: NextRequest_def Let_def)

lemma probe_inv_Next: "probe_inv s \<Longrightarrow> probe_inv (snd (NextRequest now rid s))"
proof (cases "current s = []")
  case True
  assume inv: "probe_inv s"
  show ?thesis
  proof (cases "queue s")
    case Nil
    with True inv show ?thesis by (simp add: NextRequest_end probe_inv_def in_flight_def)
  next
    case (Cons step q)
    with inv obtain body where "step_request rid step = Some body"
      using step_request_known by (fastforce simp: probe_inv_def)
    with True Cons inv show ?thesis
      by (auto simp: NextRequest_send probe_inv_def in_flight_def empty_step_unknown)
  qed
qed (simp add: NextRequest_repeat)

lemma probe_inv_Complete: "probe_inv s \<Longrightarrow> probe_inv (CompleteCurrent now body s)"
  by (auto simp: probe_inv_def in_flight_def CompleteCurrent_def split: if_splits)

lemma probe_inv_step: "probe_inv s \<Longrightarrow> probe_inv (snd (probe_step e s))"
proof (cases e)
  case (Poll now rid)
  assume "probe_inv s"
  with probe_inv_Next [of s now rid] Poll show ?thesis by (cases "NextRequest now rid s") auto
qed (simp add: probe_inv_Complete)

lemma remdups_adj_Cons_new: "xs = [] \<or> hd xs \<noteq> x \<Longrightarrow> remdups_adj (x # xs) = x # remdups_adj xs"
  by (cases xs) auto

lemma remdups_adj_Cons_same: "remdups_adj (x # x # xs) = remdups_adj (x # xs)"
  by simp

lemma hd_in_prefix:
  assumes "map fst (remdups_adj xs) @ r = q" "xs \<noteq> []"
  shows "fst (hd xs) \<in> set q"
  using assms by (cases xs) (auto simp: remdups_adj_Cons split: list.splits if_splits)

text \<open>What a run still sends, after collapsing repetitions, is an initial part of what is waiting.\<close>

definition sends_ok :: "(ProbeStepName \<times> string option) list \<Rightarrow> ProbeSession \<Rightarrow> bool" where
  "sends_ok outs s \<longleftrightarrow>
     (\<exists>r. map fst (remdups_adj (in_flight s @ outs)) @ r = map fst (in_flight s) @ queue s)"

lemma sends_ok_Answer:
  assumes "probe_inv s" "sends_ok outs (CompleteCurrent now body s)"
  shows "sends_ok outs s"
proof -
  obtain r where r: "map fst (remdups_adj outs) @ r = queue s"
    using assms(2) by (auto simp: sends_ok_def in_flight_def CompleteCurrent_def)
  have "outs = [] \<or> hd outs \<noteq> p" if "in_flight s = [p]" for p
    using hd_in_prefix [OF r] assms(1) that by (auto simp: probe_inv_def)
  with r show ?thesis
    by (cases "current s = []") (auto simp: sends_ok_def in_flight_def remdups_adj_Cons_new)
qed

lemma sends_ok_Poll:
  assumes "probe_inv s" "probe_step (Poll now rid) s = (out, s1)" "sends_ok outs s1"
  shows "sends_ok (out @ outs) s"
proof -
  consider (rep) "current s \<noteq> []" | (fin) "current s = []" "queue s = []"
    | (send) step q where "current s = []" "queue s = step # q"
    by (cases "queue s") auto
  then show ?thesis
  proof cases
    case rep
    with assms show ?thesis by (auto simp: NextRequest_repeat in_flight_def sends_ok_def)
  next
    case fin
    with assms show ?thesis by (auto simp: NextRequest_end in_flight_def sends_ok_def)
  next
    case send
    then have mem: "step \<in> set probe_steps" using assms(1) by (simp add: probe_inv_def)
    then obtain body where b: "step_request rid step = Some body" using step_request_known by blast
    have "step \<noteq> []" using mem empty_step_unknown by auto
    with assms(2) send b have "out = in_flight s1" "queue s1 = q" "map fst (in_flight s1) = [step]"
      by (auto simp: NextRequest_send in_flight_def)
    with send assms(3) show ?thesis by (auto simp: sends_ok_def in_flight_def)
  qed
qed

lemma probe_run_sends: "probe_inv s \<Longrightarrow> sends_ok (fst (probe_run es s)) s"
proof (induction es arbitrary: s)
  case Nil
  then show ?case by (auto simp: in_flight_def sends_ok_def)
next
  case (Cons e es)
  obtain out s1 where st: "probe_step e s = (out, s1)" by fastforce
  have "probe_inv s1" using probe_inv_step [OF Cons.prems, of e] st by simp
  then have "sends_ok (fst (probe_run es s1)) s1" by (rule Cons.IH)
  with Cons.prems st have "sends_ok (out @ fst (probe_run es s1)) s"
    by (cases e) (auto intro: sends_ok_Poll sends_ok_Answer)
  with st show ?case by (auto split: prod.splits)
qed

lemma probe_run_snd: "snd (probe_run (e # es) s) = snd (probe_run es (snd (probe_step e s)))"
  by (simp split: prod.splits)

lemma probe_inv_run: "probe_inv s \<Longrightarrow> probe_inv (snd (probe_run es s))"
  by (induction es arbitrary: s) (simp_all only: probe_run_snd probe_inv_step, simp)


section \<open>The probe ends\<close>

lemma probe_run_append:
  "probe_run (xs @ ys) s =
     (fst (probe_run xs s) @ fst (probe_run ys (snd (probe_run xs s))), snd (probe_run ys (snd (probe_run xs s))))"
  by (induction xs arbitrary: s) (auto split: prod.splits)

definition remaining :: "ProbeSession \<Rightarrow> nat" where
  "remaining s = length (in_flight s) + length (queue s)"

fun exchange :: "time \<times> string \<times> time \<times> InboundBody \<Rightarrow> probe_event list" where
  "exchange (t, rid, u, body) = [Poll t rid, Answer u body]"

lemma remaining_le: "probe_inv s \<Longrightarrow> remaining s \<le> 3"
proof -
  assume "probe_inv s"
  then have sub: "set (map fst (in_flight s) @ queue s) \<subseteq> set probe_steps"
    and "distinct (map fst (in_flight s) @ queue s)" by (simp_all only: probe_inv_def)
  moreover have "card (set (map fst (in_flight s) @ queue s)) \<le> card (set probe_steps)"
    using sub by (rule card_mono [rotated]) simp
  moreover have "card (set probe_steps) \<le> 3" by (rule order_trans [OF card_length]) (simp add: probe_steps_def)
  ultimately have "length (map fst (in_flight s) @ queue s) \<le> 3" by (simp only: distinct_card [symmetric])
  then show ?thesis by (simp add: remaining_def)
qed

lemma remaining_exchange:
  assumes "probe_inv s"
  shows "remaining (snd (probe_run (exchange x) s)) = remaining s - 1"
proof -
  obtain t rid u body where x: "x = (t, rid, u, body)" by (cases x)
  consider (rep) "current s \<noteq> []" | (fin) "current s = []" "queue s = []"
    | (send) step q where "current s = []" "queue s = step # q"
    by (cases "queue s") auto
  then show ?thesis
  proof cases
    case send
    then obtain b where "step_request rid step = Some b"
      using step_request_known [of step rid] assms by (auto simp: probe_inv_def)
    with send x show ?thesis by (simp add: NextRequest_send CompleteCurrent_def remaining_def in_flight_def)
  qed (simp_all add: x NextRequest_repeat NextRequest_end CompleteCurrent_def remaining_def in_flight_def)
qed

lemma remaining_exchanges:
  "probe_inv s \<Longrightarrow> remaining (snd (probe_run (concat (map exchange xs)) s)) = remaining s - length xs"
proof (induction xs arbitrary: s)
  case (Cons x xs)
  then show ?case
    using probe_inv_run [OF Cons.prems, of "exchange x"]
    by (simp only: list.map concat.simps probe_run_append snd_conv remaining_exchange list.size)
qed simp

text \<open>
  However a probe got where it is, three answered polls are enough: the poll after them finds
  nothing left to send and marks the session done.
\<close>

theorem probe_completes:
  assumes "3 \<le> length xs"
  shows "Done (snd (probe_run (concat (map exchange xs) @ [Poll t rid])
           (snd (probe_run es (newProbeSession now key d evs)))))"
proof -
  let ?s = "snd (probe_run es (newProbeSession now key d evs))"
  let ?s1 = "snd (probe_run (concat (map exchange xs)) ?s)"
  have inv: "probe_inv ?s" by (rule probe_inv_run [OF probe_inv_new])
  have "remaining ?s1 = 0" using remaining_exchanges [OF inv, of xs] remaining_le [OF inv] assms by simp
  then have "current ?s1 = []" "queue ?s1 = []" by (auto simp: remaining_def in_flight_def split: if_splits)
  then show ?thesis by (simp add: probe_run_append NextRequest_end)
qed

definition probe_device :: DeviceID where
  "probe_device = \<lparr> Manufacturer = ''Acme'', OUI = ''00AA11'', ProductClass = [], SerialNumber = ''7'' \<rparr>"

theorem probe_completes_witness:
  "length (replicate 3 (0 :: time, ''a'', 0 :: time, empty_body)) = 3 \<and>
   Done (snd (probe_run (concat (map exchange (replicate 3 (0, ''a'', 0, empty_body))) @ [Poll 0 ''b''])
     (snd (probe_run [Poll 0 ''x'', Poll 0 ''y''] (newProbeSession 0 ''k'' probe_device [])))))"
  by (intro conjI probe_completes) simp_all

section \<open>The store keeps one session per device\<close>

definition store_wf :: "SessionStore \<Rightarrow> bool" where
  "store_wf st \<longleftrightarrow> distinct (map fst (sessions st)) \<and> distinct (map snd (sessions st)) \<and>
     (\<forall>(k, a) \<in> set (sessions st). a < length (heap st) \<and> ps_DeviceKey (heap st ! a) = k \<and>
        NaturalKey (ps_DeviceID (heap st ! a)) = k)"

datatype store_op = OpStart time DeviceID "string list" | OpSweep time duration | OpEvent nat probe_event

fun store_exec :: "store_op \<Rightarrow> SessionStore \<Rightarrow> SessionStore" where
  "store_exec (OpStart now d evs) st = snd (StartOrResume now d evs st)"
| "store_exec (OpSweep now maxIdle) st = Sweep now maxIdle st"
| "store_exec (OpEvent a e) st = with_session a (\<lambda>s. snd (probe_step e s)) st"

lemma probe_step_identity:
  "ps_DeviceKey (snd (probe_step e s)) = ps_DeviceKey s" "ps_DeviceID (snd (probe_step e s)) = ps_DeviceID s"
  by (cases e; auto simp: NextRequest_def CompleteCurrent_def Let_def split: list.splits option.splits)+

lemma store_wf_Sweep: "store_wf st \<Longrightarrow> store_wf (Sweep now maxIdle st)"
  by (auto simp: store_wf_def Sweep_def Let_def distinct_filter_keys)

lemma nth_update_keeps: "g (f (xs ! a)) = g (xs ! a) \<Longrightarrow> g (xs[a := f (xs ! a)] ! b) = g (xs ! b)"
  by (cases "a < length xs"; cases "a = b") (simp_all add: list_update_beyond)

lemma store_wf_session:
  assumes "store_wf st" "\<And>s. ps_DeviceKey (f s) = ps_DeviceKey s" "\<And>s. ps_DeviceID (f s) = ps_DeviceID s"
  shows "store_wf (with_session a f st)"
  using assms(1)
  by (simp add: store_wf_def with_session_def nth_update_keeps [where g = ps_DeviceKey and f = f, OF assms(2)]
      nth_update_keeps [where g = ps_DeviceID and f = f, OF assms(3)])

lemma store_wf_fresh:
  assumes "store_wf st"
  shows "store_wf (st\<lparr> heap := heap st @ [newProbeSession now (NaturalKey d) d evs],
           sessions := map_put (NaturalKey d) (length (heap st)) (sessions st) \<rparr>)" (is "store_wf ?st")
proof -
  let ?old = "filter (\<lambda>(k', _). k' \<noteq> NaturalKey d) (sessions st)"
  have old: "a < length (heap st) \<and> ps_DeviceKey (heap st ! a) = k \<and> NaturalKey (ps_DeviceID (heap st ! a)) = k"
    if "(k, a) \<in> set ?old" for k a
    using assms that by (auto simp: store_wf_def)
  have "distinct (map fst ?old)" "distinct (map snd ?old)"
    using assms by (simp_all add: store_wf_def distinct_filter_keys)
  moreover have "NaturalKey d \<notin> set (map fst ?old)" by auto
  moreover have "length (heap st) \<notin> set (map snd ?old)" using old by fastforce
  ultimately show ?thesis
    using old by (fastforce simp: store_wf_def map_put_def newProbeSession_def nth_append)
qed

lemma StartOrResume_cases:
  obtains (resume) a where "map_of (sessions st) (NaturalKey d) = Some a" "\<not> Done (heap st ! a)"
      "StartOrResume now d evs st = (a, with_session a (\<lambda>s. s\<lparr> ps_EventCodes := evs \<rparr>) st)"
    | (fresh) "StartOrResume now d evs st = (length (heap st),
        st\<lparr> heap := heap st @ [newProbeSession now (NaturalKey d) d evs],
            sessions := map_put (NaturalKey d) (length (heap st)) (sessions st) \<rparr>)"
proof (cases "\<exists>a. map_of (sessions st) (NaturalKey d) = Some a \<and> \<not> Done (heap st ! a)")
  case True
  then show ?thesis using resume by (auto simp: StartOrResume_def Let_def with_session_def)
next
  case False
  then show ?thesis using fresh by (auto simp: StartOrResume_def Let_def split: option.splits)
qed

lemma store_wf_Start: "store_wf st \<Longrightarrow> store_wf (snd (StartOrResume now d evs st))"
proof (cases rule: StartOrResume_cases [of st d now evs])
  case (resume a)
  assume "store_wf st"
  then have "store_wf (with_session a (\<lambda>s. s\<lparr> ps_EventCodes := evs \<rparr>) st)"
    by (intro store_wf_session) simp_all
  with resume show ?thesis by simp
qed (simp add: store_wf_fresh)

lemma store_wf_exec: "store_wf st \<Longrightarrow> store_wf (store_exec e st)"
  by (cases e) (simp_all add: store_wf_Start store_wf_Sweep store_wf_session probe_step_identity)

lemma store_wf_run: "store_wf (fold store_exec ops NewSessionStore)"
proof (rule fold_invariant [where Q = "\<lambda>_. True"])
  show "store_wf NewSessionStore" by (simp add: store_wf_def NewSessionStore_def)
qed (simp_all add: store_wf_exec)

lemma StartOrResume_result:
  assumes "store_wf st" "StartOrResume now d evs st = (a, st')"
  shows "SessionStore_Get (NaturalKey d) st' = Some a \<and> \<not> Done (heap st' ! a) \<and>
    NaturalKey (ps_DeviceID (heap st' ! a)) = NaturalKey d \<and> ps_EventCodes (heap st' ! a) = evs \<and>
    filter (\<lambda>(k, _). k \<noteq> NaturalKey d) (sessions st') = filter (\<lambda>(k, _). k \<noteq> NaturalKey d) (sessions st)"
proof (cases rule: StartOrResume_cases [of st d now evs])
  case (resume b)
  then have "(NaturalKey d, b) \<in> set (sessions st)" by (simp add: map_of_SomeD)
  with assms(1) have "b < length (heap st)" "NaturalKey (ps_DeviceID (heap st ! b)) = NaturalKey d"
    by (auto simp: store_wf_def)
  with resume assms(2) show ?thesis by (auto simp: SessionStore_Get_def with_session_def)
next
  case fresh
  with assms(2) show ?thesis by (auto simp: SessionStore_Get_def newProbeSession_def map_put_def)
qed

text \<open>
  Starting or resuming a probe after any history of starts, sweeps, polls and answers hands out
  the one session indexed under the device's natural key. It is not finished, belongs to that device
  and carries the new event codes; the sessions of all other devices stay indexed as they were, and
  no two devices ever share a session.
\<close>

theorem StartOrResume_per_device:
  "case StartOrResume now d evs (fold store_exec ops NewSessionStore) of (a, st') \<Rightarrow>
     SessionStore_Get (NaturalKey d) st' = Some a \<and> \<not> Done (heap st' ! a) \<and>
     NaturalKey (ps_DeviceID (heap st' ! a)) = NaturalKey d \<and> ps_EventCodes (heap st' ! a) = evs \<and>
     filter (\<lambda>(k, _). k \<noteq> NaturalKey d) (sessions st') =
       filter (\<lambda>(k, _). k \<noteq> NaturalKey d) (sessions (fold store_exec ops NewSessionStore)) \<and>
     distinct (SessionStore_All st')"
proof -
  let ?st = "fold store_exec ops NewSessionStore"
  obtain a st' where run: "StartOrResume now d evs ?st = (a, st')" by fastforce
  have "store_wf st'" using store_wf_Start [OF store_wf_run, of now d evs ops] run by simp
  with StartOrResume_result [OF store_wf_run run] run show ?thesis
    by (simp add: store_wf_def SessionStore_All_def)
qed

end
