(* ===== verification/Json.thy ===== *)
theory Json
  imports Go_Prelude
begin

text \<open>
  JSON documents as the code stores and decodes them (job payloads are JSONB columns), and the
  redaction of secrets in them: the database trigger of migration 0086, the Go routine of
  \<^verbatim>\<open>internal/parameters/secrets.go\<close> that it must match, and the parameter-cache variant. A number
  is its literal text. Decoding follows \<^verbatim>\<open>encoding/json\<close>: keys match case-insensitively, later
  keys win, \<^verbatim>\<open>null\<close> leaves a scalar field as it is, and a value of the wrong type is an error.
\<close>

section \<open>Documents\<close>

datatype json = JNull | JBool bool | JNum string | JStr string | JArr "json list"
  | JObj "(string \<times> json) list"

lemma size_member [termination_simp]:
  "(k, v) \<in> set kvs \<Longrightarrow> size v < Suc (size_list (size_prod (\<lambda>_. 0) size) kvs)"
  by (induction kvs) auto

text \<open>
  JSONB's text form (used by PostgreSQL's \<^verbatim>\<open>doc->>'k'\<close> when the member is not a string). The
  comparisons in the queries only distinguish it from short fixed words.
\<close>

fun json_quote :: "string \<Rightarrow> string" where
  "json_quote [] = []"
| "json_quote (c # s) =
     (if c = CHR 0x22 then [CHR 0x5C, CHR 0x22]
      else if c = CHR 0x5C then [CHR 0x5C, CHR 0x5C]
      else if c = CHR 0x0A then [CHR 0x5C, CHR ''n'']
      else if c = CHR 0x0D then [CHR 0x5C, CHR ''r'']
      else if c = CHR 0x09 then [CHR 0x5C, CHR ''t'']
      else if c = CHR 0x08 then [CHR 0x5C, CHR ''b'']
      else if c = CHR 0x0C then [CHR 0x5C, CHR ''f'']
      else if (of_char c :: nat) < 32 then CHR 0x5C # ''u00'' @ hex_byte c
      else [c]) @ json_quote s"

fun json_print :: "json \<Rightarrow> string" where
  "json_print JNull = ''null''"
| "json_print (JBool b) = (if b then ''true'' else ''false'')"
| "json_print (JNum n) = n"
| "json_print (JStr s) = [CHR 0x22] @ json_quote s @ [CHR 0x22]"
| "json_print (JArr js) = ''['' @ Join (map json_print js) '', '' @ '']''"
| "json_print (JObj kvs) =
     ''{'' @ Join (map (\<lambda>(k, v). [CHR 0x22] @ json_quote k @ [CHR 0x22] @ '': '' @ json_print v) kvs) '', '' @ ''}''"

text \<open>\<^verbatim>\<open>doc->>'k'\<close>; \<open>None\<close> is SQL NULL.\<close>

fun json_text :: "json \<Rightarrow> string option" where
  "json_text JNull = None"
| "json_text (JStr s) = Some s"
| "json_text j = Some (json_print j)"

fun member_text :: "json \<Rightarrow> string \<Rightarrow> string option" where
  "member_text (JObj kvs) k = (case map_of kvs k of None \<Rightarrow> None | Some v \<Rightarrow> json_text v)"
| "member_text _ k = None"

section \<open>Decoding into Go structs\<close>

text \<open>
  A field decoder takes the value so far and the JSON value and returns the new value, or \<open>None\<close>
  on a type mismatch. \<open>decode_field\<close> runs over all members of an object in order.
\<close>

fun dec_string :: "string \<Rightarrow> json \<Rightarrow> string option" where
  "dec_string old JNull = Some old"
| "dec_string old (JStr s) = Some s"
| "dec_string old _ = None"

fun dec_bool :: "bool \<Rightarrow> json \<Rightarrow> bool option" where
  "dec_bool old JNull = Some old"
| "dec_bool old (JBool b) = Some b"
| "dec_bool old _ = None"

fun dec_int :: "int \<Rightarrow> json \<Rightarrow> int option" where
  "dec_int old JNull = Some old"
| "dec_int old (JNum n) = ParseInt 10 n"
| "dec_int old _ = None"

fun those :: "'a option list \<Rightarrow> 'a list option" where
  "those [] = Some []"
| "those (None # xs) = None"
| "those (Some x # xs) = map_option (Cons x) (those xs)"

fun dec_list :: "(json \<Rightarrow> 'a option) \<Rightarrow> 'a list \<Rightarrow> json \<Rightarrow> 'a list option" where
  "dec_list d old JNull = Some []"
| "dec_list d old (JArr js) = those (map d js)"
| "dec_list d old _ = None"

fun decode_field :: "string \<Rightarrow> ('a \<Rightarrow> json \<Rightarrow> 'a option) \<Rightarrow> 'a \<Rightarrow> (string \<times> json) list \<Rightarrow> 'a option" where
  "decode_field name d v [] = Some v"
| "decode_field name d v ((k, j) # kvs) =
     (if EqualFold k name then (case d v j of None \<Rightarrow> None | Some v' \<Rightarrow> decode_field name d v' kvs)
      else decode_field name d v kvs)"

text \<open>The members a struct is decoded from: an object's, none for \<^verbatim>\<open>null\<close>, an error otherwise.\<close>

fun struct_members :: "json \<Rightarrow> (string \<times> json) list option" where
  "struct_members (JObj kvs) = Some kvs"
| "struct_members JNull = Some []"
| "struct_members _ = None"

section \<open>Secrets\<close>

definition SecretRedacted :: string where "SecretRedacted = ''***REDACTED***''"

definition secretNamePatterns :: "string list" where
  "secretNamePatterns = [''password'', ''passphrase'', ''secret'', ''psk'', ''presharedkey'', ''privatekey'']"

definition IsSecretParameter :: "string \<Rightarrow> bool" where
  "IsSecretParameter name = list_ex (\<lambda>p. Contains (ToLower name) p) secretNamePatterns"

text \<open>Whether an object's \<^verbatim>\<open>name\<close> member is a secret parameter.\<close>

definition secret_named :: "(string \<times> json) list \<Rightarrow> bool" where
  "secret_named kvs = (case map_of kvs ''name'' of Some (JStr n) \<Rightarrow> IsSecretParameter n | _ \<Rightarrow> False)"

text \<open>A string that still has to be hidden.\<close>

definition plain :: "string \<Rightarrow> bool" where
  "plain s = (s \<notin> {[], SecretRedacted})"

fun plain_str :: "json \<Rightarrow> bool" where
  "plain_str (JStr s) = plain s"
| "plain_str _ = False"

text \<open>Migration 0086: the trigger's function.\<close>

fun redact_payload_secrets :: "json \<Rightarrow> json" where
  "redact_payload_secrets (JObj kvs) = JObj (map (\<lambda>(k, v).
      (k, if plain_str v \<and> (IsSecretParameter k \<or> k = ''value'' \<and> secret_named kvs)
          then JStr SecretRedacted else redact_payload_secrets v)) kvs)"
| "redact_payload_secrets (JArr js) = JArr (map redact_payload_secrets js)"
| "redact_payload_secrets j = j"

text \<open>
  \<^verbatim>\<open>redactJSONSecrets\<close> mutates the document and reports whether it changed it; here it returns
  both. A string member is first checked against the object's name, then against its own key.
\<close>

definition redact_str :: "bool \<Rightarrow> string \<Rightarrow> string \<Rightarrow> string \<times> bool" where
  "redact_str named k s =
     (let c1 = (named \<and> k = ''value'' \<and> s \<noteq> [] \<and> s \<noteq> SecretRedacted);
          s1 = (if c1 then SecretRedacted else s);
          c2 = (s1 \<noteq> [] \<and> s1 \<noteq> SecretRedacted \<and> IsSecretParameter k)
      in (if c2 then SecretRedacted else s1, c1 \<or> c2))"

fun redactJSONSecrets :: "json \<Rightarrow> json \<times> bool" where
  "redactJSONSecrets (JObj n) =
     (let named = (case map_of n ''name'' of Some (JStr name) \<Rightarrow> IsSecretParameter name | _ \<Rightarrow> False);
          rs = map (\<lambda>(k, v). (k, case v of
                 JStr s \<Rightarrow> (case redact_str named k s of (s', c) \<Rightarrow> (JStr s', c))
               | _ \<Rightarrow> redactJSONSecrets v)) n
      in (JObj (map (\<lambda>(k, r). (k, fst r)) rs), list_ex (\<lambda>(k, r). snd r) rs))"
| "redactJSONSecrets (JArr n) =
     (let rs = map redactJSONSecrets n in (JArr (map fst rs), list_ex snd rs))"
| "redactJSONSecrets j = (j, False)"

definition RedactPayloadSecrets :: "json \<Rightarrow> json" where
  "RedactPayloadSecrets payload =
     (case redactJSONSecrets payload of (doc, changed) \<Rightarrow> if \<not> changed then payload else doc)"

text \<open>The parameter cache.\<close>

record CachedValue =
  cv_Value :: string
  cv_Type :: string
  cv_UpdatedAt :: time
  cv_Source :: string

definition redactSecrets :: "(string \<times> CachedValue) list \<Rightarrow> (string \<times> CachedValue) list" where
  "redactSecrets values = map (\<lambda>(name, v).
     (name, if cv_Value v = [] \<or> cv_Value v = SecretRedacted \<or> \<not> IsSecretParameter name then v
            else v\<lparr> cv_Value := SecretRedacted \<rparr>)) values"

section \<open>What redaction guarantees\<close>

text \<open>A document with no secret left to hide.\<close>

fun no_secrets :: "json \<Rightarrow> bool" where
  "no_secrets (JObj kvs) =
     list_all (\<lambda>(k, v). no_secrets v \<and>
        \<not> (plain_str v \<and> (IsSecretParameter k \<or> k = ''value'' \<and> secret_named kvs))) kvs"
| "no_secrets (JArr js) = list_all no_secrets js"
| "no_secrets j = True"

lemma name_not_secret: "\<not> IsSecretParameter ''name''"
  by code_simp

lemma plain_SecretRedacted [simp]: "\<not> plain SecretRedacted"
  by (simp add: plain_def)

lemma plain_str_redact [simp]: "plain_str (redact_payload_secrets v) = plain_str v"
  by (cases v) auto

lemma map_of_redacted_name:
  "map_of (map (\<lambda>(k, v). (k, if P v \<and> (IsSecretParameter k \<or> k = ''value'' \<and> Q) then r else f v)) kvs) ''name'' =
     map_option f (map_of kvs ''name'')"
  using name_not_secret by (induction kvs) auto

lemma secret_named_redact:
  "secret_named (map (\<lambda>(k, v). (k, if plain_str v \<and> (IsSecretParameter k \<or> k = ''value'' \<and> secret_named kvs)
      then JStr SecretRedacted else redact_payload_secrets v)) kvs) = secret_named kvs"
  unfolding secret_named_def [of "map _ _"] map_of_redacted_name
  by (auto simp: secret_named_def split: option.splits json.splits)

text \<open>The decision for one member, shared by the three functions over objects.\<close>

abbreviation hides :: "(string \<times> json) list \<Rightarrow> string \<Rightarrow> json \<Rightarrow> bool" where
  "hides kvs k v \<equiv> plain_str v \<and> (IsSecretParameter k \<or> k = ''value'' \<and> secret_named kvs)"

lemma redact_no_secrets: "no_secrets (redact_payload_secrets j)"
proof (induction j rule: redact_payload_secrets.induct)
  case (1 kvs)
  have "no_secrets (if hides kvs k v then JStr SecretRedacted else redact_payload_secrets v)"
    if "(k, v) \<in> set kvs" for k v
    using 1 [OF that refl] by auto
  then show ?case
    unfolding redact_payload_secrets.simps no_secrets.simps secret_named_redact
    by (auto simp: list_all_iff split: if_splits)
qed (auto simp: list_all_iff)

lemma no_secrets_redact_id: "no_secrets j \<Longrightarrow> redact_payload_secrets j = j"
  by (induction j rule: redact_payload_secrets.induct) (auto simp: list_all_iff intro!: map_idI)

lemma redact_str_eq:
  "redact_str named k s =
     (if plain s \<and> (IsSecretParameter k \<or> k = ''value'' \<and> named) then (SecretRedacted, True) else (s, False))"
  by (auto simp: redact_str_def plain_def Let_def)

lemma redactJSONSecrets_eq: "redactJSONSecrets j = (redact_payload_secrets j, \<not> no_secrets j)"
proof (induction j rule: redactJSONSecrets.induct)
  case (1 n)
  have named: "(case map_of n ''name'' of Some (JStr name) \<Rightarrow> IsSecretParameter name | _ \<Rightarrow> False) = secret_named n"
    by (simp add: secret_named_def)
  have entry: "(case v of JStr s \<Rightarrow> (case redact_str (secret_named n) k s of (s', c) \<Rightarrow> (JStr s', c))
      | _ \<Rightarrow> redactJSONSecrets v) =
    (if hides n k v then JStr SecretRedacted else redact_payload_secrets v, \<not> (no_secrets v \<and> \<not> hides n k v))"
    if "(k, v) \<in> set n" for k v
    using 1 [OF refl that refl] by (cases v) (auto simp: redact_str_eq)
  then have rs: "map (\<lambda>(k, v). (k, case v of
        JStr s \<Rightarrow> (case redact_str (secret_named n) k s of (s', c) \<Rightarrow> (JStr s', c))
      | _ \<Rightarrow> redactJSONSecrets v)) n =
    map (\<lambda>(k, v). (k, (if hides n k v then JStr SecretRedacted else redact_payload_secrets v,
      \<not> (no_secrets v \<and> \<not> hides n k v)))) n"
    by (intro map_cong refl) (simp only: split_paired_all case_prod_conv)
  show ?case
    unfolding redactJSONSecrets.simps Let_def named rs by (simp add: list_all_iff list_ex_iff case_prod_beta comp_def)
qed (auto simp: list_all_iff list_ex_iff Let_def)

lemma RedactPayloadSecrets_eq: "RedactPayloadSecrets j = redact_payload_secrets j"
  using no_secrets_redact_id [of j] by (auto simp: RedactPayloadSecrets_def redactJSONSecrets_eq)


end
