(* ===== verification/Parameters.thy ===== *)
theory Parameters
  imports Json
begin

text \<open>
  Package \<^verbatim>\<open>internal/parameters\<close>: the protected parameters nobody but the owning system flow may
  write (\<^verbatim>\<open>protected.go\<close>) and the masking of subscriber identifiers (\<^verbatim>\<open>subscriber_identity.go\<close>).
  The rules are regular expressions; they are matched with derivatives, and the matcher is proved to
  decide the language of the expression.
\<close>

section \<open>Regular expressions\<close>

datatype rx = RNone | REps | RSet "char \<Rightarrow> bool" | RSeq rx rx | RAlt rx rx | RStar rx

fun lang :: "rx \<Rightarrow> string set" where
  "lang RNone = {}"
| "lang REps = {[]}"
| "lang (RSet p) = {[c] | c. p c}"
| "lang (RSeq r s) = {u @ v | u v. u \<in> lang r \<and> v \<in> lang s}"
| "lang (RAlt r s) = lang r \<union> lang s"
| "lang (RStar r) = {concat ws | ws. set ws \<subseteq> lang r}"

fun nullable :: "rx \<Rightarrow> bool" where
  "nullable RNone = False"
| "nullable REps = True"
| "nullable (RSet p) = False"
| "nullable (RSeq r s) = (nullable r \<and> nullable s)"
| "nullable (RAlt r s) = (nullable r \<or> nullable s)"
| "nullable (RStar r) = True"

fun deriv :: "char \<Rightarrow> rx \<Rightarrow> rx" where
  "deriv c RNone = RNone"
| "deriv c REps = RNone"
| "deriv c (RSet p) = (if p c then REps else RNone)"
| "deriv c (RSeq r s) =
     (if nullable r then RAlt (RSeq (deriv c r) s) (deriv c s) else RSeq (deriv c r) s)"
| "deriv c (RAlt r s) = RAlt (deriv c r) (deriv c s)"
| "deriv c (RStar r) = RSeq (deriv c r) (RStar r)"

text \<open>\<^verbatim>\<open>MatchString\<close> of an expression anchored at both ends.\<close>

fun rx_match :: "rx \<Rightarrow> string \<Rightarrow> bool" where
  "rx_match r [] = nullable r"
| "rx_match r (c # s) = rx_match (deriv c r) s"

fun rx_lit :: "string \<Rightarrow> rx" where
  "rx_lit [] = REps"
| "rx_lit (c # s) = RSeq (RSet (\<lambda>x. x = c)) (rx_lit s)"

fun rx_alt :: "string list \<Rightarrow> rx" where
  "rx_alt [] = RNone"
| "rx_alt (w # ws) = RAlt (rx_lit w) (rx_alt ws)"

fun rx_seq :: "rx list \<Rightarrow> rx" where
  "rx_seq [] = REps"
| "rx_seq (r # rs) = RSeq r (rx_seq rs)"

definition rx_plus :: "rx \<Rightarrow> rx" where "rx_plus r = RSeq r (RStar r)"
definition rx_opt :: "rx \<Rightarrow> rx" where "rx_opt r = RAlt r REps"

definition rx_digit :: rx where
  "rx_digit = RSet (\<lambda>c. 48 \<le> (of_char c :: nat) \<and> (of_char c :: nat) \<le> 57)"

text \<open>\<^verbatim>\<open>[A-Za-z0-9_-]\<close>\<close>

definition rx_word :: rx where
  "rx_word = RSet (\<lambda>c. let n = (of_char c :: nat) in
     48 \<le> n \<and> n \<le> 57 \<or> 65 \<le> n \<and> n \<le> 90 \<or> 97 \<le> n \<and> n \<le> 122 \<or> c = CHR ''_'' \<or> c = CHR ''-'')"

section \<open>Protected parameters\<close>

definition rx_root :: rx where
  "rx_root = RSeq (rx_alt [''Device'', ''InternetGatewayDevice'']) (rx_lit ''.'')"

definition rx_inst :: rx where
  "rx_inst = RSeq (rx_plus rx_digit) (rx_lit ''.'')"

definition protectedRules :: "(rx \<times> string) list" where
  "protectedRules = [
    (rx_seq [rx_root, rx_lit ''ManagementServer.URL''],
      ''it points the CPE at an ACS; a wrong value cuts it off from this one''),
    (rx_seq [rx_root, rx_lit ''ManagementServer.'', rx_alt [''Username'', ''Password'']],
      ''it is the CPE's own ACS credential, changed only by credential graduation and rotation''),
    (rx_seq [rx_root, rx_lit ''ManagementServer.ConnectionRequest'', rx_alt [''Username'', ''Password'']],
      ''it is the Connection Request credential; use credential rotation''),
    (rx_seq [rx_root, rx_lit ''ManagementServer.EnableCWMP''],
      ''it switches TR-069 off on the CPE''),
    (rx_seq [rx_root, rx_lit ''ManagementServer.PeriodicInformEnable''],
      ''disabling periodic Informs leaves a CPE behind CGNAT with no way to reach the ACS''),
    (rx_seq [rx_root, rx_lit ''ManagementServer.UpgradesManaged''],
      ''it decides whether firmware may come from sources other than this ACS''),
    (rx_seq [rx_root, rx_lit ''ManagementServer.'',
        rx_alt [''ConnReqXMPPConnection'', ''ConnReqAllowedJabberIDs'', ''X_ALU_COM_XMPP_Enable'']],
      ''it is set by XMPP Connection Request provisioning''),
    (rx_seq [rx_root, rx_lit ''ManagementServer.X_'', rx_plus rx_word, rx_lit ''_ACSIPv4List''],
      ''it restricts which addresses may act as ACS; a wrong value locks this ACS out''),
    (rx_seq [rx_root, rx_opt (RSeq (rx_lit ''IP.Interface.'') rx_inst), rx_lit ''X_'', rx_plus rx_word,
        rx_lit ''_'', rx_alt [''Wan'', ''Lan''], rx_lit ''AccessCfg.Tr69Disabled''],
      ''it blocks TR-069 on the CPE's interfaces''),
    (rx_seq [rx_root, rx_lit ''X_ALU-COM_ModemDeviceInfo.X_ALU-COM_'',
        rx_alt [''NokiaServerURL'', ''ForceDownloadPreconfigFromServer'',
          ''ForceDownloadDeltaConfigFromServer'', ''DeltaConfig_Flag'', ''ImageDownloadTimer'']],
      ''it controls Nokia's pre-configuration and firmware source''),
    (rx_seq [rx_root, rx_lit ''X_ALU-COM_ModemDeviceInfo.X_ALU-COM_'',
        rx_alt [''BlockingTrafficByOperatorLock'', ''QueryBOENGServerInOperatorLock'', ''ObtainOPIDFromPLMN'']],
      ''it is part of the Nokia operator (network) lock, set up with Nokia's pre-configuration''),
    (rx_seq [rx_root, rx_lit ''X_ALU-COM_NWCC.'', RStar (RSeq (rx_plus rx_word) (rx_lit ''.'')), rx_lit ''URL''],
      ''it points the CPE at Nokia's cloud controller; this ACS is the controller of record''),
    (rx_seq [rx_root, rx_lit ''X_ALU-COM_FastmileController.URL''],
      ''it points the CPE at Nokia's cloud controller; this ACS is the controller of record''),
    (rx_seq [rx_root, rx_lit ''X_ALU-COM_RemoteWebDebug.'', rx_plus rx_word],
      ''it opens a remote debug channel on the CPE''),
    (rx_seq [rx_root, rx_lit ''WiFi.DataElements.Network.ControllerID''],
      ''it changes the EasyMesh controller identity''),
    (rx_seq [rx_root, RAlt (RSeq (rx_lit ''WiFi.Radio.'') rx_inst)
          (rx_seq [rx_lit ''LANDevice.'', rx_inst, rx_lit ''WLANConfiguration.'', rx_inst]),
        rx_lit ''RegulatoryDomain''],
      ''it sets the country radio rules; a wrong value breaks spectrum regulation'')]"

fun first_rule :: "(rx \<times> string) list \<Rightarrow> string \<Rightarrow> string option" where
  "first_rule [] name = None"
| "first_rule ((re, reason) # rules) name = (if rx_match re name then Some reason else first_rule rules name)"

definition ProtectedReason :: "string \<Rightarrow> string option" where
  "ProtectedReason name = first_rule protectedRules name"

record ProtectedParameterError =
  pe_Name :: string
  pe_Reason :: string

fun CheckProtected :: "string list \<Rightarrow> ProtectedParameterError option" where
  "CheckProtected [] = None"
| "CheckProtected (name # names) =
     (case ProtectedReason name of
        Some reason \<Rightarrow> Some \<lparr> pe_Name = name, pe_Reason = reason \<rparr>
      | None \<Rightarrow> CheckProtected names)"

section \<open>Subscriber identifiers\<close>

datatype subscriber_kind = SubscriberNone | SubscriberIMSI | SubscriberICCID | SubscriberMSISDN
  | SubscriberIMEI | SubscriberEID | SubscriberSecret

text \<open>The part after the last dot; the whole path when there is none.\<close>

definition leaf_name :: "string \<Rightarrow> string" where
  "leaf_name path = rev (takeWhile (\<lambda>c. c \<noteq> CHR ''.'') (rev path))"

definition SubscriberIdentifierKind :: "string \<Rightarrow> subscriber_kind" where
  "SubscriberIdentifierKind path =
     (let upper = ToUpper (leaf_name path) in
      if upper = [] then SubscriberNone
      else if Contains path ''.USIM.'' \<and> upper \<in> {''PIN'', ''PINCHECK'', ''PUK''} then SubscriberSecret
      else if HasSuffix upper ''IMSI'' then SubscriberIMSI
      else if HasSuffix upper ''ICCID'' then SubscriberICCID
      else if HasSuffix upper ''MSISDN'' then SubscriberMSISDN
      else if HasSuffix upper ''IMEI'' \<or> HasSuffix upper ''IMEISV'' then SubscriberIMEI
      else if upper = ''EID'' \<or> HasSuffix upper ''_EID'' then SubscriberEID
      else SubscriberNone)"

text \<open>The bullet is three bytes of UTF-8.\<close>

definition bullet :: string where "bullet = [CHR 0xE2, CHR 0x80, CHR 0xA2]"

fun keep_head :: "subscriber_kind \<Rightarrow> nat" where
  "keep_head SubscriberIMSI = 5"
| "keep_head SubscriberIMEI = 8"
| "keep_head SubscriberICCID = 2"
| "keep_head _ = 0"

definition keep_tail :: nat where "keep_tail = 4"

definition MaskSubscriberIdentifier :: "subscriber_kind \<Rightarrow> string \<Rightarrow> string" where
  "MaskSubscriberIdentifier kind value =
     (if kind = SubscriberNone then value
      else if kind = SubscriberSecret then []
      else let v = TrimSpace value in
        if v = [] then v
        else if length v \<le> keep_head kind + keep_tail then Repeat bullet (length v)
        else take (keep_head kind) v @ Repeat bullet (length v - keep_head kind - keep_tail) @
             drop (length v - keep_tail) v)"

definition RedactSubscriberIdentifiers :: "(string \<times> CachedValue) list \<Rightarrow> bool \<Rightarrow> (string \<times> CachedValue) list" where
  "RedactSubscriberIdentifiers cached full = map (\<lambda>(name, v).
     let kind = SubscriberIdentifierKind name in
     (name, if kind \<noteq> SubscriberNone \<and> (\<not> full \<or> kind = SubscriberSecret)
            then v\<lparr> cv_Value := MaskSubscriberIdentifier kind (cv_Value v) \<rparr> else v)) cached"

section \<open>The matcher decides the language\<close>

lemma nullable_lang: "nullable r \<longleftrightarrow> [] \<in> lang r"
proof (induction r)
  case (RStar r)
  have "[] = concat []" by simp
  then show ?case by (metis (mono_tags, lifting) CollectI empty_subsetI lang.simps(6) list.set(1) nullable.simps(6))
qed auto

lemma star_Cons:
  "c # s \<in> lang (RStar r) \<longleftrightarrow> (\<exists>u v. s = u @ v \<and> c # u \<in> lang r \<and> v \<in> lang (RStar r))"
proof
  assume "c # s \<in> lang (RStar r)"
  then obtain ws where ws: "c # s = concat ws" "set ws \<subseteq> lang r" by auto
  then show "\<exists>u v. s = u @ v \<and> c # u \<in> lang r \<and> v \<in> lang (RStar r)"
  proof (induction ws)
    case (Cons w ws)
    show ?case
    proof (cases w)
      case Nil
      with Cons show ?thesis by simp
    next
      case (Cons d u)
      with Cons.prems have "s = u @ concat ws" "c # u \<in> lang r" "concat ws \<in> lang (RStar r)" by auto
      then show ?thesis by blast
    qed
  qed simp
next
  assume "\<exists>u v. s = u @ v \<and> c # u \<in> lang r \<and> v \<in> lang (RStar r)"
  then obtain u ws where "s = u @ concat ws" "c # u \<in> lang r" "set ws \<subseteq> lang r" by auto
  then have "c # s = concat ((c # u) # ws)" "set ((c # u) # ws) \<subseteq> lang r" by auto
  then show "c # s \<in> lang (RStar r)" by (simp only: lang.simps) blast
qed

lemma seq_Cons:
  "c # s \<in> lang (RSeq r t) \<longleftrightarrow>
     (\<exists>u v. s = u @ v \<and> c # u \<in> lang r \<and> v \<in> lang t) \<or> [] \<in> lang r \<and> c # s \<in> lang t"
  by (auto simp: Cons_eq_append_conv)

lemma deriv_lang: "s \<in> lang (deriv c r) \<longleftrightarrow> c # s \<in> lang r"
proof (induction r arbitrary: s)
  case (RSeq r1 r2)
  have "s \<in> lang (RSeq (deriv c r1) r2) \<longleftrightarrow> (\<exists>u v. s = u @ v \<and> c # u \<in> lang r1 \<and> v \<in> lang r2)"
    by (simp add: RSeq.IH(1))
  then show ?case
    unfolding seq_Cons deriv.simps nullable_lang using RSeq.IH(2) [of s] by (cases "[] \<in> lang r1") simp_all
next
  case (RStar r)
  have "s \<in> lang (RSeq (deriv c r) (RStar r)) \<longleftrightarrow> (\<exists>u v. s = u @ v \<and> c # u \<in> lang r \<and> v \<in> lang (RStar r))"
    by (simp add: RStar.IH del: lang.simps(6))
  then show ?case unfolding star_Cons deriv.simps .
qed auto

lemma rx_match_lang: "rx_match r s \<longleftrightarrow> s \<in> lang r"
  by (induction s arbitrary: r) (simp_all add: nullable_lang deriv_lang)

lemma lang_lit [simp]: "lang (rx_lit w) = {w}"
  by (induction w) auto

lemma lang_alt [simp]: "lang (rx_alt ws) = set ws"
  by (induction ws) auto

section \<open>What the rules refuse\<close>

lemma first_rule_None: "first_rule rules name = None \<longleftrightarrow> (\<forall>(re, _) \<in> set rules. name \<notin> lang re)"
  by (induction rules name rule: first_rule.induct) (auto simp: rx_match_lang)

lemma CheckProtected_None: "CheckProtected names = None \<longleftrightarrow> (\<forall>n \<in> set names. ProtectedReason n = None)"
  by (induction names) (auto split: option.splits)

lemma protected_rule: "(re, reason) \<in> set protectedRules \<Longrightarrow> name \<in> lang re \<Longrightarrow> ProtectedReason name \<noteq> None"
  unfolding ProtectedReason_def first_rule_None by blast

section \<open>What masking hides\<close>

text \<open>
  What a masked value may depend on: its length, and for a value long enough to keep something
  hidden, the leading digits that name the network or model and the last four characters.
\<close>

definition mask_view :: "subscriber_kind \<Rightarrow> string \<Rightarrow> nat \<times> string \<times> string" where
  "mask_view kind value =
     (let v = TrimSpace value in
      if length v \<le> keep_head kind + keep_tail then (length v, [], [])
      else (length v, take (keep_head kind) v, drop (length v - keep_tail) v))"

lemma MaskSubscriberIdentifier_view:
  assumes "kind \<noteq> SubscriberNone" "mask_view kind a = mask_view kind b"
  shows "MaskSubscriberIdentifier kind a = MaskSubscriberIdentifier kind b"
  using assms
  by (auto simp: MaskSubscriberIdentifier_def mask_view_def Let_def split: if_splits)

text \<open>
  Masking never reveals the middle of a subscriber identifier: two values that agree in length,
  in the kept head and in the last four characters are shown alike, and a SIM secret is blanked
  whatever it is, also for a caller with full access.
\<close>

theorem masking_hides:
  assumes "kind \<noteq> SubscriberNone" "mask_view kind a = mask_view kind b"
  shows "MaskSubscriberIdentifier kind a = MaskSubscriberIdentifier kind b \<and>
         MaskSubscriberIdentifier SubscriberSecret c = [] \<and>
         map (cv_Value \<circ> snd) (filter (\<lambda>(n, _). SubscriberIdentifierKind n = SubscriberSecret)
           (RedactSubscriberIdentifiers cached full)) =
         map (\<lambda>_. []) (filter (\<lambda>(n, _). SubscriberIdentifierKind n = SubscriberSecret) cached)"
proof -
  have "map (cv_Value \<circ> snd) (filter (\<lambda>(n, _). SubscriberIdentifierKind n = SubscriberSecret)
           (RedactSubscriberIdentifiers cached full)) =
         map (\<lambda>_. []) (filter (\<lambda>(n, _). SubscriberIdentifierKind n = SubscriberSecret) cached)"
    unfolding RedactSubscriberIdentifiers_def
    by (induction cached) (auto simp: MaskSubscriberIdentifier_def Let_def)
  with MaskSubscriberIdentifier_view [OF assms] show ?thesis by (simp add: MaskSubscriberIdentifier_def)
qed

theorem masking_hides_witness:
  "mask_view SubscriberIMSI ''655019999991234'' = mask_view SubscriberIMSI ''655011111111234'' \<and>
   MaskSubscriberIdentifier SubscriberIMSI ''655019999991234'' = MaskSubscriberIdentifier SubscriberIMSI ''655011111111234''"
proof -
  have "mask_view SubscriberIMSI ''655019999991234'' = mask_view SubscriberIMSI ''655011111111234''"
    by code_simp
  moreover have "SubscriberIMSI \<noteq> SubscriberNone" by simp
  ultimately show ?thesis using masking_hides [of SubscriberIMSI] by blast
qed

end
