(* ===== verification/Jobs.thy ===== *)
theory Jobs
  imports Parameters "HOL-Library.Monad_Syntax"
begin

text \<open>
  Package \<^verbatim>\<open>internal/jobs\<close>, the durable work queue (\<^verbatim>\<open>job.go\<close>, \<^verbatim>\<open>payloads.go\<close>, \<^verbatim>\<open>protected.go\<close>,
  \<^verbatim>\<open>creator.go\<close>). The jobs table is a list of rows; an UPDATE maps over the rows its WHERE clause
  selects, with the redaction trigger of migration 0086 applied to each. A statement that the
  database refuses leaves the table as it was (\<open>faults\<close> names the failing statements of a call).
  NULL is \<open>None\<close>. What a call takes from its surroundings is the record \<open>env\<close>: the clock, a fresh
  UUID, four random bytes and this process's lease owner string.
\<close>

section \<open>Types and statuses\<close>

datatype job_type = TypeSetParameter | TypeGetParameter | TypeConnectionRequest | TypeFirmwareDownload
  | TypeDiagnosticsPing | TypeDiagnosticsTraceroute | TypeDiagnosticsDownload | TypeDiagnosticsUpload
  | TypeAddObject | TypeDeleteObject | TypeReboot | TypeFactoryReset | TypeScheduleInform
  | TypeSetParameterAttributes | TypeGetParameterAttributes | TypeUpload | TypeParameterDiscovery
  | TypeOther string

fun job_type_name :: "job_type \<Rightarrow> string" where
  "job_type_name TypeSetParameter = ''SET_PARAMETER''"
| "job_type_name TypeGetParameter = ''GET_PARAMETER''"
| "job_type_name TypeConnectionRequest = ''CONNECTION_REQUEST''"
| "job_type_name TypeFirmwareDownload = ''FIRMWARE_DOWNLOAD''"
| "job_type_name TypeDiagnosticsPing = ''DIAGNOSTICS_PING''"
| "job_type_name TypeDiagnosticsTraceroute = ''DIAGNOSTICS_TRACEROUTE''"
| "job_type_name TypeDiagnosticsDownload = ''DIAGNOSTICS_DOWNLOAD''"
| "job_type_name TypeDiagnosticsUpload = ''DIAGNOSTICS_UPLOAD''"
| "job_type_name TypeAddObject = ''ADD_OBJECT''"
| "job_type_name TypeDeleteObject = ''DELETE_OBJECT''"
| "job_type_name TypeReboot = ''REBOOT''"
| "job_type_name TypeFactoryReset = ''FACTORY_RESET''"
| "job_type_name TypeScheduleInform = ''SCHEDULE_INFORM''"
| "job_type_name TypeSetParameterAttributes = ''SET_PARAMETER_ATTRIBUTES''"
| "job_type_name TypeGetParameterAttributes = ''GET_PARAMETER_ATTRIBUTES''"
| "job_type_name TypeUpload = ''UPLOAD''"
| "job_type_name TypeParameterDiscovery = ''PARAMETER_DISCOVERY''"
| "job_type_name (TypeOther s) = s"

text \<open>The column's CHECK constraint (migration 0071).\<close>

fun jobs_type_check :: "job_type \<Rightarrow> bool" where
  "jobs_type_check (TypeOther _) = False"
| "jobs_type_check _ = True"

datatype job_status = StatusQueued | StatusRPCSent | StatusInProgress | StatusAwaitingTransferComplete
  | StatusAwaitingDiagnosticsComplete | StatusSuccess | StatusFailed | StatusTimeout

definition sessionDispatchableTypes :: "job_type list" where
  "sessionDispatchableTypes = [TypeSetParameter, TypeGetParameter, TypeFirmwareDownload, TypeDiagnosticsPing,
     TypeDiagnosticsTraceroute, TypeDiagnosticsDownload, TypeDiagnosticsUpload, TypeAddObject, TypeDeleteObject,
     TypeReboot, TypeFactoryReset, TypeScheduleInform, TypeSetParameterAttributes, TypeGetParameterAttributes,
     TypeUpload, TypeParameterDiscovery]"

section \<open>The table\<close>

record job_row =
  j_id :: string
  j_command_key :: string
  j_device_id :: string
  j_type :: job_type
  j_status :: job_status
  j_payload :: json
  j_attempts :: int
  j_max_attempts :: int
  j_created_by :: "string option"
  j_created_at :: time
  j_updated_at :: time
  j_started_at :: "time option"
  j_completed_at :: "time option"
  j_fault_code :: "string option"
  j_fault_string :: "string option"
  j_result_detail :: "json option"
  j_idempotency_key :: "string option"
  j_request_hash :: "string option"
  j_diagnostics_deadline :: "time option"
  j_lease_owner :: "string option"
  j_leased_until :: "time option"

text \<open>The devices table as far as the queue uses it: id and customer.\<close>

record jobs_db =
  jobs :: "job_row list"
  devices :: "(string \<times> string option) list"

definition finished :: "job_status \<Rightarrow> bool" where
  "finished s = (s \<in> {StatusSuccess, StatusFailed, StatusTimeout})"

text \<open>The trigger of migration 0086.\<close>

definition redact_finished_job_secrets :: "job_row \<Rightarrow> job_row \<Rightarrow> job_row" where
  "redact_finished_job_secrets old new =
     (if finished (j_status new) \<and> j_status old \<noteq> j_status new
      then new\<lparr> j_payload := redact_payload_secrets (j_payload new) \<rparr> else new)"

definition update_jobs :: "(job_row \<Rightarrow> bool) \<Rightarrow> (job_row \<Rightarrow> job_row) \<Rightarrow> jobs_db \<Rightarrow> jobs_db" where
  "update_jobs p f db = db\<lparr> jobs := update_where p (\<lambda>r. redact_finished_job_secrets r (f r)) (jobs db) \<rparr>"

section \<open>Job values\<close>

record Job =
  job_ID :: string
  job_CommandKey :: string
  job_DeviceID :: string
  job_Type :: job_type
  job_Status :: job_status
  job_Payload :: json
  job_Attempts :: int
  job_MaxAttempts :: int
  job_CreatedBy :: string
  job_CreatedAt :: time
  job_UpdatedAt :: time
  job_StartedAt :: "time option"
  job_CompletedAt :: "time option"
  job_FaultCode :: "string option"
  job_FaultString :: "string option"
  job_ResultDetail :: "json option"
  job_IdempotencyKey :: "string option"
  job_RequestHash :: "string option"
  job_DiagnosticsDeadline :: "time option"

definition scanJob :: "job_row \<Rightarrow> Job" where
  "scanJob r = \<lparr> job_ID = j_id r, job_CommandKey = j_command_key r, job_DeviceID = j_device_id r,
     job_Type = j_type r, job_Status = j_status r, job_Payload = j_payload r, job_Attempts = j_attempts r,
     job_MaxAttempts = j_max_attempts r, job_CreatedBy = (case j_created_by r of None \<Rightarrow> [] | Some s \<Rightarrow> s),
     job_CreatedAt = j_created_at r, job_UpdatedAt = j_updated_at r, job_StartedAt = j_started_at r,
     job_CompletedAt = j_completed_at r, job_FaultCode = j_fault_code r, job_FaultString = j_fault_string r,
     job_ResultDetail = j_result_detail r, job_IdempotencyKey = j_idempotency_key r,
     job_RequestHash = j_request_hash r, job_DiagnosticsDeadline = j_diagnostics_deadline r \<rparr>"

datatype job_error = ErrDB | ErrNoRows | ErrIdempotencyConflict | ErrProtected ProtectedParameterError
  | ErrNotCurrent | ErrUnknownAction

type_synonym 'a result = "job_error + 'a"

record env =
  env_now :: time
  env_uuid :: string
  env_rand :: string
  env_owner :: string

definition nullIfEmpty :: "string \<Rightarrow> string option" where
  "nullIfEmpty s = (if s = [] then None else Some s)"

text \<open>\<^verbatim>\<open>time.Format("20060102")\<close> in UTC: the civil date of a day count from 1970-01-01.\<close>

definition pad_int :: "nat \<Rightarrow> int \<Rightarrow> string" where
  "pad_int w n = (let s = Itoa n in replicate (w - length s) (CHR ''0'') @ s)"

definition format_ymd :: "time \<Rightarrow> string" where
  "format_ymd t =
     (let z = t div (24 * hour) + 719468;
          era = z div 146097;
          doe = z mod 146097;
          yoe = (doe - doe div 1460 + doe div 36524 - doe div 146096) div 365;
          doy = doe - (365 * yoe + yoe div 4 - yoe div 100);
          mp = (5 * doy + 2) div 153;
          d = doy - (153 * mp + 2) div 5 + 1;
          m = (if mp < 10 then mp + 3 else mp - 9);
          y = yoe + era * 400 + (if m \<le> 2 then 1 else 0)
      in pad_int 4 y @ pad_int 2 m @ pad_int 2 d)"

fun command_key_prefix :: "job_type \<Rightarrow> string" where
  "command_key_prefix TypeSetParameter = ''setparam''"
| "command_key_prefix TypeGetParameter = ''getparam''"
| "command_key_prefix TypeConnectionRequest = ''cr''"
| "command_key_prefix TypeFirmwareDownload = ''fw''"
| "command_key_prefix TypeDiagnosticsPing = ''diag''"
| "command_key_prefix TypeDiagnosticsTraceroute = ''trace''"
| "command_key_prefix TypeDiagnosticsDownload = ''diagdown''"
| "command_key_prefix TypeDiagnosticsUpload = ''diagup''"
| "command_key_prefix TypeAddObject = ''addobj''"
| "command_key_prefix TypeDeleteObject = ''delobj''"
| "command_key_prefix TypeReboot = ''reboot''"
| "command_key_prefix TypeFactoryReset = ''reset''"
| "command_key_prefix TypeScheduleInform = ''schedinform''"
| "command_key_prefix TypeSetParameterAttributes = ''setattr''"
| "command_key_prefix TypeGetParameterAttributes = ''getattr''"
| "command_key_prefix TypeUpload = ''upload''"
| "command_key_prefix TypeParameterDiscovery = ''discover''"
| "command_key_prefix (TypeOther _) = ''job''"

definition newCommandKey :: "env \<Rightarrow> job_type \<Rightarrow> string" where
  "newCommandKey e jobType =
     command_key_prefix jobType @ ''_'' @ format_ymd (env_now e) @ ''_'' @ hex_encode (env_rand e)"

section \<open>Payloads\<close>

record ParameterWrite =
  pw_Name :: string
  pw_Value :: string
  pw_Type :: string
  pw_SecretHandle :: string

definition dec_ParameterWrite :: "json \<Rightarrow> ParameterWrite option" where
  "dec_ParameterWrite j = do {
     kvs \<leftarrow> struct_members j;
     n \<leftarrow> decode_field ''name'' dec_string [] kvs;
     v \<leftarrow> decode_field ''value'' dec_string [] kvs;
     t \<leftarrow> decode_field ''type'' dec_string [] kvs;
     h \<leftarrow> decode_field ''secret_handle'' dec_string [] kvs;
     Some \<lparr> pw_Name = n, pw_Value = v, pw_Type = t, pw_SecretHandle = h \<rparr> }"

definition dec_str :: "json \<Rightarrow> string option" where
  "dec_str j = dec_string [] j"

record SetParameterPayload =
  sp_EvidenceFirmware :: string
  sp_EvidenceBound :: bool
  sp_NonReadable :: "string list"
  sp_Parameters :: "ParameterWrite list"
  sp_Verify :: bool
  sp_VerificationPending :: bool

definition dec_SetParameterPayload :: "json \<Rightarrow> SetParameterPayload option" where
  "dec_SetParameterPayload j = do {
     kvs \<leftarrow> struct_members j;
     ef \<leftarrow> decode_field ''evidence_firmware'' dec_string [] kvs;
     eb \<leftarrow> decode_field ''evidence_bound'' dec_bool False kvs;
     nr \<leftarrow> decode_field ''non_readable'' (dec_list dec_str) [] kvs;
     ps \<leftarrow> decode_field ''parameters'' (dec_list dec_ParameterWrite) [] kvs;
     v \<leftarrow> decode_field ''verify'' dec_bool False kvs;
     vp \<leftarrow> decode_field ''verification_pending'' dec_bool False kvs;
     Some \<lparr> sp_EvidenceFirmware = ef, sp_EvidenceBound = eb, sp_NonReadable = nr, sp_Parameters = ps,
            sp_Verify = v, sp_VerificationPending = vp \<rparr> }"

text \<open>\<^verbatim>\<open>json.Marshal\<close>: \<^verbatim>\<open>omitempty\<close> leaves out empty members.\<close>

definition enc_opt_str :: "string \<Rightarrow> string \<Rightarrow> (string \<times> json) list" where
  "enc_opt_str k s = (if s = [] then [] else [(k, JStr s)])"
definition enc_opt_bool :: "string \<Rightarrow> bool \<Rightarrow> (string \<times> json) list" where
  "enc_opt_bool k b = (if b then [(k, JBool True)] else [])"

definition enc_ParameterWrite :: "ParameterWrite \<Rightarrow> json" where
  "enc_ParameterWrite w = JObj ([(''name'', JStr (pw_Name w)), (''value'', JStr (pw_Value w)),
     (''type'', JStr (pw_Type w))] @ enc_opt_str ''secret_handle'' (pw_SecretHandle w))"

definition enc_SetParameterPayload :: "SetParameterPayload \<Rightarrow> json" where
  "enc_SetParameterPayload p = JObj (
     enc_opt_str ''evidence_firmware'' (sp_EvidenceFirmware p) @
     enc_opt_bool ''evidence_bound'' (sp_EvidenceBound p) @
     (if sp_NonReadable p = [] then [] else [(''non_readable'', JArr (map JStr (sp_NonReadable p)))]) @
     [(''parameters'', JArr (map enc_ParameterWrite (sp_Parameters p)))] @
     enc_opt_bool ''verify'' (sp_Verify p) @
     enc_opt_bool ''verification_pending'' (sp_VerificationPending p))"

record DiagnosticsPlan =
  dp_Trigger :: "ParameterWrite list"
  dp_PollPaths :: "string list"

definition dec_DiagnosticsPlan :: "(string \<times> json) list \<Rightarrow> DiagnosticsPlan option" where
  "dec_DiagnosticsPlan kvs = do {
     t \<leftarrow> decode_field ''trigger'' (dec_list dec_ParameterWrite) [] kvs;
     p \<leftarrow> decode_field ''poll_paths'' (dec_list dec_str) [] kvs;
     Some \<lparr> dp_Trigger = t, dp_PollPaths = p \<rparr> }"

record DiagnosticsPingPayload =
  ping_Host :: string
  NumberOfRepetitions :: int
  ping_Timeout :: int
  ping_DataBlockSize :: int
  ping_DSCP :: int
  ping_Prefix :: string
  ping_Plan :: DiagnosticsPlan

definition dec_DiagnosticsPingPayload :: "json \<Rightarrow> DiagnosticsPingPayload option" where
  "dec_DiagnosticsPingPayload j = do {
     kvs \<leftarrow> struct_members j;
     h \<leftarrow> decode_field ''host'' dec_string [] kvs;
     n \<leftarrow> decode_field ''number_of_repetitions'' dec_int 0 kvs;
     t \<leftarrow> decode_field ''timeout'' dec_int 0 kvs;
     b \<leftarrow> decode_field ''data_block_size'' dec_int 0 kvs;
     d \<leftarrow> decode_field ''dscp'' dec_int 0 kvs;
     p \<leftarrow> decode_field ''prefix'' dec_string [] kvs;
     pl \<leftarrow> dec_DiagnosticsPlan kvs;
     Some \<lparr> ping_Host = h, NumberOfRepetitions = n, ping_Timeout = t, ping_DataBlockSize = b, ping_DSCP = d,
            ping_Prefix = p, ping_Plan = pl \<rparr> }"

record DiagnosticsTraceroutePayload =
  trace_Host :: string
  NumberOfTries :: int
  trace_Timeout :: int
  trace_DataBlockSize :: int
  trace_DSCP :: int
  MaxHopCount :: int
  trace_Prefix :: string
  trace_Plan :: DiagnosticsPlan

definition dec_DiagnosticsTraceroutePayload :: "json \<Rightarrow> DiagnosticsTraceroutePayload option" where
  "dec_DiagnosticsTraceroutePayload j = do {
     kvs \<leftarrow> struct_members j;
     h \<leftarrow> decode_field ''host'' dec_string [] kvs;
     n \<leftarrow> decode_field ''number_of_tries'' dec_int 0 kvs;
     t \<leftarrow> decode_field ''timeout'' dec_int 0 kvs;
     b \<leftarrow> decode_field ''data_block_size'' dec_int 0 kvs;
     d \<leftarrow> decode_field ''dscp'' dec_int 0 kvs;
     m \<leftarrow> decode_field ''max_hop_count'' dec_int 0 kvs;
     p \<leftarrow> decode_field ''prefix'' dec_string [] kvs;
     pl \<leftarrow> dec_DiagnosticsPlan kvs;
     Some \<lparr> trace_Host = h, NumberOfTries = n, trace_Timeout = t, trace_DataBlockSize = b, trace_DSCP = d,
            MaxHopCount = m, trace_Prefix = p, trace_Plan = pl \<rparr> }"

section \<open>Protected writes\<close>

text \<open>The context value naming the system flow; empty when there is none.\<close>

type_synonym ctx = string

definition AllowProtectedWrites :: "ctx \<Rightarrow> string \<Rightarrow> ctx" where
  "AllowProtectedWrites ctx flow = flow"

definition protectedWritesAllowed :: "ctx \<Rightarrow> bool" where
  "protectedWritesAllowed ctx = (ctx \<noteq> [])"

definition checkProtectedWrite :: "ctx \<Rightarrow> job_type \<Rightarrow> json \<Rightarrow> ProtectedParameterError option" where
  "checkProtectedWrite ctx jobType payloadJSON =
     (if jobType \<noteq> TypeSetParameter \<or> protectedWritesAllowed ctx then None
      else case dec_SetParameterPayload payloadJSON of
             None \<Rightarrow> None
           | Some p \<Rightarrow> CheckProtected (map pw_Name (sp_Parameters p)))"

section \<open>Creating jobs\<close>

text \<open>An INSERT fails on an unknown device, an unknown type, or a taken id or command key.\<close>

definition insert_ok :: "job_row \<Rightarrow> jobs_db \<Rightarrow> bool" where
  "insert_ok r db \<longleftrightarrow> j_device_id r \<in> fst ` set (devices db) \<and> jobs_type_check (j_type r) \<and>
     j_id r \<notin> j_id ` set (jobs db) \<and> j_command_key r \<notin> j_command_key ` set (jobs db)"

definition insert_job :: "job_row \<Rightarrow> jobs_db \<Rightarrow> jobs_db" where
  "insert_job r db = db\<lparr> jobs := jobs db @ [r] \<rparr>"

text \<open>A row as INSERT makes it: the named columns and the table's defaults.\<close>

definition new_row :: "env \<Rightarrow> string \<Rightarrow> job_type \<Rightarrow> json \<Rightarrow> string \<Rightarrow> int \<Rightarrow> string option \<Rightarrow> string option \<Rightarrow> job_row" where
  "new_row e deviceID jobType payload createdBy maxAttempts key hash =
     \<lparr> j_id = env_uuid e, j_command_key = newCommandKey e jobType, j_device_id = deviceID, j_type = jobType,
       j_status = StatusQueued, j_payload = payload, j_attempts = 0, j_max_attempts = maxAttempts,
       j_created_by = nullIfEmpty createdBy, j_created_at = env_now e, j_updated_at = env_now e,
       j_started_at = None, j_completed_at = None, j_fault_code = None, j_fault_string = None,
       j_result_detail = None, j_idempotency_key = key, j_request_hash = hash,
       j_diagnostics_deadline = None, j_lease_owner = None, j_leased_until = None \<rparr>"

definition default_max_attempts :: int where "default_max_attempts = 3"

definition insert_returning :: "faults \<Rightarrow> job_row \<Rightarrow> jobs_db \<Rightarrow> Job result \<times> jobs_db" where
  "insert_returning flt r db =
     (if flt 0 \<or> \<not> insert_ok r db then (Inl ErrDB, db) else (Inr (scanJob r), insert_job r db))"

definition Create ::
  "faults \<Rightarrow> env \<Rightarrow> ctx \<Rightarrow> string \<Rightarrow> job_type \<Rightarrow> json \<Rightarrow> string \<Rightarrow> jobs_db \<Rightarrow> Job result \<times> jobs_db" where
  "Create flt e ctx deviceID jobType payload createdBy db =
     (case checkProtectedWrite ctx jobType payload of
        Some err \<Rightarrow> (Inl (ErrProtected err), db)
      | None \<Rightarrow> insert_returning flt (new_row e deviceID jobType payload createdBy default_max_attempts None None) db)"

definition CreateWithMaxAttempts ::
  "faults \<Rightarrow> env \<Rightarrow> ctx \<Rightarrow> string \<Rightarrow> job_type \<Rightarrow> json \<Rightarrow> string \<Rightarrow> int \<Rightarrow> jobs_db \<Rightarrow> Job result \<times> jobs_db" where
  "CreateWithMaxAttempts flt e ctx deviceID jobType payload createdBy maxAttempts db =
     (case checkProtectedWrite ctx jobType payload of
        Some err \<Rightarrow> (Inl (ErrProtected err), db)
      | None \<Rightarrow> insert_returning flt (new_row e deviceID jobType payload createdBy maxAttempts None None) db)"

definition idem_match :: "string \<Rightarrow> job_type \<Rightarrow> string \<Rightarrow> job_row \<Rightarrow> bool" where
  "idem_match deviceID jobType key r \<longleftrightarrow>
     j_device_id r = deviceID \<and> j_type r = jobType \<and> j_idempotency_key r = Some key"

definition findByIdempotency :: "faults \<Rightarrow> string \<Rightarrow> job_type \<Rightarrow> string \<Rightarrow> jobs_db \<Rightarrow> Job result" where
  "findByIdempotency flt deviceID jobType key db =
     (if flt 1 then Inl ErrDB
      else case find (idem_match deviceID jobType key) (jobs db) of
             None \<Rightarrow> Inl ErrNoRows | Some r \<Rightarrow> Inr (scanJob r))"

text \<open>
  \<open>hash\<close> is the hexadecimal SHA-256 of the marshalled payload, a parameter. The unique index only
  covers rows with a key; on a conflict nothing is inserted and the stored job is read back.
\<close>

definition CreateWithIdempotency ::
  "(json \<Rightarrow> string) \<Rightarrow> faults \<Rightarrow> env \<Rightarrow> ctx \<Rightarrow> string \<Rightarrow> job_type \<Rightarrow> json \<Rightarrow> string \<Rightarrow> string \<Rightarrow> jobs_db \<Rightarrow>
   Job result \<times> jobs_db" where
  "CreateWithIdempotency hash flt e ctx deviceID jobType payload createdBy key db =
     (if TrimSpace key = [] then Create flt e ctx deviceID jobType payload createdBy db
      else case checkProtectedWrite ctx jobType payload of
        Some err \<Rightarrow> (Inl (ErrProtected err), db)
      | None \<Rightarrow>
          (if list_ex (idem_match deviceID jobType key) (jobs db) \<and> \<not> flt 0
           then (case findByIdempotency flt deviceID jobType key db of
                   Inl err \<Rightarrow> (Inl err, db)
                 | Inr existing \<Rightarrow>
                     if job_RequestHash existing \<noteq> Some (hash payload) then (Inl ErrIdempotencyConflict, db)
                     else (Inr existing, db))
           else insert_returning flt
                  (new_row e deviceID jobType payload createdBy default_max_attempts (Some key) (Some (hash payload))) db))"

section \<open>Finishing and requeueing\<close>

text \<open>A single UPDATE; an error leaves the table alone.\<close>

definition exec_update :: "faults \<Rightarrow> (job_row \<Rightarrow> bool) \<Rightarrow> (job_row \<Rightarrow> job_row) \<Rightarrow> jobs_db \<Rightarrow> unit result \<times> jobs_db" where
  "exec_update flt p f db = (if flt 0 then (Inl ErrDB, db) else (Inr (), update_jobs p f db))"

text \<open>An UPDATE that reports whether exactly one row was affected.\<close>

definition exec_guarded :: "faults \<Rightarrow> (job_row \<Rightarrow> bool) \<Rightarrow> (job_row \<Rightarrow> job_row) \<Rightarrow> jobs_db \<Rightarrow> bool result \<times> jobs_db" where
  "exec_guarded flt p f db =
     (if flt 0 then (Inl ErrDB, db) else (Inr (rows_affected p (jobs db) = 1), update_jobs p f db))"

definition MarkSuccess :: "faults \<Rightarrow> time \<Rightarrow> string \<Rightarrow> jobs_db \<Rightarrow> unit result \<times> jobs_db" where
  "MarkSuccess flt now jid = exec_update flt (\<lambda>r. j_id r = jid)
     (\<lambda>r. r\<lparr> j_status := StatusSuccess, j_completed_at := Some now, j_updated_at := now \<rparr>)"

definition MarkSuccessWithDetail :: "faults \<Rightarrow> time \<Rightarrow> string \<Rightarrow> json \<Rightarrow> jobs_db \<Rightarrow> unit result \<times> jobs_db" where
  "MarkSuccessWithDetail flt now jid detail = exec_update flt (\<lambda>r. j_id r = jid)
     (\<lambda>r. r\<lparr> j_status := StatusSuccess, j_completed_at := Some now, j_updated_at := now,
            j_result_detail := Some detail \<rparr>)"

definition MarkFailed :: "faults \<Rightarrow> time \<Rightarrow> string \<Rightarrow> string \<Rightarrow> string \<Rightarrow> jobs_db \<Rightarrow> unit result \<times> jobs_db" where
  "MarkFailed flt now jid faultCode faultString = exec_update flt (\<lambda>r. j_id r = jid)
     (\<lambda>r. r\<lparr> j_status := StatusFailed, j_completed_at := Some now, j_updated_at := now,
            j_fault_code := Some faultCode, j_fault_string := Some faultString \<rparr>)"

definition MarkTimeout :: "faults \<Rightarrow> time \<Rightarrow> string \<Rightarrow> string \<Rightarrow> jobs_db \<Rightarrow> unit result \<times> jobs_db" where
  "MarkTimeout flt now jid detail = exec_update flt (\<lambda>r. j_id r = jid)
     (\<lambda>r. r\<lparr> j_status := StatusTimeout, j_completed_at := Some now, j_updated_at := now,
            j_fault_string := Some detail \<rparr>)"

definition MarkAwaitingTransferComplete :: "faults \<Rightarrow> time \<Rightarrow> string \<Rightarrow> jobs_db \<Rightarrow> unit result \<times> jobs_db" where
  "MarkAwaitingTransferComplete flt now jid = exec_update flt (\<lambda>r. j_id r = jid)
     (\<lambda>r. r\<lparr> j_status := StatusAwaitingTransferComplete, j_updated_at := now \<rparr>)"

definition Requeue :: "faults \<Rightarrow> time \<Rightarrow> string \<Rightarrow> jobs_db \<Rightarrow> unit result \<times> jobs_db" where
  "Requeue flt now jid = exec_update flt (\<lambda>r. j_id r = jid)
     (\<lambda>r. r\<lparr> j_status := StatusQueued, j_updated_at := now, j_lease_owner := None, j_leased_until := None \<rparr>)"

section \<open>Reading jobs\<close>

definition ByID :: "faults \<Rightarrow> string \<Rightarrow> jobs_db \<Rightarrow> Job result" where
  "ByID flt jid db = (if flt 0 then Inl ErrDB
     else case find (\<lambda>r. j_id r = jid) (jobs db) of None \<Rightarrow> Inl ErrNoRows | Some r \<Rightarrow> Inr (scanJob r))"

definition ByCommandKey :: "faults \<Rightarrow> string \<Rightarrow> jobs_db \<Rightarrow> Job result" where
  "ByCommandKey flt ck db = (if flt 0 then Inl ErrDB
     else case find (\<lambda>r. j_command_key r = ck) (jobs db) of None \<Rightarrow> Inl ErrNoRows | Some r \<Rightarrow> Inr (scanJob r))"

definition in_scope :: "jobs_db \<Rightarrow> string list \<Rightarrow> job_row \<Rightarrow> bool" where
  "in_scope db customerIDs r =
     (case map_of (devices db) (j_device_id r) of Some (Some c) \<Rightarrow> c \<in> set customerIDs | _ \<Rightarrow> False)"

definition StatusCountsSince :: "time \<Rightarrow> string list \<Rightarrow> bool \<Rightarrow> jobs_db \<Rightarrow> job_status \<rightharpoonup> nat" where
  "StatusCountsSince since customerIDs scoped db status =
     (let n = length (filter (\<lambda>r. j_status r = status \<and> j_created_at r \<ge> since \<and>
                 j_type r \<noteq> TypeConnectionRequest \<and> (scoped \<longrightarrow> in_scope db customerIDs r)) (jobs db))
      in if n = 0 then None else Some n)"

definition listLimit :: nat where "listLimit = 200"

definition newest_first :: "job_row list \<Rightarrow> job_row list" where
  "newest_first rs = sort_key (\<lambda>r. - j_created_at r) rs"

definition List_jobs :: "string \<Rightarrow> string list \<Rightarrow> bool \<Rightarrow> jobs_db \<Rightarrow> Job list" where
  "List_jobs deviceID customerIDs scoped db =
     map scanJob (take listLimit (newest_first (
       if deviceID = [] \<and> scoped then filter (in_scope db customerIDs) (jobs db)
       else if deviceID = [] then jobs db
       else filter (\<lambda>r. j_device_id r = deviceID) (jobs db))))"

definition HasOpenJobByCreator :: "string \<Rightarrow> string \<Rightarrow> jobs_db \<Rightarrow> bool" where
  "HasOpenJobByCreator deviceID createdBy db =
     list_ex (\<lambda>r. j_device_id r = deviceID \<and> j_created_by r = Some createdBy \<and>
        j_status r \<in> {StatusQueued, StatusRPCSent}) (jobs db)"

section \<open>Updates\<close>

text \<open>The trigger only touches the payload.\<close>

lemma redact_finished_sel [simp]:
  "j_id (redact_finished_job_secrets o' n) = j_id n"
  "j_command_key (redact_finished_job_secrets o' n) = j_command_key n"
  "j_device_id (redact_finished_job_secrets o' n) = j_device_id n"
  "j_type (redact_finished_job_secrets o' n) = j_type n"
  "j_status (redact_finished_job_secrets o' n) = j_status n"
  "j_attempts (redact_finished_job_secrets o' n) = j_attempts n"
  "j_max_attempts (redact_finished_job_secrets o' n) = j_max_attempts n"
  "j_created_by (redact_finished_job_secrets o' n) = j_created_by n"
  "j_created_at (redact_finished_job_secrets o' n) = j_created_at n"
  "j_started_at (redact_finished_job_secrets o' n) = j_started_at n"
  "j_completed_at (redact_finished_job_secrets o' n) = j_completed_at n"
  "j_fault_code (redact_finished_job_secrets o' n) = j_fault_code n"
  "j_idempotency_key (redact_finished_job_secrets o' n) = j_idempotency_key n"
  "j_request_hash (redact_finished_job_secrets o' n) = j_request_hash n"
  "j_diagnostics_deadline (redact_finished_job_secrets o' n) = j_diagnostics_deadline n"
  "j_leased_until (redact_finished_job_secrets o' n) = j_leased_until n"
  by (simp_all add: redact_finished_job_secrets_def)

lemma redact_finished_id [simp]: "\<not> finished (j_status n) \<Longrightarrow> redact_finished_job_secrets o' n = n"
  by (simp add: redact_finished_job_secrets_def)

lemma finished_simps [simp]:
  "finished StatusSuccess" "finished StatusFailed" "finished StatusTimeout" "\<not> finished StatusQueued"
  "\<not> finished StatusRPCSent" "\<not> finished StatusInProgress" "\<not> finished StatusAwaitingTransferComplete"
  "\<not> finished StatusAwaitingDiagnosticsComplete"
  by (simp_all add: finished_def)

lemma jobs_update_jobs:
  "jobs (update_jobs p f db) = map (\<lambda>r. if p r then redact_finished_job_secrets r (f r) else r) (jobs db)"
  by (simp add: update_jobs_def update_where_def)

lemma devices_update_jobs [simp]: "devices (update_jobs p f db) = devices db"
  by (simp add: update_jobs_def)

lemma map_update_jobs:
  assumes "\<And>r. g (redact_finished_job_secrets r (f r)) = g r"
  shows "map g (jobs (update_jobs p f db)) = map g (jobs db)"
  using assms by (simp add: jobs_update_jobs)

section \<open>Protected parameters are never queued\<close>

text \<open>The three ways of creating a job, as one relation: what they add and under which check.\<close>

lemma insert_returning_cases:
  "insert_returning flt r db = (res, db') \<Longrightarrow>
     res = Inl ErrDB \<and> db' = db \<or> res = Inr (scanJob r) \<and> insert_ok r db \<and> db' = insert_job r db"
  by (auto simp: insert_returning_def split: if_splits)

lemma new_row_sel [simp]:
  "j_id (new_row e d t p c m k h) = env_uuid e" "j_device_id (new_row e d t p c m k h) = d"
  "j_type (new_row e d t p c m k h) = t" "j_status (new_row e d t p c m k h) = StatusQueued"
  "j_payload (new_row e d t p c m k h) = p" "j_attempts (new_row e d t p c m k h) = 0"
  "j_max_attempts (new_row e d t p c m k h) = m" "j_idempotency_key (new_row e d t p c m k h) = k"
  "j_request_hash (new_row e d t p c m k h) = h" "j_diagnostics_deadline (new_row e d t p c m k h) = None"
  "j_lease_owner (new_row e d t p c m k h) = None" "j_leased_until (new_row e d t p c m k h) = None"
  "j_started_at (new_row e d t p c m k h) = None" "j_created_at (new_row e d t p c m k h) = env_now e"
  "j_command_key (new_row e d t p c m k h) = newCommandKey e t"
  by (simp_all add: new_row_def)

definition writes_protected :: "job_row \<Rightarrow> bool" where
  "writes_protected r \<longleftrightarrow> j_type r = TypeSetParameter \<and>
     (\<exists>p. dec_SetParameterPayload (j_payload r) = Some p \<and>
        (\<exists>w \<in> set (sp_Parameters p). ProtectedReason (pw_Name w) \<noteq> None))"

lemma checkProtectedWrite_None:
  assumes "checkProtectedWrite [] t payload = None" "j_type r = t" "j_payload r = payload"
  shows "\<not> writes_protected r"
  using assms
  by (auto simp: checkProtectedWrite_def writes_protected_def protectedWritesAllowed_def CheckProtected_None
      split: if_splits option.splits)

lemma insert_returning_protected:
  assumes "insert_returning flt r db = (res, db')" "\<not> writes_protected r"
  shows "filter writes_protected (jobs db') = filter writes_protected (jobs db)"
  using insert_returning_cases [OF assms(1)] assms(2) by (auto simp: insert_job_def)


section \<open>Idempotency keys\<close>

lemma find_SomeD: "find P xs = Some x \<Longrightarrow> x \<in> set xs \<and> P x"
  by (induction xs) (auto split: if_splits)

lemma find_append_None: "find P xs = None \<Longrightarrow> find P (xs @ ys) = find P ys"
  by (induction xs) (auto split: if_splits)

lemma find_idem:
  assumes "list_ex (idem_match d t key) rs"
  obtains r where "find (idem_match d t key) rs = Some r" "idem_match d t key r"
proof -
  have "find (idem_match d t key) rs \<noteq> None" using assms by (auto simp: find_None_iff list_ex_iff)
  then show thesis using that by (auto dest: find_SomeD)
qed

lemma CreateWithIdempotency_stored:
  assumes "CreateWithIdempotency hash flt e ctx d t payload c key db = (Inr job, db')" "TrimSpace key \<noteq> []"
  obtains r where "find (idem_match d t key) (jobs db') = Some r" "idem_match d t key r"
    "j_request_hash r = Some (hash payload)"
proof (cases "list_ex (idem_match d t key) (jobs db) \<and> \<not> flt 0")
  case True
  then obtain r where "find (idem_match d t key) (jobs db) = Some r" "idem_match d t key r"
    by (auto elim: find_idem)
  with True assms show thesis
    by (intro that [of r])
      (auto simp: CreateWithIdempotency_def findByIdempotency_def scanJob_def split: if_splits option.splits)
next
  case False
  let ?r = "new_row e d t payload c default_max_attempts (Some key) (Some (hash payload))"
  from False assms have ins: "insert_returning flt ?r db = (Inr job, db')"
    by (auto simp: CreateWithIdempotency_def split: option.splits)
  then have "\<not> flt 0" "db' = insert_job ?r db" by (auto simp: insert_returning_def split: if_splits)
  with False have "find (idem_match d t key) (jobs db) = None" "db' = insert_job ?r db"
    by (auto simp: find_None_iff list_ex_iff)
  then show thesis
    by (intro that [of ?r]) (simp_all add: insert_job_def find_append_None idem_match_def)
qed

text \<open>
  C27. Repeating a create under the same idempotency key, however often and at whatever later time,
  never adds a second job: the repetition returns the stored job when the payload hashes alike and
  is refused otherwise, and the table stays as it is.
\<close>

theorem CreateWithIdempotency_repeats:
  assumes "CreateWithIdempotency hash flt e ctx d t payload c key db = (Inr job, db')"
    and "TrimSpace key \<noteq> []" "\<not> flt' 0" "\<not> flt' 1" "checkProtectedWrite ctx' t payload' = None"
  shows "\<exists>stored. job_IdempotencyKey stored = Some key \<and> job_RequestHash stored = Some (hash payload) \<and>
    CreateWithIdempotency hash flt' e' ctx' d t payload' c' key db' =
      (if hash payload' = hash payload then Inr stored else Inl ErrIdempotencyConflict, db')"
proof -
  obtain r where r: "find (idem_match d t key) (jobs db') = Some r" "idem_match d t key r"
      "j_request_hash r = Some (hash payload)"
    using CreateWithIdempotency_stored [OF assms(1,2)] .
  then have "list_ex (idem_match d t key) (jobs db')" by (auto simp: list_ex_iff dest: find_SomeD)
  with r assms(2-5) show ?thesis
    by (intro exI [of _ "scanJob r"])
      (auto simp: CreateWithIdempotency_def findByIdempotency_def scanJob_def idem_match_def)
qed

definition idem_db :: jobs_db where
  "idem_db = \<lparr> jobs = [], devices = [(''d1'', None)] \<rparr>"

definition idem_env :: env where
  "idem_env = \<lparr> env_now = 1700000000 * second, env_uuid = ''u1'', env_rand = ''abcd'', env_owner = ''h/1'' \<rparr>"

theorem CreateWithIdempotency_repeats_witness:
  "case CreateWithIdempotency json_print no_faults idem_env [] ''d1'' TypeReboot (JObj []) [] ''k'' idem_db of
     (Inr job, db') \<Rightarrow> fst (CreateWithIdempotency json_print no_faults idem_env [] ''d1'' TypeReboot JNull [] ''k'' db') =
        Inl ErrIdempotencyConflict
   | _ \<Rightarrow> False"
proof -
  obtain job db' where run: "CreateWithIdempotency json_print no_faults idem_env [] ''d1'' TypeReboot (JObj []) [] ''k'' idem_db
      = (Inr job, db')"
    by (simp add: CreateWithIdempotency_def checkProtectedWrite_def idem_db_def insert_returning_def insert_ok_def
        TrimSpace_def is_space_def)
  have "TrimSpace ''k'' \<noteq> []" by (simp add: TrimSpace_def is_space_def)
  from CreateWithIdempotency_repeats [OF run this, of no_faults "[]" JNull idem_env "[]"] run show ?thesis
    by (auto simp: checkProtectedWrite_def)
qed

end
