(* ===== verification/Job_Lease.thy ===== *)
theory Job_Lease
  imports Jobs
begin

text \<open>
  Package \<^verbatim>\<open>internal/jobs\<close>, leasing and recovery: \<^verbatim>\<open>lease.go\<close> (leases, the stale-lease reaper),
  \<^verbatim>\<open>diagnostics.go\<close> (the trigger/await/poll cycle) and \<^verbatim>\<open>session_recovery.go\<close> (jobs left behind by a
  dropped CWMP session). Rows that another transaction has locked are skipped by a lease
  (\<open>locked\<close>); among equally old rows the first of the table is taken. Durations are 64-bit: the
  multiplications of the diagnostics window wrap around.
\<close>

section \<open>Leases\<close>

definition sessionLease :: duration where "sessionLease = 15 * minute"
definition workerLease :: duration where "workerLease = 5 * minute"
definition transferDeadline :: duration where "transferDeadline = 24 * hour"

text \<open>\<^verbatim>\<open>int(d.Seconds())\<close>, and SQL's \<^verbatim>\<open>n * interval '1 second'\<close>.\<close>

definition secs :: "duration \<Rightarrow> int" where
  "secs d = (if d \<ge> 0 then d div second else - ((- d) div second))"

definition interval_seconds :: "int \<Rightarrow> duration" where "interval_seconds n = n * second"

definition coalesce :: "'a option \<Rightarrow> 'a \<Rightarrow> 'a" where
  "coalesce x d = (case x of None \<Rightarrow> d | Some v \<Rightarrow> v)"

definition throughput_types :: "job_type set" where
  "throughput_types = {TypeDiagnosticsDownload, TypeDiagnosticsUpload}"

text \<open>The WHERE clause of the lease query.\<close>

definition lease_eligible :: "string \<Rightarrow> job_type list \<Rightarrow> bool \<Rightarrow> job_row \<Rightarrow> bool" where
  "lease_eligible deviceID types uspOnly r \<longleftrightarrow>
     j_device_id r = deviceID \<and> j_status r = StatusQueued \<and> j_type r \<in> set types \<and>
     (if uspOnly then
        (j_type r \<noteq> TypeFirmwareDownload \<or> coalesce (member_text (j_payload r) ''usp_instance'') [] \<noteq> []) \<and>
        (j_type r \<notin> throughput_types \<or> coalesce (member_text (j_payload r) ''usp_command'') [] \<noteq> [])
      else
        coalesce (member_text (j_payload r) ''instances'') ''false'' \<noteq> ''true'' \<and>
        (j_type r \<notin> throughput_types \<or> coalesce (member_text (j_payload r) ''usp_command'') [] = []))"

text \<open>\<^verbatim>\<open>ORDER BY created_at ASC LIMIT 1\<close>.\<close>

fun oldest :: "job_row list \<Rightarrow> job_row option" where
  "oldest [] = None"
| "oldest (r # rs) =
     (case oldest rs of None \<Rightarrow> Some r | Some q \<Rightarrow> Some (if j_created_at q < j_created_at r then q else r))"

definition mark_leased :: "env \<Rightarrow> job_status \<Rightarrow> duration \<Rightarrow> job_row \<Rightarrow> job_row" where
  "mark_leased e status lease r = r\<lparr> j_status := status, j_started_at := Some (env_now e), j_updated_at := env_now e,
     j_attempts := j_attempts r + 1, j_lease_owner := Some (env_owner e),
     j_leased_until := Some (env_now e + interval_seconds (secs lease)) \<rparr>"

text \<open>
  The transaction both lease operations run. A failure at any point (begin, select, update, commit)
  rolls everything back.
\<close>

definition lease_tx ::
  "faults \<Rightarrow> env \<Rightarrow> (string \<Rightarrow> bool) \<Rightarrow> (job_row \<Rightarrow> bool) \<Rightarrow> job_status \<Rightarrow> duration \<Rightarrow> jobs_db \<Rightarrow>
   Job option result \<times> jobs_db" where
  "lease_tx flt e locked eligible status lease db =
     (if flt 0 \<or> flt 1 then (Inl ErrDB, db)
      else case oldest (filter (\<lambda>r. eligible r \<and> \<not> locked (j_id r)) (jobs db)) of
        None \<Rightarrow> (Inr None, db)
      | Some r \<Rightarrow>
          let job = scanJob r in
          if flt 2 \<or> flt 3 then (Inl ErrDB, db)
          else (Inr (Some (job\<lparr> job_Status := status, job_Attempts := job_Attempts job + 1 \<rparr>)),
                update_jobs (\<lambda>q. j_id q = job_ID job) (mark_leased e status lease) db))"

definition leaseForTypes ::
  "faults \<Rightarrow> env \<Rightarrow> (string \<Rightarrow> bool) \<Rightarrow> string \<Rightarrow> job_type list \<Rightarrow> bool \<Rightarrow> jobs_db \<Rightarrow> Job option result \<times> jobs_db" where
  "leaseForTypes flt e locked deviceID types uspOnly =
     lease_tx flt e locked (lease_eligible deviceID types uspOnly) StatusRPCSent sessionLease"

definition LeaseForTypes ::
  "faults \<Rightarrow> env \<Rightarrow> (string \<Rightarrow> bool) \<Rightarrow> string \<Rightarrow> job_type list \<Rightarrow> jobs_db \<Rightarrow> Job option result \<times> jobs_db" where
  "LeaseForTypes flt e locked deviceID types = leaseForTypes flt e locked deviceID types False"

definition LeaseForUSPTypes ::
  "faults \<Rightarrow> env \<Rightarrow> (string \<Rightarrow> bool) \<Rightarrow> string \<Rightarrow> job_type list \<Rightarrow> jobs_db \<Rightarrow> Job option result \<times> jobs_db" where
  "LeaseForUSPTypes flt e locked deviceID types = leaseForTypes flt e locked deviceID types True"

definition Lease ::
  "faults \<Rightarrow> env \<Rightarrow> (string \<Rightarrow> bool) \<Rightarrow> string \<Rightarrow> jobs_db \<Rightarrow> Job option result \<times> jobs_db" where
  "Lease flt e locked deviceID = LeaseForTypes flt e locked deviceID sessionDispatchableTypes"

definition HasOutstandingRPC :: "string \<Rightarrow> jobs_db \<Rightarrow> bool" where
  "HasOutstandingRPC deviceID db = list_ex (\<lambda>r. j_device_id r = deviceID \<and> j_status r = StatusRPCSent) (jobs db)"

definition LeaseNextByType ::
  "faults \<Rightarrow> env \<Rightarrow> (string \<Rightarrow> bool) \<Rightarrow> job_type \<Rightarrow> jobs_db \<Rightarrow> Job option result \<times> jobs_db" where
  "LeaseNextByType flt e locked jobType =
     lease_tx flt e locked (\<lambda>r. j_status r = StatusQueued \<and> j_type r = jobType) StatusInProgress workerLease"

definition leased :: "job_status \<Rightarrow> bool" where
  "leased s = (s \<in> {StatusRPCSent, StatusInProgress})"

definition ExtendLease :: "faults \<Rightarrow> time \<Rightarrow> string \<Rightarrow> duration \<Rightarrow> jobs_db \<Rightarrow> unit result \<times> jobs_db" where
  "ExtendLease flt now jid d = exec_update flt (\<lambda>r. j_id r = jid \<and> leased (j_status r))
     (\<lambda>r. r\<lparr> j_leased_until := Some (now + interval_seconds (secs d)), j_updated_at := now \<rparr>)"

section \<open>The stale-lease reaper\<close>

definition nonRepeatableTypes :: "job_type list" where
  "nonRepeatableTypes = [TypeAddObject, TypeDeleteObject, TypeReboot, TypeFactoryReset, TypeFirmwareDownload, TypeUpload]"

record RecoveryResult =
  Requeued :: nat
  DeadLettered :: nat
  DeadLetteredUnsafeRetry :: nat
  TimedOut :: nat
  DiagnosticsTimedOut :: nat

definition no_recovery :: RecoveryResult where
  "no_recovery = \<lparr> Requeued = 0, DeadLettered = 0, DeadLetteredUnsafeRetry = 0, TimedOut = 0, DiagnosticsTimedOut = 0 \<rparr>"

text \<open>
  \<^verbatim>\<open>COALESCE(leased_until, started_at + 15 min) < now()\<close>: unknown, so not selected, when both
  columns are NULL.
\<close>

definition lease_expired :: "time \<Rightarrow> job_row \<Rightarrow> bool" where
  "lease_expired now r =
     (case (j_leased_until r, j_started_at r) of
        (Some t, _) \<Rightarrow> t < now
      | (None, Some s) \<Rightarrow> s + interval_seconds (secs sessionLease) < now
      | (None, None) \<Rightarrow> False)"

definition expired_unsafe :: "time \<Rightarrow> job_row \<Rightarrow> bool" where
  "expired_unsafe now r \<longleftrightarrow> leased (j_status r) \<and> lease_expired now r \<and> j_type r \<in> set nonRepeatableTypes"

definition dead_letter_unsafe :: "time \<Rightarrow> job_row \<Rightarrow> job_row" where
  "dead_letter_unsafe now r = r\<lparr> j_status := StatusFailed, j_completed_at := Some now, j_updated_at := now,
     j_fault_code := Some ''LEASE_EXPIRED_UNSAFE_RETRY'',
     j_fault_string := Some (''job lease expired after '' @ Itoa (j_attempts r) @ '' attempt(s); type '' @
       job_type_name (j_type r) @
       '' is not safe to blindly re-dispatch (it may already have executed on the device) -- requires manual review; last holder '' @
       coalesce (j_lease_owner r) ''unknown''),
     j_lease_owner := None, j_leased_until := None \<rparr>"

definition expired_exhausted :: "time \<Rightarrow> job_row \<Rightarrow> bool" where
  "expired_exhausted now r \<longleftrightarrow> leased (j_status r) \<and> lease_expired now r \<and> j_attempts r \<ge> j_max_attempts r"

definition dead_letter :: "time \<Rightarrow> job_row \<Rightarrow> job_row" where
  "dead_letter now r = r\<lparr> j_status := StatusFailed, j_completed_at := Some now, j_updated_at := now,
     j_fault_code := Some ''LEASE_EXPIRED'',
     j_fault_string := Some (''job lease expired after '' @ Itoa (j_attempts r) @ '' attempt(s); last holder '' @
       coalesce (j_lease_owner r) ''unknown''),
     j_lease_owner := None, j_leased_until := None \<rparr>"

definition expired_retryable :: "time \<Rightarrow> job_row \<Rightarrow> bool" where
  "expired_retryable now r \<longleftrightarrow> leased (j_status r) \<and> lease_expired now r \<and> j_attempts r < j_max_attempts r"

definition requeue_row :: "time \<Rightarrow> job_row \<Rightarrow> job_row" where
  "requeue_row now r = r\<lparr> j_status := StatusQueued, j_updated_at := now, j_lease_owner := None, j_leased_until := None \<rparr>"

definition transfer_hours :: int where "transfer_hours = transferDeadline div hour"

definition transfer_stale :: "time \<Rightarrow> job_row \<Rightarrow> bool" where
  "transfer_stale now r \<longleftrightarrow> j_status r = StatusAwaitingTransferComplete \<and>
     coalesce (j_started_at r) (j_created_at r) < now - transfer_hours * hour"

definition time_out_transfer :: "time \<Rightarrow> job_row \<Rightarrow> job_row" where
  "time_out_transfer now r = r\<lparr> j_status := StatusFailed, j_completed_at := Some now, j_updated_at := now,
     j_fault_code := Some ''TRANSFER_TIMEOUT'',
     j_fault_string := Some (''no TransferComplete received within '' @ Itoa transfer_hours @ '' hours'') \<rparr>"

definition diagnostics_stale :: "time \<Rightarrow> job_row \<Rightarrow> bool" where
  "diagnostics_stale now r \<longleftrightarrow> j_status r = StatusAwaitingDiagnosticsComplete \<and>
     (case j_diagnostics_deadline r of None \<Rightarrow> False | Some d \<Rightarrow> d < now)"

definition time_out_diagnostics :: "time \<Rightarrow> job_row \<Rightarrow> job_row" where
  "time_out_diagnostics now r = r\<lparr> j_status := StatusTimeout, j_completed_at := Some now, j_updated_at := now,
     j_fault_code := Some ''DIAGNOSTICS_TIMEOUT'',
     j_fault_string := Some ''diagnostic result not available by its deadline (no Inform with 8 DIAGNOSTICS COMPLETE and no poll reading a final DiagnosticsState)'' \<rparr>"

definition timeOutAwaitingDiagnostics :: "bool \<Rightarrow> time \<Rightarrow> jobs_db \<Rightarrow> nat result \<times> jobs_db" where
  "timeOutAwaitingDiagnostics fails now db =
     (if fails then (Inl ErrDB, db)
      else (Inr (rows_affected (diagnostics_stale now) (jobs db)),
            update_jobs (diagnostics_stale now) (time_out_diagnostics now) db))"

text \<open>Five statements, each in its own transaction; the first failing one ends the pass.\<close>

definition RecoverExpiredLeases ::
  "faults \<Rightarrow> time \<Rightarrow> jobs_db \<Rightarrow> (RecoveryResult \<times> job_error option) \<times> jobs_db" where
  "RecoverExpiredLeases flt now db0 =
     (let res0 = no_recovery in
      if flt 0 then ((res0, Some ErrDB), db0) else
      let res1 = res0\<lparr> DeadLetteredUnsafeRetry := rows_affected (expired_unsafe now) (jobs db0) \<rparr>;
          db1 = update_jobs (expired_unsafe now) (dead_letter_unsafe now) db0 in
      if flt 1 then ((res1, Some ErrDB), db1) else
      let res2 = res1\<lparr> DeadLettered := rows_affected (expired_exhausted now) (jobs db1) \<rparr>;
          db2 = update_jobs (expired_exhausted now) (dead_letter now) db1 in
      if flt 2 then ((res2, Some ErrDB), db2) else
      let res3 = res2\<lparr> Requeued := rows_affected (expired_retryable now) (jobs db2) \<rparr>;
          db3 = update_jobs (expired_retryable now) (requeue_row now) db2 in
      if flt 3 then ((res3, Some ErrDB), db3) else
      let res4 = res3\<lparr> TimedOut := rows_affected (transfer_stale now) (jobs db3) \<rparr>;
          db4 = update_jobs (transfer_stale now) (time_out_transfer now) db3 in
      (case timeOutAwaitingDiagnostics (flt 4) now db4 of
         (Inl err, db5) \<Rightarrow> ((res4, Some err), db5)
       | (Inr n, db5) \<Rightarrow> ((res4\<lparr> DiagnosticsTimedOut := n \<rparr>, None), db5)))"

definition CountStaleLeases :: "time \<Rightarrow> jobs_db \<Rightarrow> nat" where
  "CountStaleLeases now db = rows_affected (\<lambda>r. leased (j_status r) \<and>
     (case j_leased_until r of None \<Rightarrow> False | Some t \<Rightarrow> t < now)) (jobs db)"

section \<open>Diagnostics\<close>

definition DiagnosticsMaxAttempts :: int where "DiagnosticsMaxAttempts = 40"
definition diagnosticsBaseWindow :: duration where "diagnosticsBaseWindow = 10 * minute"
definition diagnosticsMaxWindow :: duration where "diagnosticsMaxWindow = 2 * hour"

definition IsCWMPDiagnosticType :: "job_type \<Rightarrow> bool" where
  "IsCWMPDiagnosticType t = (t \<in> {TypeDiagnosticsPing, TypeDiagnosticsTraceroute, TypeDiagnosticsDownload, TypeDiagnosticsUpload})"

definition DiagnosticsTriggered :: "Job option \<Rightarrow> bool" where
  "DiagnosticsTriggered job = (case job of None \<Rightarrow> False | Some j \<Rightarrow> job_DiagnosticsDeadline j \<noteq> None)"

text \<open>The product and sum of 64-bit signed integers.\<close>

definition wrap64 :: "int \<Rightarrow> int" where "wrap64 x = sint (word_of_int x :: 64 word)"

definition expected_run :: "Job \<Rightarrow> duration" where
  "expected_run job =
     (case job_Type job of
        TypeDiagnosticsPing \<Rightarrow>
          (case dec_DiagnosticsPingPayload (job_Payload job) of
             None \<Rightarrow> 0
           | Some p \<Rightarrow> if NumberOfRepetitions p > 0 \<and> ping_Timeout p > 0
                       then wrap64 (wrap64 (NumberOfRepetitions p * ping_Timeout p) * millisecond) else 0)
      | TypeDiagnosticsTraceroute \<Rightarrow>
          (case dec_DiagnosticsTraceroutePayload (job_Payload job) of
             None \<Rightarrow> 0
           | Some p \<Rightarrow> if NumberOfTries p > 0 \<and> trace_Timeout p > 0 \<and> MaxHopCount p > 0
                       then wrap64 (wrap64 (wrap64 (NumberOfTries p * trace_Timeout p) * MaxHopCount p) * millisecond)
                       else 0)
      | _ \<Rightarrow> 0)"

definition DiagnosticsWindow :: "Job option \<Rightarrow> duration" where
  "DiagnosticsWindow job =
     (let expected = (case job of None \<Rightarrow> 0 | Some j \<Rightarrow> expected_run j);
          window = wrap64 (diagnosticsBaseWindow + expected)
      in if window > diagnosticsMaxWindow \<or> window < 0 then diagnosticsMaxWindow else window)"

definition DiagnosticsExpired :: "Job option \<Rightarrow> time \<Rightarrow> bool" where
  "DiagnosticsExpired job now =
     (case job of None \<Rightarrow> False
      | Some j \<Rightarrow> (case job_DiagnosticsDeadline j of None \<Rightarrow> False | Some d \<Rightarrow> now > d))"

text \<open>The guard of the updates that must only apply to the attempt they belong to.\<close>

definition current_attempt :: "Job \<Rightarrow> job_row \<Rightarrow> bool" where
  "current_attempt job r \<longleftrightarrow> j_id r = job_ID job \<and> j_attempts r = job_Attempts job \<and> j_status r = StatusRPCSent"

definition set_deadline :: "time \<Rightarrow> duration \<Rightarrow> job_row \<Rightarrow> job_row" where
  "set_deadline now window r =
     r\<lparr> j_diagnostics_deadline := Some (coalesce (j_diagnostics_deadline r) (now + interval_seconds (secs window))) \<rparr>"

definition MarkAwaitingDiagnostics :: "faults \<Rightarrow> time \<Rightarrow> Job \<Rightarrow> duration \<Rightarrow> jobs_db \<Rightarrow> bool result \<times> jobs_db" where
  "MarkAwaitingDiagnostics flt now job window = exec_guarded flt (current_attempt job)
     (\<lambda>r. (set_deadline now window r)\<lparr> j_status := StatusAwaitingDiagnosticsComplete, j_updated_at := now,
            j_lease_owner := None, j_leased_until := None \<rparr>)"

definition ReleaseAwaitingDiagnostics :: "faults \<Rightarrow> time \<Rightarrow> string \<Rightarrow> jobs_db \<Rightarrow> nat result \<times> jobs_db" where
  "ReleaseAwaitingDiagnostics flt now deviceID db =
     (let p = (\<lambda>r. j_device_id r = deviceID \<and> j_status r = StatusAwaitingDiagnosticsComplete) in
      if flt 0 then (Inl ErrDB, db)
      else (Inr (rows_affected p (jobs db)), update_jobs p (\<lambda>r. r\<lparr> j_status := StatusQueued, j_updated_at := now \<rparr>) db))"

section \<open>Jobs of a dropped session\<close>

definition FaultSessionDropped :: string where "FaultSessionDropped = ''SESSION_DROPPED_OUTCOME_UNKNOWN''"

datatype DroppedSessionAction = DroppedRequeue | DroppedSucceeded | DroppedAwaitTransfer | DroppedFailed
  | DroppedDiagnosticsTriggered

text \<open>\<open>methodKeys m k\<close>: the new Inform carries an event \<^verbatim>\<open>M <m>\<close> with command key \<open>k\<close>.\<close>

definition ClassifyDroppedSessionJob :: "Job \<Rightarrow> (string \<Rightarrow> string \<Rightarrow> bool) \<Rightarrow> bool \<Rightarrow> DroppedSessionAction" where
  "ClassifyDroppedSessionJob job methodKeys diagnosticsComplete =
     (if diagnosticsComplete \<and> IsCWMPDiagnosticType (job_Type job) \<and> \<not> DiagnosticsTriggered (Some job)
      then DroppedDiagnosticsTriggered
      else if job_Type job = TypeReboot then
        (if methodKeys ''Reboot'' (job_CommandKey job) then DroppedSucceeded else DroppedFailed)
      else if job_Type job \<in> {TypeFirmwareDownload, TypeUpload} then DroppedAwaitTransfer
      else if job_Type job \<in> {TypeAddObject, TypeDeleteObject, TypeFactoryReset} then DroppedFailed
      else if job_Attempts job \<ge> job_MaxAttempts job then DroppedFailed
      else DroppedRequeue)"

definition oldest_first :: "job_row list \<Rightarrow> job_row list" where
  "oldest_first rs = sort_key j_created_at rs"

definition DroppedSessionJobs :: "faults \<Rightarrow> string \<Rightarrow> jobs_db \<Rightarrow> Job list result" where
  "DroppedSessionJobs flt deviceID db =
     (let types = filter (\<lambda>t. t \<noteq> TypeParameterDiscovery) sessionDispatchableTypes in
      if flt 0 then Inl ErrDB
      else Inr (map scanJob (oldest_first (filter (\<lambda>r. j_device_id r = deviceID \<and> j_status r = StatusRPCSent \<and>
             j_type r \<in> set types) (jobs db)))))"

definition dropped_update :: "time \<Rightarrow> Job \<Rightarrow> DroppedSessionAction \<Rightarrow> job_row \<Rightarrow> job_row" where
  "dropped_update now job action r =
     (let r0 = r\<lparr> j_updated_at := now, j_lease_owner := None, j_leased_until := None \<rparr> in
      case action of
        DroppedRequeue \<Rightarrow> r0\<lparr> j_status := StatusQueued \<rparr>
      | DroppedSucceeded \<Rightarrow> r0\<lparr> j_status := StatusSuccess, j_completed_at := Some now \<rparr>
      | DroppedDiagnosticsTriggered \<Rightarrow>
          (set_deadline now (DiagnosticsWindow (Some job)) r0)\<lparr> j_status := StatusQueued \<rparr>
      | DroppedAwaitTransfer \<Rightarrow> r0\<lparr> j_status := StatusAwaitingTransferComplete \<rparr>
      | DroppedFailed \<Rightarrow> r0\<lparr> j_status := StatusFailed, j_completed_at := Some now,
          j_fault_code := Some FaultSessionDropped,
          j_fault_string := Some (''the CPE ended the CWMP session before answering this '' @
            job_type_name (job_Type job) @ '' RPC; it may or may not have executed '' @
            [CHR 0xE2, CHR 0x80, CHR 0x94] @ '' review before retrying'') \<rparr>)"

definition ApplyDroppedSessionAction ::
  "faults \<Rightarrow> time \<Rightarrow> Job \<Rightarrow> DroppedSessionAction \<Rightarrow> jobs_db \<Rightarrow> bool result \<times> jobs_db" where
  "ApplyDroppedSessionAction flt now job action =
     exec_guarded flt (current_attempt job) (dropped_update now job action)"

definition LateTransferReconcilable :: "Job \<Rightarrow> bool" where
  "LateTransferReconcilable job =
     (case (job_Status job, job_FaultCode job) of
        (StatusFailed, Some code) \<Rightarrow>
          code \<in> {''LEASE_EXPIRED_UNSAFE_RETRY'', FaultSessionDropped, ''TRANSFER_TIMEOUT''} \<and>
          job_Type job \<in> {TypeFirmwareDownload, TypeUpload}
      | _ \<Rightarrow> False)"

section \<open>The reaper, row by row\<close>

text \<open>What one pass does to a row: exactly one of the five outcomes, or nothing.\<close>

definition reap_row :: "time \<Rightarrow> job_row \<Rightarrow> job_row" where
  "reap_row now r =
     (if expired_unsafe now r then redact_finished_job_secrets r (dead_letter_unsafe now r)
      else if expired_exhausted now r then redact_finished_job_secrets r (dead_letter now r)
      else if expired_retryable now r then requeue_row now r
      else if transfer_stale now r then redact_finished_job_secrets r (time_out_transfer now r)
      else if diagnostics_stale now r then redact_finished_job_secrets r (time_out_diagnostics now r)
      else r)"

lemmas reap_conds = expired_unsafe_def expired_exhausted_def expired_retryable_def transfer_stale_def
  diagnostics_stale_def leased_def

lemma reap_status [simp]:
  "j_status (dead_letter_unsafe now r) = StatusFailed" "j_status (dead_letter now r) = StatusFailed"
  "j_status (requeue_row now r) = StatusQueued" "j_status (time_out_transfer now r) = StatusFailed"
  "j_status (time_out_diagnostics now r) = StatusTimeout"
  by (simp_all add: dead_letter_unsafe_def dead_letter_def requeue_row_def time_out_transfer_def time_out_diagnostics_def)

lemma reap_keys [simp]:
  "j_id (dead_letter_unsafe now r) = j_id r" "j_id (dead_letter now r) = j_id r" "j_id (requeue_row now r) = j_id r"
  "j_id (time_out_transfer now r) = j_id r" "j_id (time_out_diagnostics now r) = j_id r"
  "j_type (dead_letter_unsafe now r) = j_type r" "j_type (dead_letter now r) = j_type r"
  "j_type (requeue_row now r) = j_type r" "j_type (time_out_transfer now r) = j_type r"
  "j_type (time_out_diagnostics now r) = j_type r"
  "j_attempts (dead_letter_unsafe now r) = j_attempts r" "j_attempts (dead_letter now r) = j_attempts r"
  "j_attempts (requeue_row now r) = j_attempts r" "j_attempts (time_out_transfer now r) = j_attempts r"
  "j_attempts (time_out_diagnostics now r) = j_attempts r"
  "j_payload (dead_letter_unsafe now r) = j_payload r" "j_payload (dead_letter now r) = j_payload r"
  "j_payload (requeue_row now r) = j_payload r" "j_payload (time_out_transfer now r) = j_payload r"
  "j_payload (time_out_diagnostics now r) = j_payload r"
  by (simp_all add: dead_letter_unsafe_def dead_letter_def requeue_row_def time_out_transfer_def time_out_diagnostics_def)

text \<open>A row that a statement has settled is not selected again by a later one.\<close>

lemma settled_not_selected:
  assumes "finished (j_status r) \<or> j_status r = StatusQueued"
  shows "\<not> expired_exhausted now r" "\<not> expired_retryable now r" "\<not> transfer_stale now r" "\<not> diagnostics_stale now r"
    "\<not> expired_unsafe now r"
  using assms by (auto simp: reap_conds finished_def)

text \<open>One statement, seen from one row.\<close>

definition stage :: "(job_row \<Rightarrow> bool) \<Rightarrow> (job_row \<Rightarrow> job_row) \<Rightarrow> job_row \<Rightarrow> job_row" where
  "stage p f r = (if p r then redact_finished_job_secrets r (f r) else r)"

lemma stage_hit: "p r \<Longrightarrow> stage p f r = redact_finished_job_secrets r (f r)"
  and stage_skip: "\<not> p r \<Longrightarrow> stage p f r = r"
  by (simp_all add: stage_def)

lemma jobs_update_stage: "jobs (update_jobs p f db) = map (stage p f) (jobs db)"
  by (simp add: jobs_update_jobs stage_def)

lemma reap_row_stages:
  "stage (diagnostics_stale now) (time_out_diagnostics now)
     (stage (transfer_stale now) (time_out_transfer now)
       (stage (expired_retryable now) (requeue_row now)
         (stage (expired_exhausted now) (dead_letter now)
           (stage (expired_unsafe now) (dead_letter_unsafe now) r)))) = reap_row now r"
proof -
  consider "expired_unsafe now r" | "\<not> expired_unsafe now r" "expired_exhausted now r"
    | "\<not> expired_unsafe now r" "\<not> expired_exhausted now r" "expired_retryable now r"
    | "\<not> expired_unsafe now r" "\<not> expired_exhausted now r" "\<not> expired_retryable now r" "transfer_stale now r"
    | "\<not> expired_unsafe now r" "\<not> expired_exhausted now r" "\<not> expired_retryable now r" "\<not> transfer_stale now r"
      "diagnostics_stale now r"
    | "\<not> expired_unsafe now r" "\<not> expired_exhausted now r" "\<not> expired_retryable now r" "\<not> transfer_stale now r"
      "\<not> diagnostics_stale now r"
    by blast
  then show ?thesis
    by cases (simp_all add: stage_hit stage_skip settled_not_selected reap_row_def)
qed

lemma RecoverExpiredLeases_jobs:
  "jobs (snd (RecoverExpiredLeases no_faults now db)) = map (reap_row now) (jobs db)"
proof -
  have "jobs (snd (RecoverExpiredLeases no_faults now db)) =
      jobs (update_jobs (diagnostics_stale now) (time_out_diagnostics now)
        (update_jobs (transfer_stale now) (time_out_transfer now)
          (update_jobs (expired_retryable now) (requeue_row now)
            (update_jobs (expired_exhausted now) (dead_letter now)
              (update_jobs (expired_unsafe now) (dead_letter_unsafe now) db)))))"
    by (simp add: RecoverExpiredLeases_def timeOutAwaitingDiagnostics_def Let_def)
  then show ?thesis by (simp only: jobs_update_stage map_map comp_def reap_row_stages)
qed

lemma RecoverExpiredLeases_ok: "snd (fst (RecoverExpiredLeases no_faults now db)) = None"
  by (simp add: RecoverExpiredLeases_def timeOutAwaitingDiagnostics_def Let_def)

lemma filter_update_jobs:
  assumes "\<And>r. p r \<Longrightarrow> \<not> q (redact_finished_job_secrets r (f r))"
  shows "length (filter q (jobs (update_jobs p f db))) = length (filter (\<lambda>r. q r \<and> \<not> p r) (jobs db))"
  unfolding jobs_update_jobs
proof (induction "jobs db" arbitrary: db)
  case (Cons r rs)
  from Cons.hyps(1) [of "db\<lparr> jobs := rs \<rparr>"] Cons.hyps(2) [symmetric] assms show ?case by auto
qed simp


lemma update_jobs_idle: "(\<And>r. r \<in> set (jobs db) \<Longrightarrow> \<not> p r) \<Longrightarrow> update_jobs p f db = db"
  by (simp add: update_jobs_def update_where_None)

definition reapable :: "time \<Rightarrow> job_row \<Rightarrow> bool" where
  "reapable now r \<longleftrightarrow> expired_unsafe now r \<or> expired_exhausted now r \<or> expired_retryable now r \<or>
     transfer_stale now r \<or> diagnostics_stale now r"

lemma reap_row_settles: "\<not> reapable now (reap_row now r)"
  by (simp add: reap_row_def reapable_def settled_not_selected)

lemma RecoverExpiredLeases_idle:
  assumes "\<And>r. r \<in> set (jobs db) \<Longrightarrow> \<not> reapable now r"
  shows "RecoverExpiredLeases no_faults now db = ((no_recovery, None), db)"
proof -
  have cls: "\<not> expired_unsafe now r \<and> \<not> expired_exhausted now r \<and> \<not> expired_retryable now r \<and>
      \<not> transfer_stale now r \<and> \<not> diagnostics_stale now r" if "r \<in> set (jobs db)" for r
    using assms [OF that] by (simp add: reapable_def)
  then have "filter (expired_unsafe now) (jobs db) = []" "filter (expired_exhausted now) (jobs db) = []"
    "filter (expired_retryable now) (jobs db) = []" "filter (transfer_stale now) (jobs db) = []"
    "filter (diagnostics_stale now) (jobs db) = []"
    by (auto simp: filter_empty_conv)
  with cls show ?thesis
    by (simp add: RecoverExpiredLeases_def timeOutAwaitingDiagnostics_def Let_def update_jobs_idle rows_affected_def
        no_recovery_def)
qed

text \<open>How many rows a statement selects after earlier ones have settled theirs.\<close>

lemma later_unsafe: "length (filter q (jobs (update_jobs (expired_unsafe now) (dead_letter_unsafe now) db))) =
    length (filter (\<lambda>r. q r \<and> \<not> expired_unsafe now r) (jobs db))"
  if "\<And>r. q r \<Longrightarrow> \<not> finished (j_status r)" for q
  by (rule filter_update_jobs) (use that in force)

lemma later_exhausted: "length (filter q (jobs (update_jobs (expired_exhausted now) (dead_letter now) db))) =
    length (filter (\<lambda>r. q r \<and> \<not> expired_exhausted now r) (jobs db))"
  if "\<And>r. q r \<Longrightarrow> \<not> finished (j_status r)" for q
  by (rule filter_update_jobs) (use that in force)

lemma later_retryable: "length (filter q (jobs (update_jobs (expired_retryable now) (requeue_row now) db))) =
    length (filter (\<lambda>r. q r \<and> \<not> expired_retryable now r) (jobs db))"
  if "\<And>r. q r \<Longrightarrow> j_status r \<noteq> StatusQueued" for q
  by (rule filter_update_jobs) (use that in force)

lemma later_transfer: "length (filter q (jobs (update_jobs (transfer_stale now) (time_out_transfer now) db))) =
    length (filter (\<lambda>r. q r \<and> \<not> transfer_stale now r) (jobs db))"
  if "\<And>r. q r \<Longrightarrow> \<not> finished (j_status r)" for q
  by (rule filter_update_jobs) (use that in force)

lemma reap_counts:
  "fst (RecoverExpiredLeases no_faults now db) =
     (\<lparr> Requeued = length (filter (\<lambda>r. expired_retryable now r \<and> \<not> expired_unsafe now r) (jobs db)),
        DeadLettered = length (filter (\<lambda>r. expired_exhausted now r \<and> \<not> expired_unsafe now r) (jobs db)),
        DeadLetteredUnsafeRetry = length (filter (expired_unsafe now) (jobs db)),
        TimedOut = length (filter (transfer_stale now) (jobs db)),
        DiagnosticsTimedOut = length (filter (diagnostics_stale now) (jobs db)) \<rparr>, None)"
proof -
  have open_class: "\<not> finished (j_status r)" "j_status r \<noteq> StatusQueued" if "reapable now r" for r
    using that by (auto simp: reapable_def settled_not_selected)
  have sel: "expired_exhausted now r \<Longrightarrow> reapable now r" "expired_retryable now r \<Longrightarrow> reapable now r"
    "transfer_stale now r \<Longrightarrow> reapable now r" "diagnostics_stale now r \<Longrightarrow> reapable now r" for r
    by (simp_all add: reapable_def)
  have disj: "expired_retryable now r \<and> \<not> expired_exhausted now r \<longleftrightarrow> expired_retryable now r"
    "transfer_stale now r \<and> \<not> expired_retryable now r \<longleftrightarrow> transfer_stale now r"
    "transfer_stale now r \<and> \<not> expired_exhausted now r \<longleftrightarrow> transfer_stale now r"
    "transfer_stale now r \<and> \<not> expired_unsafe now r \<longleftrightarrow> transfer_stale now r"
    "diagnostics_stale now r \<and> \<not> transfer_stale now r \<longleftrightarrow> diagnostics_stale now r"
    "diagnostics_stale now r \<and> \<not> expired_retryable now r \<longleftrightarrow> diagnostics_stale now r"
    "diagnostics_stale now r \<and> \<not> expired_exhausted now r \<longleftrightarrow> diagnostics_stale now r"
    "diagnostics_stale now r \<and> \<not> expired_unsafe now r \<longleftrightarrow> diagnostics_stale now r" for r
    by (auto simp: reap_conds)
  note steps = later_unsafe later_exhausted later_retryable later_transfer
  show ?thesis
    by (simp add: RecoverExpiredLeases_def timeOutAwaitingDiagnostics_def Let_def rows_affected_def steps
        open_class sel disj no_recovery_def)
qed

text \<open>
  The counts the pass reports are the numbers of jobs in each class before it: no job is counted
  twice, and running the pass again at the same instant finds nothing to do.
\<close>

theorem RecoverExpiredLeases_counts:
  "fst (RecoverExpiredLeases no_faults now db) =
     (\<lparr> Requeued = length (filter (\<lambda>r. expired_retryable now r \<and> \<not> expired_unsafe now r) (jobs db)),
        DeadLettered = length (filter (\<lambda>r. expired_exhausted now r \<and> \<not> expired_unsafe now r) (jobs db)),
        DeadLetteredUnsafeRetry = length (filter (expired_unsafe now) (jobs db)),
        TimedOut = length (filter (transfer_stale now) (jobs db)),
        DiagnosticsTimedOut = length (filter (diagnostics_stale now) (jobs db)) \<rparr>, None) \<and>
   RecoverExpiredLeases no_faults now (snd (RecoverExpiredLeases no_faults now db)) =
     ((no_recovery, None), snd (RecoverExpiredLeases no_faults now db))"
  using reap_row_settles
  by (auto simp: reap_counts RecoverExpiredLeases_jobs intro!: RecoverExpiredLeases_idle)

section \<open>Leasing\<close>

lemma oldest_None [simp]: "oldest rs = None \<longleftrightarrow> rs = []"
  by (cases rs) (auto split: option.splits)

lemma oldest_Some: "oldest rs = Some r \<Longrightarrow> r \<in> set rs \<and> (\<forall>q \<in> set rs. j_created_at r \<le> j_created_at q)"
proof (induction rs arbitrary: r)
  case (Cons x rs)
  show ?case
  proof (cases "oldest rs")
    case None
    with Cons.prems show ?thesis by simp
  next
    case (Some q)
    with Cons.IH [OF Some] Cons.prems show ?thesis
      by (cases "j_created_at q < j_created_at x") auto
  qed
qed simp

text \<open>The outcomes of a lease transaction.\<close>

lemma lease_tx_cases:
  assumes "lease_tx flt e locked eligible status lease db = (res, db')"
  obtains (failed) err where "res = Inl err" "db' = db"
    | (idle) "res = Inr None" "db' = db"
        "\<And>r. r \<in> set (jobs db) \<Longrightarrow> eligible r \<Longrightarrow> locked (j_id r)"
    | (leased) r where "r \<in> set (jobs db)" "eligible r" "\<not> locked (j_id r)"
        "\<And>q. q \<in> set (jobs db) \<Longrightarrow> eligible q \<Longrightarrow> \<not> locked (j_id q) \<Longrightarrow> j_created_at r \<le> j_created_at q"
        "res = Inr (Some ((scanJob r)\<lparr> job_Status := status, job_Attempts := j_attempts r + 1 \<rparr>))"
        "db' = update_jobs (\<lambda>q. j_id q = j_id r) (mark_leased e status lease) db"
proof (cases "oldest (filter (\<lambda>r. eligible r \<and> \<not> locked (j_id r)) (jobs db))")
  case None
  then have "\<And>r. r \<in> set (jobs db) \<Longrightarrow> eligible r \<Longrightarrow> locked (j_id r)" by (auto simp: filter_empty_conv)
  moreover from None assms have "res = Inl ErrDB \<and> db' = db \<or> res = Inr None \<and> db' = db"
    by (auto simp: lease_tx_def split: if_splits)
  ultimately show thesis using failed idle by blast
next
  case (Some r)
  from oldest_Some [OF this] have r: "r \<in> set (jobs db)" "eligible r" "\<not> locked (j_id r)"
    "\<And>q. q \<in> set (jobs db) \<Longrightarrow> eligible q \<Longrightarrow> \<not> locked (j_id q) \<Longrightarrow> j_created_at r \<le> j_created_at q"
    by auto
  show thesis
  proof (cases "flt 0 \<or> flt 1 \<or> flt 2 \<or> flt 3")
    case True
    with Some assms have "res = Inl ErrDB" "db' = db" by (auto simp: lease_tx_def Let_def split: if_splits)
    then show thesis by (rule failed)
  next
    case False
    with Some assms show thesis
      by (intro leased [OF r]) (auto simp: lease_tx_def Let_def scanJob_def)
  qed
qed

lemma mark_leased_sel [simp]:
  "j_id (mark_leased e s l r) = j_id r" "j_type (mark_leased e s l r) = j_type r"
  "j_device_id (mark_leased e s l r) = j_device_id r"
  "j_status (mark_leased e s l r) = s" "j_attempts (mark_leased e s l r) = j_attempts r + 1"
  "j_payload (mark_leased e s l r) = j_payload r" "j_command_key (mark_leased e s l r) = j_command_key r"
  by (simp_all add: mark_leased_def)

section \<open>The diagnostics window\<close>

lemma wrap64_id: "- (2 ^ 63) \<le> x \<Longrightarrow> x < 2 ^ 63 \<Longrightarrow> wrap64 x = x"
  by (simp add: wrap64_def sint_word_ariths sint_sbintrunc' signed_take_bit_int_eq_self)

text \<open>
  The time the ACS waits for a ping or traceroute result is never negative and never more than
  two hours; while the test's own run time (repetitions or tries and hops times timeout, in
  milliseconds) stays below nine billion seconds, it is exactly ten minutes plus that run time, capped
  at two hours.
\<close>

theorem DiagnosticsWindow_exact:
  assumes "job_Type j = TypeDiagnosticsPing" "dec_DiagnosticsPingPayload (job_Payload j) = Some p"
    and "0 < NumberOfRepetitions p" "0 < ping_Timeout p"
    and "NumberOfRepetitions p * ping_Timeout p \<le> 9 * 10 ^ 12"
  shows "DiagnosticsWindow (Some j) =
           min diagnosticsMaxWindow (diagnosticsBaseWindow + NumberOfRepetitions p * ping_Timeout p * millisecond) \<and>
         0 \<le> DiagnosticsWindow job' \<and> DiagnosticsWindow job' \<le> diagnosticsMaxWindow"
proof -
  define m where "m = NumberOfRepetitions p * ping_Timeout p"
  have m: "0 < m" "m \<le> 9 * 10 ^ 12" using assms by (simp_all add: m_def)
  have "wrap64 m = m" using m by (simp add: wrap64_id)
  moreover have "wrap64 (m * 1000000) = m * 1000000" using m by (simp add: wrap64_id)
  moreover have "wrap64 (600000000000 + m * 1000000) = 600000000000 + m * 1000000" using m by (simp add: wrap64_id)
  ultimately have "DiagnosticsWindow (Some j) =
      (if 7200000000000 < 600000000000 + m * 1000000 then 7200000000000 else 600000000000 + m * 1000000)"
    using assms m
    by (simp add: DiagnosticsWindow_def expected_run_def Let_def m_def [symmetric] time_units
        diagnosticsBaseWindow_def diagnosticsMaxWindow_def)
  moreover have "0 \<le> DiagnosticsWindow job'" "DiagnosticsWindow job' \<le> diagnosticsMaxWindow"
    by (simp_all add: DiagnosticsWindow_def diagnosticsMaxWindow_def time_units Let_def)
  ultimately show ?thesis
    by (simp add: min_def m_def [symmetric] time_units diagnosticsBaseWindow_def diagnosticsMaxWindow_def)
qed

lemmas parse_int_eval = ParseInt_def ParseUint_def HasPrefix_def digit_val_def Let_def

definition ping_job :: "string \<Rightarrow> string \<Rightarrow> Job" where
  "ping_job n t = scanJob (new_row \<lparr> env_now = 0, env_uuid = ''u'', env_rand = ''abcd'', env_owner = [] \<rparr>
     ''d'' TypeDiagnosticsPing (JObj [(''number_of_repetitions'', JNum n), (''timeout'', JNum t)]) [] 40 None None)"

lemma dec_ping_job:
  assumes "ParseInt 10 n = Some n'" "ParseInt 10 t = Some t'"
  obtains p where "dec_DiagnosticsPingPayload (job_Payload (ping_job n t)) = Some p"
    "NumberOfRepetitions p = n'" "ping_Timeout p = t'" "job_Type (ping_job n t) = TypeDiagnosticsPing"
proof -
  have fold: "EqualFold ''number_of_repetitions'' ''number_of_repetitions''" "EqualFold ''timeout'' ''timeout''"
    "\<not> EqualFold ''number_of_repetitions'' ''timeout''" "\<not> EqualFold ''timeout'' ''number_of_repetitions''"
    "\<not> EqualFold ''number_of_repetitions'' ''host''" "\<not> EqualFold ''timeout'' ''host''"
    "\<not> EqualFold ''number_of_repetitions'' ''data_block_size''" "\<not> EqualFold ''timeout'' ''data_block_size''"
    "\<not> EqualFold ''number_of_repetitions'' ''dscp''" "\<not> EqualFold ''timeout'' ''dscp''"
    "\<not> EqualFold ''number_of_repetitions'' ''prefix''" "\<not> EqualFold ''timeout'' ''prefix''"
    "\<not> EqualFold ''number_of_repetitions'' ''trigger''" "\<not> EqualFold ''timeout'' ''trigger''"
    "\<not> EqualFold ''number_of_repetitions'' ''poll_paths''" "\<not> EqualFold ''timeout'' ''poll_paths''"
    by code_simp+
  have "dec_DiagnosticsPingPayload (job_Payload (ping_job n t)) =
      Some \<lparr> ping_Host = [], NumberOfRepetitions = n', ping_Timeout = t', ping_DataBlockSize = 0, ping_DSCP = 0,
        ping_Prefix = [], ping_Plan = \<lparr> dp_Trigger = [], dp_PollPaths = [] \<rparr> \<rparr>"
    by (simp add: ping_job_def scanJob_def dec_DiagnosticsPingPayload_def dec_DiagnosticsPlan_def fold assms)
  then show thesis by (rule that) (simp_all add: ping_job_def scanJob_def)
qed

theorem DiagnosticsWindow_exact_witness:
  "DiagnosticsWindow (Some (ping_job ''4'' ''5000'')) = 620 * second"
proof -
  have "ParseInt 10 ''4'' = Some 4" "ParseInt 10 ''5000'' = Some 5000" by (simp_all add: parse_int_eval)
  then obtain p where p: "dec_DiagnosticsPingPayload (job_Payload (ping_job ''4'' ''5000'')) = Some p"
    "NumberOfRepetitions p = 4" "ping_Timeout p = 5000" "job_Type (ping_job ''4'' ''5000'') = TypeDiagnosticsPing"
    by (rule dec_ping_job)
  show ?thesis
    using DiagnosticsWindow_exact [OF p(4) p(1)] p(2,3)
    by (simp add: time_units diagnosticsBaseWindow_def diagnosticsMaxWindow_def)
qed

text \<open>
  The 64-bit product can also wrap to a small negative number, which the check for a negative window
  does not catch: a ping of 18446743473710 repetitions of one millisecond waits for less than a
  second, not for the two-hour cap.
\<close>

lemma DiagnosticsWindow_wraps: "DiagnosticsWindow (Some (ping_job ''18446743473710'' ''1'')) < second"
proof -
  have "ParseInt 10 ''18446743473710'' = Some 18446743473710" "ParseInt 10 ''1'' = Some 1"
    by (simp_all add: parse_int_eval)
  then obtain p where p: "dec_DiagnosticsPingPayload (job_Payload (ping_job ''18446743473710'' ''1'')) = Some p"
    "NumberOfRepetitions p = 18446743473710" "ping_Timeout p = 1"
    "job_Type (ping_job ''18446743473710'' ''1'') = TypeDiagnosticsPing"
    by (rule dec_ping_job)
  have "wrap64 18446743473710 = 18446743473710" "wrap64 18446743473710000000 = - 599999551616 - 0"
    by code_simp+
  with p show ?thesis
    by (simp add: DiagnosticsWindow_def expected_run_def Let_def time_units diagnosticsBaseWindow_def
        diagnosticsMaxWindow_def wrap64_id)
qed

end
