(* ===== verification/Discovery.thy ===== *)
theory Discovery
  imports Job_Lease
begin

text \<open>
  Package \<^verbatim>\<open>internal/jobs\<close>, the incremental walk of a device's parameter tree: \<^verbatim>\<open>discovery.go\<close> and
  \<^verbatim>\<open>auto_discovery.go\<close>. A walk is the payload of one durable job; each answered GetParameterNames
  advances it by one object, each unanswered or faulted one defers or skips the object. The lemmas
  show that the walk never asks for an object twice after it was answered, keeps within its object
  budget, and ends after a bounded number of steps whatever the device answers.
\<close>

section \<open>The payload\<close>

record ParameterDiscoveryPayload =
  Root :: string
  FallbackRoot :: string
  IsFallback :: bool
  Incremental :: bool
  Cursor :: string
  Pending :: "string list"
  Visited :: "(string \<times> bool) list"
  Names :: "(string \<times> bool) list"
  Skipped :: "string list"
  Retried :: "(string \<times> bool) list"
  disc_Firmware :: string
  Merge :: bool

definition DiscoveryMaxObjects :: nat where "DiscoveryMaxObjects = 512"
definition DiscoveryMaxNames :: nat where "DiscoveryMaxNames = 50000"
definition DiscoveryMaxSkipped :: nat where "DiscoveryMaxSkipped = 32"
definition DiscoveryMaxInstancesPerTable :: nat where "DiscoveryMaxInstancesPerTable = 32"

definition RequestPath :: "ParameterDiscoveryPayload \<Rightarrow> string" where
  "RequestPath p = (if Cursor p \<noteq> [] then Cursor p else Root p)"

definition holds_key :: "(string \<times> bool) list \<Rightarrow> string \<Rightarrow> bool" where
  "holds_key m k \<longleftrightarrow> map_of m k = Some True"

section \<open>Runtime tables\<close>

definition runtimeTableTemplates :: "string list" where
  "runtimeTableTemplates = [''Hosts.Host.'', ''AssociatedDevice.'', ''DHCPv4.Server.Pool.{i}.Client.'',
     ''DHCPv6.Server.Pool.{i}.Client.'', ''DeviceInfo.ProcessStatus.Process.'', ''IP.ActivePort.'',
     ''IPv4Forwarding.'', ''IPv6Forwarding.'', ''ManagementServer.ManageableDevice.'',
     ''NeighboringWiFiDiagnostic.Result.'', ''DeviceInfo.VendorLogFile.'',
     ''AssociationEvent.AssociationEventData.'', ''DisassociationEvent.DisassociationEventData.'',
     ''FailedConnectionEvent.FailedConnectionEventData.'', ''BSS.{i}.STA.'', ''ScanResult.'', ''OpClassScan.'',
     ''ChannelScan.'', ''NeighborBSS.'', ''UnassociatedSTA.'', ''CapableOperatingClassProfile.'',
     ''CurrentOperatingClassProfile.'', ''FaultMgmt.SupportedAlarm.'', ''FaultMgmt.CurrentAlarm.'',
     ''FaultMgmt.HistoryEvent.'', ''FaultMgmt.ExpeditedEvent.'', ''FaultMgmt.QueuedEvent.'', ''InterfaceStack.'']"

text \<open>A match of \<^verbatim>\<open>\.\d+\.\<close> at the start of the string.\<close>

fun seg_match :: "string \<Rightarrow> bool" where
  "seg_match [] = False"
| "seg_match (c # r) \<longleftrightarrow> c = CHR ''.'' \<and> takeWhile is_digit r \<noteq> [] \<and> HasPrefix (dropWhile is_digit r) ''.''"

text \<open>\<^verbatim>\<open>MatchString\<close> and \<^verbatim>\<open>ReplaceAllString(template, ".{i}.")\<close>.\<close>

fun has_seg :: "string \<Rightarrow> bool" where
  "has_seg [] = False"
| "has_seg (c # r) \<longleftrightarrow> seg_match (c # r) \<or> has_seg r"

lemma length_after_digits [termination_simp]: "length (dropWhile P r) - Suc 0 < Suc (length r)"
  by (rule le_imp_less_Suc) (rule order_trans [OF diff_le_self length_dropWhile_le])

fun replace_segs :: "string \<Rightarrow> string" where
  "replace_segs [] = []"
| "replace_segs (c # r) =
     (if seg_match (c # r) then ''.{i}.'' @ replace_segs (drop 1 (dropWhile is_digit r)) else c # replace_segs r)"

definition digits_in :: "string \<Rightarrow> nat" where "digits_in s = length (filter is_digit s)"

lemma digits_in_simps [simp]:
  "digits_in [] = 0" "digits_in (c # s) = (if is_digit c then Suc (digits_in s) else digits_in s)"
  "digits_in (s @ t) = digits_in s + digits_in t"
  by (simp_all add: digits_in_def)

lemma template_no_digits [simp]: "\<not> is_digit (CHR ''.'')" "\<not> is_digit (CHR ''{'')" "\<not> is_digit (CHR ''i'')" "\<not> is_digit (CHR ''}'')"
  by (simp_all add: is_digit_def)

lemma digits_split: "digits_in r = length (takeWhile is_digit r) + digits_in (drop 1 (dropWhile is_digit r))"
  by (induction r) auto

lemma digits_replace_le: "digits_in (replace_segs s) \<le> digits_in s"
proof (induction s rule: replace_segs.induct)
  case (2 c r)
  then show ?case using digits_split [of r] by (cases "seg_match (c # r)") auto
qed simp

lemma digits_replace_less: "has_seg s \<Longrightarrow> digits_in (replace_segs s) < digits_in s"
proof (induction s rule: replace_segs.induct)
  case (2 c r)
  show ?case
  proof (cases "seg_match (c # r)")
    case True
    moreover from True obtain d ds where "takeWhile is_digit r = d # ds" by (cases "takeWhile is_digit r") auto
    ultimately show ?thesis
      using digits_split [of r] digits_replace_le [of "drop 1 (dropWhile is_digit r)"] by (auto simp del: seg_match.simps)
  next
    case False
    with 2 show ?thesis by (auto simp del: seg_match.simps)
  qed
qed simp

function template_of :: "string \<Rightarrow> string" where
  "template_of t = (if has_seg t then template_of (replace_segs t) else t)"
  by pat_completeness auto
termination
  by (relation "measure digits_in") (simp_all add: digits_replace_less)

declare template_of.simps [simp del]

definition isRuntimeTable :: "string \<Rightarrow> bool" where
  "isRuntimeTable table = list_ex (\<lambda>suffix. HasSuffix (template_of table) (''.'' @ suffix)) runtimeTableTemplates"

text \<open>
  \<^verbatim>\<open>^(.*\.)(\d+)\.$\<close> on a path: the table with its trailing dot and the instance digits. The dot of
  the expression does not match a line feed.
\<close>

definition instance_object :: "string \<Rightarrow> (string \<times> string) option" where
  "instance_object path =
     (if \<not> HasSuffix path ''.'' then None
      else let r = rev (butlast path); ds = takeWhile is_digit r; table = rev (dropWhile is_digit r)
           in if ds \<noteq> [] \<and> HasSuffix table ''.'' \<and> CHR 0x0A \<notin> set table then Some (table, rev ds) else None)"

text \<open>The table and the number, when the digits fit an int.\<close>

definition instance_of :: "string \<Rightarrow> (string \<times> int) option" where
  "instance_of path =
     (case instance_object path of None \<Rightarrow> None
      | Some (table, ds) \<Rightarrow> (case ParseInt 10 ds of None \<Rightarrow> None | Some n \<Rightarrow> Some (table, n)))"

definition instance_numbers :: "string list \<Rightarrow> string \<Rightarrow> int list" where
  "instance_numbers objects table =
     map snd (filter (\<lambda>(t, _). t = table) (map the (filter (\<lambda>x. x \<noteq> None) (map instance_of objects))))"

definition allowed_instances :: "string list \<Rightarrow> string \<Rightarrow> int list" where
  "allowed_instances objects table =
     (let limit = (if isRuntimeTable table then 1 else DiscoveryMaxInstancesPerTable)
      in take limit (sort (instance_numbers objects table)))"

definition collapseRuntimeInstances :: "string list \<Rightarrow> string list" where
  "collapseRuntimeInstances objects =
     (if list_all (\<lambda>path. instance_of path = None) objects then objects
      else filter (\<lambda>path. case instance_of path of
             None \<Rightarrow> True | Some (table, n) \<Rightarrow> n \<in> set (allowed_instances objects table)) objects)"

section \<open>Advancing and skipping\<close>

datatype disc_error = OutsideSubtree string | PathTooLong | DepthLimit | WalkLimits | NoObject | TooManySkipped

definition dot_count :: "string \<Rightarrow> nat" where "dot_count s = length (filter (\<lambda>c. c = CHR ''.'') s)"

text \<open>
  The loop over the returned names. On an error the names recorded so far stay in the payload, as
  the code mutates it in place.
\<close>

fun advance_names ::
  "string \<Rightarrow> ParameterDiscoveryPayload \<Rightarrow> string list \<Rightarrow> (string \<times> bool) list \<Rightarrow>
   ParameterDiscoveryPayload \<times> (disc_error + string list)" where
  "advance_names cur p objs [] = (p, Inr objs)"
| "advance_names cur p objs ((path, writable) # names) =
     (if \<not> HasPrefix path cur then (p, Inl (OutsideSubtree path))
      else if length path > 1024 then (p, Inl PathTooLong)
      else let p1 = p\<lparr> Names := map_put path writable (Names p) \<rparr> in
        if path \<noteq> cur \<and> HasSuffix path ''.'' \<and> \<not> holds_key (Visited p1) path then
          if dot_count (TrimPrefix path (Root p1)) > 16 then (p1, Inl DepthLimit)
          else advance_names cur p1 (objs @ [path]) names
        else advance_names cur p1 objs names)"

fun add_pending :: "string list \<Rightarrow> string list \<Rightarrow> string list" where
  "add_pending pending [] = pending"
| "add_pending pending (path # objs) =
     add_pending (if path \<in> set pending then pending else pending @ [path]) objs"

definition pop_pending :: "ParameterDiscoveryPayload \<Rightarrow> ParameterDiscoveryPayload" where
  "pop_pending p = p\<lparr> Cursor := hd (Pending p), Pending := tl (Pending p) \<rparr>"

definition AdvanceDiscovery ::
  "ParameterDiscoveryPayload \<Rightarrow> (string \<times> bool) list \<Rightarrow> ParameterDiscoveryPayload \<times> (disc_error + bool)" where
  "AdvanceDiscovery p names =
     (let cur = RequestPath p; p1 = p\<lparr> Visited := map_put cur True (Visited p) \<rparr> in
      case advance_names cur p1 [] names of
        (p2, Inl err) \<Rightarrow> (p2, Inl err)
      | (p2, Inr objs) \<Rightarrow>
          let p3 = p2\<lparr> Pending := add_pending (Pending p2) (collapseRuntimeInstances (sort objs)) \<rparr> in
          if length (Visited p3) + length (Pending p3) > DiscoveryMaxObjects \<or> length (Names p3) > DiscoveryMaxNames
          then (p3, Inl WalkLimits)
          else if Pending p3 = [] then (p3, Inr True)
          else (pop_pending p3, Inr False))"

definition SkipDiscoveryCursor ::
  "ParameterDiscoveryPayload \<Rightarrow> ParameterDiscoveryPayload \<times> (disc_error + bool \<times> bool)" where
  "SkipDiscoveryCursor p =
     (if Cursor p = [] then (p, Inl NoObject)
      else if \<not> holds_key (Retried p) (Cursor p) then
        (pop_pending (p\<lparr> Retried := map_put (Cursor p) True (Retried p), Pending := Pending p @ [Cursor p] \<rparr>),
         Inr (False, False))
      else if length (Skipped p) \<ge> DiscoveryMaxSkipped then (p, Inl TooManySkipped)
      else let p1 = p\<lparr> Visited := map_put (Cursor p) True (Visited p), Skipped := Skipped p @ [Cursor p] \<rparr> in
        if Pending p1 = [] then (p1\<lparr> Cursor := [] \<rparr>, Inr (True, True))
        else (pop_pending p1, Inr (False, True)))"

section \<open>The durable job\<close>

text \<open>The stored form of a payload is a parameter: what \<^verbatim>\<open>json.Marshal\<close> writes.\<close>

definition InFlightDiscoveries :: "faults \<Rightarrow> string \<Rightarrow> jobs_db \<Rightarrow> Job list result" where
  "InFlightDiscoveries flt deviceID db =
     (if flt 0 then Inl ErrDB
      else Inr (map scanJob (oldest_first (filter (\<lambda>r. j_device_id r = deviceID \<and>
             j_type r = TypeParameterDiscovery \<and> j_status r = StatusRPCSent) (jobs db)))))"

definition RequeueDiscovery :: "faults \<Rightarrow> time \<Rightarrow> Job \<Rightarrow> json \<Rightarrow> jobs_db \<Rightarrow> unit result \<times> jobs_db" where
  "RequeueDiscovery flt now job raw db =
     (case exec_guarded flt (current_attempt job)
        (\<lambda>r. r\<lparr> j_payload := raw, j_status := StatusQueued, j_updated_at := now, j_lease_owner := None,
              j_leased_until := None \<rparr>) db of
        (Inl err, db') \<Rightarrow> (Inl err, db')
      | (Inr one, db') \<Rightarrow> (if \<not> one then Inl ErrNotCurrent else Inr (), db'))"

definition RecordDiscoveryFallback :: "faults \<Rightarrow> time \<Rightarrow> string \<Rightarrow> string \<Rightarrow> jobs_db \<Rightarrow> unit result \<times> jobs_db" where
  "RecordDiscoveryFallback flt now jid commandKey =
     exec_update flt (\<lambda>r. j_id r = jid \<and> j_type r = TypeParameterDiscovery)
       (\<lambda>r. r\<lparr> j_result_detail := Some (JObj [(''fallback_command_key'', JStr commandKey)]), j_updated_at := now \<rparr>)"

definition active_discovery :: "string \<Rightarrow> job_row \<Rightarrow> bool" where
  "active_discovery deviceID r \<longleftrightarrow> j_device_id r = deviceID \<and> j_type r = TypeParameterDiscovery \<and>
     j_status r \<in> {StatusQueued, StatusRPCSent}"

text \<open>Merge payloads write \<^verbatim>\<open>merge\<close> as a JSON boolean; the cast of its text is the word \<^verbatim>\<open>true\<close>.\<close>

definition ActiveDiscovery :: "faults \<Rightarrow> string \<Rightarrow> jobs_db \<Rightarrow> Job option result" where
  "ActiveDiscovery flt deviceID db =
     (if flt 0 then Inl ErrDB
      else Inr (map_option scanJob (oldest (filter (\<lambda>r. active_discovery deviceID r \<and>
             coalesce (member_text (j_payload r) ''merge'') ''false'' \<noteq> ''true'') (jobs db)))))"

text \<open>
  \<open>firmware\<close> is the cached software version the query reads. One transaction: any failing
  statement leaves the table as it was.
\<close>

definition discovery_request :: "string \<Rightarrow> json" where
  "discovery_request firmware = JObj ([(''root'', JStr ''Device.''), (''fallback_root'', JStr ''InternetGatewayDevice.''),
     (''incremental'', JBool True)] @ enc_opt_str ''firmware'' firmware)"

definition QueueDiscoveryIfNeeded :: "faults \<Rightarrow> env \<Rightarrow> string \<Rightarrow> string \<Rightarrow> jobs_db \<Rightarrow> unit result \<times> jobs_db" where
  "QueueDiscoveryIfNeeded flt e firmware deviceID db =
     (let row = new_row e deviceID TypeParameterDiscovery (discovery_request firmware)
                  ''system:onboarding-discovery'' (int DiscoveryMaxObjects) None None in
      if flt 0 \<or> flt 1 \<or> flt 2 \<or> flt 3 \<or> flt 4 then (Inl ErrDB, db)
      else if list_ex (active_discovery deviceID) (jobs db) then (Inr (), db)
      else if \<not> insert_ok row db then (Inl ErrDB, db)
      else (Inr (), insert_job row db))"

section \<open>The walk\<close>

text \<open>
  The objects a walk knows: answered or given up (visited), in progress, and waiting. They are
  pairwise different, within the budget, and every deferred object is one of them.
\<close>

definition in_progress :: "ParameterDiscoveryPayload \<Rightarrow> string list" where
  "in_progress p = (if Cursor p = [] then [] else [Cursor p])"

definition walk_inv :: "ParameterDiscoveryPayload \<Rightarrow> bool" where
  "walk_inv p \<longleftrightarrow>
     distinct (map fst (Visited p) @ in_progress p @ Pending p) \<and>
     length (Visited p) + length (in_progress p) + length (Pending p) \<le> DiscoveryMaxObjects \<and>
     [] \<notin> set (Pending p) \<and> (Cursor p = [] \<longrightarrow> Visited p = [] \<and> Pending p = []) \<and>
     (\<forall>(k, v) \<in> set (Visited p). v) \<and> (\<forall>(k, v) \<in> set (Retried p). v) \<and>
     distinct (map fst (Retried p)) \<and>
     fst ` set (Retried p) \<subseteq> fst ` set (Visited p) \<union> set (in_progress p) \<union> set (Pending p)"

lemma holds_key_iff: "(\<forall>(k, v) \<in> set m. v) \<Longrightarrow> holds_key m k \<longleftrightarrow> k \<in> fst ` set m"
  by (induction m) (auto simp: holds_key_def)

lemma all_map_put: "(\<forall>(k, v) \<in> set m. v) \<Longrightarrow> (\<forall>(k', v) \<in> set (map_put k True m). v)"
  by (auto simp: map_put_def)

lemma set_add_pending: "set (add_pending pending objs) = set pending \<union> set objs"
  by (induction objs arbitrary: pending) auto

lemma distinct_add_pending: "distinct pending \<Longrightarrow> distinct (add_pending pending objs)"
  by (induction objs arbitrary: pending) auto

lemma set_collapse: "set (collapseRuntimeInstances objs) \<subseteq> set objs"
  by (auto simp: collapseRuntimeInstances_def)

text \<open>The loop leaves the bookkeeping alone and only collects new objects.\<close>

lemma advance_names_keeps [simp]:
  "Visited (fst (advance_names cur p objs names)) = Visited p"
  "Pending (fst (advance_names cur p objs names)) = Pending p"
  "Cursor (fst (advance_names cur p objs names)) = Cursor p"
  "Retried (fst (advance_names cur p objs names)) = Retried p"
  "Root (fst (advance_names cur p objs names)) = Root p"
  by (induction cur p objs names rule: advance_names.induct) (simp_all add: Let_def)

lemma HasSuffix_ne: "HasSuffix path (c # t) \<Longrightarrow> path \<noteq> []"
  by (auto simp: HasSuffix_iff)

lemma advance_names_new:
  "snd (advance_names cur p objs names) = Inr objs' \<Longrightarrow> path \<in> set objs' \<Longrightarrow>
     path \<in> set objs \<or> path \<noteq> cur \<and> path \<noteq> [] \<and> \<not> holds_key (Visited p) path"
proof (induction names arbitrary: p objs)
  case (Cons n names)
  obtain path' writable where n: "n = (path', writable)" by (cases n)
  let ?p1 = "p\<lparr> Names := map_put path' writable (Names p) \<rparr>"
  have step: "snd (advance_names cur ?p1 objs names) = Inr objs' \<or>
      (path' \<noteq> cur \<and> path' \<noteq> [] \<and> \<not> holds_key (Visited p) path') \<and>
      snd (advance_names cur ?p1 (objs @ [path']) names) = Inr objs'"
    using Cons.prems(1) by (auto simp: n Let_def HasSuffix_ne split: if_splits)
  then show ?case
    using Cons.IH [OF _ Cons.prems(2), of ?p1 objs] Cons.IH [OF _ Cons.prems(2), of ?p1 "objs @ [path']"] by auto
qed simp

lemma pop_pending_queue:
  assumes "Pending p \<noteq> []" "[] \<notin> set (Pending p)"
  shows "in_progress (pop_pending p) @ Pending (pop_pending p) = Pending p" "Cursor (pop_pending p) \<noteq> []"
    "Visited (pop_pending p) = Visited p" "Retried (pop_pending p) = Retried p"
    "[] \<notin> set (Pending (pop_pending p))"
  using assms by (cases "Pending p"; auto simp: pop_pending_def in_progress_def)+

text \<open>The invariant of a payload whose next object has just been taken from the queue.\<close>

lemma walk_inv_pop:
  assumes "Pending p \<noteq> []" "[] \<notin> set (Pending p)" "distinct (map fst (Visited p) @ Pending p)"
    and "length (Visited p) + length (Pending p) \<le> DiscoveryMaxObjects"
    and "\<forall>(k, v) \<in> set (Visited p). v" "\<forall>(k, v) \<in> set (Retried p). v" "distinct (map fst (Retried p))"
    and "fst ` set (Retried p) \<subseteq> fst ` set (Visited p) \<union> set (Pending p)"
  shows "walk_inv (pop_pending p)"
proof -
  note pop = pop_pending_queue [OF assms(1,2)]
  have "set (in_progress (pop_pending p)) \<union> set (Pending (pop_pending p)) = set (Pending p)"
    "length (in_progress (pop_pending p)) + length (Pending (pop_pending p)) = length (Pending p)"
    using pop(1) by (metis set_append, metis length_append)
  with assms pop show ?thesis by (auto simp: walk_inv_def)
qed

definition walk_pot :: "ParameterDiscoveryPayload \<Rightarrow> nat" where
  "walk_pot p = length (Visited p) + length (Retried p)"

lemma RequestPath_fresh:
  assumes "walk_inv p"
  shows "RequestPath p \<notin> fst ` set (Visited p)" "RequestPath p \<notin> set (Pending p)"
  using assms by (auto simp: walk_inv_def RequestPath_def in_progress_def split: if_splits)

lemma AdvanceDiscovery_inv:
  assumes inv: "walk_inv p" and run: "AdvanceDiscovery p names = (p', Inr False)"
  shows "walk_inv p' \<and> walk_pot p' = Suc (walk_pot p)"
proof -
  let ?cur = "RequestPath p"
  let ?p1 = "p\<lparr> Visited := map_put ?cur True (Visited p) \<rparr>"
  obtain objs where objs: "snd (advance_names ?cur ?p1 [] names) = Inr objs"
    using run by (auto simp: AdvanceDiscovery_def Let_def split: prod.splits sum.splits)
  define p2 where "p2 = fst (advance_names ?cur ?p1 [] names)"
  define new where "new = collapseRuntimeInstances (sort objs)"
  define p3 where "p3 = p2\<lparr> Pending := add_pending (Pending p2) new \<rparr>"
  have adv: "advance_names ?cur ?p1 [] names = (p2, Inr objs)" using objs by (simp add: p2_def prod_eq_iff)
  from run adv have "length (Visited p3) + length (Pending p3) \<le> DiscoveryMaxObjects" "Pending p3 \<noteq> []"
    and p': "p' = pop_pending p3"
    by (auto simp: AdvanceDiscovery_def Let_def new_def p3_def split: if_splits)
  moreover have p3: "Visited p3 = map_put ?cur True (Visited p)" "Retried p3 = Retried p"
    "Pending p3 = add_pending (Pending p) new"
    by (simp_all add: p3_def p2_def)
  moreover have ok: "\<forall>(k, v) \<in> set (Visited p3). v"
    using inv by (simp only: p3) (rule all_map_put, simp add: walk_inv_def)
  moreover have new: "path \<noteq> [] \<and> path \<notin> fst ` set (Visited p3)" if "path \<in> set new" for path
    using advance_names_new [OF objs, of path] set_collapse [of "sort objs"] that holds_key_iff [OF ok, of path]
    by (auto simp: new_def p3(1))
  moreover have "distinct (map fst (Visited p3) @ Pending p3)"
    using inv new RequestPath_fresh [OF inv]
    by (auto simp: walk_inv_def p3 distinct_add_pending set_add_pending distinct_map_put image_iff)
  moreover have "[] \<notin> set (Pending p3)" using inv new by (auto simp: walk_inv_def p3 set_add_pending)
  moreover have "fst ` set (Retried p3) \<subseteq> fst ` set (Visited p3) \<union> set (Pending p3)"
    using inv by (auto simp: walk_inv_def p3 set_add_pending in_progress_def RequestPath_def split: if_splits)
  ultimately have "walk_inv p'" using inv by (simp only: p') (intro walk_inv_pop, simp_all add: walk_inv_def)
  moreover have "walk_pot p' = Suc (walk_pot p)"
    using RequestPath_fresh(1) [OF inv] by (simp add: p' walk_pot_def pop_pending_def p3 length_map_put_new)
  ultimately show ?thesis ..
qed

lemma SkipDiscoveryCursor_inv:
  assumes inv: "walk_inv p" and run: "SkipDiscoveryCursor p = (p', Inr (False, skipped))"
  shows "walk_inv p' \<and> walk_pot p' = Suc (walk_pot p)"
proof -
  have C: "Cursor p \<noteq> []" "in_progress p = [Cursor p]"
    using run by (auto simp: SkipDiscoveryCursor_def in_progress_def split: if_splits)
  have R: "holds_key (Retried p) (Cursor p) \<longleftrightarrow> Cursor p \<in> fst ` set (Retried p)"
    using inv by (intro holds_key_iff) (simp add: walk_inv_def)
  show ?thesis
  proof (cases "holds_key (Retried p) (Cursor p)")
    case False
    let ?p1 = "p\<lparr> Retried := map_put (Cursor p) True (Retried p), Pending := Pending p @ [Cursor p] \<rparr>"
    from run C False have p': "p' = pop_pending ?p1" by (simp add: SkipDiscoveryCursor_def)
    have "\<forall>(k, v) \<in> set (map_put (Cursor p) True (Retried p)). v"
      using inv by (intro all_map_put) (simp add: walk_inv_def)
    with inv C have "walk_inv p'"
      unfolding p' by (intro walk_inv_pop) (simp_all add: walk_inv_def distinct_map_put Un_commute subset_insertI2)
    moreover have "walk_pot p' = Suc (walk_pot p)"
      using False R by (simp add: p' walk_pot_def pop_pending_def length_map_put_new)
    ultimately show ?thesis ..
  next
    case True
    let ?p1 = "p\<lparr> Visited := map_put (Cursor p) True (Visited p), Skipped := Skipped p @ [Cursor p] \<rparr>"
    from run C True have p': "p' = pop_pending ?p1" "Pending p \<noteq> []"
      by (auto simp: SkipDiscoveryCursor_def Let_def split: if_splits)
    have fresh: "Cursor p \<notin> fst ` set (Visited p)" using inv C by (auto simp: walk_inv_def)
    have "\<forall>(k, v) \<in> set (map_put (Cursor p) True (Visited p)). v"
      using inv by (intro all_map_put) (simp add: walk_inv_def)
    with inv C p'(2) fresh have "walk_inv p'"
      unfolding p' by (intro walk_inv_pop) (simp_all add: walk_inv_def distinct_map_put length_map_put_new)
    moreover have "walk_pot p' = Suc (walk_pot p)"
      using fresh by (simp add: p' walk_pot_def pop_pending_def length_map_put_new)
    ultimately show ?thesis ..
  qed
qed

text \<open>
  One round of the walk: the device answers with names, or the request is lost. \<open>None\<close> means the
  walk is over, finished or given up.
\<close>

definition walk_next :: "(string \<times> bool) list option \<Rightarrow> ParameterDiscoveryPayload \<Rightarrow> ParameterDiscoveryPayload option" where
  "walk_next resp p =
     (case resp of
        Some names \<Rightarrow> (case AdvanceDiscovery p names of (p', Inr False) \<Rightarrow> Some p' | _ \<Rightarrow> None)
      | None \<Rightarrow> (case SkipDiscoveryCursor p of (p', Inr (False, _)) \<Rightarrow> Some p' | _ \<Rightarrow> None))"

fun walk :: "(string \<times> bool) list option list \<Rightarrow> ParameterDiscoveryPayload \<Rightarrow> ParameterDiscoveryPayload option" where
  "walk [] p = Some p"
| "walk (resp # rs) p = (case walk_next resp p of None \<Rightarrow> None | Some p' \<Rightarrow> walk rs p')"

lemma walk_next_inv: "walk_inv p \<Longrightarrow> walk_next resp p = Some p' \<Longrightarrow> walk_inv p' \<and> walk_pot p' = Suc (walk_pot p)"
  by (auto simp: walk_next_def dest: AdvanceDiscovery_inv SkipDiscoveryCursor_inv
      split: option.splits prod.splits sum.splits bool.splits)

lemma walk_run_inv:
  "walk_inv p \<Longrightarrow> walk rs p = Some p' \<Longrightarrow> walk_inv p' \<and> walk_pot p' = walk_pot p + length rs"
proof (induction rs arbitrary: p)
  case (Cons resp rs)
  then obtain p1 where p1: "walk_next resp p = Some p1" "walk rs p1 = Some p'" by (auto split: option.splits)
  with walk_next_inv [OF Cons.prems(1) p1(1)] Cons.IH [OF _ p1(2)] show ?case by simp
qed simp

lemma walk_pot_bound: "walk_inv p \<Longrightarrow> walk_pot p \<le> 2 * DiscoveryMaxObjects"
proof -
  assume inv: "walk_inv p"
  let ?known = "map fst (Visited p) @ in_progress p @ Pending p"
  have "card (fst ` set (Retried p)) \<le> card (set ?known)"
    using inv by (intro card_mono) (auto simp: walk_inv_def)
  moreover have "card (fst ` set (Retried p)) = length (Retried p)"
    using inv distinct_card [of "map fst (Retried p)"] by (simp add: walk_inv_def)
  moreover have "card (set ?known) \<le> length ?known" by (rule card_length)
  ultimately show ?thesis using inv by (simp add: walk_inv_def walk_pot_def)
qed

definition new_walk :: "string \<Rightarrow> string \<Rightarrow> string \<Rightarrow> ParameterDiscoveryPayload" where
  "new_walk rt fallback fw = \<lparr> Root = rt, FallbackRoot = fallback, IsFallback = False, Incremental = True,
     Cursor = [], Pending = [], Visited = [], Names = [], Skipped = [], Retried = [], disc_Firmware = fw, Merge = False \<rparr>"

lemma walk_inv_new: "walk_inv (new_walk rt fallback fw)"
  by (simp add: walk_inv_def new_walk_def in_progress_def)

text \<open>
  C12. Whatever a device answers, and however many requests it drops, a discovery walk that is still
  going has never asked again for an object it had an answer for: visited, current and waiting
  objects are pairwise different and at most 512 in all.
\<close>

theorem discovery_walk_bounded:
  assumes "walk rs (new_walk rt fallback fw) = Some p"
  shows "distinct (map fst (Visited p) @ in_progress p @ Pending p) \<and>
         length (Visited p) + length (in_progress p) + length (Pending p) \<le> DiscoveryMaxObjects"
  using walk_run_inv [OF walk_inv_new assms] by (simp add: walk_inv_def)

theorem discovery_walk_bounded_witness:
  "\<exists>p. walk [Some [(''D.A.'', False), (''D.B'', True)], None] (new_walk ''D.'' ''I.'' []) = Some p \<and>
     Cursor p = ''D.A.'' \<and> length (Visited p) + length (in_progress p) + length (Pending p) \<le> DiscoveryMaxObjects"
proof -
  have one: "walk_next (Some [(''D.A.'', False), (''D.B'', True)]) (new_walk ''D.'' ''I.'' []) =
    Some ((new_walk ''D.'' ''I.'' [])\<lparr> Visited := [(''D.'', True)], Cursor := ''D.A.'',
      Names := [(''D.B'', True), (''D.A.'', False)] \<rparr>)"
    by (simp add: walk_next_def AdvanceDiscovery_def RequestPath_def new_walk_def HasPrefix_def HasSuffix_def
        holds_key_def map_put_def dot_count_def TrimPrefix_def collapseRuntimeInstances_def instance_of_def
        instance_object_def is_digit_def pop_pending_def DiscoveryMaxObjects_def DiscoveryMaxNames_def Let_def)
  have two: "walk_next None ((new_walk ''D.'' ''I.'' [])\<lparr> Visited := [(''D.'', True)], Cursor := ''D.A.'',
      Names := [(''D.B'', True), (''D.A.'', False)] \<rparr>) =
    Some ((new_walk ''D.'' ''I.'' [])\<lparr> Visited := [(''D.'', True)], Cursor := ''D.A.'',
      Names := [(''D.B'', True), (''D.A.'', False)], Retried := [(''D.A.'', True)] \<rparr>)"
    by (simp add: walk_next_def SkipDiscoveryCursor_def new_walk_def holds_key_def map_put_def pop_pending_def)
  from one two have run: "walk [Some [(''D.A.'', False), (''D.B'', True)], None] (new_walk ''D.'' ''I.'' []) =
    Some ((new_walk ''D.'' ''I.'' [])\<lparr> Visited := [(''D.'', True)], Cursor := ''D.A.'',
      Names := [(''D.B'', True), (''D.A.'', False)], Retried := [(''D.A.'', True)] \<rparr>)"
    by simp
  show ?thesis using discovery_walk_bounded [OF run] run by auto
qed



text \<open>
  Queueing a discovery on every connect never piles up: a device with at most one walk queued or
  in flight still has at most one afterwards, whichever statement fails.
\<close>

theorem QueueDiscoveryIfNeeded_single:
  assumes "length (filter (active_discovery d) (jobs db)) \<le> 1"
  shows "length (filter (active_discovery d) (jobs (snd (QueueDiscoveryIfNeeded flt e fw d' db)))) \<le> 1"
proof (cases "list_ex (active_discovery d') (jobs db) \<or> d \<noteq> d'")
  case True
  with assms show ?thesis by (auto simp: QueueDiscoveryIfNeeded_def Let_def insert_job_def active_discovery_def)
next
  case False
  then have "filter (active_discovery d) (jobs db) = []" by (auto simp: list_ex_iff filter_empty_conv)
  then show ?thesis by (auto simp: QueueDiscoveryIfNeeded_def Let_def insert_job_def)
qed

theorem QueueDiscoveryIfNeeded_single_witness:
  "length (filter (active_discovery ''d1'') (jobs (snd (QueueDiscoveryIfNeeded no_faults idem_env [] ''d1'' idem_db)))) \<le> 1"
  by (rule QueueDiscoveryIfNeeded_single) (simp add: idem_db_def)

end
