(* ===== verification/Onboarding_State.thy ===== *)
theory Onboarding_State
  imports Parameters
begin

text \<open>
  Package \<^verbatim>\<open>internal/onboarding\<close> without its store: the types (\<^verbatim>\<open>types.go\<close>), the state machine that
  moves a sold CPE from PLANNED to IN\_SERVICE (\<^verbatim>\<open>state.go\<close>) and the resolution of a plan's cellular
  profile against a discovered data model (\<^verbatim>\<open>cellular.go\<close>). A Go map is an association list; where
  the code ranges over a map, \<open>its k\<close> is the order in which its k-th loop visits the keys.
\<close>

section \<open>Types\<close>

datatype onb_state = StatePlanned | StateContacted | StateSecured | StateDiscovered | StateConfiguring
  | StateInService | StateOnHold | StateFailed | StateCancelled | StateEnded | StateOther string

datatype reason_code = CodeNone | CodeDeviceOtherCustomer | CodeSIMMismatch | CodePLMNNotAllowed
  | CodeSIMUnreadable | CodeConfigFailed | CodeWaitingSIMRead | CodeWaitingOwnCredential
  | CodeWaitingDiscovery | CodeWaitingConfig | CodeTTLExpired

text \<open>A \<^verbatim>\<open>float64\<close> is only stored and read back: its bit pattern.\<close>

type_synonym float64 = "64 word"

record Site =
  site_ID :: string
  site_CustomerID :: "string option"
  site_ExternalRef :: "string option"
  site_Name :: string
  site_Street :: string
  site_Suburb :: string
  site_City :: string
  site_PostalCode :: string
  site_Country :: string
  site_Latitude :: "float64 option"
  site_Longitude :: "float64 option"
  site_RegionID :: "string option"
  site_CreatedAt :: time
  site_UpdatedAt :: time

record CellularProfile =
  APN :: string
  DNN :: string
  MTU :: int
  BootstrapAPN :: string

definition empty_profile :: "CellularProfile \<Rightarrow> bool" where
  "empty_profile c \<longleftrightarrow> APN c = [] \<and> DNN c = [] \<and> MTU c = 0 \<and> BootstrapAPN c = []"

record ServicePlan =
  plan_ID :: string
  plan_CustomerID :: "string option"
  plan_Code :: string
  plan_Name :: string
  plan_TemplateIDs :: "string list"
  plan_Cellular :: CellularProfile
  plan_AllowedPLMNs :: "string list"
  plan_RequireDiscovery :: bool
  plan_CreatedAt :: time
  plan_UpdatedAt :: time

fun HasConfiguration :: "ServicePlan option \<Rightarrow> bool" where
  "HasConfiguration None = False"
| "HasConfiguration (Some p) = (length (plan_TemplateIDs p) > 0 \<or> \<not> empty_profile (plan_Cellular p))"

fun AllowsIMSI :: "ServicePlan option \<Rightarrow> string \<Rightarrow> bool" where
  "AllowsIMSI None imsi = True"
| "AllowsIMSI (Some p) imsi =
     (plan_AllowedPLMNs p = [] \<or>
      list_ex (\<lambda>plmn. TrimSpace plmn \<noteq> [] \<and> HasPrefix imsi (TrimSpace plmn)) (plan_AllowedPLMNs p))"

record Onboarding =
  o_ID :: string
  o_CustomerID :: "string option"
  o_DeviceID :: "string option"
  o_ExpectedOUI :: string
  o_ExpectedSerial :: string
  o_ExpectedIMEI :: string
  o_ExpectedICCID :: string
  o_ExpectedIMSI :: string
  o_AccountRef :: string
  o_SiteID :: "string option"
  o_ServicePlanID :: "string option"
  o_Role :: string
  o_CommercialModel :: string
  o_Source :: string
  o_ExternalRef :: string
  o_State :: onb_state
  o_StateReason :: string
  o_StateCode :: reason_code
  o_ConfigJobs :: "string list"
  o_RequestedBy :: string
  o_BSSRole :: string
  o_BSSServicePlan :: string
  o_CreatedAt :: time
  o_UpdatedAt :: time
  o_ContactedAt :: "time option"
  o_InServiceAt :: "time option"
  o_EndedAt :: "time option"

definition open_state :: "onb_state \<Rightarrow> bool" where
  "open_state s \<longleftrightarrow> s \<noteq> StateInService \<and> s \<noteq> StateCancelled \<and> s \<noteq> StateEnded"

definition Open :: "Onboarding \<Rightarrow> bool" where
  "Open o' = open_state (o_State o')"

section \<open>The state machine\<close>

record Facts =
  f_Informed :: bool
  f_Secured :: bool
  f_Discovered :: bool
  f_ICCID :: string
  f_IMSI :: string
  f_ConfigPending :: int
  f_ConfigDone :: int
  f_ConfigFailed :: int
  f_ConfigError :: string

record Decision =
  d_State :: onb_state
  d_Reason :: string
  d_Code :: reason_code
  d_ReadSIM :: bool
  d_Configure :: bool

definition decide :: "onb_state \<Rightarrow> string \<Rightarrow> reason_code \<Rightarrow> Decision" where
  "decide s reason c = \<lparr> d_State = s, d_Reason = reason, d_Code = c, d_ReadSIM = False, d_Configure = False \<rparr>"

definition plmns :: "ServicePlan option \<Rightarrow> string list" where
  "plmns plan = (case plan of None \<Rightarrow> [] | Some p \<Rightarrow> plan_AllowedPLMNs p)"

text \<open>\<open>None\<close>: no reason to stop.\<close>

definition checkSIM :: "Onboarding \<Rightarrow> ServicePlan option \<Rightarrow> Facts \<Rightarrow> Decision option" where
  "checkSIM o' plan f =
     (let iccid = TrimSpace (f_ICCID f); imsi = TrimSpace (f_IMSI f);
          needICCID = (o_ExpectedICCID o' \<noteq> []);
          needIMSI = (o_ExpectedIMSI o' \<noteq> [] \<or> plmns plan \<noteq> [])
      in if needICCID \<and> iccid \<noteq> [] \<and> iccid \<noteq> TrimSpace (o_ExpectedICCID o') then
           Some (decide StateOnHold
             (''SIM does not match the sale: expected ICCID '' @ MaskSubscriberIdentifier SubscriberICCID (o_ExpectedICCID o') @
              '', device reports '' @ MaskSubscriberIdentifier SubscriberICCID iccid) CodeSIMMismatch)
         else if o_ExpectedIMSI o' \<noteq> [] \<and> imsi \<noteq> [] \<and> imsi \<noteq> TrimSpace (o_ExpectedIMSI o') then
           Some (decide StateOnHold
             (''SIM does not match the sale: expected IMSI '' @ MaskSubscriberIdentifier SubscriberIMSI (o_ExpectedIMSI o') @
              '', device reports '' @ MaskSubscriberIdentifier SubscriberIMSI imsi) CodeSIMMismatch)
         else if imsi \<noteq> [] \<and> plmns plan \<noteq> [] \<and> \<not> AllowsIMSI plan imsi then
           Some (decide StateOnHold
             (''SIM belongs to network '' @ (if length imsi > 5 then take 5 imsi else imsi) @
              ''; the plan allows '' @ Join (plmns plan) '', '') CodePLMNNotAllowed)
         else if (needICCID \<and> iccid = []) \<or> (needIMSI \<and> imsi = []) then
           Some ((decide StateContacted ''waiting for the SIM identifiers'' CodeWaitingSIMRead)\<lparr> d_ReadSIM := True \<rparr>)
         else None)"

text \<open>The cascade of \<^verbatim>\<open>Evaluate\<close>, from its last stage to its first.\<close>

definition eval_configuring :: "Facts \<Rightarrow> Decision" where
  "eval_configuring f =
     (if f_ConfigFailed f > 0 then decide StateFailed (''configuration failed: '' @ f_ConfigError f) CodeConfigFailed
      else if f_ConfigPending f > 0 then
        decide StateConfiguring (Itoa (f_ConfigPending f) @ '' configuration job(s) waiting for the device'') CodeWaitingConfig
      else decide StateInService [] CodeNone)"

definition eval_discovered :: "ServicePlan option \<Rightarrow> Decision" where
  "eval_discovered plan =
     (if \<not> HasConfiguration plan then decide StateInService [] CodeNone
      else (decide StateConfiguring [] CodeNone)\<lparr> d_Configure := True \<rparr>)"

definition eval_secured :: "ServicePlan option \<Rightarrow> Facts \<Rightarrow> Decision" where
  "eval_secured plan f =
     (if (case plan of None \<Rightarrow> False | Some p \<Rightarrow> plan_RequireDiscovery p) \<and> \<not> f_Discovered f
      then decide StateSecured ''waiting for parameter discovery'' CodeWaitingDiscovery
      else eval_discovered plan)"

definition eval_contacted :: "Onboarding \<Rightarrow> ServicePlan option \<Rightarrow> Facts \<Rightarrow> Decision" where
  "eval_contacted o' plan f =
     (case checkSIM o' plan f of
        Some d \<Rightarrow> d
      | None \<Rightarrow>
          if \<not> f_Secured f
          then decide StateContacted ''waiting for the device to authenticate with its own credential'' CodeWaitingOwnCredential
          else eval_secured plan f)"

definition Evaluate :: "Onboarding \<Rightarrow> ServicePlan option \<Rightarrow> Facts \<Rightarrow> Decision" where
  "Evaluate o' plan f =
     (case o_State o' of
        StateInService \<Rightarrow> decide (o_State o') (o_StateReason o') (o_StateCode o')
      | StateCancelled \<Rightarrow> decide (o_State o') (o_StateReason o') (o_StateCode o')
      | StateEnded \<Rightarrow> decide (o_State o') (o_StateReason o') (o_StateCode o')
      | StateFailed \<Rightarrow> decide (o_State o') (o_StateReason o') (o_StateCode o')
      | StateOnHold \<Rightarrow> decide (o_State o') (o_StateReason o') (o_StateCode o')
      | StatePlanned \<Rightarrow> if \<not> f_Informed f then decide StatePlanned [] CodeNone else eval_contacted o' plan f
      | StateContacted \<Rightarrow> eval_contacted o' plan f
      | StateSecured \<Rightarrow> eval_secured plan f
      | StateDiscovered \<Rightarrow> eval_discovered plan
      | StateConfiguring \<Rightarrow> eval_configuring f
      | StateOther s \<Rightarrow> decide (StateOther s) [] CodeNone)"

section \<open>Cellular configuration\<close>

record Write =
  w_Name :: string
  w_Value :: string
  w_Type :: string

type_synonym names = "(string \<times> bool) list"
type_synonym cache = "(string \<times> CachedValue) list"

definition apn_prefix :: string where "apn_prefix = ''Device.Cellular.AccessPoint.''"

definition apnRE :: rx where
  "apnRE = rx_seq [rx_lit apn_prefix, rx_plus rx_digit, rx_lit ''.APN'']"

definition rx_iface :: rx where
  "rx_iface = rx_seq [rx_lit ''Device.Cellular.Interface.'', rx_plus rx_digit, rx_lit ''.'']"

definition bootstrapAPNRE :: rx where
  "bootstrapAPNRE = rx_seq [rx_iface, rx_lit ''X_'', rx_plus rx_word, rx_lit ''_APNForBootstrap'']"

definition iccidRE :: rx where "iccidRE = RSeq rx_iface (rx_lit ''USIM.ICCID'')"
definition imsiRE :: rx where "imsiRE = RSeq rx_iface (rx_lit ''USIM.IMSI'')"

text \<open>\<^verbatim>\<open>strconv.Atoi\<close> of a digit string, its range error ignored: the value saturates.\<close>

definition Atoi_sat :: "string \<Rightarrow> int" where
  "Atoi_sat s = (case parse_digits 10 0 s of None \<Rightarrow> 0 | Some n \<Rightarrow> min (int n) (2 ^ 63 - 1))"

text \<open>The submatch of \<open>apnRE\<close>: what stands between the literal prefix and \<^verbatim>\<open>.APN\<close>.\<close>

definition apn_instance :: "string \<Rightarrow> int option" where
  "apn_instance name =
     (if rx_match apnRE name
      then Some (Atoi_sat (take (length name - length apn_prefix - 4) (drop (length apn_prefix) name))) else None)"

fun lowest_ap :: "int \<Rightarrow> string list \<Rightarrow> int" where
  "lowest_ap ap [] = ap"
| "lowest_ap ap (name # ns) =
     (case apn_instance name of
        None \<Rightarrow> lowest_ap ap ns
      | Some i \<Rightarrow> lowest_ap (if ap < 0 \<or> i < ap then i else ap) ns)"

definition vendorLeaf :: "string list \<Rightarrow> string \<Rightarrow> string \<Rightarrow> string" where
  "vendorLeaf order prefix suffix =
     (let re = rx_seq [rx_lit prefix, rx_lit ''X_'', rx_plus rx_word, rx_lit suffix]
      in case find (rx_match re) order of None \<Rightarrow> [] | Some name \<Rightarrow> name)"

definition cached_value :: "cache \<Rightarrow> string \<Rightarrow> string" where
  "cached_value cache path = (case map_of cache path of None \<Rightarrow> [] | Some v \<Rightarrow> cv_Value v)"

definition add_write :: "names \<Rightarrow> cache \<Rightarrow> string \<Rightarrow> string \<Rightarrow> string \<Rightarrow> Write list \<Rightarrow> Write list" where
  "add_write names cache path value typ out =
     (if path = [] \<or> value = [] \<or> map_of names path \<noteq> Some True \<or> cached_value cache path = value then out
      else out @ [\<lparr> w_Name = path, w_Value = value, w_Type = typ \<rparr>])"

definition CellularWrites :: "(nat \<Rightarrow> string list) \<Rightarrow> CellularProfile \<Rightarrow> names \<Rightarrow> cache \<Rightarrow> Write list" where
  "CellularWrites its p names cache =
     (if empty_profile p then []
      else
        let ap = lowest_ap (-1) (its 0);
            out = (if ap \<ge> 0 then
                (let prefix = apn_prefix @ Itoa ap @ ''.'';
                     out1 = add_write names cache (prefix @ ''APN'') (APN p) ''xsd:string'' [];
                     out2 = add_write names cache (vendorLeaf (its 1) prefix ''_DNN'') (DNN p) ''xsd:string'' out1
                 in if MTU p > 0
                    then add_write names cache (vendorLeaf (its 2) prefix ''_APNMTU'') (Itoa (MTU p)) ''xsd:unsignedInt'' out2
                    else out2)
              else [])
        in case find (rx_match bootstrapAPNRE) (its 3) of
             None \<Rightarrow> out
           | Some name \<Rightarrow> add_write names cache name (BootstrapAPN p) ''xsd:string'' out)"

fun sim_scan :: "cache \<Rightarrow> string \<times> string \<Rightarrow> string \<times> string" where
  "sim_scan [] acc = acc"
| "sim_scan ((name, v) # rest) (iccid, imsi) =
     sim_scan rest
       (if iccid = [] \<and> rx_match iccidRE name then (cv_Value v, imsi)
        else if imsi = [] \<and> rx_match imsiRE name then (iccid, cv_Value v)
        else (iccid, imsi))"

definition SIMIdentifiers :: "cache \<Rightarrow> string \<times> string" where
  "SIMIdentifiers cache = sim_scan cache ([], [])"

definition SIMReadPaths :: "names \<Rightarrow> string list" where
  "SIMReadPaths names =
     (let out = filter (\<lambda>n. rx_match iccidRE n \<or> rx_match imsiRE n) (map fst names)
      in if out = [] then [''Device.Cellular.Interface.1.USIM.ICCID'', ''Device.Cellular.Interface.1.USIM.IMSI'']
         else sort out)"

section \<open>What the SIM check admits\<close>

text \<open>The contract of \<^verbatim>\<open>checkSIM\<close>: the SIM in the device is the one sold, on a network the plan allows.\<close>

definition sim_as_sold :: "Onboarding \<Rightarrow> ServicePlan option \<Rightarrow> Facts \<Rightarrow> bool" where
  "sim_as_sold o' plan f \<longleftrightarrow>
     (o_ExpectedICCID o' \<noteq> [] \<longrightarrow> TrimSpace (f_ICCID f) \<noteq> [] \<and> TrimSpace (f_ICCID f) = TrimSpace (o_ExpectedICCID o')) \<and>
     (o_ExpectedIMSI o' \<noteq> [] \<longrightarrow> TrimSpace (f_IMSI f) \<noteq> [] \<and> TrimSpace (f_IMSI f) = TrimSpace (o_ExpectedIMSI o')) \<and>
     (plmns plan \<noteq> [] \<longrightarrow> TrimSpace (f_IMSI f) \<noteq> [] \<and>
        (\<exists>plmn \<in> set (plmns plan). TrimSpace plmn \<noteq> [] \<and> HasPrefix (TrimSpace (f_IMSI f)) (TrimSpace plmn)))"

lemma decide_sel [simp]:
  "d_State (decide s r c) = s" "d_Reason (decide s r c) = r" "d_Code (decide s r c) = c"
  "\<not> d_ReadSIM (decide s r c)" "\<not> d_Configure (decide s r c)"
  by (simp_all add: decide_def)

lemma AllowsIMSI_plmns:
  "plmns plan \<noteq> [] \<Longrightarrow> AllowsIMSI plan imsi \<longleftrightarrow>
     (\<exists>plmn \<in> set (plmns plan). TrimSpace plmn \<noteq> [] \<and> HasPrefix imsi (TrimSpace plmn))"
  by (cases plan) (auto simp: plmns_def list_ex_iff)

lemma checkSIM_None: "checkSIM o' plan f = None \<longleftrightarrow> sim_as_sold o' plan f"
  unfolding checkSIM_def sim_as_sold_def Let_def
  by (cases "plmns plan = []") (auto simp: AllowsIMSI_plmns)

lemma checkSIM_Some:
  "checkSIM o' plan f = Some d \<Longrightarrow>
     \<not> d_Configure d \<and> (d_State d = StateOnHold \<and> \<not> d_ReadSIM d \<or> d_State d = StateContacted \<and> d_ReadSIM d)"
  by (auto simp: checkSIM_def Let_def split: if_splits)

lemmas eval_defs = eval_contacted_def eval_secured_def eval_discovered_def eval_configuring_def

lemma eval_secured_state:
  "d_State (eval_secured plan f) \<in> {StateSecured, StateInService, StateConfiguring}"
  by (simp add: eval_defs)

lemma eval_contacted_past:
  "d_State (eval_contacted o' plan f) \<notin> {StateContacted, StateOnHold} \<longleftrightarrow> sim_as_sold o' plan f \<and> f_Secured f"
  using eval_secured_state [of plan f]
  by (auto simp: eval_contacted_def checkSIM_None [symmetric] split: option.splits dest: checkSIM_Some)

text \<open>
  C14. A sold CPE that has not been contacted, or only contacted, moves past CONTACTED in an
  evaluation exactly when it informed, authenticates with its own credential, and carries the SIM
  the sale names on a network the plan allows; otherwise it stays or is put on hold.
\<close>

theorem Evaluate_gate:
  assumes "o_State o' \<in> {StatePlanned, StateContacted}"
  shows "d_State (Evaluate o' plan f) \<notin> {StatePlanned, StateContacted, StateOnHold} \<longleftrightarrow>
    (o_State o' = StatePlanned \<longrightarrow> f_Informed f) \<and> sim_as_sold o' plan f \<and> f_Secured f"
proof -
  have "d_State (eval_contacted o' plan f) \<noteq> StatePlanned"
    using eval_secured_state [of plan f]
    by (auto simp: eval_contacted_def split: option.splits dest: checkSIM_Some)
  then show ?thesis
    using assms eval_contacted_past [of o' plan f] by (auto simp: Evaluate_def)
qed

section \<open>The state machine refines its diagram\<close>

text \<open>The edges of the onboarding diagram that the gateway may take on its own.\<close>

inductive onb_edge :: "onb_state \<Rightarrow> onb_state \<Rightarrow> bool" where
  contact: "onb_edge StatePlanned StateContacted"
| hold: "onb_edge StateContacted StateOnHold"
| secure: "onb_edge StateContacted StateSecured"
| discover: "onb_edge StateSecured StateDiscovered"
| configure: "onb_edge StateDiscovered StateConfiguring"
| serve: "onb_edge StateDiscovered StateInService"
| configured: "onb_edge StateConfiguring StateInService"
| fail: "onb_edge StateConfiguring StateFailed"

lemma edge_path [intro]: "onb_edge a b \<Longrightarrow> onb_edge\<^sup>*\<^sup>* b c \<Longrightarrow> onb_edge\<^sup>*\<^sup>* a c"
  by (rule converse_rtranclp_into_rtranclp)

lemma discovered_path: "onb_edge\<^sup>*\<^sup>* StateDiscovered (d_State (eval_discovered plan))"
  by (auto simp: eval_discovered_def intro: onb_edge.intros)

lemma secured_path: "onb_edge\<^sup>*\<^sup>* StateSecured (d_State (eval_secured plan f))"
  using edge_path [OF onb_edge.discover discovered_path, of plan] by (simp add: eval_secured_def)

lemma contacted_path: "onb_edge\<^sup>*\<^sup>* StateContacted (d_State (eval_contacted o' plan f))"
proof (cases "checkSIM o' plan f")
  case None
  then show ?thesis using edge_path [OF onb_edge.secure secured_path, of plan f] by (simp add: eval_contacted_def)
next
  case (Some d)
  then show ?thesis using checkSIM_Some [OF Some] by (auto simp: eval_contacted_def intro: onb_edge.hold)
qed

lemma configuring_path: "onb_edge\<^sup>*\<^sup>* StateConfiguring (d_State (eval_configuring f))"
  by (auto simp: eval_configuring_def intro: onb_edge.intros)

lemma eval_secured_configure: "d_Configure (eval_secured plan f) \<longleftrightarrow> d_State (eval_secured plan f) = StateConfiguring"
  by (simp add: eval_defs)

lemma eval_contacted_configure:
  "d_Configure (eval_contacted o' plan f) \<longleftrightarrow> d_State (eval_contacted o' plan f) = StateConfiguring"
  by (auto simp: eval_contacted_def eval_secured_configure split: option.splits dest: checkSIM_Some)

lemma Evaluate_path: "onb_edge\<^sup>*\<^sup>* (o_State o') (d_State (Evaluate o' plan f))"
proof -
  have "onb_edge\<^sup>*\<^sup>* StatePlanned (d_State (eval_contacted o' plan f))"
    by (rule edge_path [OF onb_edge.contact contacted_path])
  then show ?thesis
    using discovered_path secured_path contacted_path configuring_path
    by (cases "o_State o'") (simp_all add: Evaluate_def)
qed

lemma Evaluate_configure:
  "d_Configure (Evaluate o' plan f) \<longleftrightarrow> o_State o' \<noteq> StateConfiguring \<and> d_State (Evaluate o' plan f) = StateConfiguring"
  by (cases "o_State o'")
    (simp_all add: Evaluate_def eval_secured_configure eval_contacted_configure eval_discovered_def eval_configuring_def)

text \<open>
  C31. Every evaluation follows edges of the onboarding diagram, configuration is asked for exactly
  when CONFIGURING is entered, and an onboarding that is closed, held or failed is returned as it is.
\<close>

theorem Evaluate_refines_diagram:
  "onb_edge\<^sup>*\<^sup>* (o_State o') (d_State (Evaluate o' plan f)) \<and>
   (d_Configure (Evaluate o' plan f) \<longleftrightarrow>
      o_State o' \<noteq> StateConfiguring \<and> d_State (Evaluate o' plan f) = StateConfiguring) \<and>
   (\<not> Open o' \<or> o_State o' = StateOnHold \<or> o_State o' = StateFailed \<longrightarrow>
      Evaluate o' plan f = decide (o_State o') (o_StateReason o') (o_StateCode o'))"
  using Evaluate_path Evaluate_configure by (auto simp: Open_def open_state_def Evaluate_def)

definition sale :: "onb_state \<Rightarrow> Onboarding" where
  "sale s = \<lparr> o_ID = ''s1'', o_CustomerID = Some ''c1'', o_DeviceID = None, o_ExpectedOUI = [], o_ExpectedSerial = ''SN1'',
     o_ExpectedIMEI = [], o_ExpectedICCID = ''8927'', o_ExpectedIMSI = [], o_AccountRef = [], o_SiteID = None,
     o_ServicePlanID = None, o_Role = ''gateway'', o_CommercialModel = ''retail'', o_Source = ''bss'', o_ExternalRef = [],
     o_State = s, o_StateReason = [], o_StateCode = CodeNone, o_ConfigJobs = [], o_RequestedBy = [], o_BSSRole = [],
     o_BSSServicePlan = [], o_CreatedAt = 0, o_UpdatedAt = 0, o_ContactedAt = None, o_InServiceAt = None, o_EndedAt = None \<rparr>"

definition seen_facts :: "string \<Rightarrow> Facts" where
  "seen_facts iccid = \<lparr> f_Informed = True, f_Secured = True, f_Discovered = True, f_ICCID = iccid, f_IMSI = [],
     f_ConfigPending = 0, f_ConfigDone = 0, f_ConfigFailed = 0, f_ConfigError = [] \<rparr>"

theorem Evaluate_gate_witness:
  "d_State (Evaluate (sale StatePlanned) None (seen_facts ''8927'')) \<notin> {StatePlanned, StateContacted, StateOnHold} \<and>
   d_State (Evaluate (sale StatePlanned) None (seen_facts ''1111'')) \<in> {StatePlanned, StateContacted, StateOnHold}"
  using Evaluate_gate [of "sale StatePlanned" None "seen_facts ''8927''"]
    Evaluate_gate [of "sale StatePlanned" None "seen_facts ''1111''"]
  by (auto simp: sale_def seen_facts_def sim_as_sold_def plmns_def TrimSpace_def is_space_def)

theorem Evaluate_refines_diagram_witness:
  "Evaluate (sale StateOnHold) None (seen_facts ''8927'') = decide StateOnHold [] CodeNone"
  using Evaluate_refines_diagram [of "sale StateOnHold" None "seen_facts ''8927''"] by (simp add: sale_def)

section \<open>Cellular writes\<close>

text \<open>What \<^verbatim>\<open>CellularWrites\<close> considers, before the guards of its \<^verbatim>\<open>add\<close>.\<close>

definition cellular_attempts :: "(nat \<Rightarrow> string list) \<Rightarrow> CellularProfile \<Rightarrow> Write list" where
  "cellular_attempts its p =
     (let ap = lowest_ap (-1) (its 0); prefix = apn_prefix @ Itoa ap @ ''.''
      in if ap \<ge> 0 then
           [\<lparr> w_Name = prefix @ ''APN'', w_Value = APN p, w_Type = ''xsd:string'' \<rparr>,
            \<lparr> w_Name = vendorLeaf (its 1) prefix ''_DNN'', w_Value = DNN p, w_Type = ''xsd:string'' \<rparr>] @
           (if MTU p > 0 then [\<lparr> w_Name = vendorLeaf (its 2) prefix ''_APNMTU'', w_Value = Itoa (MTU p), w_Type = ''xsd:unsignedInt'' \<rparr>]
            else [])
         else []) @
     (case find (rx_match bootstrapAPNRE) (its 3) of
        None \<Rightarrow> [] | Some name \<Rightarrow> [\<lparr> w_Name = name, w_Value = BootstrapAPN p, w_Type = ''xsd:string'' \<rparr>])"

definition due :: "names \<Rightarrow> cache \<Rightarrow> Write \<Rightarrow> bool" where
  "due names cache w \<longleftrightarrow> w_Name w \<noteq> [] \<and> w_Value w \<noteq> [] \<and> map_of names (w_Name w) = Some True \<and>
     cached_value cache (w_Name w) \<noteq> w_Value w"

lemma add_write_due:
  "add_write names cache n v t out = out @ filter (due names cache) [\<lparr> w_Name = n, w_Value = v, w_Type = t \<rparr>]"
  by (simp add: add_write_def due_def)

lemma CellularWrites_filter:
  "\<not> empty_profile p \<Longrightarrow> CellularWrites its p names cache = filter (due names cache) (cellular_attempts its p)"
  by (simp add: CellularWrites_def cellular_attempts_def add_write_due Let_def split: option.splits)

lemma lang_seq_suffix: "s \<in> lang (rx_seq (rs @ [rx_lit w])) \<Longrightarrow> HasSuffix s w"
proof (induction rs arbitrary: s)
  case (Cons r rs)
  then obtain u v where "s = u @ v" "HasSuffix v w" by auto
  then show ?case by (auto simp: HasSuffix_iff)
qed (auto simp: HasSuffix_iff)

text \<open>The last four characters tell the attempts apart.\<close>

definition ending :: "string \<Rightarrow> string" where
  "ending s = drop (length s - 4) s"

lemma ending_suffix: "HasSuffix s w \<Longrightarrow> length w \<ge> 4 \<Longrightarrow> ending s = ending w"
  by (auto simp: HasSuffix_iff ending_def)

lemma vendorLeaf_ending:
  assumes "vendorLeaf order prefix w \<noteq> []" "length w \<ge> 4"
  shows "ending (vendorLeaf order prefix w) = ending w"
proof -
  let ?re = "rx_seq ([rx_lit prefix, rx_lit ''X_'', rx_plus rx_word] @ [rx_lit w])"
  obtain name where "find (rx_match ?re) order = Some name" "vendorLeaf order prefix w = name"
    using assms(1) by (auto simp: vendorLeaf_def Let_def split: option.splits)
  then have "name \<in> lang ?re" by (auto simp: find_Some_iff rx_match_lang simp del: append.simps)
  then show ?thesis
    using \<open>vendorLeaf order prefix w = name\<close> lang_seq_suffix ending_suffix [OF _ assms(2)] by blast
qed

lemma bootstrap_ending: "rx_match bootstrapAPNRE name \<Longrightarrow> ending name = ''trap''"
proof -
  assume "rx_match bootstrapAPNRE name"
  then have "name \<in> lang (rx_seq ([rx_iface, rx_lit ''X_'', rx_plus rx_word] @ [rx_lit ''_APNForBootstrap'']))"
    by (simp add: rx_match_lang bootstrapAPNRE_def)
  then have "HasSuffix name ''_APNForBootstrap''" by (rule lang_seq_suffix)
  from ending_suffix [OF this] show ?thesis by (simp add: ending_def)
qed

lemma APN_ending: "ending (a @ ''.'' @ ''APN'') = ''.APN''"
  by (simp add: ending_def)

lemma endings_apart:
  assumes "ending a = ''.APN''" "b \<noteq> [] \<Longrightarrow> ending b = ''_DNN''" "c \<noteq> [] \<Longrightarrow> ending c = ''NMTU''" "ending d = ''trap''"
  shows "distinct (filter (\<lambda>n. n \<noteq> []) [a, b, c, d])"
  using assms by (cases "a = []"; cases "b = []"; cases "c = []"; cases "d = []") auto

lemma attempt_names:
  obtains a b c d where "ending a = ''.APN''" "b \<noteq> [] \<Longrightarrow> ending b = ''_DNN''" "c \<noteq> [] \<Longrightarrow> ending c = ''NMTU''"
    "ending d = ''trap''" "map w_Name (cellular_attempts its p) \<in> set (subseqs [a, b, c, d])"
proof -
  let ?pre = "apn_prefix @ Itoa (lowest_ap (- 1) (its 0)) @ ''.''"
  let ?d = "case find (rx_match bootstrapAPNRE) (its 3) of None \<Rightarrow> ''trap'' | Some name \<Rightarrow> name"
  have "ending (?pre @ ''APN'') = ''.APN''"
    using APN_ending [of "apn_prefix @ Itoa (lowest_ap (- 1) (its 0))"] by simp
  moreover have "ending ?d = ''trap''"
    by (auto simp: find_Some_iff ending_def [of "''trap''"] intro: bootstrap_ending split: option.split)
  moreover have "map w_Name (cellular_attempts its p) \<in>
      set (subseqs [?pre @ ''APN'', vendorLeaf (its 1) ?pre ''_DNN'', vendorLeaf (its 2) ?pre ''_APNMTU'', ?d])"
    by (simp add: cellular_attempts_def Let_def split: option.split)
  ultimately show thesis
    using vendorLeaf_ending [of "its 1" ?pre "''_DNN''"] vendorLeaf_ending [of "its 2" ?pre "''_APNMTU''"]
    by (intro that [of "?pre @ ''APN''" "vendorLeaf (its 1) ?pre ''_DNN''" "vendorLeaf (its 2) ?pre ''_APNMTU''" ?d])
      (simp_all add: ending_def [of "''_DNN''"] ending_def [of "''_APNMTU''"])
qed

lemma attempts_distinct: "distinct (map w_Name (filter (\<lambda>w. w_Name w \<noteq> []) (cellular_attempts its p)))"
proof -
  obtain a b c d where n: "ending a = ''.APN''" "b \<noteq> [] \<Longrightarrow> ending b = ''_DNN''" "c \<noteq> [] \<Longrightarrow> ending c = ''NMTU''"
    "ending d = ''trap''" "map w_Name (cellular_attempts its p) \<in> set (subseqs [a, b, c, d])"
    by (rule attempt_names [of its p]) blast
  have "distinct (filter (\<lambda>n. n \<noteq> []) (map w_Name (cellular_attempts its p)))"
    using endings_apart [OF n(1-4)] n(5) by (auto simp: Let_def split: if_splits)
  then show ?thesis by (simp add: filter_map o_def)
qed

text \<open>The cache once the device has taken the writes.\<close>

definition take_writes :: "Write list \<Rightarrow> cache \<Rightarrow> cache" where
  "take_writes ws cache = fold (\<lambda>w. map_put (w_Name w)
     \<lparr> cv_Value = w_Value w, cv_Type = w_Type w, cv_UpdatedAt = 0, cv_Source = [] \<rparr>) ws cache"

lemma take_writes_other: "n \<notin> w_Name ` set ws \<Longrightarrow> cached_value (take_writes ws c) n = cached_value c n"
  by (induction ws arbitrary: c) (simp_all add: take_writes_def cached_value_def)

lemma take_writes_same:
  "distinct (map w_Name ws) \<Longrightarrow> w \<in> set ws \<Longrightarrow> cached_value (take_writes ws c) (w_Name w) = w_Value w"
proof (induction ws arbitrary: c)
  case (Cons v ws)
  show ?case
  proof (cases "w \<in> set ws")
    case True
    then show ?thesis using Cons by (simp add: take_writes_def)
  next
    case False
    then have "w = v" "w_Name v \<notin> w_Name ` set ws" using Cons.prems by auto
    then show ?thesis using take_writes_other [of "w_Name v" ws] by (simp add: take_writes_def cached_value_def)
  qed
qed simp

lemma take_due_settles:
  assumes "distinct (map w_Name (filter (\<lambda>w. w_Name w \<noteq> []) as))"
  shows "filter (due names (take_writes (filter (due names c) as) c)) as = []"
proof -
  let ?ws = "filter (due names c) as"
  have ws: "distinct (map w_Name ?ws)"
  proof -
    have "filter (due names c) (filter (\<lambda>w. w_Name w \<noteq> []) as) = ?ws"
      by (auto simp: due_def intro: filter_cong)
    then show ?thesis using distinct_filter_keys [OF assms, of "due names c"] by simp
  qed
  have "\<not> due names (take_writes ?ws c) w" if w: "w \<in> set as" for w
  proof (cases "due names c w")
    case True
    then show ?thesis using take_writes_same [OF ws] w by (simp add: due_def)
  next
    case False
    show ?thesis
    proof (cases "w_Name w \<in> w_Name ` set ?ws")
      case True
      then obtain v where v: "v \<in> set ?ws" "w_Name v = w_Name w" by auto
      then have "w_Name w \<noteq> []" by (auto simp: due_def)
      then have "v = w" using v w assms by (auto simp: distinct_map inj_on_def due_def)
      then show ?thesis using v False by simp
    next
      case other: False
      show ?thesis using False take_writes_other [OF other] by (simp add: due_def)
    qed
  qed
  then show ?thesis by simp
qed


end
