(* ===== verification/Guarded_Update.thy ===== *)
theory Guarded_Update
  imports Main
begin

text \<open>
  The contract of a guarded update, the way the program coordinates several gateways without locks:
  a record is read, and written back only if its version column still has the value that was read.
  The locale proves once that the successful updates of a record form a chain of versions, whatever
  the interleaving, and so that of several attempts from the same version at most one succeeds. The
  job queue and the onboarding repository interpret it.
\<close>

section \<open>The contract\<close>

locale guarded_store =
  fixes inv :: "'s \<Rightarrow> bool"
    and ver :: "'s \<Rightarrow> 'k \<Rightarrow> 'v option"
    and attempt :: "'q \<Rightarrow> 's \<Rightarrow> bool \<times> 's"
    and key_of :: "'q \<Rightarrow> 'k"
    and from_of :: "'q \<Rightarrow> 'v"
    and to_of :: "'s \<Rightarrow> 'q \<Rightarrow> 'v"
  assumes attempt_inv: "inv s \<Longrightarrow> inv (snd (attempt q s))"
    and attempt_hit: "inv s \<Longrightarrow> fst (attempt q s) \<Longrightarrow>
      ver s (key_of q) = Some (from_of q) \<and> ver (snd (attempt q s)) (key_of q) = Some (to_of s q)"
    and attempt_miss: "inv s \<Longrightarrow> \<not> fst (attempt q s) \<Longrightarrow> ver (snd (attempt q s)) k = ver s k"
    and attempt_frame: "inv s \<Longrightarrow> k \<noteq> key_of q \<Longrightarrow> ver (snd (attempt q s)) k = ver s k"
begin

text \<open>A sequence of attempts: the state reached and the successful ones with the version they wrote.\<close>

fun attempts :: "'q list \<Rightarrow> 's \<Rightarrow> ('q \<times> 'v) list \<times> 's" where
  "attempts [] s = ([], s)"
| "attempts (q # qs) s =
     (let (ok, s') = attempt q s; (hits, t) = attempts qs s' in (if ok then (q, to_of s q) # hits else hits, t))"

fun chain :: "'k \<Rightarrow> 'v option \<Rightarrow> ('q \<times> 'v) list \<Rightarrow> 'v option \<Rightarrow> bool" where
  "chain k v [] w = (v = w)"
| "chain k v ((q, u) # hits) w =
     (if key_of q = k then v = Some (from_of q) \<and> chain k (Some u) hits w else chain k v hits w)"

lemma attempts_inv: "inv s \<Longrightarrow> inv (snd (attempts qs s))"
proof (induction qs arbitrary: s)
  case (Cons q qs)
  then show ?case using attempt_inv [of s q] by (simp add: split_beta Let_def)
qed simp

lemma attempts_chain: "inv s \<Longrightarrow> chain k (ver s k) (fst (attempts qs s)) (ver (snd (attempts qs s)) k)"
proof (induction qs arbitrary: s)
  case (Cons q qs)
  let ?s = "snd (attempt q s)"
  have IH: "chain k (ver ?s k) (fst (attempts qs ?s)) (ver (snd (attempts qs ?s)) k)"
    using Cons attempt_inv by blast
  show ?case
  proof (cases "fst (attempt q s)")
    case True
    then show ?thesis
      using IH attempt_hit [OF Cons.prems True] attempt_frame [OF Cons.prems, of k q]
      by (cases "key_of q = k") (simp_all add: split_beta Let_def)
  next
    case False
    then show ?thesis using IH attempt_miss [OF Cons.prems False] by (simp add: split_beta Let_def)
  qed
qed simp

lemma hits_of_attempts: "(q, u) \<in> set (fst (attempts qs s)) \<Longrightarrow> q \<in> set qs \<and> (\<exists>t. u = to_of t q)"
  by (induction qs arbitrary: s) (force simp: split_beta Let_def split: if_splits)+

lemma chain_stuck:
  assumes "chain k v hits w" "\<And>q u. (q, u) \<in> set hits \<Longrightarrow> key_of q = k \<and> v \<noteq> Some (from_of q)"
  shows "hits = []"
proof (cases hits)
  case (Cons h rest)
  then show ?thesis using assms by (cases h) (fastforce split: if_splits)
qed simp

text \<open>Attempts from one version to other versions: at most one of them succeeds.\<close>

lemma one_winner:
  assumes "inv s" and same: "\<And>q. q \<in> set qs \<Longrightarrow> key_of q = k \<and> from_of q = v"
    and leaves: "\<And>q t. q \<in> set qs \<Longrightarrow> to_of t q \<noteq> v"
  shows "length (fst (attempts qs s)) \<le> 1"
proof (cases "fst (attempts qs s)")
  case (Cons h hits)
  obtain q u where h: "h = (q, u)" by (cases h)
  have c: "chain k (ver s k) ((q, u) # hits) (ver (snd (attempts qs s)) k)"
    using attempts_chain [OF assms(1), of k qs] Cons h by simp
  have hit: "p \<in> set qs \<and> (\<exists>t. x = to_of t p)" if "(p, x) \<in> set ((q, u) # hits)" for p x
    using hits_of_attempts [of p x qs s] that Cons h by simp
  then have "key_of q = k" "u \<noteq> v" using same leaves by fastforce+
  then have "chain k (Some u) hits (ver (snd (attempts qs s)) k)" using c by simp
  moreover have "key_of p = k \<and> Some u \<noteq> Some (from_of p)" if "(p, x) \<in> set hits" for p x
    using hit [of p x] that same \<open>u \<noteq> v\<close> by auto
  ultimately have "hits = []" by (rule chain_stuck)
  then show ?thesis using Cons by simp
qed simp

end

end
