(* ===== verification/Onboarding_Store.thy ===== *)
theory Onboarding_Store
  imports Onboarding_State Job_Lease Guarded_Update
begin

text \<open>
  The onboarding repository (\<^verbatim>\<open>internal/onboarding/store.go\<close>) over its tables: sites, service plans,
  onboardings and the columns of devices it reads or writes. Text columns written with NULLIF and
  read with COALESCE hold the empty string for NULL. Identifiers are UUIDs in canonical form. An
  INSERT or UPDATE is refused when the result would break a constraint of migrations 0087 and 0094:
  a CHECK first, then the unique indexes, then the foreign keys.
\<close>

section \<open>Tables\<close>

record plan_row =
  pr_id :: string
  pr_customer_id :: "string option"
  pr_code :: string
  pr_name :: string
  pr_template_ids :: "string list"
  pr_cellular_profile :: json
  pr_allowed_plmns :: "string list"
  pr_require_discovery :: bool
  pr_created_at :: time
  pr_updated_at :: time

record device_row =
  dv_id :: string
  dv_oui_serial :: string
  dv_oui :: "string option"
  dv_serial_number :: "string option"
  dv_manufacturer :: "string option"
  dv_product_class :: "string option"
  dv_online_status :: "string option"
  dv_last_inform_at :: "time option"
  dv_customer_id :: "string option"
  dv_site_id :: "string option"
  dv_label :: "string option"
  dv_location :: "string option"
  dv_latitude :: "float64 option"
  dv_longitude :: "float64 option"
  dv_last_updated_at :: time

record onb_db =
  od_customers :: "string list"
  od_regions :: "string list"
  od_sites :: "Site list"
  od_plans :: "plan_row list"
  od_onboardings :: "Onboarding list"
  od_devices :: "device_row list"

datatype onb_error = ErrNotFound | ErrOpenOnboardingExists | ErrInvalid string | ErrExists string
  | ErrOtherTenant | ErrAmbiguousPlan | ErrOnbDB | ErrDecodeProfile

type_synonym 'a onb_result = "onb_error + 'a"

definition deref :: "string option \<Rightarrow> string" where
  "deref s = (case s of None \<Rightarrow> [] | Some x \<Rightarrow> x)"

text \<open>\<^verbatim>\<open>%q\<close> of a printable text without quotes and backslashes.\<close>

definition quoted :: "string \<Rightarrow> string" where "quoted s = [CHR 0x22] @ s @ [CHR 0x22]"

definition fk :: "string option \<Rightarrow> string list \<Rightarrow> bool" where
  "fk c xs = (case c of None \<Rightarrow> True | Some x \<Rightarrow> x \<in> set xs)"

definition sql_first :: "'a list \<Rightarrow> 'a onb_result" where
  "sql_first rs = (case rs of [] \<Rightarrow> Inl ErrNotFound | r # _ \<Rightarrow> Inr r)"

definition nulls_first :: "('a \<Rightarrow> string option) \<Rightarrow> 'a list \<Rightarrow> 'a list" where
  "nulls_first k rs = filter (\<lambda>r. k r = None) rs @ sort_key (\<lambda>r. the (k r)) (filter (\<lambda>r. k r \<noteq> None) rs)"

definition nulls_last :: "('a \<Rightarrow> string option) \<Rightarrow> 'a list \<Rightarrow> 'a list" where
  "nulls_last k rs = sort_key (\<lambda>r. the (k r)) (filter (\<lambda>r. k r \<noteq> None) rs) @ filter (\<lambda>r. k r = None) rs"

definition any_of :: "string option \<Rightarrow> string list \<Rightarrow> bool" where
  "any_of c xs = (case c of None \<Rightarrow> False | Some x \<Rightarrow> x \<in> set xs)"

section \<open>Sites\<close>

definition site_row :: "env \<Rightarrow> Site \<Rightarrow> Site" where
  "site_row e s = s\<lparr> site_ID := env_uuid e, site_ExternalRef := nullIfEmpty (deref (site_ExternalRef s)),
     site_Name := TrimSpace (site_Name s), site_CreatedAt := env_now e, site_UpdatedAt := env_now e \<rparr>"

definition sites_external_ref_idx :: "Site \<Rightarrow> onb_db \<Rightarrow> bool" where
  "sites_external_ref_idx s db \<longleftrightarrow> site_ExternalRef s \<noteq> None \<and>
     list_ex (\<lambda>r. site_ExternalRef r = site_ExternalRef s \<and> site_CustomerID r = site_CustomerID s) (od_sites db)"

definition CreateSite :: "faults \<Rightarrow> env \<Rightarrow> Site \<Rightarrow> onb_db \<Rightarrow> Site onb_result \<times> onb_db" where
  "CreateSite flt e s db =
     (if TrimSpace (site_Name s) = [] then (Inl (ErrInvalid ''site name is required''), db)
      else if (site_Latitude s = None) \<noteq> (site_Longitude s = None)
      then (Inl (ErrInvalid ''give both latitude and longitude, or neither''), db)
      else let r = site_row e s in
        if flt 0 \<or> site_ID r \<in> site_ID ` set (od_sites db) then (Inl ErrOnbDB, db)
        else if sites_external_ref_idx r db
        then (Inl (ErrExists (''a site with reference '' @ quoted (deref (site_ExternalRef s)) @ '' already exists'')), db)
        else if \<not> fk (site_CustomerID r) (od_customers db) \<or> \<not> fk (site_RegionID r) (od_regions db)
        then (Inl ErrOnbDB, db)
        else (Inr r, db\<lparr> od_sites := od_sites db @ [r] \<rparr>))"

definition GetSite :: "faults \<Rightarrow> string \<Rightarrow> onb_db \<Rightarrow> Site onb_result" where
  "GetSite flt sid db = (if flt 0 then Inl ErrOnbDB else sql_first (filter (\<lambda>r. site_ID r = sid) (od_sites db)))"

definition ListSites :: "faults \<Rightarrow> string list \<Rightarrow> bool \<Rightarrow> onb_db \<Rightarrow> Site list onb_result" where
  "ListSites flt customerIDs scoped db =
     (if flt 0 then Inl ErrOnbDB
      else Inr (sort_key site_Name (filter (\<lambda>r. \<not> scoped \<or> any_of (site_CustomerID r) customerIDs) (od_sites db))))"

definition SiteByRef :: "faults \<Rightarrow> string option \<Rightarrow> string \<Rightarrow> onb_db \<Rightarrow> Site onb_result" where
  "SiteByRef flt customerID ref db =
     (if flt 0 then Inl ErrOnbDB
      else sql_first (filter (\<lambda>r. site_ExternalRef r = Some (TrimSpace ref) \<and>
             deref (site_CustomerID r) = deref customerID) (od_sites db)))"

section \<open>Service plans\<close>

definition isPLMN :: "string \<Rightarrow> bool" where
  "isPLMN s \<longleftrightarrow> (length s = 5 \<or> length s = 6) \<and> list_all is_digit s"

definition enc_CellularProfile :: "CellularProfile \<Rightarrow> json" where
  "enc_CellularProfile c = JObj (enc_opt_str ''apn'' (APN c) @ enc_opt_str ''dnn'' (DNN c) @
     (if MTU c = 0 then [] else [(''mtu'', JNum (Itoa (MTU c)))]) @ enc_opt_str ''bootstrap_apn'' (BootstrapAPN c))"

definition dec_CellularProfile :: "json \<Rightarrow> CellularProfile option" where
  "dec_CellularProfile j = do {
     kvs \<leftarrow> struct_members j;
     a \<leftarrow> decode_field ''apn'' dec_string [] kvs;
     d \<leftarrow> decode_field ''dnn'' dec_string [] kvs;
     m \<leftarrow> decode_field ''mtu'' dec_int 0 kvs;
     b \<leftarrow> decode_field ''bootstrap_apn'' dec_string [] kvs;
     Some \<lparr> APN = a, DNN = d, MTU = m, BootstrapAPN = b \<rparr> }"

definition scanPlan :: "plan_row \<Rightarrow> ServicePlan onb_result" where
  "scanPlan r =
     (case dec_CellularProfile (pr_cellular_profile r) of
        None \<Rightarrow> Inl ErrDecodeProfile
      | Some c \<Rightarrow> Inr \<lparr> plan_ID = pr_id r, plan_CustomerID = pr_customer_id r, plan_Code = pr_code r, plan_Name = pr_name r,
          plan_TemplateIDs = pr_template_ids r, plan_Cellular = c, plan_AllowedPLMNs = pr_allowed_plmns r,
          plan_RequireDiscovery = pr_require_discovery r, plan_CreatedAt = pr_created_at r, plan_UpdatedAt = pr_updated_at r \<rparr>)"

fun scan_all :: "plan_row list \<Rightarrow> ServicePlan list onb_result" where
  "scan_all [] = Inr []"
| "scan_all (r # rs) =
     (case scanPlan r of Inl e \<Rightarrow> Inl e
      | Inr p \<Rightarrow> (case scan_all rs of Inl e \<Rightarrow> Inl e | Inr ps \<Rightarrow> Inr (p # ps)))"

definition scan_first :: "plan_row list \<Rightarrow> ServicePlan onb_result" where
  "scan_first rs = (case rs of [] \<Rightarrow> Inl ErrNotFound | r # _ \<Rightarrow> scanPlan r)"

definition plan_to_row :: "env \<Rightarrow> ServicePlan \<Rightarrow> plan_row" where
  "plan_to_row e p = \<lparr> pr_id = env_uuid e, pr_customer_id = plan_CustomerID p, pr_code = TrimSpace (plan_Code p),
     pr_name = TrimSpace (plan_Name p), pr_template_ids = plan_TemplateIDs p,
     pr_cellular_profile = enc_CellularProfile (plan_Cellular p), pr_allowed_plmns = plan_AllowedPLMNs p,
     pr_require_discovery = (plan_RequireDiscovery p \<or> \<not> empty_profile (plan_Cellular p)),
     pr_created_at = env_now e, pr_updated_at = env_now e \<rparr>"

definition service_plans_code_idx :: "plan_row \<Rightarrow> onb_db \<Rightarrow> bool" where
  "service_plans_code_idx r db =
     list_ex (\<lambda>q. pr_code q = pr_code r \<and> pr_customer_id q = pr_customer_id r) (od_plans db)"

definition CreatePlan :: "faults \<Rightarrow> env \<Rightarrow> ServicePlan \<Rightarrow> onb_db \<Rightarrow> ServicePlan onb_result \<times> onb_db" where
  "CreatePlan flt e p db =
     (if TrimSpace (plan_Code p) = [] \<or> TrimSpace (plan_Name p) = []
      then (Inl (ErrInvalid ''plan code and name are required''), db)
      else case find (\<lambda>plmn. \<not> isPLMN plmn) (plan_AllowedPLMNs p) of
        Some plmn \<Rightarrow> (Inl (ErrInvalid (''allowed network '' @ quoted plmn @ '' must be MCC+MNC: 5 or 6 digits, e.g. 65506'')), db)
      | None \<Rightarrow>
          let r = plan_to_row e p in
          if flt 0 \<or> pr_id r \<in> pr_id ` set (od_plans db) then (Inl ErrOnbDB, db)
          else if service_plans_code_idx r db
          then (Inl (ErrExists (''a plan with code '' @ quoted (plan_Code p) @ '' already exists'')), db)
          else if \<not> fk (pr_customer_id r) (od_customers db) then (Inl ErrOnbDB, db)
          else (scanPlan r, db\<lparr> od_plans := od_plans db @ [r] \<rparr>))"

definition PlanByCode :: "faults \<Rightarrow> string \<Rightarrow> onb_db \<Rightarrow> ServicePlan onb_result" where
  "PlanByCode flt code db =
     (if flt 0 then Inl ErrOnbDB
      else case scan_all (take 2 (nulls_first pr_customer_id (filter (\<lambda>r. pr_code r = TrimSpace code) (od_plans db)))) of
        Inl e \<Rightarrow> Inl e
      | Inr [] \<Rightarrow> Inl ErrNotFound
      | Inr (p # ps) \<Rightarrow> if plan_CustomerID p = None \<or> ps = [] then Inr p else Inl ErrAmbiguousPlan)"

definition PlanForCustomer :: "faults \<Rightarrow> string \<Rightarrow> string \<Rightarrow> onb_db \<Rightarrow> ServicePlan onb_result" where
  "PlanForCustomer flt code customerID db =
     (if flt 0 then Inl ErrOnbDB
      else scan_first (nulls_last pr_customer_id
             (filter (\<lambda>r. pr_code r = TrimSpace code \<and> (pr_customer_id r = None \<or> pr_customer_id r = Some customerID)) (od_plans db))))"

definition GetPlan :: "faults \<Rightarrow> string \<Rightarrow> onb_db \<Rightarrow> ServicePlan onb_result" where
  "GetPlan flt pid db = (if flt 0 then Inl ErrOnbDB else scan_first (filter (\<lambda>r. pr_id r = pid) (od_plans db)))"

definition ListPlans :: "faults \<Rightarrow> string list \<Rightarrow> bool \<Rightarrow> onb_db \<Rightarrow> ServicePlan list onb_result" where
  "ListPlans flt customerIDs scoped db =
     (if flt 0 then Inl ErrOnbDB
      else scan_all (sort_key pr_code (filter (\<lambda>r. \<not> scoped \<or> pr_customer_id r = None \<or> any_of (pr_customer_id r) customerIDs)
             (od_plans db))))"

section \<open>Onboardings\<close>

fun onboardings_state_check :: "onb_state \<Rightarrow> bool" where
  "onboardings_state_check (StateOther _) = False"
| "onboardings_state_check _ = True"

definition onboarding_checks :: "Onboarding \<Rightarrow> bool" where
  "onboarding_checks r \<longleftrightarrow> o_Role r \<in> {''gateway'', ''extender'', ''ont'', ''other''} \<and>
     o_CommercialModel r \<in> {''retail'', ''wholesale'', ''enterprise''} \<and>
     o_Source r \<in> {''console'', ''bss'', ''import''} \<and> onboardings_state_check (o_State r)"

definition onboardings_open_serial_idx :: "Onboarding list \<Rightarrow> bool" where
  "onboardings_open_serial_idx rs = distinct (map o_ExpectedSerial (filter Open rs))"

definition onboarding_fks :: "onb_db \<Rightarrow> Onboarding \<Rightarrow> bool" where
  "onboarding_fks db r \<longleftrightarrow> fk (o_CustomerID r) (od_customers db) \<and> fk (o_DeviceID r) (map dv_id (od_devices db)) \<and>
     fk (o_SiteID r) (map site_ID (od_sites db)) \<and> fk (o_ServicePlanID r) (map pr_id (od_plans db))"

definition onboarding_row :: "env \<Rightarrow> Onboarding \<Rightarrow> Onboarding" where
  "onboarding_row e o' = o'\<lparr> o_ID := env_uuid e, o_ExpectedOUI := ToUpper (TrimSpace (o_ExpectedOUI o')),
     o_ExpectedSerial := TrimSpace (o_ExpectedSerial o'), o_ExpectedIMEI := TrimSpace (o_ExpectedIMEI o'),
     o_ExpectedICCID := TrimSpace (o_ExpectedICCID o'), o_ExpectedIMSI := TrimSpace (o_ExpectedIMSI o'),
     o_AccountRef := TrimSpace (o_AccountRef o'),
     o_Role := (if o_Role o' = [] then ''gateway'' else o_Role o'),
     o_CommercialModel := (if o_CommercialModel o' = [] then ''retail'' else o_CommercialModel o'),
     o_State := StatePlanned, o_StateReason := [], o_StateCode := CodeNone, o_ConfigJobs := [],
     o_CreatedAt := env_now e, o_UpdatedAt := env_now e, o_ContactedAt := None, o_InServiceAt := None, o_EndedAt := None \<rparr>"

definition Create_onboarding :: "faults \<Rightarrow> env \<Rightarrow> Onboarding \<Rightarrow> onb_db \<Rightarrow> Onboarding onb_result \<times> onb_db" where
  "Create_onboarding flt e o' db =
     (if TrimSpace (o_ExpectedSerial o') = [] then (Inl (ErrInvalid ''expected_serial is required''), db)
      else let r = onboarding_row e o' in
        if flt 0 \<or> \<not> onboarding_checks r \<or> o_ID r \<in> o_ID ` set (od_onboardings db) then (Inl ErrOnbDB, db)
        else if \<not> onboardings_open_serial_idx (od_onboardings db @ [r]) then (Inl ErrOpenOnboardingExists, db)
        else if \<not> onboarding_fks db r then (Inl ErrOnbDB, db)
        else (Inr r, db\<lparr> od_onboardings := od_onboardings db @ [r] \<rparr>))"

definition Get_onboarding :: "faults \<Rightarrow> string \<Rightarrow> onb_db \<Rightarrow> Onboarding onb_result" where
  "Get_onboarding flt oid db =
     (if flt 0 then Inl ErrOnbDB else sql_first (filter (\<lambda>r. o_ID r = oid) (od_onboardings db)))"

record ListFilter =
  lf_State :: "onb_state option"
  lf_DeviceID :: string
  lf_CustomerIDs :: "string list"
  lf_Scoped :: bool
  lf_Limit :: int

definition clamp_limit :: "int \<Rightarrow> nat" where
  "clamp_limit n = (if n \<le> 0 \<or> n > 500 then 500 else nat n)"

definition List_onboardings :: "faults \<Rightarrow> ListFilter \<Rightarrow> onb_db \<Rightarrow> Onboarding list onb_result" where
  "List_onboardings flt f db =
     (if flt 0 then Inl ErrOnbDB
      else Inr (take (clamp_limit (lf_Limit f)) (sort_key (\<lambda>r. - o_UpdatedAt r)
        (filter (\<lambda>r. (lf_State f = None \<or> lf_State f = Some (o_State r)) \<and>
             (\<not> lf_Scoped f \<or> any_of (o_CustomerID r) (lf_CustomerIDs f)) \<and>
             (lf_DeviceID f = [] \<or> o_DeviceID r = Some (lf_DeviceID f))) (od_onboardings db)))))"

definition OpenBySerial :: "faults \<Rightarrow> string \<Rightarrow> onb_db \<Rightarrow> Onboarding onb_result" where
  "OpenBySerial flt serial db =
     (if flt 0 then Inl ErrOnbDB
      else sql_first (filter (\<lambda>r. o_ExpectedSerial r = TrimSpace serial \<and> Open r) (od_onboardings db)))"

definition matches_device :: "string \<Rightarrow> string \<Rightarrow> string \<Rightarrow> Onboarding \<Rightarrow> bool" where
  "matches_device deviceID oui serial r \<longleftrightarrow> Open r \<and>
     (o_DeviceID r = Some deviceID \<or>
      (o_DeviceID r = None \<and> o_ExpectedSerial r = serial \<and> (o_ExpectedOUI r = [] \<or> o_ExpectedOUI r = ToUpper oui)))"

definition OpenForDevice :: "faults \<Rightarrow> string \<Rightarrow> string \<Rightarrow> string \<Rightarrow> onb_db \<Rightarrow> Onboarding onb_result" where
  "OpenForDevice flt deviceID oui serial db =
     (if flt 0 then Inl ErrOnbDB
      else sql_first (nulls_last o_DeviceID (filter (matches_device deviceID oui serial) (od_onboardings db))))"

section \<open>Changing an onboarding\<close>

text \<open>An UPDATE of the onboardings table: the number of rows, or an error that changes nothing.\<close>

definition update_onboardings ::
  "bool \<Rightarrow> (Onboarding \<Rightarrow> bool) \<Rightarrow> (Onboarding \<Rightarrow> Onboarding) \<Rightarrow> onb_db \<Rightarrow> nat onb_result \<times> onb_db" where
  "update_onboardings fault p f db =
     (let rows = update_where p f (od_onboardings db) in
      if fault \<or> \<not> list_all onboarding_checks rows \<or> \<not> onboardings_open_serial_idx rows \<or> \<not> list_all (onboarding_fks db) rows
      then (Inl ErrOnbDB, db)
      else (Inr (rows_affected p (od_onboardings db)), db\<lparr> od_onboardings := rows \<rparr>))"

definition apply_row :: "time \<Rightarrow> Decision \<Rightarrow> string \<Rightarrow> string list option \<Rightarrow> Onboarding \<Rightarrow> Onboarding" where
  "apply_row now d deviceID configJobs r = r\<lparr> o_State := d_State d, o_StateReason := d_Reason d, o_StateCode := d_Code d,
     o_DeviceID := (case o_DeviceID r of Some x \<Rightarrow> Some x | None \<Rightarrow> nullIfEmpty deviceID),
     o_ContactedAt := (if o_ContactedAt r = None \<and> d_State d \<noteq> StatePlanned then Some now else o_ContactedAt r),
     o_InServiceAt := (if d_State d = StateInService then Some now else o_InServiceAt r),
     o_ConfigJobs := (case configJobs of None \<Rightarrow> o_ConfigJobs r | Some js \<Rightarrow> js),
     o_UpdatedAt := now \<rparr>"

definition assign_ok :: "string \<Rightarrow> string option \<Rightarrow> device_row \<Rightarrow> bool" where
  "assign_ok deviceID customerID r \<longleftrightarrow> dv_id r = deviceID \<and>
     (dv_customer_id r = None \<or> customerID = None \<or> dv_customer_id r = customerID)"

definition assign_row :: "time \<Rightarrow> string option \<Rightarrow> string option \<Rightarrow> device_row \<Rightarrow> device_row" where
  "assign_row now siteID customerID r = r\<lparr>
     dv_site_id := (case siteID of Some s \<Rightarrow> Some s | None \<Rightarrow> dv_site_id r),
     dv_customer_id := (case dv_customer_id r of Some c \<Rightarrow> Some c | None \<Rightarrow> customerID),
     dv_last_updated_at := now \<rparr>"

text \<open>Statements of the transaction: 0 begins it, 1 moves the onboarding, 2 assigns the device, 3 commits.
  \<open>db\<close> is the state a rollback restores.\<close>

definition assign_device ::
  "faults \<Rightarrow> time \<Rightarrow> Onboarding \<Rightarrow> string \<Rightarrow> onb_db \<Rightarrow> onb_db \<Rightarrow> bool onb_result \<times> onb_db" where
  "assign_device flt now o' deviceID db db1 =
     (if o_State o' = StatePlanned \<and> deviceID \<noteq> [] then
        (let ok = assign_ok deviceID (o_CustomerID o') in
         if flt 2 then (Inl ErrOnbDB, db)
         else if rows_affected ok (od_devices db1) = 0 then (Inl ErrOtherTenant, db)
         else if flt 3 \<or> \<not> fk (o_SiteID o') (map site_ID (od_sites db)) \<or> \<not> fk (o_CustomerID o') (od_customers db)
         then (Inl ErrOnbDB, db)
         else (Inr True, db1\<lparr> od_devices := update_where ok (assign_row now (o_SiteID o') (o_CustomerID o')) (od_devices db1) \<rparr>))
      else if flt 3 then (Inl ErrOnbDB, db) else (Inr True, db1))"

definition as_read :: "Onboarding \<Rightarrow> Onboarding \<Rightarrow> bool" where
  "as_read o' r \<longleftrightarrow> o_ID r = o_ID o' \<and> o_State r = o_State o'"

definition Apply ::
  "faults \<Rightarrow> time \<Rightarrow> Onboarding \<Rightarrow> Decision \<Rightarrow> string \<Rightarrow> string list option \<Rightarrow> onb_db \<Rightarrow> bool onb_result \<times> onb_db" where
  "Apply flt now o' d deviceID configJobs db =
     (if flt 0 then (Inl ErrOnbDB, db)
      else case update_onboardings (flt 1) (as_read o') (apply_row now d deviceID configJobs) db of
        (Inl e, _) \<Rightarrow> (Inl e, db)
      | (Inr n, db1) \<Rightarrow> if n = 0 then (Inr False, db) else assign_device flt now o' deviceID db db1)"

text \<open>\<^verbatim>\<open>exec\<close> and \<^verbatim>\<open>exec2\<close>: no row is not found.\<close>

definition exec_onb :: "faults \<Rightarrow> (Onboarding \<Rightarrow> bool) \<Rightarrow> (Onboarding \<Rightarrow> Onboarding) \<Rightarrow> onb_db \<Rightarrow> unit onb_result \<times> onb_db" where
  "exec_onb flt p f db =
     (case update_onboardings (flt 0) p f db of
        (Inl e, db') \<Rightarrow> (Inl e, db')
      | (Inr n, db') \<Rightarrow> (if n = 0 then Inl ErrNotFound else Inr (), db'))"

definition Retry :: "faults \<Rightarrow> time \<Rightarrow> string \<Rightarrow> onb_db \<Rightarrow> unit onb_result \<times> onb_db" where
  "Retry flt now oid = exec_onb flt (\<lambda>r. o_ID r = oid \<and> o_State r \<in> {StateFailed, StateOnHold})
     (\<lambda>r. r\<lparr> o_State := (if o_DeviceID r = None then StatePlanned else StateContacted), o_StateReason := [],
            o_StateCode := CodeNone, o_ConfigJobs := [], o_UpdatedAt := now \<rparr>)"

definition CancelWithReason :: "faults \<Rightarrow> time \<Rightarrow> string \<Rightarrow> string \<Rightarrow> onb_db \<Rightarrow> unit onb_result \<times> onb_db" where
  "CancelWithReason flt now oid reason = exec_onb flt (\<lambda>r. o_ID r = oid \<and> Open r)
     (\<lambda>r. r\<lparr> o_State := StateCancelled, o_StateCode := CodeNone, o_StateReason := reason, o_UpdatedAt := now \<rparr>)"

definition Cancel :: "faults \<Rightarrow> time \<Rightarrow> string \<Rightarrow> onb_db \<Rightarrow> unit onb_result \<times> onb_db" where
  "Cancel flt now oid = exec_onb flt (\<lambda>r. o_ID r = oid \<and> Open r)
     (\<lambda>r. r\<lparr> o_State := StateCancelled, o_UpdatedAt := now \<rparr>)"

definition OpenBSSSales :: "faults \<Rightarrow> string \<Rightarrow> string \<Rightarrow> onb_db \<Rightarrow> Onboarding list onb_result" where
  "OpenBSSSales flt accountRef role db =
     (if flt 0 then Inl ErrOnbDB
      else Inr (sort_key o_CreatedAt (filter (\<lambda>r. o_Source r = ''bss'' \<and> accountRef \<noteq> [] \<and> o_AccountRef r = accountRef \<and>
             role \<noteq> [] \<and> o_BSSRole r = role \<and> Open r) (od_onboardings db))))"

text \<open>\<open>limit\<close> is at least zero; the interval of the query is \<open>ttl\<close>.\<close>

definition uncontacted :: "string \<Rightarrow> duration \<Rightarrow> time \<Rightarrow> Onboarding \<Rightarrow> bool" where
  "uncontacted source ttl now r \<longleftrightarrow> o_Source r = source \<and> o_State r = StatePlanned \<and> o_DeviceID r = None \<and>
     o_UpdatedAt r < now - ttl"

definition expire_row :: "time \<Rightarrow> string \<Rightarrow> Onboarding \<Rightarrow> Onboarding" where
  "expire_row now reason r =
     r\<lparr> o_State := StateCancelled, o_StateCode := CodeTTLExpired, o_StateReason := reason, o_UpdatedAt := now \<rparr>"

definition ExpireUncontacted ::
  "faults \<Rightarrow> time \<Rightarrow> string \<Rightarrow> duration \<Rightarrow> string \<Rightarrow> nat \<Rightarrow> onb_db \<Rightarrow> Onboarding list onb_result \<times> onb_db" where
  "ExpireUncontacted flt now source ttl reason limit db =
     (let ids = map o_ID (take limit (sort_key o_UpdatedAt (filter (uncontacted source ttl now) (od_onboardings db))));
          p = (\<lambda>r. o_ID r \<in> set ids)
      in case update_onboardings (flt 0) p (expire_row now reason) db of
           (Inl e, db') \<Rightarrow> (Inl e, db')
         | (Inr _, db') \<Rightarrow> (Inr (map (expire_row now reason) (filter p (od_onboardings db))), db'))"

section \<open>Outcome of the configuration, unclaimed devices\<close>

fun job_status_name :: "job_status \<Rightarrow> string" where
  "job_status_name StatusQueued = ''QUEUED''"
| "job_status_name StatusRPCSent = ''RPC_SENT''"
| "job_status_name StatusInProgress = ''IN_PROGRESS''"
| "job_status_name StatusAwaitingTransferComplete = ''AWAITING_TRANSFER_COMPLETE''"
| "job_status_name StatusAwaitingDiagnosticsComplete = ''AWAITING_DIAGNOSTICS_COMPLETE''"
| "job_status_name StatusSuccess = ''SUCCESS''"
| "job_status_name StatusFailed = ''FAILED''"
| "job_status_name StatusTimeout = ''TIMEOUT''"

record outcome =
  oc_pending :: int
  oc_done :: int
  oc_failed :: int
  oc_firstError :: string

definition count_outcome :: "job_row \<Rightarrow> outcome \<Rightarrow> outcome" where
  "count_outcome r acc =
     (if j_status r = StatusSuccess then acc\<lparr> oc_done := oc_done acc + 1 \<rparr>
      else if j_status r = StatusFailed \<or> j_status r = StatusTimeout then
        acc\<lparr> oc_failed := oc_failed acc + 1,
          oc_firstError := (if oc_firstError acc = []
             then (if deref (j_fault_string r) = [] then job_status_name (j_status r) else deref (j_fault_string r))
             else oc_firstError acc) \<rparr>
      else acc\<lparr> oc_pending := oc_pending acc + 1 \<rparr>)"

definition ConfigOutcome :: "faults \<Rightarrow> string list \<Rightarrow> jobs_db \<Rightarrow> outcome onb_result" where
  "ConfigOutcome flt commandKeys jdb =
     (if flt 0 then Inl ErrOnbDB
      else
        let rows = oldest_first (filter (\<lambda>r. j_command_key r \<in> set commandKeys) (jobs jdb));
            acc = fold count_outcome rows \<lparr> oc_pending = 0, oc_done = 0, oc_failed = 0, oc_firstError = [] \<rparr>
        in Inr (acc\<lparr> oc_pending := oc_pending acc + (int (length commandKeys) - int (length rows)) \<rparr>))"

record UnclaimedDevice =
  u_ID :: string
  u_OUISerial :: string
  u_Manufacturer :: string
  u_ProductClass :: string
  u_SerialNumber :: string
  u_OnlineStatus :: string
  u_LastInformAt :: "time option"

definition claimed :: "onb_db \<Rightarrow> device_row \<Rightarrow> bool" where
  "claimed db d = list_ex (\<lambda>r. o_DeviceID r = Some (dv_id d) \<or>
     (o_DeviceID r = None \<and> Open r \<and> Some (o_ExpectedSerial r) = dv_serial_number d)) (od_onboardings db)"

definition last_seen_first :: "device_row list \<Rightarrow> device_row list" where
  "last_seen_first ds = sort_key (\<lambda>d. - the (dv_last_inform_at d)) (filter (\<lambda>d. dv_last_inform_at d \<noteq> None) ds) @
     filter (\<lambda>d. dv_last_inform_at d = None) ds"

definition Unclaimed :: "faults \<Rightarrow> int \<Rightarrow> onb_db \<Rightarrow> UnclaimedDevice list onb_result" where
  "Unclaimed flt limit db =
     (if flt 0 then Inl ErrOnbDB
      else Inr (map (\<lambda>d. \<lparr> u_ID = dv_id d, u_OUISerial = dv_oui_serial d, u_Manufacturer = deref (dv_manufacturer d),
          u_ProductClass = deref (dv_product_class d), u_SerialNumber = deref (dv_serial_number d),
          u_OnlineStatus = deref (dv_online_status d), u_LastInformAt = dv_last_inform_at d \<rparr>)
        (take (clamp_limit limit) (last_seen_first (filter (\<lambda>d. \<not> claimed db d) (od_devices db))))))"

definition DeviceOwners :: "faults \<Rightarrow> string \<Rightarrow> string \<Rightarrow> onb_db \<Rightarrow> string option list onb_result" where
  "DeviceOwners flt oui serial db =
     (if flt 0 then Inl ErrOnbDB
      else Inr (map dv_customer_id (filter (\<lambda>d. dv_serial_number d = Some (TrimSpace serial) \<and>
         (TrimSpace oui = [] \<or> (case dv_oui d of None \<Rightarrow> False | Some x \<Rightarrow> ToUpper x = ToUpper (TrimSpace oui)))) (od_devices db))))"

section \<open>What a statement leaves behind\<close>

text \<open>The constraints of the tables.\<close>

definition onb_wf :: "onb_db \<Rightarrow> bool" where
  "onb_wf db \<longleftrightarrow> distinct (map o_ID (od_onboardings db)) \<and> list_all onboarding_checks (od_onboardings db) \<and>
     onboardings_open_serial_idx (od_onboardings db) \<and> list_all (onboarding_fks db) (od_onboardings db)"

lemma update_onboardings_cases:
  assumes "update_onboardings fault p f db = (res, db')"
  obtains "res = Inl ErrOnbDB" "db' = db"
  | "res = Inr (rows_affected p (od_onboardings db))" "db' = db\<lparr> od_onboardings := update_where p f (od_onboardings db) \<rparr>"
    "list_all onboarding_checks (update_where p f (od_onboardings db))"
    "onboardings_open_serial_idx (update_where p f (od_onboardings db))"
    "list_all (onboarding_fks db) (update_where p f (od_onboardings db))"
proof (cases "res = Inl ErrOnbDB")
  case True
  then have "db' = db" using assms by (simp add: update_onboardings_def Let_def split: if_splits)
  with True show thesis by (rule that(1))
next
  case False
  show thesis
    by (rule that(2)) (use assms False in \<open>simp_all add: update_onboardings_def Let_def split: if_splits\<close>)
qed

lemma onboarding_fks_cong:
  "od_customers db' = od_customers db \<Longrightarrow> map dv_id (od_devices db') = map dv_id (od_devices db) \<Longrightarrow>
   od_sites db' = od_sites db \<Longrightarrow> od_plans db' = od_plans db \<Longrightarrow> onboarding_fks db' = onboarding_fks db"
  by (rule ext) (simp add: onboarding_fks_def)

lemma update_onboardings_wf:
  assumes "onb_wf db" "update_onboardings fault p f db = (res, db')" "\<And>r. o_ID (f r) = o_ID r"
  shows "onb_wf db' \<and> od_devices db' = od_devices db"
  using assms(2)
proof (rule update_onboardings_cases)
  assume r: "db' = db\<lparr> od_onboardings := update_where p f (od_onboardings db) \<rparr>"
    "list_all onboarding_checks (update_where p f (od_onboardings db))"
    "onboardings_open_serial_idx (update_where p f (od_onboardings db))"
    "list_all (onboarding_fks db) (update_where p f (od_onboardings db))"
  have "onboarding_fks db' = onboarding_fks db" by (rule onboarding_fks_cong) (simp_all add: r(1))
  then show ?thesis
    using assms(1) r(2-4) map_update_where [of o_ID f p "od_onboardings db"] assms(3)
    unfolding onb_wf_def by (simp add: r(1))
qed (use assms(1) in simp)

lemma exec_onb_wf:
  assumes "onb_wf db" "\<And>r. o_ID (f r) = o_ID r"
  shows "onb_wf (snd (exec_onb flt p f db)) \<and> od_devices (snd (exec_onb flt p f db)) = od_devices db"
proof -
  obtain res db' where u: "update_onboardings (flt 0) p f db = (res, db')" by (rule prod.exhaust)
  have "onb_wf db' \<and> od_devices db' = od_devices db" by (rule update_onboardings_wf [OF assms(1) u assms(2)])
  then show ?thesis using u by (simp add: exec_onb_def split: sum.split)
qed

lemma assign_device_cases:
  assumes "assign_device flt now o' deviceID db db1 = (res, db')"
  obtains "res \<noteq> Inr True" "db' = db"
  | devs where "res = Inr True" "db' = db1\<lparr> od_devices := devs \<rparr>"
    "devs = od_devices db1 \<or> devs = update_where (assign_ok deviceID (o_CustomerID o'))
       (assign_row now (o_SiteID o') (o_CustomerID o')) (od_devices db1)"
proof -
  let ?a = "update_where (assign_ok deviceID (o_CustomerID o')) (assign_row now (o_SiteID o') (o_CustomerID o')) (od_devices db1)"
  consider "res \<noteq> Inr True" "db' = db" | "res = Inr True" "db' = db1" | "res = Inr True" "db' = db1\<lparr> od_devices := ?a \<rparr>"
    using assms by (auto simp: assign_device_def Let_def split: if_splits)
  then show thesis
  proof cases
    case 1
    then show thesis by (rule that(1))
  next
    case 2
    then show thesis by (intro that(2) [of "od_devices db1"]) simp_all
  next
    case 3
    then show thesis by (intro that(2) [of ?a]) simp_all
  qed
qed

lemma Apply_cases:
  assumes "Apply flt now o' d deviceID configJobs db = (res, db')"
  obtains "res \<noteq> Inr True" "db' = db"
  | n db1 devs where "res = Inr True"
    "update_onboardings (flt 1) (as_read o') (apply_row now d deviceID configJobs) db = (Inr n, db1)" "n \<noteq> 0"
    "db' = db1\<lparr> od_devices := devs \<rparr>"
    "devs = od_devices db1 \<or> devs = update_where (assign_ok deviceID (o_CustomerID o'))
       (assign_row now (o_SiteID o') (o_CustomerID o')) (od_devices db1)"
proof -
  obtain u db1 where u: "update_onboardings (flt 1) (as_read o') (apply_row now d deviceID configJobs) db = (u, db1)"
    by (rule prod.exhaust)
  show thesis
  proof (cases "\<exists>n. u = Inr n \<and> n \<noteq> 0 \<and> \<not> flt 0")
    case True
    then obtain n where n: "u = Inr n" "n \<noteq> 0" "\<not> flt 0" by auto
    then have "assign_device flt now o' deviceID db db1 = (res, db')" using assms u by (simp add: Apply_def)
    then show thesis using that(1) that(2) [OF _ u [unfolded n(1)] n(2)] by (rule assign_device_cases)
  next
    case False
    then have "res \<noteq> Inr True \<and> db' = db" using assms u by (cases u) (auto simp: Apply_def split: if_splits)
    then show thesis using that(1) by blast
  qed
qed

section \<open>Every operation keeps the constraints and the tenants\<close>

lemma assign_row_id [simp]: "dv_id (assign_row now s c r) = dv_id r"
  by (simp add: assign_row_def)

lemma apply_row_id [simp]: "o_ID (apply_row now d dev js r) = o_ID r" "o_State (apply_row now d dev js r) = d_State d"
  by (simp_all add: apply_row_def)

lemma Apply_wf:
  assumes "onb_wf db"
  shows "onb_wf (snd (Apply flt now o' d deviceID configJobs db))"
proof -
  obtain res db' where a: "Apply flt now o' d deviceID configJobs db = (res, db')" by (rule prod.exhaust)
  have "onb_wf db'" using a
  proof (rule Apply_cases)
    fix n db1 devs
    assume u: "update_onboardings (flt 1) (as_read o') (apply_row now d deviceID configJobs) db = (Inr n, db1)"
      and db': "db' = db1\<lparr> od_devices := devs \<rparr>"
      and devs: "devs = od_devices db1 \<or> devs = update_where (assign_ok deviceID (o_CustomerID o'))
        (assign_row now (o_SiteID o') (o_CustomerID o')) (od_devices db1)"
    have "map dv_id devs = map dv_id (od_devices db1)" using devs by (auto simp: map_update_where)
    then have "onboarding_fks db' = onboarding_fks db1" by (intro onboarding_fks_cong) (simp_all add: db')
    moreover have "onb_wf db1" using update_onboardings_wf [OF assms u] by simp
    ultimately show "onb_wf db'" by (simp add: onb_wf_def db')
  qed (use assms in simp)
  then show ?thesis by (simp add: a)
qed

text \<open>Who a device belongs to.\<close>

definition owner :: "onb_db \<Rightarrow> string \<Rightarrow> string option" where
  "owner db did = (case find (\<lambda>d. dv_id d = did) (od_devices db) of None \<Rightarrow> None | Some d \<Rightarrow> dv_customer_id d)"

lemma find_assign:
  "find (\<lambda>d. dv_id d = did) (update_where p (assign_row now s c) ds) =
     map_option (\<lambda>d. if p d then assign_row now s c d else d) (find (\<lambda>d. dv_id d = did) ds)"
  by (induction ds) (simp_all add: update_where_def)

lemma Apply_owner:
  assumes "owner db did = Some c"
  shows "owner (snd (Apply flt now o' d deviceID configJobs db)) did = Some c"
proof -
  obtain res db' where a: "Apply flt now o' d deviceID configJobs db = (res, db')" by (rule prod.exhaust)
  have "owner db' did = Some c" using a
  proof (rule Apply_cases)
    fix n db1 devs
    assume u: "update_onboardings (flt 1) (as_read o') (apply_row now d deviceID configJobs) db = (Inr n, db1)"
      and db': "db' = db1\<lparr> od_devices := devs \<rparr>"
      and devs: "devs = od_devices db1 \<or> devs = update_where (assign_ok deviceID (o_CustomerID o'))
        (assign_row now (o_SiteID o') (o_CustomerID o')) (od_devices db1)"
    have same: "od_devices db1 = od_devices db" using u by (rule update_onboardings_cases) simp_all
    show "owner db' did = Some c"
      using devs assms unfolding owner_def db' same
      by (auto simp: find_assign assign_row_def split: option.splits)
  qed (use assms in simp)
  then show ?thesis by (simp add: a)
qed

text \<open>The operations of the repository that write.\<close>

datatype onb_op = OpCreateSite faults env Site | OpCreatePlan faults env ServicePlan | OpCreate faults env Onboarding
  | OpApply faults time Onboarding Decision string "string list option" | OpRetry faults time string
  | OpCancel faults time string | OpCancelWithReason faults time string string
  | OpExpire faults time string duration string nat

fun onb_exec :: "onb_op \<Rightarrow> onb_db \<Rightarrow> onb_db" where
  "onb_exec (OpCreateSite flt e s) db = snd (CreateSite flt e s db)"
| "onb_exec (OpCreatePlan flt e p) db = snd (CreatePlan flt e p db)"
| "onb_exec (OpCreate flt e o') db = snd (Create_onboarding flt e o' db)"
| "onb_exec (OpApply flt now o' d deviceID js) db = snd (Apply flt now o' d deviceID js db)"
| "onb_exec (OpRetry flt now oid) db = snd (Retry flt now oid db)"
| "onb_exec (OpCancel flt now oid) db = snd (Cancel flt now oid db)"
| "onb_exec (OpCancelWithReason flt now oid reason) db = snd (CancelWithReason flt now oid reason db)"
| "onb_exec (OpExpire flt now src ttl reason limit) db = snd (ExpireUncontacted flt now src ttl reason limit db)"

lemma Expire_wf:
  assumes "onb_wf db"
  shows "onb_wf (snd (ExpireUncontacted flt now src ttl reason limit db)) \<and>
    od_devices (snd (ExpireUncontacted flt now src ttl reason limit db)) = od_devices db"
proof -
  let ?p = "\<lambda>r. o_ID r \<in> set (map o_ID (take limit (sort_key o_UpdatedAt (filter (uncontacted src ttl now) (od_onboardings db)))))"
  obtain res db' where u: "update_onboardings (flt 0) ?p (expire_row now reason) db = (res, db')" by (rule prod.exhaust)
  have "onb_wf db' \<and> od_devices db' = od_devices db"
    by (rule update_onboardings_wf [OF assms u]) (simp add: expire_row_def)
  then show ?thesis using u by (simp add: ExpireUncontacted_def Let_def split: sum.split)
qed

lemma onb_wf_mono:
  assumes "onb_wf db" "od_onboardings db' = od_onboardings db" "\<And>r. onboarding_fks db r \<Longrightarrow> onboarding_fks db' r"
  shows "onb_wf db'"
  using assms by (auto simp: onb_wf_def list_all_iff)

lemma CreateSite_wf: "onb_wf db \<Longrightarrow> onb_wf (snd (CreateSite flt e s db)) \<and> od_devices (snd (CreateSite flt e s db)) = od_devices db"
  by (auto simp: CreateSite_def Let_def fk_def onboarding_fks_def split: option.splits intro!: onb_wf_mono [of db])

lemma CreatePlan_wf: "onb_wf db \<Longrightarrow> onb_wf (snd (CreatePlan flt e p db)) \<and> od_devices (snd (CreatePlan flt e p db)) = od_devices db"
  by (auto simp: CreatePlan_def Let_def fk_def onboarding_fks_def split: option.splits intro!: onb_wf_mono [of db])

lemma Create_onboarding_wf:
  assumes "onb_wf db"
  shows "onb_wf (snd (Create_onboarding flt e o' db)) \<and> od_devices (snd (Create_onboarding flt e o' db)) = od_devices db"
proof -
  have "onboarding_fks (db\<lparr> od_onboardings := rs \<rparr>) = onboarding_fks db" for rs
    by (rule onboarding_fks_cong) simp_all
  then show ?thesis using assms by (simp add: Create_onboarding_def Let_def onb_wf_def)
qed

lemma onb_exec_wf: "onb_wf db \<Longrightarrow> onb_wf (onb_exec op db)"
  by (cases op)
    (simp_all add: CreateSite_wf CreatePlan_wf Create_onboarding_wf Apply_wf Expire_wf exec_onb_wf
      Retry_def Cancel_def CancelWithReason_def)

lemma onb_exec_owner:
  assumes "onb_wf db" "owner db did = Some c"
  shows "owner (onb_exec op db) did = Some c"
proof (cases "\<exists>flt now o' d dev js. op = OpApply flt now o' d dev js")
  case True
  then show ?thesis using Apply_owner [OF assms(2)] by auto
next
  case False
  then have "od_devices (onb_exec op db) = od_devices db"
    using assms(1) by (cases op)
      (simp_all add: CreateSite_wf CreatePlan_wf Create_onboarding_wf Expire_wf exec_onb_wf
        Retry_def Cancel_def CancelWithReason_def)
  then show ?thesis using assms(2) by (simp add: owner_def)
qed

text \<open>
  C13. Whatever sequence of repository operations runs, with whatever failures, from a table that
  satisfies its constraints: the constraints hold throughout, so a serial number has at most one
  open sale, and a device that belongs to a customer is never moved to another one.
\<close>

theorem onboarding_ops_keep_tenants:
  assumes "onb_wf db"
  shows "onb_wf (fold onb_exec ops db) \<and>
    (owner db did \<noteq> None \<longrightarrow> owner (fold onb_exec ops db) did = owner db did)"
  using assms
proof (induction ops arbitrary: db)
  case (Cons op ops)
  have "onb_wf (onb_exec op db)" by (rule onb_exec_wf [OF Cons.prems])
  then show ?case using Cons.IH onb_exec_owner [OF Cons.prems] by (cases "owner db did") auto
qed simp

definition tenant_db :: onb_db where
  "tenant_db = \<lparr> od_customers = [''c1'', ''c2''], od_regions = [], od_sites = [], od_plans = [], od_onboardings = [sale StatePlanned],
     od_devices = [\<lparr> dv_id = ''d1'', dv_oui_serial = ''O-SN1'', dv_oui = Some ''O'', dv_serial_number = Some ''SN1'',
       dv_manufacturer = None, dv_product_class = None, dv_online_status = None, dv_last_inform_at = None,
       dv_customer_id = Some ''c2'', dv_site_id = None, dv_label = None, dv_location = None, dv_latitude = None,
       dv_longitude = None, dv_last_updated_at = 0 \<rparr>] \<rparr>"

lemma tenant_db_wf: "onb_wf tenant_db"
  by (simp add: onb_wf_def tenant_db_def sale_def onboarding_checks_def onboardings_open_serial_idx_def onboarding_fks_def fk_def
      Open_def open_state_def)

theorem onboarding_ops_keep_tenants_witness:
  "owner (fold onb_exec [OpApply no_faults 5 (sale StatePlanned) (decide StateContacted [] CodeNone) ''d1'' None] tenant_db) ''d1''
     = Some ''c2'' \<and>
   fst (Apply no_faults 5 (sale StatePlanned) (decide StateContacted [] CodeNone) ''d1'' None tenant_db) = Inl ErrOtherTenant"
proof -
  have "owner tenant_db ''d1'' = Some ''c2''" by (simp add: owner_def tenant_db_def)
  then show ?thesis
    using onboarding_ops_keep_tenants [OF tenant_db_wf, of
        "[OpApply no_faults 5 (sale StatePlanned) (decide StateContacted [] CodeNone) ''d1'' None]" "''d1''"]
    by (simp add: Apply_def assign_device_def update_onboardings_def update_where_def rows_affected_def as_read_def assign_ok_def
        Let_def tenant_db_def sale_def apply_row_def onboarding_checks_def onboardings_open_serial_idx_def onboarding_fks_def fk_def
        Open_def open_state_def nullIfEmpty_def)
qed

section \<open>Several gateways\<close>

record apply_request =
  aq_faults :: faults
  aq_now :: time
  aq_onb :: Onboarding
  aq_decision :: Decision
  aq_device :: string
  aq_jobs :: "string list option"

definition try_apply :: "apply_request \<Rightarrow> onb_db \<Rightarrow> bool \<times> onb_db" where
  "try_apply q db =
     (let (res, db') = Apply (aq_faults q) (aq_now q) (aq_onb q) (aq_decision q) (aq_device q) (aq_jobs q) db
      in (res = Inr True, db'))"

definition stored_state :: "onb_db \<Rightarrow> string \<Rightarrow> onb_state option" where
  "stored_state db oid = map_option o_State (find (\<lambda>r. o_ID r = oid) (od_onboardings db))"

lemma stored_state_update:
  "stored_state (db\<lparr> od_onboardings := update_where p (apply_row now d dev js) (od_onboardings db) \<rparr>) k =
     map_option (\<lambda>r. if p r then d_State d else o_State r) (find (\<lambda>r. o_ID r = k) (od_onboardings db))"
  by (auto simp: stored_state_def find_update_where option.map_comp comp_def intro: option.map_cong)

lemma stored_state_Apply:
  assumes "onb_wf db" "Apply flt now o' d deviceID configJobs db = (Inr True, db')"
  shows "stored_state db (o_ID o') = Some (o_State o') \<and> stored_state db' (o_ID o') = Some (d_State d) \<and>
    (k \<noteq> o_ID o' \<longrightarrow> stored_state db' k = stored_state db k)"
  using assms(2)
proof (rule Apply_cases)
  fix n db1 devs
  assume u: "update_onboardings (flt 1) (as_read o') (apply_row now d deviceID configJobs) db = (Inr n, db1)"
    and n: "n \<noteq> 0" and db': "db' = db1\<lparr> od_devices := devs \<rparr>"
  have r: "n = rows_affected (as_read o') (od_onboardings db)"
    "db1 = db\<lparr> od_onboardings := update_where (as_read o') (apply_row now d deviceID configJobs) (od_onboardings db) \<rparr>"
    using u by (auto elim: update_onboardings_cases)
  then obtain r where "r \<in> set (od_onboardings db)" "as_read o' r"
    using n by (auto simp: rows_affected_def filter_empty_conv)
  then have f: "find (\<lambda>x. o_ID x = o_ID o') (od_onboardings db) = Some r" "o_State r = o_State o'" "as_read o' r"
    using find_distinct [of o_ID "od_onboardings db" r] assms(1) by (auto simp: as_read_def onb_wf_def)
  have s: "stored_state db' x = stored_state db1 x" for x by (simp add: stored_state_def db')
  have "find (\<lambda>x. o_ID x = k) (od_onboardings db) = Some q \<Longrightarrow> as_read o' q \<Longrightarrow> k = o_ID o'" for q
    by (auto simp: find_Some_iff as_read_def)
  then show ?thesis
    unfolding s r(2) stored_state_update using f
    by (cases "find (\<lambda>x. o_ID x = k) (od_onboardings db)") (auto simp: stored_state_def)
qed simp

lemma try_apply_hit:
  "fst (try_apply q db) \<longleftrightarrow> (\<exists>db'. Apply (aq_faults q) (aq_now q) (aq_onb q) (aq_decision q) (aq_device q) (aq_jobs q) db = (Inr True, db'))"
  by (auto simp: try_apply_def Let_def split: prod.split)

interpretation onb: guarded_store onb_wf stored_state try_apply "\<lambda>q. o_ID (aq_onb q)" "\<lambda>q. o_State (aq_onb q)"
  "\<lambda>_ q. d_State (aq_decision q)"
proof unfold_locales
  fix db k and q :: apply_request assume wf: "onb_wf db"
  let ?run = "Apply (aq_faults q) (aq_now q) (aq_onb q) (aq_decision q) (aq_device q) (aq_jobs q) db"
  have snd: "snd (try_apply q db) = snd ?run" by (simp add: try_apply_def Let_def split_beta)
  have miss: "snd (try_apply q db) = db" if "\<not> fst (try_apply q db)"
  proof -
    obtain res db' where a: "?run = (res, db')" by (rule prod.exhaust)
    then have "res \<noteq> Inr True" using that by (simp add: try_apply_def)
    then show ?thesis using a snd by (metis Apply_cases snd_conv)
  qed
  show "onb_wf (snd (try_apply q db))" by (simp add: snd Apply_wf [OF wf])
  show "stored_state (snd (try_apply q db)) k = stored_state db k" if "\<not> fst (try_apply q db)"
    by (simp add: miss [OF that])
  show "stored_state db (o_ID (aq_onb q)) = Some (o_State (aq_onb q)) \<and>
      stored_state (snd (try_apply q db)) (o_ID (aq_onb q)) = Some (d_State (aq_decision q))" if "fst (try_apply q db)"
    using that stored_state_Apply [OF wf] by (auto simp: try_apply_hit snd)
  show "stored_state (snd (try_apply q db)) k = stored_state db k" if "k \<noteq> o_ID (aq_onb q)"
    using that stored_state_Apply [OF wf] miss by (cases "fst (try_apply q db)") (auto simp: try_apply_hit snd)
qed


definition contact_request :: "time \<Rightarrow> apply_request" where
  "contact_request now = \<lparr> aq_faults = no_faults, aq_now = now, aq_onb = sale StatePlanned,
     aq_decision = decide StateContacted [] CodeNone, aq_device = [], aq_jobs = None \<rparr>"


end
