(* ===== verification/Onboarding_Reconcile.thy ===== *)
theory Onboarding_Reconcile
  imports Onboarding_Store
begin

text \<open>
  The gateway's onboarding reconciler (\<^verbatim>\<open>cmd/acs/onboarding.go\<close>): it gathers the facts of an Inform,
  evaluates the onboarding and carries out the decision over the onboarding repository and the job
  queue. What it reads from other packages in one run is the record \<open>deps\<close>; the job queue, the
  onboarding tables, the audit log and the published events are the record \<open>gateway\<close>.
\<close>

section \<open>The handler's surroundings\<close>

record Device =
  dev_ID :: string
  dev_OUI :: string
  dev_SerialNumber :: string
  dev_CustomerID :: "string option"
  dev_CWMPAuthMode :: string

datatype cred_lookup = CredActive | ErrNoActiveCredential | CredError

datatype event_sink = CustomerEventSink | PlainEventSink

text \<open>
  \<open>deps_names\<close> is \<open>None\<close> when the names cannot be read or there are none, \<open>deps_cache\<close> when the
  cache cannot be read, \<open>deps_credentials\<close> when the handler has no credential store, \<open>deps_events\<close>
  when it has no event store. \<open>deps_env n\<close> is the environment of the n-th job queued, and
  \<open>deps_errtext\<close> gives the text of an error of the queue. The statements that fail are numbered from
  0 for the reads, 10 for the update, 20 for the jobs.
\<close>

record deps =
  deps_onboarding :: bool
  deps_credentials :: "cred_lookup option"
  deps_names :: "names option"
  deps_cache :: "cache option"
  deps_templates :: "string \<Rightarrow> string + (string \<times> string \<times> string) list"
  deps_its :: "nat \<Rightarrow> string list"
  deps_events :: "event_sink option"
  deps_env :: "nat \<Rightarrow> env"
  deps_now :: time
  deps_errtext :: "job_error \<Rightarrow> string"
  deps_faults :: faults

record audit_entry =
  au_actor :: string
  au_device :: string
  au_from :: onb_state
  au_to :: onb_state

record event =
  ev_customer :: "string option"
  ev_key :: string
  ev_account :: string
  ev_device :: string
  ev_type :: string
  ev_reason :: string

record gateway =
  gw_onb :: onb_db
  gw_jobs :: jobs_db
  gw_audit :: "audit_entry list"
  gw_events :: "event list"

definition AuthModeMTLS :: string where "AuthModeMTLS = ''MTLS''"

definition deviceSecured :: "deps \<Rightarrow> Device \<Rightarrow> bool" where
  "deviceSecured dp device =
     (if dev_CWMPAuthMode device = AuthModeMTLS then True
      else case deps_credentials dp of None \<Rightarrow> False | Some r \<Rightarrow> r = CredActive)"

section \<open>Queueing\<close>

definition enc_GetParameterPayload :: "string list \<Rightarrow> json" where
  "enc_GetParameterPayload paths = JObj [(''paths'', JArr (map JStr paths))]"

definition readSIMForOnboarding ::
  "deps \<Rightarrow> string \<Rightarrow> string \<Rightarrow> names \<Rightarrow> Decision \<Rightarrow> jobs_db \<Rightarrow> Decision \<times> jobs_db" where
  "readSIMForOnboarding dp deviceID creator names d jdb =
     (let paths = SIMReadPaths names in
      if names \<noteq> [] \<and> hd paths \<notin> fst ` set names
      then (d\<lparr> d_Reason := ''the device reports no SIM identifiers to check against the sale'', d_Code := CodeSIMUnreadable \<rparr>, jdb)
      else if deps_faults dp 5 \<or> HasOpenJobByCreator deviceID (creator @ '':sim'') jdb then (d, jdb)
      else (d, snd (Create (\<lambda>n. deps_faults dp (20 + n)) (deps_env dp 0) [] deviceID TypeGetParameter
                     (enc_GetParameterPayload paths) (creator @ '':sim'') jdb)))"

text \<open>The writes of the plan's templates, or the error of the first that cannot be loaded.\<close>

fun template_writes :: "deps \<Rightarrow> string list \<Rightarrow> string + ParameterWrite list list" where
  "template_writes dp [] = Inr []"
| "template_writes dp (tid # tids) =
     (case deps_templates dp tid of
        Inl err \<Rightarrow> Inl (''template '' @ tid @ '': '' @ err)
      | Inr ps \<Rightarrow>
          (case template_writes dp tids of
             Inl err \<Rightarrow> Inl err
           | Inr ws \<Rightarrow> Inr (map (\<lambda>(n, v, t). \<lparr> pw_Name = n, pw_Value = v, pw_Type = t, pw_SecretHandle = [] \<rparr>) ps # ws)))"

definition config_payload :: "ParameterWrite list \<Rightarrow> json" where
  "config_payload params = enc_SetParameterPayload \<lparr> sp_EvidenceFirmware = [], sp_EvidenceBound = False, sp_NonReadable = [],
     sp_Parameters = params, sp_Verify = True, sp_VerificationPending = False \<rparr>"

text \<open>The loop over the writes: \<open>n\<close> counts the jobs queued so far.\<close>

fun queue_writes ::
  "deps \<Rightarrow> nat \<Rightarrow> string \<Rightarrow> string \<Rightarrow> ParameterWrite list list \<Rightarrow> string list \<Rightarrow> jobs_db \<Rightarrow> (string list \<times> string option) \<times> jobs_db" where
  "queue_writes dp n deviceID creator [] keys jdb = ((keys, None), jdb)"
| "queue_writes dp n deviceID creator (params # rest) keys jdb =
     (if params = [] then queue_writes dp n deviceID creator rest keys jdb
      else case Create (\<lambda>k. deps_faults dp (21 + n + k)) (deps_env dp (Suc n)) [] deviceID TypeSetParameter
                  (config_payload params) creator jdb of
        (Inl err, jdb') \<Rightarrow> ((keys, Some (deps_errtext dp err)), jdb')
      | (Inr job, jdb') \<Rightarrow> queue_writes dp (Suc n) deviceID creator rest (keys @ [job_CommandKey job]) jdb')"

definition queueOnboardingConfiguration ::
  "deps \<Rightarrow> string \<Rightarrow> string \<Rightarrow> ServicePlan \<Rightarrow> names \<Rightarrow> cache \<Rightarrow> jobs_db \<Rightarrow> (string list \<times> string option) \<times> jobs_db" where
  "queueOnboardingConfiguration dp deviceID creator plan names cache jdb =
     (case template_writes dp (plan_TemplateIDs plan) of
        Inl err \<Rightarrow> (([], Some err), jdb)
      | Inr writes \<Rightarrow>
          queue_writes dp 0 deviceID creator
            (writes @ [map (\<lambda>w. \<lparr> pw_Name = w_Name w, pw_Value = w_Value w, pw_Type = w_Type w, pw_SecretHandle = [] \<rparr>)
               (CellularWrites (deps_its dp) (plan_Cellular plan) names cache)]) [] jdb)"

section \<open>Events\<close>

fun onb_state_name :: "onb_state \<Rightarrow> string" where
  "onb_state_name StatePlanned = ''PLANNED''"
| "onb_state_name StateContacted = ''CONTACTED''"
| "onb_state_name StateSecured = ''SECURED''"
| "onb_state_name StateDiscovered = ''DISCOVERED''"
| "onb_state_name StateConfiguring = ''CONFIGURING''"
| "onb_state_name StateInService = ''IN_SERVICE''"
| "onb_state_name StateOnHold = ''ON_HOLD''"
| "onb_state_name StateFailed = ''FAILED''"
| "onb_state_name StateCancelled = ''CANCELLED''"
| "onb_state_name StateEnded = ''ENDED''"
| "onb_state_name (StateOther s) = s"

definition event_key :: "Onboarding \<Rightarrow> Decision \<Rightarrow> time \<Rightarrow> string" where
  "event_key o' d t = ''onboarding-'' @ o_ID o' @ ''-'' @ onb_state_name (o_State o') @ ''-'' @
     onb_state_name (d_State d) @ ''-'' @ Itoa t"

text \<open>An event goes to the sale's customer when there is one and the store can pin it.\<close>

definition publishOnboardingEvent :: "deps \<Rightarrow> Onboarding \<Rightarrow> Decision \<Rightarrow> string \<Rightarrow> event list" where
  "publishOnboardingEvent dp o' d deviceID =
     (case deps_events dp of
        None \<Rightarrow> []
      | Some sink \<Rightarrow>
          let key = event_key o' d (deps_now dp);
              create = (\<lambda>k t. \<lparr> ev_customer = (if sink = CustomerEventSink then o_CustomerID o' else None), ev_key = k,
                 ev_account = o_AccountRef o', ev_device = deviceID, ev_type = t, ev_reason = d_Reason d \<rparr>)
          in create key ''OnboardingStateChangeEvent'' #
             (if d_Code d \<in> {CodeSIMMismatch, CodePLMNNotAllowed, CodeDeviceOtherCustomer}
              then [create (''identity-mismatch-'' @ key) ''IdentityMismatch''] else []))"

section \<open>The reconciler\<close>

definition gather_facts :: "deps \<Rightarrow> Device \<Rightarrow> cache \<Rightarrow> outcome \<Rightarrow> Facts" where
  "gather_facts dp device cache oc =
     \<lparr> f_Informed = True, f_Secured = deviceSecured dp device,
       f_Discovered = (case deps_names dp of None \<Rightarrow> False | Some ns \<Rightarrow> ns \<noteq> []),
       f_ICCID = fst (SIMIdentifiers cache), f_IMSI = snd (SIMIdentifiers cache),
       f_ConfigPending = oc_pending oc, f_ConfigDone = oc_done oc, f_ConfigFailed = oc_failed oc,
       f_ConfigError = oc_firstError oc \<rparr>"

definition no_outcome :: outcome where
  "no_outcome = \<lparr> oc_pending = 0, oc_done = 0, oc_failed = 0, oc_firstError = [] \<rparr>"

definition of_other_customer :: "Onboarding \<Rightarrow> Device \<Rightarrow> bool" where
  "of_other_customer o' device \<longleftrightarrow> o_State o' = StatePlanned \<and> dev_CustomerID device \<noteq> None \<and> o_CustomerID o' \<noteq> None \<and>
     dev_CustomerID device \<noteq> o_CustomerID o'"

text \<open>The decision and the device to bind, before anything is queued.\<close>

definition decide_onboarding :: "Onboarding \<Rightarrow> ServicePlan option \<Rightarrow> Facts \<Rightarrow> Device \<Rightarrow> Decision \<times> string" where
  "decide_onboarding o' plan f device =
     (if of_other_customer o' device
      then (decide StateOnHold ''the device already belongs to another customer'' CodeDeviceOtherCustomer, [])
      else (Evaluate o' plan f, dev_ID device))"

text \<open>Carrying out a decision: the SIM read, the configuration, the update, the audit record and the events.\<close>

definition queue_decided ::
  "deps \<Rightarrow> Device \<Rightarrow> bool \<Rightarrow> Onboarding \<Rightarrow> ServicePlan option \<Rightarrow> cache \<Rightarrow> Decision \<Rightarrow> jobs_db \<Rightarrow>
   (Decision \<times> string list option) \<times> jobs_db" where
  "queue_decided dp device onInform o' plan cache d jdb =
     (let names = (case deps_names dp of None \<Rightarrow> [] | Some ns \<Rightarrow> ns);
          creator = ''onboarding:'' @ o_ID o';
          (d1, jdb1) = (if d_ReadSIM d \<and> onInform then readSIMForOnboarding dp (dev_ID device) creator names d jdb else (d, jdb))
      in case (d_Configure d1, plan) of
           (True, Some p) \<Rightarrow>
             (case queueOnboardingConfiguration dp (dev_ID device) creator p names cache jdb1 of
                ((keys, None), jdb2) \<Rightarrow> ((d1, Some keys), jdb2)
              | ((keys, Some err), jdb2) \<Rightarrow>
                  ((decide StateFailed (''configuration could not be queued: '' @ err) CodeConfigFailed, Some keys), jdb2))
         | _ \<Rightarrow> ((d1, None), jdb1))"

definition carry_out ::
  "deps \<Rightarrow> Device \<Rightarrow> bool \<Rightarrow> Onboarding \<Rightarrow> ServicePlan option \<Rightarrow> cache \<Rightarrow> Decision \<Rightarrow> string \<Rightarrow> gateway \<Rightarrow> bool \<times> gateway" where
  "carry_out dp device onInform o' plan cache d bindTo g =
     (case queue_decided dp device onInform o' plan cache d (gw_jobs g) of
        ((d2, configJobs), jdb) \<Rightarrow>
          let g1 = g\<lparr> gw_jobs := jdb \<rparr>; queued = (case configJobs of None \<Rightarrow> False | Some ks \<Rightarrow> ks \<noteq> [])
          in if d_State d2 = o_State o' \<and> d_Reason d2 = o_StateReason o' \<and> configJobs = None then (False, g1)
             else case Apply (\<lambda>n. deps_faults dp (10 + n)) (deps_now dp) o' d2 bindTo configJobs (gw_onb g1) of
               (Inl e, odb) \<Rightarrow> (queued, g1\<lparr> gw_onb := odb \<rparr>)
             | (Inr moved, odb) \<Rightarrow>
                 let g2 = g1\<lparr> gw_onb := odb \<rparr>
                 in if \<not> moved \<or> d_State d2 = o_State o' then (queued, g2)
                    else (queued, g2\<lparr>
                      gw_audit := gw_audit g2 @ [\<lparr> au_actor = ''onboarding:'' @ o_ID o', au_device = dev_ID device,
                        au_from = o_State o', au_to = d_State d2 \<rparr>],
                      gw_events := gw_events g2 @ publishOnboardingEvent dp o' d2 bindTo \<rparr>))"

definition load_plan :: "deps \<Rightarrow> Onboarding \<Rightarrow> onb_db \<Rightarrow> ServicePlan option onb_result" where
  "load_plan dp o' odb =
     (case o_ServicePlanID o' of
        None \<Rightarrow> Inr None
      | Some pid \<Rightarrow> (case GetPlan (\<lambda>_. deps_faults dp 1) pid odb of Inl e \<Rightarrow> Inl e | Inr p \<Rightarrow> Inr (Some p)))"

definition reconcileOnboarding :: "deps \<Rightarrow> Device \<Rightarrow> bool \<Rightarrow> gateway \<Rightarrow> bool \<times> gateway" where
  "reconcileOnboarding dp device onInform g =
     (if \<not> deps_onboarding dp then (False, g)
      else case OpenForDevice (\<lambda>_. deps_faults dp 0) (dev_ID device) (dev_OUI device) (dev_SerialNumber device) (gw_onb g) of
        Inl e \<Rightarrow> (False, g)
      | Inr o' \<Rightarrow>
          case load_plan dp o' (gw_onb g) of
            Inl e \<Rightarrow> (False, g)
          | Inr plan \<Rightarrow>
              case deps_cache dp of
                None \<Rightarrow> (False, g)
              | Some cache \<Rightarrow>
                  case (if o_ConfigJobs o' \<noteq> [] then ConfigOutcome (\<lambda>_. deps_faults dp 4) (o_ConfigJobs o') (gw_jobs g)
                        else Inr no_outcome) of
                    Inl e \<Rightarrow> (False, g)
                  | Inr oc \<Rightarrow>
                      case decide_onboarding o' plan (gather_facts dp device cache oc) device of
                        (d, bindTo) \<Rightarrow> carry_out dp device onInform o' plan cache d bindTo g)"

definition reconcileOnboardingAtSessionEnd :: "(string \<Rightarrow> Device option) \<Rightarrow> deps \<Rightarrow> string \<Rightarrow> gateway \<Rightarrow> bool \<times> gateway" where
  "reconcileOnboardingAtSessionEnd get_device dp deviceID g =
     (if \<not> deps_onboarding dp then (False, g)
      else case get_device deviceID of None \<Rightarrow> (False, g) | Some device \<Rightarrow> reconcileOnboarding dp device False g)"

section \<open>What the reconciler queues\<close>

definition queued_for :: "string \<Rightarrow> string \<Rightarrow> job_row \<Rightarrow> bool" where
  "queued_for deviceID oid r \<longleftrightarrow> j_device_id r = deviceID \<and> j_status r = StatusQueued \<and> \<not> writes_protected r \<and>
     j_created_by r \<in> {Some (''onboarding:'' @ oid), Some (''onboarding:'' @ oid @ '':sim'')}"

definition extends :: "(job_row \<Rightarrow> bool) \<Rightarrow> jobs_db \<Rightarrow> jobs_db \<Rightarrow> bool" where
  "extends P jdb jdb' \<longleftrightarrow> (\<exists>new. jobs jdb' = jobs jdb @ new \<and> list_all P new) \<and>
     (distinct (map j_id (jobs jdb)) \<longrightarrow> distinct (map j_id (jobs jdb')))"

lemma extends_refl [simp]: "extends P jdb jdb"
  by (simp add: extends_def)

lemma extends_trans: "extends P a b \<Longrightarrow> extends P b c \<Longrightarrow> extends P a c"
  by (auto simp: extends_def)

lemma Create_extends:
  assumes "creator \<in> {''onboarding:'' @ oid, ''onboarding:'' @ oid @ '':sim''}"
  shows "extends (queued_for deviceID oid) jdb (snd (Create flt e [] deviceID t payload creator jdb))"
proof (cases "checkProtectedWrite [] t payload")
  case None
  let ?r = "new_row e deviceID t payload creator default_max_attempts None None"
  have "\<not> writes_protected ?r" by (rule checkProtectedWrite_None [OF None]) simp_all
  then have "queued_for deviceID oid ?r"
    using assms by (auto simp: queued_for_def new_row_def nullIfEmpty_def)
  then show ?thesis
    by (auto simp: Create_def None insert_returning_def insert_job_def insert_ok_def extends_def)
qed (simp add: Create_def)

lemma queue_writes_extends:
  "extends (queued_for deviceID oid) jdb (snd (queue_writes dp n deviceID (''onboarding:'' @ oid) ws keys jdb))"
proof (induction ws arbitrary: n keys jdb)
  case (Cons params rest)
  let ?run = "Create (\<lambda>k. deps_faults dp (21 + n + k)) (deps_env dp (Suc n)) [] deviceID TypeSetParameter
    (config_payload params) (''onboarding:'' @ oid) jdb"
  have "extends (queued_for deviceID oid) jdb (snd ?run)" by (rule Create_extends) simp
  then show ?case
    using Cons.IH extends_trans by (fastforce split: prod.split sum.split)
qed simp

lemma queueOnboardingConfiguration_extends:
  "extends (queued_for deviceID oid) jdb
     (snd (queueOnboardingConfiguration dp deviceID (''onboarding:'' @ oid) plan names cache jdb))"
  using queue_writes_extends [of deviceID oid jdb dp 0]
  by (cases "template_writes dp (plan_TemplateIDs plan)") (simp_all add: queueOnboardingConfiguration_def)

lemma readSIM_extends:
  "extends (queued_for deviceID oid) jdb (snd (readSIMForOnboarding dp deviceID (''onboarding:'' @ oid) names d jdb))"
  using Create_extends [of "''onboarding:'' @ oid @ '':sim''" oid]
  by (simp add: readSIMForOnboarding_def Let_def)

lemma readSIM_state:
  "d_State (fst (readSIMForOnboarding dp deviceID creator names d jdb)) = d_State d \<and>
   d_Configure (fst (readSIMForOnboarding dp deviceID creator names d jdb)) = d_Configure d"
  by (simp add: readSIMForOnboarding_def Let_def)

text \<open>What queueing does to the decision: it stands, or the configuration failed.\<close>

lemma queue_decided_spec:
  assumes "queue_decided dp device onInform o' plan cache d jdb = ((d2, js), jdb')"
  shows "extends (queued_for (dev_ID device) (o_ID o')) jdb jdb' \<and>
    (d_State d2 = d_State d \<or> d_Configure d \<and> d_State d2 = StateFailed)"
proof -
  define names where "names = (case deps_names dp of None \<Rightarrow> [] | Some ns \<Rightarrow> ns)"
  define creator where "creator = ''onboarding:'' @ o_ID o'"
  obtain d1 jdb1 where r: "(if d_ReadSIM d \<and> onInform then readSIMForOnboarding dp (dev_ID device) creator names d jdb else (d, jdb))
      = (d1, jdb1)" by (rule prod.exhaust)
  let ?P = "queued_for (dev_ID device) (o_ID o')"
  have d1: "d_State d1 = d_State d" "d_Configure d1 = d_Configure d" and e1: "extends ?P jdb jdb1"
    using r readSIM_state [of dp "dev_ID device" creator names d jdb]
      readSIM_extends [of "dev_ID device" "o_ID o'" jdb dp names d]
    by (auto simp: creator_def split: if_splits)
  show ?thesis
  proof (cases "d_Configure d \<and> plan \<noteq> None")
    case True
    then obtain p where p: "plan = Some p" by auto
    obtain keys err jdb2 where q: "queueOnboardingConfiguration dp (dev_ID device) creator p names cache jdb1 = ((keys, err), jdb2)"
      by (metis prod.exhaust)
    have e2: "extends ?P jdb1 jdb2"
      using queueOnboardingConfiguration_extends [of "dev_ID device" "o_ID o'" jdb1 dp p names cache] q
      by (simp add: creator_def)
    have "jdb' = jdb2 \<and> (d2 = d1 \<or> d_State d2 = StateFailed)"
      using assms True p r q d1 unfolding queue_decided_def creator_def [symmetric] names_def [symmetric] Let_def
      by (auto split: option.splits)
    then show ?thesis using extends_trans [OF e1 e2] d1 True by auto
  next
    case False
    then have "jdb' = jdb1 \<and> d2 = d1"
      using assms r d1 unfolding queue_decided_def creator_def [symmetric] names_def [symmetric] Let_def
      by (auto split: bool.splits option.splits)
    then show ?thesis using e1 d1 by simp
  qed
qed

section \<open>What a run of the reconciler does\<close>

text \<open>The decision follows the onboarding diagram, also when its configuration cannot be queued.\<close>

lemma decide_onboarding_edges:
  assumes "decide_onboarding o' plan f device = (d, bindTo)"
  shows "onb_edge\<^sup>*\<^sup>* (o_State o') (d_State d) \<and>
    (d_Configure d \<longrightarrow> onb_edge\<^sup>*\<^sup>* (o_State o') StateFailed)"
proof (cases "of_other_customer o' device")
  case True
  then have "onb_edge\<^sup>*\<^sup>* (o_State o') StateOnHold"
    using edge_path [OF onb_edge.contact edge_path [OF onb_edge.hold rtranclp.rtrancl_refl]] by (simp add: of_other_customer_def)
  then show ?thesis using assms True by (auto simp: decide_onboarding_def)
next
  case False
  then have d: "d = Evaluate o' plan f" using assms by (simp add: decide_onboarding_def)
  note path = Evaluate_path [of o' plan f]
  have "d_State d = StateConfiguring" if "d_Configure d" using that Evaluate_configure d by blast
  then show ?thesis
    using path d rtranclp.rtrancl_into_rtrancl [of onb_edge "o_State o'" StateConfiguring StateFailed] onb_edge.fail by metis
qed

lemma set_nulls_last [simp]: "set (nulls_last k rs) = set rs"
  by (auto simp: nulls_last_def)

lemma OpenForDevice_stored:
  assumes "onb_wf db" "OpenForDevice flt did oui serial db = Inr o'"
  shows "stored_state db (o_ID o') = Some (o_State o')"
proof -
  have "o' \<in> set (nulls_last o_DeviceID (filter (matches_device did oui serial) (od_onboardings db)))"
    using assms(2) by (simp add: OpenForDevice_def sql_first_def del: set_nulls_last split: if_splits list.splits)
  then have "o' \<in> set (od_onboardings db)" by simp
  then show ?thesis using assms(1) find_distinct [of o_ID "od_onboardings db" o'] by (simp add: stored_state_def onb_wf_def)
qed

text \<open>Every way through the reconciler ends before the decision or in carrying it out.\<close>

lemma reconcile_cases:
  assumes "reconcileOnboarding dp device onInform g = (q, g')"
  obtains "g' = g" "\<not> q"
  | o' plan cache f d bindTo where
    "OpenForDevice (\<lambda>_. deps_faults dp 0) (dev_ID device) (dev_OUI device) (dev_SerialNumber device) (gw_onb g) = Inr o'"
    "decide_onboarding o' plan f device = (d, bindTo)" "carry_out dp device onInform o' plan cache d bindTo g = (q, g')"
  using assms
  by (auto simp: reconcileOnboarding_def split: if_splits sum.splits option.splits prod.splits)

text \<open>Carrying out a decision: jobs are only added, and the update is a guarded one.\<close>

lemma carry_out_spec:
  assumes "carry_out dp device onInform o' plan cache d bindTo g = (q, g')"
  obtains d2 js where
    "extends (queued_for (dev_ID device) (o_ID o')) (gw_jobs g) (gw_jobs g')"
    "d_State d2 = d_State d \<or> d_Configure d \<and> d_State d2 = StateFailed"
    "gw_onb g' = gw_onb g \<and> gw_audit g' = gw_audit g \<or>
     gw_onb g' = snd (Apply (\<lambda>n. deps_faults dp (10 + n)) (deps_now dp) o' d2 bindTo js (gw_onb g)) \<and>
     gw_audit g' = gw_audit g @
       (if fst (Apply (\<lambda>n. deps_faults dp (10 + n)) (deps_now dp) o' d2 bindTo js (gw_onb g)) = Inr True \<and> d_State d2 \<noteq> o_State o'
        then [\<lparr> au_actor = ''onboarding:'' @ o_ID o', au_device = dev_ID device, au_from = o_State o', au_to = d_State d2 \<rparr>] else [])"
proof -
  obtain d2 js jdb where qd: "queue_decided dp device onInform o' plan cache d (gw_jobs g) = ((d2, js), jdb)"
    by (metis prod.exhaust)
  obtain res odb where a: "Apply (\<lambda>n. deps_faults dp (10 + n)) (deps_now dp) o' d2 bindTo js (gw_onb g) = (res, odb)"
    by (rule prod.exhaust)
  have "gw_jobs g' = jdb" and
    "gw_onb g' = gw_onb g \<and> gw_audit g' = gw_audit g \<or> gw_onb g' = odb \<and> gw_audit g' = gw_audit g @
       (if res = Inr True \<and> d_State d2 \<noteq> o_State o'
        then [\<lparr> au_actor = ''onboarding:'' @ o_ID o', au_device = dev_ID device, au_from = o_State o', au_to = d_State d2 \<rparr>] else [])"
    using assms a qd by (cases res; simp add: carry_out_def Let_def split: if_splits; fastforce)+
  then show thesis using that [of d2 js] queue_decided_spec [OF qd] a by simp
qed

lemma Apply_moved:
  assumes "onb_wf db" "stored_state (snd (Apply flt now o' d bindTo js db)) oid \<noteq> stored_state db oid"
  shows "fst (Apply flt now o' d bindTo js db) = Inr True \<and> oid = o_ID o' \<and> d_State d \<noteq> o_State o' \<and>
    stored_state (snd (Apply flt now o' d bindTo js db)) oid = Some (d_State d)"
proof -
  obtain res db' where a: "Apply flt now o' d bindTo js db = (res, db')" by (rule prod.exhaust)
  then have "res = Inr True" using assms(2) by (auto elim: Apply_cases)
  then show ?thesis using stored_state_Apply [OF assms(1) a [unfolded \<open>res = Inr True\<close>], of oid] assms(2) a by auto
qed

text \<open>
  C19. A run of the reconciler only adds jobs to the queue: queued jobs of the informing device, on
  behalf of its onboarding, none of which writes a protected parameter, whatever the templates and
  the service plan contain.
\<close>

theorem reconcile_queues_safely:
  "\<exists>oid new. jobs (gw_jobs (snd (reconcileOnboarding dp device onInform g))) = jobs (gw_jobs g) @ new \<and>
     list_all (queued_for (dev_ID device) oid) new"
proof -
  obtain q g' where r: "reconcileOnboarding dp device onInform g = (q, g')" by (rule prod.exhaust)
  then have "\<exists>oid. extends (queued_for (dev_ID device) oid) (gw_jobs g) (gw_jobs g')"
    by (rule reconcile_cases) (auto elim: carry_out_spec)
  then show ?thesis using r by (auto simp: extends_def)
qed


definition demo_device :: Device where
  "demo_device = \<lparr> dev_ID = ''d1'', dev_OUI = ''O'', dev_SerialNumber = ''SN1'', dev_CustomerID = Some ''c2'', dev_CWMPAuthMode = [] \<rparr>"

definition demo_deps :: deps where
  "demo_deps = \<lparr> deps_onboarding = True, deps_credentials = None, deps_names = None, deps_cache = Some [],
     deps_templates = (\<lambda>_. Inr []), deps_its = (\<lambda>_. []), deps_events = None, deps_env = (\<lambda>_. idem_env), deps_now = 7,
     deps_errtext = (\<lambda>_. []), deps_faults = no_faults \<rparr>"

definition demo_gateway :: gateway where
  "demo_gateway = \<lparr> gw_onb = tenant_db, gw_jobs = idem_db, gw_audit = [], gw_events = [] \<rparr>"

lemma demo_run:
  "stored_state tenant_db ''s1'' = Some StatePlanned \<and>
   stored_state (gw_onb (snd (reconcileOnboarding demo_deps demo_device True demo_gateway))) ''s1'' = Some StateOnHold"
  by (simp add: reconcileOnboarding_def demo_deps_def demo_device_def demo_gateway_def OpenForDevice_def sql_first_def nulls_last_def
      matches_device_def tenant_db_def sale_def Open_def open_state_def load_plan_def decide_onboarding_def of_other_customer_def
      carry_out_def queue_decided_def Let_def Apply_def assign_device_def update_onboardings_def update_where_def rows_affected_def
      as_read_def apply_row_def onboarding_checks_def onboardings_open_serial_idx_def onboarding_fks_def fk_def nullIfEmpty_def
      stored_state_def no_outcome_def)


end
