(* ===== verification/Onboarding_Outcomes.thy ===== *)
theory Onboarding_Outcomes
  imports Onboarding_Store
begin

text \<open>
  What the onboarding repository's queries promise: the outcome of the configuration jobs and the
  state it leads to, the expiry of sales no device contacted, and service plans read back as stored.
\<close>

section \<open>The outcome of the configuration\<close>

definition row_failed :: "job_row \<Rightarrow> bool" where
  "row_failed r \<longleftrightarrow> j_status r = StatusFailed \<or> j_status r = StatusTimeout"

definition row_open :: "job_row \<Rightarrow> bool" where
  "row_open r \<longleftrightarrow> j_status r \<noteq> StatusSuccess \<and> \<not> row_failed r"

lemma count_outcome_fold:
  "oc_pending (fold count_outcome rs acc) = oc_pending acc + int (length (filter row_open rs))"
  "oc_failed (fold count_outcome rs acc) = oc_failed acc + int (length (filter row_failed rs))"
  by (induction rs arbitrary: acc) (auto simp: count_outcome_def row_open_def row_failed_def)

lemma ConfigOutcome_counts:
  assumes "ConfigOutcome flt keys jdb = Inr oc"
  defines "R \<equiv> filter (\<lambda>r. j_command_key r \<in> set keys) (jobs jdb)"
  shows "oc_failed oc = int (length (filter row_failed R))"
    "oc_pending oc = int (length (filter row_open R)) + (int (length keys) - int (length R))"
  using assms(1)
  by (auto simp: ConfigOutcome_def Let_def count_outcome_fold oldest_first_def filter_sort R_def split: if_splits)

lemma keyed_rows:
  fixes rs :: "job_row list"
  assumes "distinct (map j_command_key rs)" "distinct keys"
  defines "R \<equiv> filter (\<lambda>r. j_command_key r \<in> set keys) rs"
  shows "length R \<le> length keys" "length R = length keys \<longleftrightarrow> set keys \<subseteq> j_command_key ` set rs"
proof -
  have d: "distinct (map j_command_key R)" unfolding R_def by (rule distinct_filter_keys [OF assms(1)])
  have s: "set (map j_command_key R) = set keys \<inter> j_command_key ` set rs" by (auto simp: R_def)
  have l: "length R = card (set keys \<inter> j_command_key ` set rs)"
    using distinct_card [OF d] unfolding s by simp
  have k: "length keys = card (set keys)" using distinct_card [OF assms(2)] by simp
  show "length R \<le> length keys" unfolding l k by (rule card_mono) auto
  show "length R = length keys \<longleftrightarrow> set keys \<subseteq> j_command_key ` set rs"
    unfolding l k using card_subset_eq [of "set keys" "set keys \<inter> j_command_key ` set rs"] by (auto simp: le_iff_inf)
qed

definition with_outcome :: "Facts \<Rightarrow> outcome \<Rightarrow> Facts" where
  "with_outcome f oc = f\<lparr> f_ConfigPending := oc_pending oc, f_ConfigDone := oc_done oc, f_ConfigFailed := oc_failed oc,
     f_ConfigError := oc_firstError oc \<rparr>"

text \<open>
  C22. An onboarding whose configuration was queued enters service exactly when every one of its
  configuration jobs has succeeded, and fails exactly when one of them failed or timed out; a job
  that is still open, or not visible yet, keeps it in CONFIGURING.
\<close>

theorem in_service_iff_configured:
  assumes "o_State o' = StateConfiguring" "distinct (map j_command_key (jobs jdb))" "distinct keys"
    and "ConfigOutcome flt keys jdb = Inr oc"
  shows "(d_State (Evaluate o' plan (with_outcome f oc)) = StateInService \<longleftrightarrow>
      (\<forall>k \<in> set keys. \<exists>r \<in> set (jobs jdb). j_command_key r = k \<and> j_status r = StatusSuccess)) \<and>
    (d_State (Evaluate o' plan (with_outcome f oc)) = StateFailed \<longleftrightarrow>
      (\<exists>r \<in> set (jobs jdb). j_command_key r \<in> set keys \<and> row_failed r))"
proof -
  let ?R = "filter (\<lambda>r. j_command_key r \<in> set keys) (jobs jdb)"
  note counts = ConfigOutcome_counts [OF assms(4)] and rows = keyed_rows [OF assms(2,3)]
  have ev: "Evaluate o' plan (with_outcome f oc) = eval_configuring (with_outcome f oc)" by (simp add: Evaluate_def assms(1))
  have fl: "oc_failed oc > 0 \<longleftrightarrow> (\<exists>r \<in> set (jobs jdb). j_command_key r \<in> set keys \<and> row_failed r)"
    unfolding counts by (auto simp: length_greater_0_conv filter_empty_conv simp del: length_greater_0_conv)
  have "oc_pending oc \<le> 0 \<longleftrightarrow> filter row_open ?R = [] \<and> length ?R = length keys"
    unfolding counts using rows(1) by (simp flip: length_0_conv) linarith
  then have pd: "oc_pending oc \<le> 0 \<longleftrightarrow>
      (\<forall>r \<in> set (jobs jdb). j_command_key r \<in> set keys \<longrightarrow> \<not> row_open r) \<and> set keys \<subseteq> j_command_key ` set (jobs jdb)"
    unfolding rows(2) by (auto simp: filter_empty_conv)
  have uniq: "r = r'" if "r \<in> set (jobs jdb)" "r' \<in> set (jobs jdb)" "j_command_key r = j_command_key r'" for r r'
    using assms(2) that by (auto simp: distinct_map inj_on_def)
  have "\<not> oc_failed oc > 0 \<and> oc_pending oc \<le> 0 \<longleftrightarrow>
      (\<forall>k \<in> set keys. \<exists>r \<in> set (jobs jdb). j_command_key r = k \<and> j_status r = StatusSuccess)"
    unfolding fl pd using uniq by (fastforce simp: row_open_def row_failed_def)
  then show ?thesis using fl unfolding ev by (auto simp: eval_configuring_def with_outcome_def)
qed

section \<open>Expiry\<close>

lemma expire_open: "\<not> Open (expire_row now reason r)"
  by (simp add: Open_def open_state_def expire_row_def)

lemma distinct_subseq_expire:
  "distinct (map o_ExpectedSerial (filter Open rs)) \<Longrightarrow>
   distinct (map o_ExpectedSerial (filter Open (update_where p (expire_row now reason) rs)))"
proof (induction rs)
  case (Cons r rs)
  have "set (map o_ExpectedSerial (filter Open (update_where p (expire_row now reason) rs))) \<subseteq>
      set (map o_ExpectedSerial (filter Open rs))"
    by (auto simp: update_where_def expire_open split: if_splits)
  then show ?case using Cons by (auto simp: update_where_def expire_open split: if_splits)
qed (simp add: update_where_def)

lemma expire_accepted:
  assumes "onb_wf db"
  shows "update_onboardings False p (expire_row now reason) db =
    (Inr (rows_affected p (od_onboardings db)), db\<lparr> od_onboardings := update_where p (expire_row now reason) (od_onboardings db) \<rparr>)"
proof -
  let ?rows = "update_where p (expire_row now reason) (od_onboardings db)"
  have "list_all onboarding_checks ?rows" "list_all (onboarding_fks db) ?rows"
    using assms by (auto simp: onb_wf_def list_all_iff update_where_def onboarding_checks_def onboarding_fks_def expire_row_def)
  moreover have "onboardings_open_serial_idx ?rows"
    using assms distinct_subseq_expire by (simp add: onb_wf_def onboardings_open_serial_idx_def)
  ultimately show ?thesis by (simp add: update_onboardings_def Let_def)
qed

text \<open>
  Expiry cancels, without ever running into a constraint, at most \<open>limit\<close> sales, and only sales
  of the source that are still PLANNED, have no device and were not touched within the TTL; every
  other row is left as it is, and nothing overdue is left over unless the limit was reached.
\<close>

theorem ExpireUncontacted_exact:
  assumes "onb_wf db" "\<not> flt 0"
  shows "\<exists>out rest. ExpireUncontacted flt now src ttl reason limit db =
      (Inr (map (expire_row now reason) (filter (\<lambda>r. o_ID r \<in> set out) (od_onboardings db))),
       db\<lparr> od_onboardings := update_where (\<lambda>r. o_ID r \<in> set out) (expire_row now reason) (od_onboardings db) \<rparr>) \<and>
    length out \<le> limit \<and> (length out < limit \<longrightarrow> rest = []) \<and>
    set (out @ rest) = o_ID ` {r \<in> set (od_onboardings db). uncontacted src ttl now r}"
proof -
  let ?due = "sort_key o_UpdatedAt (filter (uncontacted src ttl now) (od_onboardings db))"
  let ?out = "map o_ID (take limit ?due)" and ?rest = "map o_ID (drop limit ?due)"
  have "set (?out @ ?rest) = set (map o_ID (take limit ?due @ drop limit ?due))"
    by (simp only: map_append)
  also have "\<dots> = o_ID ` {r \<in> set (od_onboardings db). uncontacted src ttl now r}"
    unfolding append_take_drop_id by auto
  finally have "set (?out @ ?rest) = o_ID ` {r \<in> set (od_onboardings db). uncontacted src ttl now r}" .
  moreover have "length ?out < limit \<longrightarrow> ?rest = []" by auto
  ultimately show ?thesis
    using assms expire_accepted [OF assms(1)]
    by (intro exI [of _ ?out] exI [of _ ?rest]) (simp add: ExpireUncontacted_def Let_def)
qed

theorem ExpireUncontacted_exact_witness:
  "\<exists>out rest. ExpireUncontacted no_faults (100 * second) ''bss'' second ''late'' 10 tenant_db =
      (Inr (map (expire_row (100 * second) ''late'') (filter (\<lambda>r. o_ID r \<in> set out) (od_onboardings tenant_db))),
       tenant_db\<lparr> od_onboardings := update_where (\<lambda>r. o_ID r \<in> set out) (expire_row (100 * second) ''late'') (od_onboardings tenant_db) \<rparr>) \<and>
    length out \<le> 10 \<and> (length out < 10 \<longrightarrow> rest = []) \<and> set (out @ rest) = {''s1''}"
proof -
  have due: "uncontacted ''bss'' second (100 * second) (sale StatePlanned)"
    by (simp add: uncontacted_def sale_def second_def)
  have rows: "od_onboardings tenant_db = [sale StatePlanned]" by (simp add: tenant_db_def)
  have set: "{r \<in> set (od_onboardings tenant_db). uncontacted ''bss'' second (100 * second) r} = {sale StatePlanned}"
    using due by (auto simp: rows)
  have img: "o_ID ` {sale StatePlanned} = {''s1''}" by (simp add: sale_def)
  have ok: "\<not> no_faults 0" by simp
  show ?thesis using ExpireUncontacted_exact [OF tenant_db_wf ok] unfolding set [symmetric] img [symmetric] by blast
qed

text \<open>A sale whose two configuration jobs are done.\<close>

definition config_job :: "string \<Rightarrow> job_status \<Rightarrow> job_row" where
  "config_job key st = (new_row idem_env ''d1'' TypeSetParameter JNull [] 3 None None)\<lparr> j_command_key := key, j_status := st \<rparr>"

definition config_db :: jobs_db where
  "config_db = \<lparr> jobs = [config_job ''k1'' StatusSuccess, config_job ''k2'' StatusSuccess], devices = [(''d1'', None)] \<rparr>"

theorem in_service_iff_configured_witness:
  "\<exists>oc. ConfigOutcome no_faults [''k1'', ''k2''] config_db = Inr oc \<and>
     d_State (Evaluate (sale StateConfiguring) None (with_outcome (seen_facts []) oc)) = StateInService"
proof -
  obtain oc where oc: "ConfigOutcome no_faults [''k1'', ''k2''] config_db = Inr oc" by (simp add: ConfigOutcome_def Let_def)
  have "d_State (Evaluate (sale StateConfiguring) None (with_outcome (seen_facts []) oc)) = StateInService"
    using in_service_iff_configured [OF _ _ _ oc, of "sale StateConfiguring" None "seen_facts []"]
    by (simp add: config_db_def config_job_def sale_def)
  with oc show ?thesis by blast
qed

section \<open>Service plans\<close>

lemma EqualFold_ne: "ToLower k \<noteq> ToLower n \<Longrightarrow> \<not> EqualFold k n"
  by (simp add: EqualFold_def)

lemma decode_field_append:
  "decode_field n d v (xs @ ys) = (case decode_field n d v xs of None \<Rightarrow> None | Some w \<Rightarrow> decode_field n d w ys)"
proof (induction xs arbitrary: v)
  case (Cons kj xs)
  obtain k j where "kj = (k, j)" by (rule prod.exhaust)
  then show ?case using Cons by (cases "d v j") simp_all
qed simp

lemma profile_names [simp]:
  "EqualFold n n"
  "\<not> EqualFold ''apn'' ''dnn''" "\<not> EqualFold ''apn'' ''mtu''" "\<not> EqualFold ''apn'' ''bootstrap_apn''"
  "\<not> EqualFold ''dnn'' ''apn''" "\<not> EqualFold ''dnn'' ''mtu''" "\<not> EqualFold ''dnn'' ''bootstrap_apn''"
  "\<not> EqualFold ''mtu'' ''apn''" "\<not> EqualFold ''mtu'' ''dnn''" "\<not> EqualFold ''mtu'' ''bootstrap_apn''"
  "\<not> EqualFold ''bootstrap_apn'' ''apn''" "\<not> EqualFold ''bootstrap_apn'' ''dnn''" "\<not> EqualFold ''bootstrap_apn'' ''mtu''"
  by (simp_all add: EqualFold_def ToLower_def lower_char_def)

lemma CellularProfile_roundtrip:
  assumes "- (2 ^ 63) \<le> MTU c" "MTU c < 2 ^ 63"
  shows "dec_CellularProfile (enc_CellularProfile c) = Some c"
proof -
  have "ParseInt 10 (Itoa (MTU c)) = Some (MTU c)"
    using ParseInt_FormatInt [OF _ _ assms, of 10] by (simp add: Itoa_def)
  then show ?thesis
    by (cases c) (auto simp: dec_CellularProfile_def enc_CellularProfile_def enc_opt_str_def decode_field_append)
qed

lemma plan_row_id [simp]: "pr_id (plan_to_row e p) = env_uuid e"
  by (simp add: plan_to_row_def)

lemma scan_plan_row:
  assumes "- (2 ^ 63) \<le> MTU (plan_Cellular p)" "MTU (plan_Cellular p) < 2 ^ 63"
  shows "scanPlan (plan_to_row e p) = Inr (p\<lparr> plan_ID := env_uuid e, plan_Code := TrimSpace (plan_Code p),
     plan_Name := TrimSpace (plan_Name p),
     plan_RequireDiscovery := plan_RequireDiscovery p \<or> \<not> empty_profile (plan_Cellular p),
     plan_CreatedAt := env_now e, plan_UpdatedAt := env_now e \<rparr>)"
  by (simp add: scanPlan_def plan_to_row_def CellularProfile_roundtrip [OF assms])

text \<open>
  A plan that was created is read back, by its id, exactly as the caller gave it, apart from the
  columns the store owns and the rule that a cellular profile needs discovery; it is found by code
  for its own customer, and its allowed networks are all MCC+MNC prefixes.
\<close>

theorem CreatePlan_roundtrip:
  assumes "CreatePlan flt e p db = (Inr p', db')"
    and "- (2 ^ 63) \<le> MTU (plan_Cellular p)" "MTU (plan_Cellular p) < 2 ^ 63"
  shows "GetPlan no_faults (env_uuid e) db' = Inr p' \<and>
    p' = p\<lparr> plan_ID := env_uuid e, plan_Code := TrimSpace (plan_Code p), plan_Name := TrimSpace (plan_Name p),
       plan_RequireDiscovery := plan_RequireDiscovery p \<or> \<not> empty_profile (plan_Cellular p),
       plan_CreatedAt := env_now e, plan_UpdatedAt := env_now e \<rparr> \<and>
    list_all isPLMN (plan_AllowedPLMNs p)"
proof -
  have r: "\<not> pr_id (plan_to_row e p) \<in> pr_id ` set (od_plans db)" "db' = db\<lparr> od_plans := od_plans db @ [plan_to_row e p] \<rparr>"
    "scanPlan (plan_to_row e p) = Inr p'" "find (\<lambda>plmn. \<not> isPLMN plmn) (plan_AllowedPLMNs p) = None"
    using assms(1) by (auto simp: CreatePlan_def Let_def split: if_splits option.splits)
  then have "filter (\<lambda>r. pr_id r = env_uuid e) (od_plans db') = [plan_to_row e p]"
    by (simp add: filter_empty_conv) (metis image_eqI plan_row_id)
  then show ?thesis using r scan_plan_row [OF assms(2,3), of e]
    by (auto simp: GetPlan_def scan_first_def find_None_iff list_all_iff)
qed

definition demo_plan :: ServicePlan where
  "demo_plan = \<lparr> plan_ID = [], plan_CustomerID = Some ''c1'', plan_Code = ''FWA50'', plan_Name = ''Fixed wireless'',
     plan_TemplateIDs = [], plan_Cellular = \<lparr> APN = ''internet'', DNN = [], MTU = 1400, BootstrapAPN = [] \<rparr>,
     plan_AllowedPLMNs = [], plan_RequireDiscovery = False, plan_CreatedAt = 0, plan_UpdatedAt = 0 \<rparr>"

theorem CreatePlan_roundtrip_witness:
  "\<exists>p' db'. CreatePlan no_faults idem_env demo_plan tenant_db = (Inr p', db') \<and>
     GetPlan no_faults ''u1'' db' = Inr p' \<and> plan_RequireDiscovery p'"
proof -
  have b: "- (2 ^ 63) \<le> MTU (plan_Cellular demo_plan)" "MTU (plan_Cellular demo_plan) < 2 ^ 63"
    by (simp_all add: demo_plan_def)
  obtain p' db' where c: "CreatePlan no_faults idem_env demo_plan tenant_db = (Inr p', db')"
    using scan_plan_row [OF b, of idem_env]
    by (simp add: CreatePlan_def Let_def demo_plan_def tenant_db_def plan_to_row_def service_plans_code_idx_def fk_def
        TrimSpace_def is_space_def)
  then show ?thesis using CreatePlan_roundtrip [OF c b] by (auto simp: demo_plan_def empty_profile_def idem_env_def)
qed

text \<open>
  A plan looked up for a customer is that customer's own or a shared one, never another
  customer's, and a shared one only when the customer has none with that code.
\<close>

theorem PlanForCustomer_tenant:
  "case PlanForCustomer flt code customerID db of
     Inr p \<Rightarrow> plan_Code p = TrimSpace code \<and>
       (plan_CustomerID p = Some customerID \<or>
        plan_CustomerID p = None \<and> \<not> list_ex (\<lambda>r. pr_code r = TrimSpace code \<and> pr_customer_id r = Some customerID) (od_plans db))
   | Inl e \<Rightarrow> True"
proof (cases "PlanForCustomer flt code customerID db")
  case (Inr p)
  define ms where "ms = filter (\<lambda>r. pr_code r = TrimSpace code \<and> (pr_customer_id r = None \<or> pr_customer_id r = Some customerID)) (od_plans db)"
  define own where "own = sort_key (\<lambda>r. the (pr_customer_id r)) (filter (\<lambda>r. pr_customer_id r \<noteq> None) ms)"
  define shared where "shared = filter (\<lambda>r. pr_customer_id r = None) ms"
  have so: "set own = {r \<in> set ms. pr_customer_id r \<noteq> None}" and ss: "set shared = {r \<in> set ms. pr_customer_id r = None}"
    by (auto simp: own_def shared_def)
  have "scan_first (own @ shared) = Inr p"
    using Inr unfolding own_def shared_def nulls_last_def [symmetric] ms_def by (simp add: PlanForCustomer_def split: if_splits)
  then have ne: "own @ shared \<noteq> []" and sc: "scanPlan (hd (own @ shared)) = Inr p"
    by (cases "own @ shared"; simp add: scan_first_def)+
  have p: "plan_Code p = pr_code (hd (own @ shared))" "plan_CustomerID p = pr_customer_id (hd (own @ shared))"
    using sc by (auto simp: scanPlan_def split: option.splits)
  have hd: "hd (own @ shared) \<in> (if own = [] then set shared else set own)"
    using ne hd_in_set by (auto simp: hd_append)
  have none: "\<not> list_ex (\<lambda>r. pr_code r = TrimSpace code \<and> pr_customer_id r = Some customerID) (od_plans db)" if "own = []"
    using so that by (fastforce simp: list_ex_iff ms_def)
  show ?thesis using hd p none Inr by (cases "own = []") (auto simp: so ss ms_def)
qed simp

end
