(* ===== verification/Go_Crypto.thy ===== *)
theory Go_Crypto
  imports Go_Prelude
begin

text \<open>
  The hash functions and encodings of Go's standard library that the modelled packages use: SHA-256
  (\<^verbatim>\<open>crypto/sha256\<close>), MD5 (\<^verbatim>\<open>crypto/md5\<close>), HMAC-SHA-256 (\<^verbatim>\<open>crypto/hmac\<close>) and base64
  (\<^verbatim>\<open>encoding/base64\<close>), over byte strings. Nothing is assumed of them; the theorems of the development
  only use the length of a digest and that decoding undoes encoding.
\<close>

unbundle bit_operations_syntax

section \<open>Words and bytes\<close>

definition byte_of :: "nat \<Rightarrow> 32 word \<Rightarrow> char" where
  "byte_of i w = char_of (unat (drop_bit i w AND 0xFF))"

definition be_bytes :: "32 word \<Rightarrow> string" where
  "be_bytes w = [byte_of 24 w, byte_of 16 w, byte_of 8 w, byte_of 0 w]"

definition le_bytes :: "32 word \<Rightarrow> string" where
  "le_bytes w = [byte_of 0 w, byte_of 8 w, byte_of 16 w, byte_of 24 w]"

fun be_words :: "string \<Rightarrow> 32 word list" where
  "be_words (a # b # c # d # s) =
     (push_bit 24 (of_char a) OR push_bit 16 (of_char b) OR push_bit 8 (of_char c) OR of_char d) # be_words s"
| "be_words _ = []"

fun le_words :: "string \<Rightarrow> 32 word list" where
  "le_words (a # b # c # d # s) =
     (of_char a OR push_bit 8 (of_char b) OR push_bit 16 (of_char c) OR push_bit 24 (of_char d)) # le_words s"
| "le_words _ = []"

text \<open>The length in bits as eight bytes, most significant first.\<close>

definition length_bytes :: "nat \<Rightarrow> string" where
  "length_bytes n = map (\<lambda>i. char_of (8 * n div 2 ^ i mod 256)) [56, 48, 40, 32, 24, 16, 8, 0]"

definition md_pad :: "(nat \<Rightarrow> string) \<Rightarrow> string \<Rightarrow> string" where
  "md_pad len s = s @ [CHR 0x80] @ replicate ((119 - length s mod 64) mod 64) (CHR 0x00) @ len (length s)"

fun chunks :: "nat \<Rightarrow> 'a list \<Rightarrow> 'a list list" where
  "chunks k [] = []"
| "chunks 0 (x # xs) = [x # xs]"
| "chunks (Suc k) (x # xs) = (x # take k xs) # chunks (Suc k) (drop k xs)"

section \<open>SHA-256\<close>

type_synonym state8 = "32 word \<times> 32 word \<times> 32 word \<times> 32 word \<times> 32 word \<times> 32 word \<times> 32 word \<times> 32 word"

text \<open>
  The constants are the first 32 bits of the fractional parts of the cube roots of the first 64
  primes, and for the initial state of the square roots of the first eight. \<open>iroot k n\<close> is the integer
  part of the \<open>k\<close>-th root, bit by bit, for roots below \<open>2 ^ 36\<close>; the conversion to a word drops the
  bits above the point.
\<close>

definition iroot :: "nat \<Rightarrow> nat \<Rightarrow> nat" where
  "iroot k n = fold (\<lambda>b r. if (r + 2 ^ b) ^ k \<le> n then r + 2 ^ b else r) (rev [0..<36]) 0"

definition sha256_primes :: "nat list" where
  "sha256_primes = filter (\<lambda>p. list_all (\<lambda>d. p mod d \<noteq> 0) [2..<p]) [2..<312]"

definition sha256_K :: "32 word list" where
  "sha256_K = map (\<lambda>p. of_nat (iroot 3 (p * 2 ^ 96))) sha256_primes"

definition sha256_init :: state8 where
  "sha256_init = (let r = (\<lambda>i. of_nat (iroot 2 (sha256_primes ! i * 2 ^ 64)))
     in (r 0, r 1, r 2, r 3, r 4, r 5, r 6, r 7))"

definition small_sigma0 :: "32 word \<Rightarrow> 32 word" where
  "small_sigma0 x = word_rotr 7 x XOR word_rotr 18 x XOR drop_bit 3 x"
definition small_sigma1 :: "32 word \<Rightarrow> 32 word" where
  "small_sigma1 x = word_rotr 17 x XOR word_rotr 19 x XOR drop_bit 10 x"
definition big_sigma0 :: "32 word \<Rightarrow> 32 word" where
  "big_sigma0 x = word_rotr 2 x XOR word_rotr 13 x XOR word_rotr 22 x"
definition big_sigma1 :: "32 word \<Rightarrow> 32 word" where
  "big_sigma1 x = word_rotr 6 x XOR word_rotr 11 x XOR word_rotr 25 x"

text \<open>The message schedule, latest word first.\<close>

fun sha256_schedule :: "nat \<Rightarrow> 32 word list \<Rightarrow> 32 word list" where
  "sha256_schedule 0 ws = ws"
| "sha256_schedule (Suc n) ws =
     sha256_schedule n ((small_sigma1 (ws ! 1) + ws ! 6 + small_sigma0 (ws ! 14) + ws ! 15) # ws)"

fun sha256_round :: "32 word \<times> 32 word \<Rightarrow> state8 \<Rightarrow> state8" where
  "sha256_round (k, w) (a, b, c, d, e, f, g, h) =
     (let t1 = h + big_sigma1 e + ((e AND f) XOR (NOT e AND g)) + k + w;
          t2 = big_sigma0 a + ((a AND b) XOR (a AND c) XOR (b AND c))
      in (t1 + t2, a, b, c, d + t1, e, f, g))"

fun add8 :: "state8 \<Rightarrow> state8 \<Rightarrow> state8" where
  "add8 (a, b, c, d, e, f, g, h) (a', b', c', d', e', f', g', h') =
     (a + a', b + b', c + c', d + d', e + e', f + f', g + g', h + h')"

definition sha256_block :: "string \<Rightarrow> state8 \<Rightarrow> state8" where
  "sha256_block blk st =
     add8 st (fold sha256_round (zip sha256_K (rev (sha256_schedule 48 (rev (be_words blk))))) st)"

fun bytes8 :: "state8 \<Rightarrow> string" where
  "bytes8 (a, b, c, d, e, f, g, h) = concat (map be_bytes [a, b, c, d, e, f, g, h])"

definition sha256 :: "string \<Rightarrow> string" where
  "sha256 s = bytes8 (fold sha256_block (chunks 64 (md_pad length_bytes s)) sha256_init)"

section \<open>MD5\<close>

type_synonym state4 = "32 word \<times> 32 word \<times> 32 word \<times> 32 word"

definition md5_K :: "32 word list" where
  "md5_K = [
    0xd76aa478, 0xe8c7b756, 0x242070db, 0xc1bdceee, 0xf57c0faf, 0x4787c62a, 0xa8304613, 0xfd469501,
    0x698098d8, 0x8b44f7af, 0xffff5bb1, 0x895cd7be, 0x6b901122, 0xfd987193, 0xa679438e, 0x49b40821,
    0xf61e2562, 0xc040b340, 0x265e5a51, 0xe9b6c7aa, 0xd62f105d, 0x02441453, 0xd8a1e681, 0xe7d3fbc8,
    0x21e1cde6, 0xc33707d6, 0xf4d50d87, 0x455a14ed, 0xa9e3e905, 0xfcefa3f8, 0x676f02d9, 0x8d2a4c8a,
    0xfffa3942, 0x8771f681, 0x6d9d6122, 0xfde5380c, 0xa4beea44, 0x4bdecfa9, 0xf6bb4b60, 0xbebfbc70,
    0x289b7ec6, 0xeaa127fa, 0xd4ef3085, 0x04881d05, 0xd9d4d039, 0xe6db99e5, 0x1fa27cf8, 0xc4ac5665,
    0xf4292244, 0x432aff97, 0xab9423a7, 0xfc93a039, 0x655b59c3, 0x8f0ccc92, 0xffeff47d, 0x85845dd1,
    0x6fa87e4f, 0xfe2ce6e0, 0xa3014314, 0x4e0811a1, 0xf7537e82, 0xbd3af235, 0x2ad7d2bb, 0xeb86d391]"

definition md5_shifts :: "nat list" where
  "md5_shifts = concat (replicate 4 [7, 12, 17, 22]) @ concat (replicate 4 [5, 9, 14, 20]) @
     concat (replicate 4 [4, 11, 16, 23]) @ concat (replicate 4 [6, 10, 15, 21])"

definition md5_init :: state4 where
  "md5_init = (0x67452301, 0xefcdab89, 0x98badcfe, 0x10325476)"

definition md5_mix :: "nat \<Rightarrow> 32 word \<Rightarrow> 32 word \<Rightarrow> 32 word \<Rightarrow> 32 word" where
  "md5_mix i b c d =
     (if i < 16 then (b AND c) OR (NOT b AND d)
      else if i < 32 then (d AND b) OR (NOT d AND c)
      else if i < 48 then b XOR c XOR d
      else c XOR (b OR NOT d))"

definition md5_index :: "nat \<Rightarrow> nat" where
  "md5_index i = (if i < 16 then i else if i < 32 then (5 * i + 1) mod 16 else if i < 48 then (3 * i + 5) mod 16 else 7 * i mod 16)"

fun md5_round :: "32 word list \<Rightarrow> nat \<Rightarrow> state4 \<Rightarrow> state4" where
  "md5_round ws i (a, b, c, d) =
     (d, b + word_rotl (md5_shifts ! i) (a + md5_mix i b c d + md5_K ! i + ws ! md5_index i), b, c)"

fun add4 :: "state4 \<Rightarrow> state4 \<Rightarrow> state4" where
  "add4 (a, b, c, d) (a', b', c', d') = (a + a', b + b', c + c', d + d')"

definition md5_block :: "string \<Rightarrow> state4 \<Rightarrow> state4" where
  "md5_block blk st = add4 st (fold (md5_round (le_words blk)) [0..<64] st)"

fun bytes4 :: "state4 \<Rightarrow> string" where
  "bytes4 (a, b, c, d) = concat (map le_bytes [a, b, c, d])"

definition md5 :: "string \<Rightarrow> string" where
  "md5 s = bytes4 (fold md5_block (chunks 64 (md_pad (rev \<circ> length_bytes) s)) md5_init)"

section \<open>HMAC\<close>

definition xor_byte :: "nat \<Rightarrow> char \<Rightarrow> char" where
  "xor_byte n c = char_of (of_char c XOR n)"

definition hmac_sha256 :: "string \<Rightarrow> string \<Rightarrow> string" where
  "hmac_sha256 key msg =
     (let k = (if length key > 64 then sha256 key else key);
          k64 = k @ replicate (64 - length k) (CHR 0x00)
      in sha256 (map (xor_byte 0x5c) k64 @ sha256 (map (xor_byte 0x36) k64 @ msg)))"

lemma length_bytes8: "length (bytes8 st) = 32"
  by (cases st rule: bytes8.cases) (simp add: be_bytes_def)

lemma length_bytes4: "length (bytes4 st) = 16"
  by (cases st rule: bytes4.cases) (simp add: le_bytes_def)

lemma length_sha256 [simp]: "length (sha256 s) = 32"
  by (simp add: sha256_def length_bytes8)

lemma length_md5 [simp]: "length (md5 s) = 16"
  by (simp add: md5_def length_bytes4)

lemma length_hmac [simp]: "length (hmac_sha256 k m) = 32"
  by (simp add: hmac_sha256_def Let_def)

section \<open>Base64\<close>

definition b64_alphabet :: "bool \<Rightarrow> string" where
  "b64_alphabet url = ''ABCDEFGHIJKLMNOPQRSTUVWXYZabcdefghijklmnopqrstuvwxyz0123456789'' @ (if url then ''-_'' else ''+/'')"

definition b64_char :: "bool \<Rightarrow> nat \<Rightarrow> char" where
  "b64_char url n = b64_alphabet url ! n"

definition b64_val :: "bool \<Rightarrow> char \<Rightarrow> nat option" where
  "b64_val url c = map_of (zip (b64_alphabet url) [0..<64]) c"

text \<open>\<open>url = True\<close> is \<^verbatim>\<open>RawURLEncoding\<close> (no padding), \<open>url = False\<close> is \<^verbatim>\<open>StdEncoding\<close>.\<close>

fun b64_encode :: "bool \<Rightarrow> string \<Rightarrow> string" where
  "b64_encode url [] = []"
| "b64_encode url [x] =
     (let a = (of_char x :: nat) in [b64_char url (a div 4), b64_char url (a mod 4 * 16)] @ (if url then [] else ''==''))"
| "b64_encode url [x, y] =
     (let a = (of_char x :: nat); b = (of_char y :: nat)
      in [b64_char url (a div 4), b64_char url (a mod 4 * 16 + b div 16), b64_char url (b mod 16 * 4)] @
         (if url then [] else ''=''))"
| "b64_encode url (x # y # z # s) =
     (let a = (of_char x :: nat); b = (of_char y :: nat); c = (of_char z :: nat)
      in [b64_char url (a div 4), b64_char url (a mod 4 * 16 + b div 16), b64_char url (b mod 16 * 4 + c div 64),
          b64_char url (c mod 64)] @ b64_encode url s)"

definition b64_1 :: "bool \<Rightarrow> char \<Rightarrow> char \<Rightarrow> string option" where
  "b64_1 url p q =
     (case (b64_val url p, b64_val url q) of
        (Some a, Some b) \<Rightarrow> Some [char_of (a * 4 + b div 16)] | _ \<Rightarrow> None)"

definition b64_2 :: "bool \<Rightarrow> char \<Rightarrow> char \<Rightarrow> char \<Rightarrow> string option" where
  "b64_2 url p q r =
     (case (b64_val url p, b64_val url q, b64_val url r) of
        (Some a, Some b, Some c) \<Rightarrow> Some [char_of (a * 4 + b div 16), char_of (b mod 16 * 16 + c div 4)] | _ \<Rightarrow> None)"

definition b64_3 :: "bool \<Rightarrow> char \<Rightarrow> char \<Rightarrow> char \<Rightarrow> char \<Rightarrow> string option" where
  "b64_3 url p q r t =
     (case (b64_val url p, b64_val url q, b64_val url r, b64_val url t) of
        (Some a, Some b, Some c, Some d) \<Rightarrow>
          Some [char_of (a * 4 + b div 16), char_of (b mod 16 * 16 + c div 4), char_of (c mod 4 * 64 + d)]
      | _ \<Rightarrow> None)"

fun b64_quanta :: "bool \<Rightarrow> string \<Rightarrow> string option" where
  "b64_quanta url [] = Some []"
| "b64_quanta url [p] = None"
| "b64_quanta url [p, q] = (if url then b64_1 url p q else None)"
| "b64_quanta url [p, q, r] = (if url then b64_2 url p q r else None)"
| "b64_quanta url (p # q # r # t # s) =
     (if \<not> url \<and> r = CHR ''='' \<and> t = CHR ''='' \<and> s = [] then b64_1 url p q
      else if \<not> url \<and> t = CHR ''='' \<and> s = [] then b64_2 url p q r
      else case (b64_3 url p q r t, b64_quanta url s) of (Some u, Some v) \<Rightarrow> Some (u @ v) | _ \<Rightarrow> None)"

text \<open>\<^verbatim>\<open>DecodeString\<close> skips carriage returns and line feeds.\<close>

definition b64_decode :: "bool \<Rightarrow> string \<Rightarrow> string option" where
  "b64_decode url s = b64_quanta url (filter (\<lambda>c. c \<noteq> CHR 0x0A \<and> c \<noteq> CHR 0x0D) s)"

lemma b64_alphabet_ok:
  "length (b64_alphabet url) = 64" "distinct (b64_alphabet url)"
  "CHR ''='' \<notin> set (b64_alphabet url)" "CHR 0x0A \<notin> set (b64_alphabet url)" "CHR 0x0D \<notin> set (b64_alphabet url)"
  by (cases url; simp add: b64_alphabet_def)+

lemma b64_val_char [simp]: "n < 64 \<Longrightarrow> b64_val url (b64_char url n) = Some n"
  using map_of_zip_nth [of "b64_alphabet url" "[0..<64]" n] b64_alphabet_ok
  by (simp add: b64_val_def b64_char_def)

lemma b64_char_in: "n < 64 \<Longrightarrow> b64_char url n \<in> set (b64_alphabet url)"
  using b64_alphabet_ok(1) [of url] by (simp add: b64_char_def)

lemma b64_char_ne [simp]:
  "n < 64 \<Longrightarrow> b64_char url n \<noteq> CHR ''=''" "n < 64 \<Longrightarrow> b64_char url n \<noteq> CHR 0x0A" "n < 64 \<Longrightarrow> b64_char url n \<noteq> CHR 0x0D"
  using b64_char_in [of n url] b64_alphabet_ok(3-5) [of url] by metis+

lemma b64_char_ne' [simp]: "n < 64 \<Longrightarrow> CHR ''='' \<noteq> b64_char url n"
  using b64_char_ne(1) by metis

lemma byte_lt [simp]: "(of_char c :: nat) < 256"
  by (rule nat_of_char_less_256)

lemma sextet_1 [simp]: "(a :: nat) < 256 \<Longrightarrow> a div 4 < 64" by (simp add: less_mult_imp_div_less)
lemma sextet_2 [simp]: "(a :: nat) mod 4 * 16 < 64"
  using mod_less_divisor [of 4 a] by linarith
lemma sextet_3 [simp]: "(b :: nat) < 256 \<Longrightarrow> a mod 4 * 16 + b div 16 < 64"
  using mod_less_divisor [of 4 a] less_mult_imp_div_less [of b 16 16] by linarith
lemma sextet_4 [simp]: "(b :: nat) mod 16 * 4 < 64"
  using mod_less_divisor [of 16 b] by linarith
lemma sextet_5 [simp]: "(c :: nat) < 256 \<Longrightarrow> b mod 16 * 4 + c div 64 < 64"
  using mod_less_divisor [of 16 b] less_mult_imp_div_less [of c 4 64] by linarith

lemma place_value: "(r :: nat) < k \<Longrightarrow> (m * k + r) div k = m" "r < k \<Longrightarrow> (m * k + r) mod k = r"
  by simp_all

lemma sextet_join:
  fixes a b c :: nat
  assumes b: "b < 256" and c: "c < 256"
  shows "a div 4 * 4 + a mod 4 * 16 div 16 = a"
    "a div 4 * 4 + (a mod 4 * 16 + b div 16) div 16 = a"
    "(a mod 4 * 16 + b div 16) mod 16 * 16 + b mod 16 * 4 div 4 = b"
    "(a mod 4 * 16 + b div 16) mod 16 * 16 + (b mod 16 * 4 + c div 64) div 4 = b"
    "(b mod 16 * 4 + c div 64) mod 4 * 64 + c mod 64 = c"
proof -
  have b': "b div 16 < 16" and c': "c div 64 < 4"
    using less_mult_imp_div_less [of b 16 16] less_mult_imp_div_less [of c 4 64] b c by simp_all
  show "a div 4 * 4 + a mod 4 * 16 div 16 = a" by simp
  show "a div 4 * 4 + (a mod 4 * 16 + b div 16) div 16 = a" unfolding place_value(1) [OF b'] by simp
  show "(a mod 4 * 16 + b div 16) mod 16 * 16 + b mod 16 * 4 div 4 = b" unfolding place_value(2) [OF b'] by simp
  show "(a mod 4 * 16 + b div 16) mod 16 * 16 + (b mod 16 * 4 + c div 64) div 4 = b"
    unfolding place_value(2) [OF b'] place_value(1) [OF c'] by simp
  show "(b mod 16 * 4 + c div 64) mod 4 * 64 + c mod 64 = c" unfolding place_value(2) [OF c'] by simp
qed

lemma b64_part1: "b64_1 url (b64_char url (of_char x div 4)) (b64_char url (of_char x mod 4 * 16)) = Some [x]"
  using sextet_join(1) [OF byte_lt byte_lt, of "of_char x"] by (simp add: b64_1_def)

lemma b64_part2: "b64_2 url (b64_char url (of_char x div 4)) (b64_char url (of_char x mod 4 * 16 + of_char y div 16))
    (b64_char url (of_char y mod 16 * 4)) = Some [x, y]"
  unfolding b64_2_def b64_val_char [OF sextet_1 [OF byte_lt]] b64_val_char [OF sextet_3 [OF byte_lt]] b64_val_char [OF sextet_4]
    option.case prod.case sextet_join(2,3) [OF byte_lt byte_lt] by simp

lemma b64_part3: "b64_3 url (b64_char url (of_char x div 4)) (b64_char url (of_char x mod 4 * 16 + of_char y div 16))
    (b64_char url (of_char y mod 16 * 4 + of_char z div 64)) (b64_char url (of_char z mod 64)) = Some [x, y, z]"
proof -
  have z: "of_char z mod 64 < (64 :: nat)" by simp
  show ?thesis
    unfolding b64_3_def b64_val_char [OF sextet_1 [OF byte_lt]] b64_val_char [OF sextet_3 [OF byte_lt]] b64_val_char [OF sextet_5 [OF byte_lt]]
      b64_val_char [OF z] option.case prod.case sextet_join(2,4,5) [OF byte_lt byte_lt] by simp
qed

lemmas b64_parts = b64_part1 b64_part2 b64_part3

lemma b64_quanta_encode: "b64_quanta url (b64_encode url s) = Some s"
proof (induction url s rule: b64_encode.induct)
  case (4 url x y z s)
  have "c mod 64 < 64" for c :: nat by simp
  then show ?case using 4 by (simp add: Let_def b64_parts)
qed (simp_all add: Let_def b64_parts)

lemma b64_encode_chars: "set (b64_encode url s) \<subseteq> insert (CHR ''='') (set (b64_alphabet url))"
proof (induction url s rule: b64_encode.induct)
  case (4 url x y z s)
  have "of_char z mod 64 < (64 :: nat)" by simp
  then show ?case using 4 by (simp add: Let_def b64_char_in)
qed (simp_all add: Let_def b64_char_in)

lemma b64_decode_encode [simp]: "b64_decode url (b64_encode url s) = Some s"
proof -
  have "filter (\<lambda>c. c \<noteq> CHR 0x0A \<and> c \<noteq> CHR 0x0D) (b64_encode url s) = b64_encode url s"
    using b64_encode_chars [of url s] b64_alphabet_ok(4,5) [of url] by (intro filter_True) auto
  then show ?thesis by (simp add: b64_decode_def b64_quanta_encode)
qed

end
