(* ===== verification/Digest_Auth.thy ===== *)
theory Digest_Auth
  imports Go_Crypto
begin

text \<open>
  Package \<^verbatim>\<open>internal/auth\<close>: HTTP Digest and Basic authentication of a CPE (\<^verbatim>\<open>digest.go\<close>) with its two
  replay stores, the cache of the process and the shared table (\<^verbatim>\<open>replay_postgres.go\<close>). Comparing in
  constant time is equality. The random bytes of a nonce and the clock are arguments.
\<close>

section \<open>Configuration and requests\<close>

definition realm :: string where "realm = ''acs''"
definition nonceTTL :: duration where "nonceTTL = 10 * minute"
definition nonceRandomBytes :: nat where "nonceRandomBytes = 6"
definition nonceMACBytes :: nat where "nonceMACBytes = 8"
definition nonceCacheMax :: nat where "nonceCacheMax = 100000"

text \<open>\<open>da_shared\<close>: a \<^verbatim>\<open>ReplayStore\<close> is set.\<close>

record DigestAuthenticator =
  da_Username :: string
  da_Password :: string
  da_AllowBasic :: bool
  da_Lookup :: "(string \<Rightarrow> (string \<times> string) option) option"
  da_Algorithms :: "string list"
  da_NonceSecret :: string
  da_shared :: bool

record http_request =
  rq_Method :: string
  rq_RequestURI :: string
  rq_Authorization :: string

record Identity =
  id_Username :: string
  id_BoundDeviceID :: string
  id_SharedCredential :: bool

definition no_identity :: Identity where
  "no_identity = \<lparr> id_Username = [], id_BoundDeviceID = [], id_SharedCredential = False \<rparr>"

definition Enabled :: "DigestAuthenticator \<Rightarrow> bool" where
  "Enabled d \<longleftrightarrow> (da_Username d \<noteq> [] \<and> da_Password d \<noteq> []) \<or> da_Lookup d \<noteq> None"

text \<open>The password, the device bound to it and whether it is a per-device credential.\<close>

definition passwordFor :: "DigestAuthenticator \<Rightarrow> string \<Rightarrow> (string \<times> string \<times> bool) option" where
  "passwordFor d username =
     (if da_Username d \<noteq> [] \<and> username = da_Username d then Some (da_Password d, [], False)
      else case da_Lookup d of
        None \<Rightarrow> None
      | Some lookup \<Rightarrow>
          if username = [] then None
          else (case lookup username of None \<Rightarrow> None | Some (pw, devID) \<Rightarrow> Some (pw, devID, True)))"

definition md5Hex :: "string \<Rightarrow> string" where "md5Hex s = hex_encode (md5 s)"
definition sha256Hex :: "string \<Rightarrow> string" where "sha256Hex s = hex_encode (sha256 s)"

definition hashFuncFor :: "string \<Rightarrow> (string \<Rightarrow> string) option" where
  "hashFuncFor algorithm =
     (let a = ToUpper algorithm in
      if a = [] \<or> a = ''MD5'' then Some md5Hex else if a = ''SHA-256'' then Some sha256Hex else None)"

section \<open>Nonces\<close>

definition nonceKey :: "DigestAuthenticator \<Rightarrow> string" where
  "nonceKey d = hmac_sha256 (if da_NonceSecret d = [] then da_Password d else da_NonceSecret d) ''acs-digest-nonce-v1''"

definition nonceMAC :: "DigestAuthenticator \<Rightarrow> string \<Rightarrow> string \<Rightarrow> string" where
  "nonceMAC d ts rnd = hex_encode (take nonceMACBytes (hmac_sha256 (nonceKey d) (ts @ ''.'' @ rnd)))"

definition newNonce :: "DigestAuthenticator \<Rightarrow> string \<Rightarrow> time \<Rightarrow> string" where
  "newNonce d bytes now =
     (let ts = FormatInt 16 (unix now); rnd = hex_encode bytes in ts @ ''.'' @ rnd @ ''.'' @ nonceMAC d ts rnd)"

definition parseNonce :: "DigestAuthenticator \<Rightarrow> string \<Rightarrow> time option" where
  "parseNonce d nonce =
     (case SplitN 2 (CHR ''.'') nonce of
        [ts, rnd, mac] \<Rightarrow>
          if mac \<noteq> nonceMAC d ts rnd then None
          else (case ParseInt 16 ts of None \<Rightarrow> None | Some sec \<Rightarrow> Some (of_unix sec))
      | _ \<Rightarrow> None)"

definition defaultChallengeAlgorithms :: "string list" where
  "defaultChallengeAlgorithms = [''MD5'', ''SHA-256'']"

definition challengeAlgorithms :: "DigestAuthenticator \<Rightarrow> string list" where
  "challengeAlgorithms d =
     (if da_Algorithms d = [] then defaultChallengeAlgorithms
      else let out = filter (\<lambda>a. hashFuncFor a \<noteq> None \<and> a \<noteq> []) (da_Algorithms d)
           in if out = [] then defaultChallengeAlgorithms else out)"

definition qt :: string where "qt = [CHR 0x22]"

text \<open>The \<^verbatim>\<open>WWW-Authenticate\<close> lines of the 401.\<close>

definition challenge :: "DigestAuthenticator \<Rightarrow> string \<Rightarrow> time \<Rightarrow> bool \<Rightarrow> string list" where
  "challenge d bytes now stale =
     (let nonce = newNonce d bytes now; staleSuffix = (if stale then '', stale=true'' else [])
      in map (\<lambda>algorithm. ''Digest realm='' @ qt @ realm @ qt @ '', qop='' @ qt @ ''auth'' @ qt @ '', nonce='' @ qt @ nonce @ qt @
            '', algorithm='' @ algorithm @ staleSuffix) (challengeAlgorithms d) @
         (if da_AllowBasic d then [''Basic realm='' @ qt @ realm @ qt] else []))"

definition Challenge :: "DigestAuthenticator \<Rightarrow> string \<Rightarrow> time \<Rightarrow> string list" where
  "Challenge d bytes now = challenge d bytes now False"

definition ChallengeStale :: "DigestAuthenticator \<Rightarrow> string \<Rightarrow> time \<Rightarrow> string list" where
  "ChallengeStale d bytes now = challenge d bytes now True"

section \<open>Parameters of the Authorization header\<close>

text \<open>
  The matches of \<^verbatim>\<open>(\w+)=("([^"]*)"|[^,]*)\<close> from left to right: a word that ends at an equals sign,
  then a quoted text if the quote is closed, else everything up to a comma.
\<close>

definition is_word :: "char \<Rightarrow> bool" where
  "is_word c = (let n = (of_char c :: nat) in
     48 \<le> n \<and> n \<le> 57 \<or> 65 \<le> n \<and> n \<le> 90 \<or> 97 \<le> n \<and> n \<le> 122 \<or> n = 95)"

definition value_match :: "string \<Rightarrow> string \<times> string" where
  "value_match v =
     (if v \<noteq> [] \<and> hd v = CHR 0x22 \<and> CHR 0x22 \<in> set (tl v)
      then (takeWhile (\<lambda>c. c \<noteq> CHR 0x22) (tl v), tl (dropWhile (\<lambda>c. c \<noteq> CHR 0x22) (tl v)))
      else let val = takeWhile (\<lambda>c. c \<noteq> CHR '','') v
           in (if HasPrefix val qt then [] else val, dropWhile (\<lambda>c. c \<noteq> CHR '','') v))"

lemma length_value_match: "length (snd (value_match v)) \<le> length v"
proof -
  have "length (tl (dropWhile P (tl v))) \<le> length v" for P :: "char \<Rightarrow> bool"
    using length_dropWhile_le [of P "tl v"] by simp
  then show ?thesis using length_dropWhile_le [of "\<lambda>c. c \<noteq> CHR '',''" v] by (simp add: value_match_def Let_def)
qed

function digest_matches :: "string \<Rightarrow> (string \<times> string) list" where
  "digest_matches s =
     (let s1 = dropWhile (\<lambda>c. \<not> is_word c) s; key = takeWhile is_word s1; r = dropWhile is_word s1
      in if key = [] then []
         else if r \<noteq> [] \<and> hd r = CHR ''='' then (key, fst (value_match (tl r))) # digest_matches (snd (value_match (tl r)))
         else digest_matches r)"
  by pat_completeness auto
termination
proof (relation "measure length")
  fix s :: string and s1 key r
  assume s1: "s1 = dropWhile (\<lambda>c. \<not> is_word c) s" and key: "key = takeWhile is_word s1" and r: "r = dropWhile is_word s1"
    and ne: "key \<noteq> []"
  have "length s1 = length key + length r" unfolding key r by (metis length_append takeWhile_dropWhile_id)
  moreover have "length s1 \<le> length s" unfolding s1 by (rule length_dropWhile_le)
  ultimately have lt: "length r < length s" using ne by (cases key) auto
  then show "(r, s) \<in> measure length" by simp
  have "length (snd (value_match (tl r))) \<le> length (tl r)" by (rule length_value_match)
  then show "(snd (value_match (tl r)), s) \<in> measure length" using lt by simp
qed simp

declare digest_matches.simps [simp del]

definition parseDigestParams :: "string \<Rightarrow> (string \<times> string) list" where
  "parseDigestParams s = fold (\<lambda>(key, val) out. map_put key (TrimSpace val) out) (digest_matches s) []"

definition param :: "(string \<times> string) list \<Rightarrow> string \<Rightarrow> string" where
  "param params k = (case map_of params k of None \<Rightarrow> [] | Some v \<Rightarrow> v)"

section \<open>Replay stores\<close>

record nonceState =
  ns_expires :: time
  ns_lastNC :: nat
  ns_used :: bool

record nonce_row =
  nr_nonce :: string
  nr_last_nc :: int
  nr_expires_at :: time

text \<open>The cache of the process and the shared table.\<close>

record auth_state =
  nonceCache :: "(string \<times> nonceState) list"
  cwmp_digest_nonces :: "nonce_row list"

definition purgeExpiredNoncesLocked :: "time \<Rightarrow> (string \<times> nonceState) list \<Rightarrow> (string \<times> nonceState) list" where
  "purgeExpiredNoncesLocked now m = filter (\<lambda>(_, st). \<not> now > ns_expires st) m"

text \<open>How a response uses a nonce: once without qop, or with a count.\<close>

datatype nonce_use = NoQop | Qop nat

text \<open>\<^verbatim>\<open>CheckAndRecord\<close>: one INSERT with its conflict clause. \<open>int64 n\<close> is Go's conversion.\<close>

definition int64 :: "nat \<Rightarrow> int" where "int64 n = sint (of_nat n :: 64 word)"

definition CheckAndRecord :: "string \<Rightarrow> nat \<Rightarrow> time \<Rightarrow> nonce_row list \<Rightarrow> bool \<times> nonce_row list" where
  "CheckAndRecord nonce ncOrdinal expires rows =
     (case find (\<lambda>r. nr_nonce r = nonce) rows of
        None \<Rightarrow> (True, rows @ [\<lparr> nr_nonce = nonce, nr_last_nc = int64 ncOrdinal, nr_expires_at = expires \<rparr>])
      | Some r \<Rightarrow>
          if nr_last_nc r < int64 ncOrdinal
          then (True, update_where (\<lambda>r. nr_nonce r = nonce) (\<lambda>r. r\<lparr> nr_last_nc := int64 ncOrdinal \<rparr>) rows)
          else (False, rows))"

definition Purge :: "faults \<Rightarrow> time \<Rightarrow> nonce_row list \<Rightarrow> nonce_row list" where
  "Purge flt now rows = (if flt 0 then rows else filter (\<lambda>r. \<not> nr_expires_at r < now) rows)"

definition record_use :: "string \<Rightarrow> nonce_use \<Rightarrow> nonceState \<Rightarrow> (string \<times> nonceState) list \<Rightarrow> bool \<times> (string \<times> nonceState) list" where
  "record_use nonce use st m =
     (case use of
        NoQop \<Rightarrow> if ns_used st then (False, m) else (True, map_put nonce (st\<lparr> ns_used := True \<rparr>) m)
      | Qop n \<Rightarrow> if n \<le> ns_lastNC st then (False, m) else (True, map_put nonce (st\<lparr> ns_lastNC := n \<rparr>) m))"

definition check_memory :: "time \<Rightarrow> string \<Rightarrow> nonce_use \<Rightarrow> time \<Rightarrow> (string \<times> nonceState) list \<Rightarrow> bool \<times> (string \<times> nonceState) list" where
  "check_memory now nonce use expires m =
     (case map_of m nonce of
        Some st \<Rightarrow> record_use nonce use st m
      | None \<Rightarrow>
          (let m1 = (if length m \<ge> nonceCacheMax then purgeExpiredNoncesLocked now m else m);
               st = \<lparr> ns_expires = expires, ns_lastNC = 0, ns_used = False \<rparr>
           in if length m1 \<ge> nonceCacheMax then (False, m1) else record_use nonce use st (map_put nonce st m1)))"

definition parse_use :: "string \<Rightarrow> string \<Rightarrow> nonce_use option" where
  "parse_use qop ncHex =
     (if qop = [] then Some NoQop
      else case ParseUint 16 ncHex of None \<Rightarrow> None | Some nc \<Rightarrow> if nc = 0 then None else Some (Qop nc))"

definition ordinal :: "nonce_use \<Rightarrow> nat" where
  "ordinal u = (case u of NoQop \<Rightarrow> 1 | Qop n \<Rightarrow> n)"

text \<open>\<open>fault\<close>: the shared store returns an error.\<close>

definition checkReplay ::
  "DigestAuthenticator \<Rightarrow> bool \<Rightarrow> string \<Rightarrow> string \<Rightarrow> string \<Rightarrow> time \<Rightarrow> time \<Rightarrow> auth_state \<Rightarrow> bool \<times> auth_state" where
  "checkReplay d fault nonce qop ncHex expires now s =
     (case parse_use qop ncHex of
        None \<Rightarrow> (False, s)
      | Some u \<Rightarrow>
          if da_shared d then
            (if fault then (False, s)
             else let (ok, rows) = CheckAndRecord nonce (ordinal u) expires (cwmp_digest_nonces s)
                  in (ok, s\<lparr> cwmp_digest_nonces := rows \<rparr>))
          else let (ok, m) = check_memory now nonce u expires (nonceCache s) in (ok, s\<lparr> nonceCache := m \<rparr>))"

section \<open>Verification\<close>

record verdict =
  v_ok :: bool
  v_stale :: bool
  v_identity :: Identity

definition rejected :: verdict where
  "rejected = \<lparr> v_ok = False, v_stale = False, v_identity = no_identity \<rparr>"

definition digest_response :: "(string \<Rightarrow> string) \<Rightarrow> string \<Rightarrow> string \<Rightarrow> string \<Rightarrow> (string \<times> string) list \<Rightarrow> string \<Rightarrow> string" where
  "digest_response hashHex username password httpMethod params nonce =
     (let ha1 = hashHex (username @ '':'' @ realm @ '':'' @ password);
          ha2 = hashHex (httpMethod @ '':'' @ param params ''uri'')
      in if param params ''qop'' \<noteq> []
         then hashHex (Join [ha1, nonce, param params ''nc'', param params ''cnonce'', param params ''qop'', ha2] '':'')
         else hashHex (ha1 @ '':'' @ nonce @ '':'' @ ha2))"

record checked =
  ck_nonce :: string
  ck_issued :: time
  ck_qop :: string
  ck_nc :: string
  ck_identity :: Identity

text \<open>Everything up to the comparison of the response; \<open>None\<close> is a rejection.\<close>

definition check_response :: "DigestAuthenticator \<Rightarrow> http_request \<Rightarrow> string \<Rightarrow> checked option" where
  "check_response d r rest =
     (let params = parseDigestParams rest; username = param params ''username''; nonce = param params ''nonce'' in
      case passwordFor d username of
        None \<Rightarrow> None
      | Some (password, deviceID, perDevice) \<Rightarrow>
          if map_of params ''realm'' \<notin> {None, Some realm} \<or> param params ''uri'' \<noteq> rq_RequestURI r then None
          else
            (case parseNonce d nonce of
               None \<Rightarrow> None
             | Some issued \<Rightarrow>
                 (case hashFuncFor (param params ''algorithm'') of
                    None \<Rightarrow> None
                  | Some hashHex \<Rightarrow>
                      if param params ''qop'' \<notin> {[], ''auth''} \<or>
                         digest_response hashHex username password (rq_Method r) params nonce \<noteq> param params ''response''
                      then None
                      else Some \<lparr> ck_nonce = nonce, ck_issued = issued, ck_qop = param params ''qop'', ck_nc = param params ''nc'',
                             ck_identity = \<lparr> id_Username = username, id_BoundDeviceID = deviceID, id_SharedCredential = \<not> perDevice \<rparr> \<rparr>)))"

definition verifyDigest ::
  "DigestAuthenticator \<Rightarrow> bool \<Rightarrow> http_request \<Rightarrow> string \<Rightarrow> time \<Rightarrow> auth_state \<Rightarrow> verdict \<times> auth_state" where
  "verifyDigest d fault r rest now s =
     (case check_response d r rest of
        None \<Rightarrow> (rejected, s)
      | Some ck \<Rightarrow>
          if now > ck_issued ck + nonceTTL then (rejected\<lparr> v_stale := True \<rparr>, s)
          else case checkReplay d fault (ck_nonce ck) (ck_qop ck) (ck_nc ck) (ck_issued ck + nonceTTL) now s of
            (fresh, s') \<Rightarrow>
              if \<not> fresh then (rejected, s')
              else (\<lparr> v_ok = True, v_stale = False, v_identity = ck_identity ck \<rparr>, s'))"

definition verifyBasic :: "DigestAuthenticator \<Rightarrow> string \<Rightarrow> bool \<times> Identity" where
  "verifyBasic d encoded =
     (case b64_decode False (TrimSpace encoded) of
        None \<Rightarrow> (False, no_identity)
      | Some decoded \<Rightarrow>
          (case Cut (CHR '':'') decoded of
             (_, None) \<Rightarrow> (False, no_identity)
           | (user, Some pass) \<Rightarrow>
               (case passwordFor d user of
                  None \<Rightarrow> (False, no_identity)
                | Some (expected, deviceID, perDevice) \<Rightarrow>
                    if pass \<noteq> expected then (False, no_identity)
                    else (True, \<lparr> id_Username = user, id_BoundDeviceID = deviceID, id_SharedCredential = \<not> perDevice \<rparr>))))"

definition Verify :: "DigestAuthenticator \<Rightarrow> bool \<Rightarrow> http_request \<Rightarrow> time \<Rightarrow> auth_state \<Rightarrow> verdict \<times> auth_state" where
  "Verify d fault r now s =
     (let header = rq_Authorization r in
      if HasPrefix header ''Digest '' then verifyDigest d fault r (drop (length ''Digest '') header) now s
      else if da_AllowBasic d \<and> HasPrefix header ''Basic ''
      then (let (ok, ident) = verifyBasic d (drop (length ''Basic '') header)
            in (\<lparr> v_ok = ok, v_stale = False, v_identity = ident \<rparr>, s))
      else (rejected, s))"

end
