(* ===== verification/Digest_Replay.thy ===== *)
theory Digest_Replay
  imports Digest_Auth
begin

text \<open>
  What Digest authentication guarantees: a response is accepted at most once, whichever replay store
  is configured, a nonce parses back to the second it was issued in and fits the buffers it is meant
  for, and a client that answers a fresh challenge with the right password is let in. The contract of
  a replay store is the locale \<open>replay_store\<close>; both stores interpret it.
\<close>

section \<open>The contract of a replay store\<close>

locale replay_store =
  fixes inv :: "'s \<Rightarrow> bool"
    and spent :: "'s \<Rightarrow> string \<Rightarrow> nonce_use \<Rightarrow> bool"
    and exp_of :: "string \<Rightarrow> time"
    and check :: "time \<Rightarrow> string \<Rightarrow> nonce_use \<Rightarrow> 's \<Rightarrow> bool \<times> 's"
    and clean :: "time \<Rightarrow> 's \<Rightarrow> 's"
  assumes check_inv: "inv s \<Longrightarrow> inv (snd (check now n u s))"
    and check_new: "inv s \<Longrightarrow> fst (check now n u s) \<Longrightarrow> \<not> spent s n u \<and> spent (snd (check now n u s)) n u"
    and check_keeps: "inv s \<Longrightarrow> spent s n u \<Longrightarrow> now \<le> exp_of n \<Longrightarrow> spent (snd (check now m v s)) n u"
    and clean_inv: "inv s \<Longrightarrow> inv (clean now s)"
    and clean_keeps: "inv s \<Longrightarrow> spent s n u \<Longrightarrow> now \<le> exp_of n \<Longrightarrow> spent (clean now s) n u"
begin

text \<open>A use of a nonce (\<open>Some\<close>) is let in only while the nonce has not expired; \<open>None\<close> is a cleaning.\<close>

fun replay_step :: "time \<times> (string \<times> nonce_use) option \<Rightarrow> 's \<Rightarrow> (string \<times> nonce_use) list \<times> 's" where
  "replay_step (now, None) s = ([], clean now s)"
| "replay_step (now, Some (n, u)) s =
     (if now > exp_of n then ([], s)
      else let (ok, s') = check now n u s in (if ok then [(n, u)] else [], s'))"

fun replay_run :: "(time \<times> (string \<times> nonce_use) option) list \<Rightarrow> 's \<Rightarrow> (string \<times> nonce_use) list" where
  "replay_run [] s = []"
| "replay_run (ev # evs) s = (case replay_step ev s of (acc, s') \<Rightarrow> acc @ replay_run evs s')"

lemma step_inv: "inv s \<Longrightarrow> inv (snd (replay_step ev s))"
  by (cases "(ev, s)" rule: replay_step.cases) (auto simp: clean_inv check_inv Let_def split_beta)

lemma step_keeps: "inv s \<Longrightarrow> spent s n u \<Longrightarrow> fst ev \<le> exp_of n \<Longrightarrow> spent (snd (replay_step ev s)) n u"
  by (cases "(ev, s)" rule: replay_step.cases) (auto simp: clean_keeps check_keeps Let_def split_beta)

lemma step_accepts:
  "inv s \<Longrightarrow> (n, u) \<in> set (fst (replay_step ev s)) \<Longrightarrow>
   fst ev \<le> exp_of n \<and> \<not> spent s n u \<and> spent (snd (replay_step ev s)) n u \<and> fst (replay_step ev s) = [(n, u)]"
  by (cases "(ev, s)" rule: replay_step.cases) (auto simp: check_new Let_def split_beta split: if_splits)

lemma run_accepts_unexpired: "inv s \<Longrightarrow> (n, u) \<in> set (replay_run evs s) \<Longrightarrow> \<exists>ev \<in> set evs. fst ev \<le> exp_of n"
proof (induction evs arbitrary: s)
  case (Cons ev evs)
  obtain acc s' where st: "replay_step ev s = (acc, s')" by (rule prod.exhaust)
  have "inv s'" using step_inv [OF Cons.prems(1), of ev] st by simp
  then show ?case using Cons st step_accepts [OF Cons.prems(1), of n u ev] by auto
qed simp

lemma spent_never_again:
  "sorted (map fst evs) \<Longrightarrow> inv s \<Longrightarrow> spent s n u \<Longrightarrow> (n, u) \<notin> set (replay_run evs s)"
proof (induction evs arbitrary: s)
  case (Cons ev evs)
  obtain acc s' where st: "replay_step ev s = (acc, s')" by (rule prod.exhaust)
  have i: "inv s'" using step_inv [OF Cons.prems(2), of ev] st by simp
  have "(n, u) \<notin> set acc" using step_accepts [OF Cons.prems(2), of n u ev] st Cons.prems(3) by auto
  moreover have "(n, u) \<notin> set (replay_run evs s')"
  proof (cases "fst ev \<le> exp_of n")
    case True
    then have "spent s' n u" using step_keeps [OF Cons.prems(2,3) True] st by simp
    then show ?thesis using Cons i by simp
  next
    case False
    then have "\<forall>e \<in> set evs. \<not> fst e \<le> exp_of n" using Cons.prems(1) by fastforce
    then show ?thesis using run_accepts_unexpired [OF i] by blast
  qed
  ultimately show ?case using st by simp
qed simp

lemma run_distinct: "sorted (map fst evs) \<Longrightarrow> inv s \<Longrightarrow> distinct (replay_run evs s)"
proof (induction evs arbitrary: s)
  case more: (Cons ev evs)
  obtain acc s' where st: "replay_step ev s = (acc, s')" by (rule prod.exhaust)
  have i: "inv s'" using step_inv [OF more.prems(2), of ev] st by simp
  have tail: "distinct (replay_run evs s')" using more i by simp
  show ?case
  proof (cases acc)
    case Nil
    then show ?thesis using tail st by simp
  next
    case (Cons x xs)
    obtain n u where x: "x = (n, u)" by (rule prod.exhaust)
    have "acc = [(n, u)] \<and> spent s' n u"
      using step_accepts [OF more.prems(2), of n u ev] st Cons x by simp
    then show ?thesis using tail st spent_never_again [OF _ i, of evs n u] more.prems(1) by simp
  qed
qed simp

end

section \<open>The two stores\<close>

text \<open>When a nonce stops verifying.\<close>

definition expiry :: "DigestAuthenticator \<Rightarrow> string \<Rightarrow> time" where
  "expiry d nonce = (case parseNonce d nonce of None \<Rightarrow> 0 | Some issued \<Rightarrow> issued + nonceTTL)"

definition mem_inv :: "DigestAuthenticator \<Rightarrow> (string \<times> nonceState) list \<Rightarrow> bool" where
  "mem_inv d m \<longleftrightarrow> distinct (map fst m) \<and> list_all (\<lambda>(n, st). ns_expires st = expiry d n) m"

definition mem_spent :: "(string \<times> nonceState) list \<Rightarrow> string \<Rightarrow> nonce_use \<Rightarrow> bool" where
  "mem_spent m n u =
     (case map_of m n of
        None \<Rightarrow> False
      | Some st \<Rightarrow> (case u of NoQop \<Rightarrow> ns_used st | Qop k \<Rightarrow> k \<le> ns_lastNC st))"

lemma map_of_filter_distinct:
  "distinct (map fst m) \<Longrightarrow> map_of (filter P m) k = (case map_of m k of None \<Rightarrow> None | Some v \<Rightarrow> if P (k, v) then Some v else None)"
proof (induction m)
  case (Cons x m)
  obtain k' v' where x: "x = (k', v')" by (rule prod.exhaust)
  show ?case
  proof (cases "k = k'")
    case True
    then have "map_of m k = None" using Cons.prems x by (simp add: map_of_eq_None_iff)
    then show ?thesis using Cons x True by simp
  qed (use Cons x in simp)
qed simp

lemma mem_expires:
  assumes "mem_inv d m" "map_of m n = Some st"
  shows "ns_expires st = expiry d n"
proof -
  have "\<forall>x \<in> set m. case x of (n, st) \<Rightarrow> ns_expires st = expiry d n" using assms(1) by (simp add: mem_inv_def list_all_iff)
  from bspec [OF this map_of_SomeD [OF assms(2)]] show ?thesis by simp
qed

lemma purge_keeps:
  assumes "mem_inv d m" "mem_spent m n u" "now \<le> expiry d n"
  shows "mem_spent (purgeExpiredNoncesLocked now m) n u"
proof -
  obtain st where st: "map_of m n = Some st" using assms(2) by (auto simp: mem_spent_def split: option.splits)
  have "distinct (map fst m)" using assms(1) by (simp add: mem_inv_def)
  then have "map_of (purgeExpiredNoncesLocked now m) n = Some st"
    using st mem_expires [OF assms(1) st] assms(3) by (simp add: purgeExpiredNoncesLocked_def map_of_filter_distinct)
  then show ?thesis using assms(2) st by (simp add: mem_spent_def)
qed

lemma purge_inv: "mem_inv d m \<Longrightarrow> mem_inv d (purgeExpiredNoncesLocked now m)"
  by (auto simp: mem_inv_def purgeExpiredNoncesLocked_def list_all_iff intro: distinct_filter_keys)

lemma mem_inv_put: "mem_inv d m \<Longrightarrow> ns_expires st = expiry d n \<Longrightarrow> mem_inv d (map_put n st m)"
  using distinct_map_put [of m n st] by (auto simp: mem_inv_def list_all_iff map_put_def)

lemma mem_spent_put: "mem_spent (map_put n st m) x v =
    (if x = n then (case v of NoQop \<Rightarrow> ns_used st | Qop k \<Rightarrow> k \<le> ns_lastNC st) else mem_spent m x v)"
  by (simp add: mem_spent_def)

lemma record_use_keeps: "map_of m n = Some st \<Longrightarrow> mem_spent m x v \<Longrightarrow> mem_spent (snd (record_use n u st m)) x v"
  by (auto simp: record_use_def mem_spent_put mem_spent_def split: nonce_use.splits)

lemma record_use_new:
  "map_of m n = Some st \<Longrightarrow> fst (record_use n u st m) \<Longrightarrow> \<not> mem_spent m n u \<and> mem_spent (snd (record_use n u st m)) n u"
  by (auto simp: record_use_def mem_spent_put mem_spent_def split: nonce_use.splits if_splits)

lemma record_use_inv: "mem_inv d m \<Longrightarrow> ns_expires st = expiry d n \<Longrightarrow> mem_inv d (snd (record_use n u st m))"
  by (auto simp: record_use_def mem_inv_put split: nonce_use.splits)

interpretation memory: replay_store "mem_inv d" mem_spent "expiry d"
  "\<lambda>now n u. check_memory now n u (expiry d n)" purgeExpiredNoncesLocked for d
proof unfold_locales
  fix m now n u assume i: "mem_inv d m"
  let ?st = "\<lparr> ns_expires = expiry d n, ns_lastNC = 0, ns_used = False \<rparr>"
  let ?m1 = "if length m \<ge> nonceCacheMax then purgeExpiredNoncesLocked now m else m"
  let ?run = "check_memory now n u (expiry d n) m"
  have m1: "mem_inv d ?m1" using i purge_inv by simp
  have put: "map_of (map_put n ?st ?m1) n = Some ?st" by simp
  show "mem_inv d (snd ?run)"
  proof (cases "map_of m n")
    case None
    have "mem_inv d (snd (record_use n u ?st (map_put n ?st ?m1)))" using m1 by (simp add: record_use_inv mem_inv_put)
    then show ?thesis using None m1 by (simp add: check_memory_def Let_def)
  next
    case (Some st)
    then show ?thesis using record_use_inv [OF i mem_expires [OF i Some], of u] by (simp add: check_memory_def)
  qed
  show "\<not> mem_spent m n u \<and> mem_spent (snd ?run) n u" if "fst ?run"
  proof (cases "map_of m n")
    case None
    then have "\<not> mem_spent m n u" by (simp add: mem_spent_def)
    moreover have "?run = record_use n u ?st (map_put n ?st ?m1)"
      using that None unfolding check_memory_def Let_def by (simp split: if_splits)
    ultimately show ?thesis using that record_use_new [OF put, of u] by metis
  next
    case (Some st)
    then show ?thesis using that record_use_new [OF Some, of u] by (simp add: check_memory_def)
  qed
  show "mem_inv d (purgeExpiredNoncesLocked now m)" by (rule purge_inv [OF i])
  show "mem_spent (purgeExpiredNoncesLocked now m) n u" if "mem_spent m n u" "now \<le> expiry d n"
    by (rule purge_keeps [OF i that])
next
  fix m now n u x v assume i: "mem_inv d m" and sp: "mem_spent m x v" and t: "now \<le> expiry d x"
  let ?st = "\<lparr> ns_expires = expiry d n, ns_lastNC = 0, ns_used = False \<rparr>"
  let ?m1 = "if length m \<ge> nonceCacheMax then purgeExpiredNoncesLocked now m else m"
  have m1: "mem_spent ?m1 x v" using sp purge_keeps [OF i sp t] by simp
  show "mem_spent (snd (check_memory now n u (expiry d n) m)) x v"
  proof (cases "map_of m n")
    case None
    then have "x \<noteq> n" using sp by (auto simp: mem_spent_def)
    then have "mem_spent (map_put n ?st ?m1) x v" using m1 by (simp add: mem_spent_put)
    then have "mem_spent (snd (record_use n u ?st (map_put n ?st ?m1))) x v" by (rule record_use_keeps [rotated]) simp
    then show ?thesis using None m1 by (simp add: check_memory_def Let_def)
  next
    case (Some st)
    then show ?thesis using record_use_keeps [OF Some sp, of u] by (simp add: check_memory_def)
  qed
qed

text \<open>The shared table.\<close>

definition pg_inv :: "DigestAuthenticator \<Rightarrow> nonce_row list \<Rightarrow> bool" where
  "pg_inv d rows \<longleftrightarrow> list_all (\<lambda>r. nr_expires_at r = expiry d (nr_nonce r)) rows"

definition pg_spent :: "nonce_row list \<Rightarrow> string \<Rightarrow> nonce_use \<Rightarrow> bool" where
  "pg_spent rows n u =
     (case find (\<lambda>r. nr_nonce r = n) rows of None \<Rightarrow> False | Some r \<Rightarrow> int64 (ordinal u) \<le> nr_last_nc r)"

lemma pg_spent_update:
  "pg_spent (update_where (\<lambda>r. nr_nonce r = n) (\<lambda>r. r\<lparr> nr_last_nc := k \<rparr>) rows) x v =
     (if x = n then find (\<lambda>r. nr_nonce r = n) rows \<noteq> None \<and> int64 (ordinal v) \<le> k else pg_spent rows x v)"
proof -
  have "nr_nonce r = x" if "find (\<lambda>r. nr_nonce r = x) rows = Some r" for r using that by (auto simp: find_Some_iff)
  then show ?thesis
    by (cases "find (\<lambda>r. nr_nonce r = x) rows") (auto simp: pg_spent_def find_update_where)
qed

lemma pg_spent_append: "pg_spent (rows @ [r]) x v =
    (if find (\<lambda>r. nr_nonce r = x) rows = None then nr_nonce r = x \<and> int64 (ordinal v) \<le> nr_last_nc r else pg_spent rows x v)"
  by (induction rows) (auto simp: pg_spent_def)

lemma pg_inv_check: "pg_inv d rows \<Longrightarrow> pg_inv d (snd (CheckAndRecord n k (expiry d n) rows))"
  by (auto simp: CheckAndRecord_def pg_inv_def list_all_iff update_where_def split: option.split)

interpretation shared: replay_store "pg_inv d" pg_spent "expiry d"
  "\<lambda>now n u. CheckAndRecord n (ordinal u) (expiry d n)" "Purge no_faults" for d
proof unfold_locales
  fix rows n u assume i: "pg_inv d rows"
  show "pg_inv d (snd (CheckAndRecord n (ordinal u) (expiry d n) rows))" by (rule pg_inv_check [OF i])
  show "\<not> pg_spent rows n u \<and> pg_spent (snd (CheckAndRecord n (ordinal u) (expiry d n) rows)) n u"
    if "fst (CheckAndRecord n (ordinal u) (expiry d n) rows)"
    using that by (cases "find (\<lambda>r. nr_nonce r = n) rows")
      (simp_all add: CheckAndRecord_def pg_spent_append pg_spent_update pg_spent_def [of rows] split: if_splits)
next
  fix rows n u m v assume "pg_spent rows n u"
  then show "pg_spent (snd (CheckAndRecord m (ordinal v) (expiry d m) rows)) n u"
    by (cases "find (\<lambda>r. nr_nonce r = m) rows"; cases "find (\<lambda>r. nr_nonce r = n) rows")
      (auto simp: CheckAndRecord_def pg_spent_append pg_spent_update pg_spent_def [of rows])
next
  fix rows now assume i: "pg_inv d rows"
  show "pg_inv d (Purge no_faults now rows)" using i by (auto simp: Purge_def pg_inv_def list_all_iff)
  fix n u assume sp: "pg_spent rows n u" and t: "now \<le> expiry d n"
  obtain r where r: "find (\<lambda>r. nr_nonce r = n) rows = Some r" using sp by (auto simp: pg_spent_def split: option.splits)
  then have "r \<in> set rows" "nr_nonce r = n" by (auto simp: find_Some_iff)
  then have "\<not> nr_expires_at r < now" using i t by (auto simp: pg_inv_def list_all_iff)
  from find_filter_keep [of _ _ _ "\<lambda>r. \<not> nr_expires_at r < now", OF r this]
  show "pg_spent (Purge no_faults now rows) n u" using sp r by (simp add: Purge_def pg_spent_def)
qed

section \<open>What a request presents\<close>

lemma check_response_issued: "check_response d r rest = Some ck \<Longrightarrow> parseNonce d (ck_nonce ck) = Some (ck_issued ck)"
  by (auto simp: check_response_def Let_def split: option.splits if_splits)

lemma check_response_expiry: "check_response d r rest = Some ck \<Longrightarrow> ck_issued ck + nonceTTL = expiry d (ck_nonce ck)"
  by (simp add: expiry_def check_response_issued)

text \<open>The nonce and its use, of a response with the right credentials.\<close>

definition presented :: "DigestAuthenticator \<Rightarrow> http_request \<Rightarrow> string \<Rightarrow> (string \<times> nonce_use) option" where
  "presented d r rest =
     (case check_response d r rest of
        None \<Rightarrow> None
      | Some ck \<Rightarrow> (case parse_use (ck_qop ck) (ck_nc ck) of None \<Rightarrow> None | Some u \<Rightarrow> Some (ck_nonce ck, u)))"

lemma verifyDigest_None:
  assumes "presented d r rest = None"
  shows "\<not> v_ok (fst (verifyDigest d fault r rest now s)) \<and> snd (verifyDigest d fault r rest now s) = s"
proof (cases "check_response d r rest")
  case None
  then show ?thesis by (simp add: verifyDigest_def rejected_def)
next
  case (Some ck)
  then have "parse_use (ck_qop ck) (ck_nc ck) = None" using assms by (simp add: presented_def split: option.splits)
  then show ?thesis using Some by (simp add: verifyDigest_def rejected_def checkReplay_def)
qed

lemma verifyDigest_memory:
  assumes "presented d r rest = Some (n, u)" "\<not> da_shared d"
  shows "v_ok (fst (verifyDigest d fault r rest now s)) \<longleftrightarrow> now \<le> expiry d n \<and> fst (check_memory now n u (expiry d n) (nonceCache s))"
    "nonceCache (snd (verifyDigest d fault r rest now s)) =
       (if now \<le> expiry d n then snd (check_memory now n u (expiry d n) (nonceCache s)) else nonceCache s)"
proof -
  obtain ck where ck: "check_response d r rest = Some ck" "ck_nonce ck = n" "parse_use (ck_qop ck) (ck_nc ck) = Some u"
    using assms(1) by (auto simp: presented_def split: option.splits)
  note e = check_response_expiry [OF ck(1), unfolded ck(2)]
  show "v_ok (fst (verifyDigest d fault r rest now s)) \<longleftrightarrow> now \<le> expiry d n \<and> fst (check_memory now n u (expiry d n) (nonceCache s))"
    "nonceCache (snd (verifyDigest d fault r rest now s)) =
       (if now \<le> expiry d n then snd (check_memory now n u (expiry d n) (nonceCache s)) else nonceCache s)"
    using assms(2) unfolding verifyDigest_def ck(1) option.case checkReplay_def ck(2,3) e
    by (simp_all add: rejected_def split_beta Let_def)
qed

lemma verifyDigest_shared:
  assumes "presented d r rest = Some (n, u)" "da_shared d"
  shows "v_ok (fst (verifyDigest d fault r rest now s)) \<longleftrightarrow>
      now \<le> expiry d n \<and> \<not> fault \<and> fst (CheckAndRecord n (ordinal u) (expiry d n) (cwmp_digest_nonces s))"
    "cwmp_digest_nonces (snd (verifyDigest d fault r rest now s)) =
       (if now \<le> expiry d n \<and> \<not> fault then snd (CheckAndRecord n (ordinal u) (expiry d n) (cwmp_digest_nonces s))
        else cwmp_digest_nonces s)"
proof -
  obtain ck where ck: "check_response d r rest = Some ck" "ck_nonce ck = n" "parse_use (ck_qop ck) (ck_nc ck) = Some u"
    using assms(1) by (auto simp: presented_def split: option.splits)
  note e = check_response_expiry [OF ck(1), unfolded ck(2)]
  show "v_ok (fst (verifyDigest d fault r rest now s)) \<longleftrightarrow>
      now \<le> expiry d n \<and> \<not> fault \<and> fst (CheckAndRecord n (ordinal u) (expiry d n) (cwmp_digest_nonces s))"
    "cwmp_digest_nonces (snd (verifyDigest d fault r rest now s)) =
       (if now \<le> expiry d n \<and> \<not> fault then snd (CheckAndRecord n (ordinal u) (expiry d n) (cwmp_digest_nonces s))
        else cwmp_digest_nonces s)"
    using assms(2) unfolding verifyDigest_def ck(1) option.case checkReplay_def ck(2,3) e
    by (simp_all add: rejected_def split_beta Let_def)
qed

section \<open>A response is accepted at most once\<close>

text \<open>Requests, and the reaper of the shared table.\<close>

datatype auth_event = Request time bool http_request | Reap faults time

fun event_time :: "auth_event \<Rightarrow> time" where
  "event_time (Request now fault r) = now"
| "event_time (Reap flt now) = now"

definition digest_part :: "http_request \<Rightarrow> string option" where
  "digest_part r = CutPrefix (rq_Authorization r) ''Digest ''"

definition digest_use :: "DigestAuthenticator \<Rightarrow> http_request \<Rightarrow> (string \<times> nonce_use) option" where
  "digest_use d r = (case digest_part r of None \<Rightarrow> None | Some rest \<Rightarrow> presented d r rest)"

text \<open>The uses of nonces that were let in, in order.\<close>

fun run_auth :: "DigestAuthenticator \<Rightarrow> auth_event list \<Rightarrow> auth_state \<Rightarrow> (string \<times> nonce_use) list" where
  "run_auth d [] s = []"
| "run_auth d (Request now fault r # evs) s =
     (case Verify d fault r now s of (v, s') \<Rightarrow>
        (case digest_use d r of Some use \<Rightarrow> if v_ok v then [use] else [] | None \<Rightarrow> []) @ run_auth d evs s')"
| "run_auth d (Reap flt now # evs) s = run_auth d evs (s\<lparr> cwmp_digest_nonces := Purge flt now (cwmp_digest_nonces s) \<rparr>)"

lemma Verify_digest:
  assumes "digest_part r = Some rest"
  shows "Verify d fault r now s = verifyDigest d fault r rest now s"
  using assms by (auto simp: Verify_def digest_part_def CutPrefix_def split: if_splits)

lemma Verify_other:
  assumes "digest_part r = None"
  shows "snd (Verify d fault r now s) = s"
proof -
  have "\<not> HasPrefix (rq_Authorization r) ''Digest ''"
    using assms by (auto simp: digest_part_def CutPrefix_def split: if_splits)
  then show ?thesis by (simp add: Verify_def Let_def split_beta)
qed

text \<open>What an event is to the replay store.\<close>

fun store_event :: "DigestAuthenticator \<Rightarrow> auth_event \<Rightarrow> (time \<times> (string \<times> nonce_use) option) list" where
  "store_event d (Request now fault r) =
     (case digest_use d r of None \<Rightarrow> [] | Some use \<Rightarrow> if da_shared d \<and> fault then [] else [(now, Some use)])"
| "store_event d (Reap flt now) = (if da_shared d \<and> \<not> flt 0 then [(now, None)] else [])"

lemma store_event_times: "\<forall>x \<in> set (store_event d ev). fst x = event_time ev" "length (store_event d ev) \<le> 1"
  by (cases ev; auto split: option.splits)+

lemma sorted_store_events:
  "sorted (map event_time evs) \<Longrightarrow> sorted (map fst (concat (map (store_event d) evs)))"
proof (induction evs)
  case (Cons ev evs)
  have later: "\<forall>x \<in> set (concat (map (store_event d) evs)). event_time ev \<le> fst x"
    using Cons.prems store_event_times(1) by fastforce
  have "store_event d ev = [] \<or> (\<exists>x. store_event d ev = [x])"
    using store_event_times(2) [of d ev] by (cases "store_event d ev") auto
  then show ?case using Cons later store_event_times(1) [of d ev] by auto
qed simp

lemma run_auth_memory:
  assumes "\<not> da_shared d"
  shows "run_auth d evs s = memory.replay_run d (concat (map (store_event d) evs)) (nonceCache s)"
proof (induction evs arbitrary: s)
  case (Cons ev evs)
  show ?case
  proof (cases ev)
    case (Request now fault r)
    obtain v s' where v: "Verify d fault r now s = (v, s')" by (rule prod.exhaust)
    show ?thesis
    proof (cases "digest_use d r")
      case None
      have "nonceCache s' = nonceCache s"
      proof (cases "digest_part r")
        case None
        then show ?thesis using Verify_other v by (metis snd_conv)
      next
        case (Some rest)
        then have "presented d r rest = None" using \<open>digest_use d r = None\<close> by (simp add: digest_use_def)
        then show ?thesis using verifyDigest_None Verify_digest [OF Some] v by (metis snd_conv)
      qed
      then show ?thesis using Cons None Request v by simp
    next
      case (Some use)
      obtain n u where use: "use = (n, u)" by (rule prod.exhaust)
      obtain rest where rest: "digest_part r = Some rest" "presented d r rest = Some (n, u)"
        using Some use by (auto simp: digest_use_def split: option.splits)
      note vd = verifyDigest_memory [OF rest(2) assms, of fault now s, folded Verify_digest [OF rest(1)], unfolded v]
      show ?thesis
        using Cons Some Request v vd assms use by (simp add: split_beta Let_def not_le)
    qed
  qed (use Cons assms in simp)
qed simp

lemma run_auth_shared:
  assumes "da_shared d"
  shows "run_auth d evs s = shared.replay_run d (concat (map (store_event d) evs)) (cwmp_digest_nonces s)"
proof (induction evs arbitrary: s)
  case (Cons ev evs)
  show ?case
  proof (cases ev)
    case (Request now fault r)
    obtain v s' where v: "Verify d fault r now s = (v, s')" by (rule prod.exhaust)
    show ?thesis
    proof (cases "digest_use d r")
      case None
      have "cwmp_digest_nonces s' = cwmp_digest_nonces s"
      proof (cases "digest_part r")
        case None
        then show ?thesis using Verify_other v by (metis snd_conv)
      next
        case (Some rest)
        then have "presented d r rest = None" using \<open>digest_use d r = None\<close> by (simp add: digest_use_def)
        then show ?thesis using verifyDigest_None Verify_digest [OF Some] v by (metis snd_conv)
      qed
      then show ?thesis using Cons None Request v by simp
    next
      case (Some use)
      obtain n u where use: "use = (n, u)" by (rule prod.exhaust)
      obtain rest where rest: "digest_part r = Some rest" "presented d r rest = Some (n, u)"
        using Some use by (auto simp: digest_use_def split: option.splits)
      note vd = verifyDigest_shared [OF rest(2) assms, of fault now s, folded Verify_digest [OF rest(1)], unfolded v]
      show ?thesis
        using Cons Some Request v vd assms use by (cases fault) (simp_all add: split_beta Let_def not_le)
    qed
  next
    case (Reap flt now)
    have "Purge flt now rows = (if flt 0 then rows else Purge no_faults now rows)" for rows by (simp add: Purge_def)
    then show ?thesis using Cons assms Reap by (cases "flt 0") simp_all
  qed
qed simp

text \<open>
  C7. Whatever sequence of requests arrives, as long as the clock does not run backwards, no Digest
  response is let in twice: the pairs of nonce and nonce count (or the single use of a nonce without
  qop) that verified are all different, with the cache of the process as with the shared table,
  through purges of the cache, runs of the reaper and failures of the database.
\<close>

theorem digest_never_replays:
  assumes "sorted (map event_time evs)"
    and "mem_inv d (nonceCache s)" "pg_inv d (cwmp_digest_nonces s)"
  shows "distinct (run_auth d evs s)"
  using assms sorted_store_events [of evs d]
  by (cases "da_shared d") (simp_all add: run_auth_memory run_auth_shared memory.run_distinct shared.run_distinct)

section \<open>Nonces\<close>

lemma no_space_trim: "(\<And>c. c \<in> set s \<Longrightarrow> \<not> is_space c) \<Longrightarrow> TrimSpace s = s"
proof -
  assume ns: "\<And>c. c \<in> set s \<Longrightarrow> \<not> is_space c"
  have "dropWhile is_space t = t" if "\<And>c. c \<in> set t \<Longrightarrow> \<not> is_space c" for t
    using that by (cases t) auto
  from this [of s] this [of "rev s"] show ?thesis using ns by (simp add: TrimSpace_def)
qed

lemma hex_not_dot: "c \<in> hex_digits \<Longrightarrow> c \<noteq> CHR ''.'' \<and> c \<noteq> CHR 0x22 \<and> \<not> is_space c"
  by (auto simp: hex_digits_def is_space_def)

lemma newNonce_parts:
  assumes "0 \<le> unix now"
  shows "SplitN 2 (CHR ''.'') (newNonce d bytes now) =
    [FormatInt 16 (unix now), hex_encode bytes, nonceMAC d (FormatInt 16 (unix now)) (hex_encode bytes)]"
proof -
  have "CHR ''.'' \<notin> set (FormatInt 16 (unix now))"
    using assms set_FormatUint [of 16 "nat (unix now)"] hex_not_dot by (auto simp: FormatInt_def)
  moreover have "CHR ''.'' \<notin> set (hex_encode bytes)" using set_hex_encode [of bytes] hex_not_dot by auto
  ultimately show ?thesis by (simp add: newNonce_def Let_def numeral_2_eq_2)
qed

lemma parseNonce_newNonce:
  assumes "0 \<le> unix now" "unix now < 2 ^ 63"
  shows "parseNonce d (newNonce d bytes now) = Some (of_unix (unix now))"
  using ParseInt_FormatInt [of 16 "unix now"] assms
  by (simp add: parseNonce_def newNonce_parts)

lemma length_FormatUint: "1 < b \<Longrightarrow> n < b ^ k \<Longrightarrow> 0 < k \<Longrightarrow> length (FormatUint b n) \<le> k"
proof (induction b n arbitrary: k rule: FormatUint.induct)
  case (1 b n)
  show ?case
  proof (cases "n < b")
    case False
    obtain j where j: "k = Suc j" using 1 by (cases k) auto
    have "j \<noteq> 0" using False 1(3) j by (intro notI) simp
    have "n div b < b ^ j" using 1 j by (simp add: less_mult_imp_div_less mult.commute)
    then have "length (FormatUint b (n div b)) \<le> j" using 1 False \<open>j \<noteq> 0\<close> by simp
    then show ?thesis using False 1 j by (subst FormatUint.simps) simp
  qed (use 1 in \<open>subst FormatUint.simps, simp\<close>)
qed

text \<open>
  C39. A nonce parses back to the second it was issued in and to no other time, and from any time
  up to the year 2106 it is at most 38 characters long, well within a buffer of 64.
\<close>

theorem nonce_roundtrip_short:
  assumes "0 \<le> unix now" "unix now < 2 ^ 32" "length bytes = nonceRandomBytes"
  shows "parseNonce d (newNonce d bytes now) = Some (of_unix (unix now)) \<and>
    of_unix (unix now) \<le> now \<and> now < of_unix (unix now) + second \<and> length (newNonce d bytes now) \<le> 38"
proof (intro conjI)
  show "parseNonce d (newNonce d bytes now) = Some (of_unix (unix now))"
    by (rule parseNonce_newNonce [OF assms(1) order.strict_trans [OF assms(2)]]) simp
  have "nat (unix now) < 16 ^ 8" using assms(1,2) by (simp add: nat_less_iff)
  then have "length (FormatInt 16 (unix now)) \<le> 8"
    using assms(1) length_FormatUint [of 16 "nat (unix now)" 8] by (simp add: FormatInt_def)
  then show "length (newNonce d bytes now) \<le> 38"
    using assms(3) by (simp add: newNonce_def Let_def nonceMAC_def nonceMACBytes_def nonceRandomBytes_def)
  have p: "second > 0" by (simp add: second_def)
  show "of_unix (unix now) \<le> now" "now < of_unix (unix now) + second"
    using div_mult_mod_eq [of now second] pos_mod_sign [OF p, of now] pos_mod_bound [OF p, of now]
    unfolding of_unix_def unix_def by linarith+
qed

section \<open>A client that knows the password gets in\<close>

fun render_params :: "(string \<times> string) list \<Rightarrow> string" where
  "render_params [] = []"
| "render_params [(k, v)] = k @ ''='' @ qt @ v @ qt"
| "render_params ((k, v) # ps) = k @ ''='' @ qt @ v @ qt @ '', '' @ render_params ps"

definition plain_param :: "string \<times> string \<Rightarrow> bool" where
  "plain_param p \<longleftrightarrow> fst p \<noteq> [] \<and> list_all is_word (fst p) \<and> CHR 0x22 \<notin> set (snd p) \<and> TrimSpace (snd p) = snd p"

lemma not_word [simp]: "\<not> is_word (CHR '','')" "\<not> is_word (CHR '' '')" "\<not> is_word (CHR ''='')"
  by (simp_all add: is_word_def)

lemma digest_matches_Nil [simp]: "digest_matches [] = []"
  by (subst digest_matches.simps) simp

lemma digest_matches_skip: "digest_matches ('', '' @ s) = digest_matches s"
  by (subst (1 2) digest_matches.simps) (simp add: Let_def)

lemma value_match_quoted: "CHR 0x22 \<notin> set v \<Longrightarrow> value_match (qt @ v @ qt @ rest) = (v, rest)"
proof -
  assume "CHR 0x22 \<notin> set v"
  then have "takeWhile (\<lambda>c. c \<noteq> CHR 0x22) (v @ CHR 0x22 # rest) = v" "dropWhile (\<lambda>c. c \<noteq> CHR 0x22) (v @ CHR 0x22 # rest) = CHR 0x22 # rest"
    by (auto simp: takeWhile_tail dropWhile_append3 intro!: takeWhile_eq_all_conv [THEN iffD2])
  then show ?thesis by (simp add: value_match_def qt_def)
qed

lemma digest_matches_param:
  assumes "k \<noteq> []" "list_all is_word k" "CHR 0x22 \<notin> set v"
  shows "digest_matches (k @ ''='' @ qt @ v @ qt @ rest) = (k, v) # digest_matches rest"
proof -
  let ?tail = "CHR ''='' # qt @ v @ qt @ rest"
  have s: "k @ ''='' @ qt @ v @ qt @ rest = k @ ?tail" by simp
  have "dropWhile (\<lambda>c. \<not> is_word c) (k @ ?tail) = k @ ?tail" using assms(1,2) by (cases k) auto
  moreover have "takeWhile is_word (k @ ?tail) = k" "dropWhile is_word (k @ ?tail) = ?tail"
    using assms(2) by (auto simp: list_all_iff takeWhile_append2 dropWhile_append2)
  ultimately show ?thesis
    unfolding s by (subst digest_matches.simps) (simp add: Let_def assms(1) value_match_quoted [OF assms(3)])
qed

lemma digest_matches_render: "list_all plain_param ps \<Longrightarrow> digest_matches (render_params ps) = ps"
proof (induction ps rule: render_params.induct)
  case (2 k v)
  then show ?case using digest_matches_param [of k v "[]"] by (simp add: plain_param_def)
next
  case (3 k v p ps)
  then show ?case
    using digest_matches_param [of k v "'', '' @ render_params (p # ps)"] digest_matches_skip [of "render_params (p # ps)"]
    by (simp add: plain_param_def)
qed simp

lemma map_of_fold_put:
  "distinct (map fst ps) \<Longrightarrow> map_of (fold (\<lambda>(key, val) out. map_put key (f val) out) ps m) k =
     (case map_of ps k of None \<Rightarrow> map_of m k | Some v \<Rightarrow> Some (f v))"
proof (induction ps arbitrary: m)
  case (Cons p ps)
  obtain a b where p: "p = (a, b)" by (rule prod.exhaust)
  have "map_of ps a = None" using Cons.prems p by (simp add: map_of_eq_None_iff)
  then show ?case using Cons p by (cases "k = a") (simp_all split: option.split)
qed simp

lemma parse_render:
  assumes "list_all plain_param ps" "distinct (map fst ps)"
  shows "map_of (parseDigestParams (render_params ps)) k = map_of ps k"
proof -
  have "TrimSpace v = v" if "map_of ps k = Some v" for v
    using map_of_SomeD [OF that] assms(1) by (auto simp: list_all_iff plain_param_def)
  then show ?thesis
    by (simp add: parseDigestParams_def digest_matches_render [OF assms(1)] map_of_fold_put [OF assms(2)] split: option.split)
qed

text \<open>A client's answer to a challenge: the header it sends.\<close>

definition client_response :: "(string \<Rightarrow> string) \<Rightarrow> string \<Rightarrow> string \<Rightarrow> string \<Rightarrow> string \<Rightarrow> string \<Rightarrow> string" where
  "client_response h user pw httpMethod uri nonce =
     h (Join [h (user @ '':'' @ realm @ '':'' @ pw), nonce, ''00000001'', ''c0ffee'', ''auth'', h (httpMethod @ '':'' @ uri)] '':'')"

definition client_params :: "string \<Rightarrow> (string \<Rightarrow> string) \<Rightarrow> string \<Rightarrow> string \<Rightarrow> string \<Rightarrow> string \<Rightarrow> string \<Rightarrow> (string \<times> string) list" where
  "client_params alg h user pw httpMethod uri nonce =
     [(''username'', user), (''realm'', realm), (''nonce'', nonce), (''uri'', uri), (''algorithm'', alg), (''qop'', ''auth''),
      (''nc'', ''00000001''), (''cnonce'', ''c0ffee''), (''response'', client_response h user pw httpMethod uri nonce)]"

definition client_request :: "string \<Rightarrow> (string \<Rightarrow> string) \<Rightarrow> string \<Rightarrow> string \<Rightarrow> string \<Rightarrow> string \<Rightarrow> string \<Rightarrow> http_request" where
  "client_request alg h user pw httpMethod uri nonce =
     \<lparr> rq_Method = httpMethod, rq_RequestURI = uri,
       rq_Authorization = ''Digest '' @ render_params (client_params alg h user pw httpMethod uri nonce) \<rparr>"

lemma hash_plain:
  assumes "hashFuncFor alg = Some h"
  shows "CHR 0x22 \<notin> set (h x) \<and> TrimSpace (h x) = h x"
proof -
  have "set (h x) \<subseteq> hex_digits"
    using assms set_hex_encode by (auto simp: hashFuncFor_def Let_def md5Hex_def sha256Hex_def split: if_splits)
  then show ?thesis using hex_not_dot by (auto intro!: no_space_trim)
qed

lemma newNonce_plain:
  assumes "0 \<le> unix now"
  shows "CHR 0x22 \<notin> set (newNonce d bytes now) \<and> TrimSpace (newNonce d bytes now) = newNonce d bytes now"
proof -
  have "set (newNonce d bytes now) \<subseteq> insert (CHR ''.'') hex_digits"
    using assms set_hex_encode set_FormatUint [of 16 "nat (unix now)"]
    by (auto simp: newNonce_def Let_def nonceMAC_def FormatInt_def)
  moreover have "\<not> is_space (CHR ''.'')" by (simp add: is_space_def)
  ultimately show ?thesis using hex_not_dot by (fastforce intro!: no_space_trim)
qed

lemma client_params_plain:
  assumes "hashFuncFor alg = Some h" "alg \<in> set defaultChallengeAlgorithms" "0 \<le> unix now"
    and "CHR 0x22 \<notin> set user" "TrimSpace user = user" "CHR 0x22 \<notin> set uri" "TrimSpace uri = uri"
  shows "list_all plain_param (client_params alg h user pw m uri (newNonce d bytes now))"
proof -
  have w: "list_all is_word ''username''" "list_all is_word ''realm''" "list_all is_word ''nonce''" "list_all is_word ''uri''"
    "list_all is_word ''algorithm''" "list_all is_word ''qop''" "list_all is_word ''nc''" "list_all is_word ''cnonce''"
    "list_all is_word ''response''" by (simp_all add: is_word_def)
  have v: "TrimSpace realm = realm" "TrimSpace ''auth'' = ''auth''" "TrimSpace ''00000001'' = ''00000001''"
    "TrimSpace ''c0ffee'' = ''c0ffee''" "TrimSpace alg = alg" "CHR 0x22 \<notin> set alg" "CHR 0x22 \<notin> set realm"
    using assms(2) by (auto simp: defaultChallengeAlgorithms_def realm_def TrimSpace_def is_space_def)
  show ?thesis
    using assms(4-) newNonce_plain [OF assms(3), of d bytes] hash_plain [OF assms(1)] w v
    by (simp add: client_params_def plain_param_def client_response_def)
qed

lemma answers_challenge:
  assumes "passwordFor d user = Some (pw, dev, perDevice)"
    and "hashFuncFor alg = Some h" "alg \<in> set defaultChallengeAlgorithms"
    and "CHR 0x22 \<notin> set user" "TrimSpace user = user" "CHR 0x22 \<notin> set uri" "TrimSpace uri = uri"
    and "0 \<le> unix now" "unix now < 2 ^ 63" "later \<le> of_unix (unix now) + nonceTTL"
    and "map_of (nonceCache s) (newNonce d bytes now) = None" "length (nonceCache s) < nonceCacheMax"
    and "find (\<lambda>r. nr_nonce r = newNonce d bytes now) (cwmp_digest_nonces s) = None"
  shows "fst (Verify d False (client_request alg h user pw m uri (newNonce d bytes now)) later s) =
    \<lparr> v_ok = True, v_stale = False,
      v_identity = \<lparr> id_Username = user, id_BoundDeviceID = dev, id_SharedCredential = \<not> perDevice \<rparr> \<rparr>"
proof -
  let ?n = "newNonce d bytes now" and ?ps = "client_params alg h user pw m uri (newNonce d bytes now)"
  let ?r = "client_request alg h user pw m uri ?n" and ?rest = "render_params ?ps"
  have lk: "map_of (parseDigestParams ?rest) k = map_of ?ps k" for k
    by (rule parse_render [OF client_params_plain [OF assms(2,3,8,4-7)]]) (simp add: client_params_def)
  have ck: "check_response d ?r ?rest = Some \<lparr> ck_nonce = ?n, ck_issued = of_unix (unix now), ck_qop = ''auth'', ck_nc = ''00000001'',
      ck_identity = \<lparr> id_Username = user, id_BoundDeviceID = dev, id_SharedCredential = \<not> perDevice \<rparr> \<rparr>"
  proof -
    define ps where "ps = parseDigestParams ?rest"
    have p: "param ps ''username'' = user" "map_of ps ''realm'' = Some realm" "param ps ''nonce'' = ?n" "param ps ''uri'' = uri"
      "param ps ''algorithm'' = alg" "param ps ''qop'' = ''auth''" "param ps ''nc'' = ''00000001''" "param ps ''cnonce'' = ''c0ffee''"
      "param ps ''response'' = client_response h user pw m uri ?n"
      unfolding ps_def param_def lk by (simp_all add: client_params_def)
    have "rq_RequestURI ?r = uri" "rq_Method ?r = m" by (simp_all add: client_request_def)
    then show ?thesis
      using assms(1,2) parseNonce_newNonce [OF assms(8,9)] p unfolding check_response_def ps_def [symmetric]
      by (simp add: digest_response_def client_response_def Let_def)
  qed
  have use: "parse_use ''auth'' ''00000001'' = Some (Qop 1)"
    by (simp add: parse_use_def ParseUint_def digit_val_def Let_def)
  have "digest_part ?r = Some ?rest" by (simp add: digest_part_def CutPrefix_def client_request_def HasPrefix_def)
  then show ?thesis
    unfolding Verify_digest [OF \<open>digest_part ?r = Some ?rest\<close>] verifyDigest_def ck option.case
    using assms(10-13) use
    by (simp add: checkReplay_def CheckAndRecord_def check_memory_def record_use_def Let_def)
qed


section \<open>An example\<close>

definition cpe_auth :: DigestAuthenticator where
  "cpe_auth = \<lparr> da_Username = ''cpe'', da_Password = ''pw'', da_AllowBasic = False, da_Lookup = None, da_Algorithms = [],
     da_NonceSecret = [], da_shared = False \<rparr>"

definition no_nonces :: auth_state where
  "no_nonces = \<lparr> nonceCache = [], cwmp_digest_nonces = [] \<rparr>"

definition at_work :: time where "at_work = 1700000000 * second"

definition cpe_post :: http_request where
  "cpe_post = client_request ''MD5'' md5Hex ''cpe'' ''pw'' ''POST'' ''/acs'' (newNonce cpe_auth ''abcdef'' at_work)"

lemma at_work_unix: "unix at_work = 1700000000"
  by (simp add: at_work_def unix_def second_def)

lemma of_unix_at_work: "of_unix (unix at_work) = at_work"
  unfolding at_work_unix by (simp add: of_unix_def at_work_def)


theorem digest_never_replays_witness:
  "distinct (run_auth cpe_auth [Request at_work False cpe_post, Request (at_work + second) False cpe_post, Reap no_faults (at_work + hour)] no_nonces)"
  by (rule digest_never_replays)
    (simp_all add: second_def time_units no_nonces_def mem_inv_def pg_inv_def)

theorem nonce_roundtrip_short_witness:
  "parseNonce cpe_auth (newNonce cpe_auth ''abcdef'' at_work) = Some at_work"
  using nonce_roundtrip_short [of at_work "''abcdef''" cpe_auth]
  unfolding of_unix_at_work by (simp add: at_work_unix nonceRandomBytes_def)

end
