(* ===== verification/Transfer_Token.thy ===== *)
theory Transfer_Token
  imports Go_Crypto
begin

text \<open>
  Package \<^verbatim>\<open>internal/transfer\<close>: the expiring, purpose-bound tokens of the public file transfer
  endpoints (\<^verbatim>\<open>token.go\<close>).
\<close>

section \<open>Tokens\<close>

datatype token_error = ErrInvalidTransfer | ErrExpiredTransfer

definition DeriveKey :: "string \<Rightarrow> string" where
  "DeriveKey parent = hmac_sha256 parent ''acs-transfer-url-v1''"

definition token_message :: "string \<Rightarrow> string \<Rightarrow> int \<Rightarrow> string" where
  "token_message purpose rid expUnix = purpose @ [CHR 0x00] @ rid @ [CHR 0x00] @ Itoa expUnix"

definition token_digest :: "string \<Rightarrow> string \<Rightarrow> string \<Rightarrow> int \<Rightarrow> string" where
  "token_digest key purpose rid expUnix = hmac_sha256 key (token_message purpose rid expUnix)"

definition Sign :: "string \<Rightarrow> string \<Rightarrow> string \<Rightarrow> time \<Rightarrow> string" where
  "Sign key purpose rid expires =
     (let ex = unix expires in FormatInt 10 ex @ ''.'' @ hex_encode (token_digest key purpose rid ex))"

text \<open>\<open>None\<close> is Go's \<^verbatim>\<open>nil\<close> error.\<close>

definition Verify_token :: "string \<Rightarrow> string \<Rightarrow> string \<Rightarrow> string \<Rightarrow> time \<Rightarrow> token_error option" where
  "Verify_token key purpose rid token now =
     (case Cut (CHR ''.'') token of
        (_, None) \<Rightarrow> Some ErrInvalidTransfer
      | (expStr, Some macHex) \<Rightarrow>
          (case ParseInt 10 expStr of
             None \<Rightarrow> Some ErrInvalidTransfer
           | Some ex \<Rightarrow>
               (case hex_decode macHex of
                  None \<Rightarrow> Some ErrInvalidTransfer
                | Some got \<Rightarrow>
                    if got \<noteq> token_digest key purpose rid ex then Some ErrInvalidTransfer
                    else if unix now > ex then Some ErrExpiredTransfer
                    else None)))"

section \<open>What a token is good for\<close>

lemma Sign_cut:
  "Cut (CHR ''.'') (Sign key p i e) = (FormatInt 10 (unix e), Some (hex_encode (token_digest key p i (unix e))))"
proof -
  have "CHR ''.'' \<notin> hex_digits" by (simp add: hex_digits_def)
  then have "CHR ''.'' \<notin> set (FormatInt 10 (unix e))"
    using set_FormatUint [of 10 "nat (unix e)"] set_FormatUint [of 10 "nat (- unix e)"] by (auto simp: FormatInt_def)
  then show ?thesis by (simp add: Sign_def Let_def)
qed

lemma Verify_Sign:
  assumes "- (2 ^ 63) \<le> unix e" "unix e < 2 ^ 63"
  shows "Verify_token key p' i' (Sign key p i e) now =
    (if token_digest key p i (unix e) \<noteq> token_digest key p' i' (unix e) then Some ErrInvalidTransfer
     else if unix now > unix e then Some ErrExpiredTransfer else None)"
  using ParseInt_FormatInt [of 10 "unix e"] assms by (simp add: Verify_token_def Sign_cut)

text \<open>The fields are separated by a byte they do not contain.\<close>

lemma token_message_inj:
  assumes "token_message p i e = token_message p' i' e'"
    and "CHR 0x00 \<notin> set p" "CHR 0x00 \<notin> set p'" "CHR 0x00 \<notin> set i" "CHR 0x00 \<notin> set i'"
  shows "p = p' \<and> i = i'"
proof -
  have cut: "Cut (CHR 0x00) (x @ CHR 0x00 # r) = (x, Some r)" if "CHR 0x00 \<notin> set x" for x r
    using that by (rule Cut_append)
  have "Cut (CHR 0x00) (p @ CHR 0x00 # i @ CHR 0x00 # Itoa e) = Cut (CHR 0x00) (p' @ CHR 0x00 # i' @ CHR 0x00 # Itoa e')"
    using assms(1) unfolding token_message_def append.simps by (rule arg_cong)
  then have p: "p = p'" and r: "i @ CHR 0x00 # Itoa e = i' @ CHR 0x00 # Itoa e'"
    unfolding cut [OF assms(2)] cut [OF assms(3)] by blast+
  from r have "Cut (CHR 0x00) (i @ CHR 0x00 # Itoa e) = Cut (CHR 0x00) (i' @ CHR 0x00 # Itoa e')" by (rule arg_cong)
  then have "i = i'" unfolding cut [OF assms(4)] cut [OF assms(5)] by blast
  with p show ?thesis ..
qed

text \<open>
  A token of the documented format, \<^verbatim>\<open><unix expiry, decimal>.<hex hmac-sha256>\<close>, that carries the
  signature over the purpose, the resource and the expiry it states.
\<close>

definition well_signed :: "string \<Rightarrow> string \<Rightarrow> string \<Rightarrow> string \<Rightarrow> int \<Rightarrow> bool" where
  "well_signed key p i token ex \<longleftrightarrow>
     (\<exists>es mh. token = es @ CHR ''.'' # mh \<and> CHR ''.'' \<notin> set es \<and> ParseInt 10 es = Some ex \<and>
        hex_decode mh = Some (hmac_sha256 key (token_message p i ex)))"

lemma well_signed_cut:
  "well_signed key p i token ex \<longleftrightarrow>
     (\<exists>es mh. Cut (CHR ''.'') token = (es, Some mh) \<and> ParseInt 10 es = Some ex \<and>
        hex_decode mh = Some (token_digest key p i ex))"
  unfolding well_signed_def token_digest_def using Cut_Some by (metis Cut_append)

lemma Verify_token_cases:
  "(Verify_token key p i token now = None \<and> (\<exists>ex. well_signed key p i token ex \<and> unix now \<le> ex)) \<or>
   (Verify_token key p i token now = Some ErrExpiredTransfer \<and> (\<exists>ex. well_signed key p i token ex \<and> ex < unix now)) \<or>
   (Verify_token key p i token now = Some ErrInvalidTransfer \<and> (\<forall>ex. \<not> well_signed key p i token ex))"
  by (auto simp: Verify_token_def well_signed_cut split: prod.splits option.splits)

lemma well_signed_unique: "well_signed key p i token ex \<Longrightarrow> well_signed key p i token ex' \<Longrightarrow> ex = ex'"
  by (auto simp: well_signed_cut)

text \<open>
  C25. Verification is exact for every byte string presented as a token. It succeeds when the token
  is of the signed format for this purpose and resource and has not expired; expiry is reported
  exactly for a correctly signed token whose stated second has passed; every other input, a tampered
  expiry included, gets the one invalid-token error.
\<close>

theorem transfer_token_errors:
  "(Verify_token key p i token now = None \<longleftrightarrow> (\<exists>ex. well_signed key p i token ex \<and> unix now \<le> ex)) \<and>
   (Verify_token key p i token now = Some ErrExpiredTransfer \<longleftrightarrow> (\<exists>ex. well_signed key p i token ex \<and> ex < unix now)) \<and>
   (Verify_token key p i token now = Some ErrInvalidTransfer \<longleftrightarrow> (\<nexists>ex. well_signed key p i token ex))"
  using Verify_token_cases [of key p i token now]
proof (elim disjE conjE exE)
  fix ex
  assume v: "Verify_token key p i token now = None" and w: "well_signed key p i token ex" "unix now \<le> ex"
  then have "\<not> (\<exists>ex. well_signed key p i token ex \<and> ex < unix now)"
    using well_signed_unique by fastforce
  then show ?thesis unfolding v using w by blast
next
  fix ex
  assume v: "Verify_token key p i token now = Some ErrExpiredTransfer" and w: "well_signed key p i token ex" "ex < unix now"
  then have "\<not> (\<exists>ex. well_signed key p i token ex \<and> unix now \<le> ex)"
    using well_signed_unique by fastforce
  then show ?thesis unfolding v using w by blast
next
  assume v: "Verify_token key p i token now = Some ErrInvalidTransfer" and "\<forall>ex. \<not> well_signed key p i token ex"
  then show ?thesis unfolding v by blast
qed

text \<open>
  C40. A signed token verifies for its purpose and resource up to and including the second of its
  expiry and is reported as expired from then on. Presented for any other purpose or resource it is
  rejected as invalid at every time, the only exception being an HMAC collision between the two
  distinct messages that were signed.
\<close>

theorem transfer_token_bound:
  assumes "- (2 ^ 63) \<le> unix e" "unix e < 2 ^ 63"
    and "CHR 0x00 \<notin> set p" "CHR 0x00 \<notin> set p'" "CHR 0x00 \<notin> set i" "CHR 0x00 \<notin> set i'" "(p', i') \<noteq> (p, i)"
  shows "Verify_token key p i (Sign key p i e) now = (if unix now \<le> unix e then None else Some ErrExpiredTransfer) \<and>
    (Verify_token key p' i' (Sign key p i e) now = Some ErrInvalidTransfer \<or>
     token_message p' i' (unix e) \<noteq> token_message p i (unix e) \<and>
     hmac_sha256 key (token_message p' i' (unix e)) = hmac_sha256 key (token_message p i (unix e)))"
proof -
  have "token_message p' i' (unix e) \<noteq> token_message p i (unix e)"
    using token_message_inj [of p i "unix e" p' i' "unix e"] assms(3-7) by auto
  then show ?thesis
    using Verify_Sign [OF assms(1,2)] by (auto simp: token_digest_def)
qed

theorem transfer_token_bound_witness:
  "Verify_token ''k'' ''firmware'' ''f1'' (Sign ''k'' ''firmware'' ''f1'' (100 * second)) (100 * second) = None"
proof -
  have "unix (100 * second) = 100" by (simp add: unix_def second_def)
  then show ?thesis
    using transfer_token_bound [of "100 * second" "''firmware''" "''upload''" "''f1''" "''f1''" "''k''" "100 * second"] by simp
qed

end
