(* ===== verification/Parameter_Cache.thy ===== *)
theory Parameter_Cache
  imports Discovery
begin

text \<open>
  Package \<^verbatim>\<open>internal/parameters\<close>, the stored knowledge about a device: the cache of its last reported
  values with their history (\<^verbatim>\<open>cache.go\<close>), the discovered tree and its snapshots (\<^verbatim>\<open>discovery.go\<close>),
  instance and operation evidence (\<^verbatim>\<open>compatibility.go\<close>, \<^verbatim>\<open>instances.go\<close>) and the inventory facts
  (\<^verbatim>\<open>inventory_facts.go\<close>). A jsonb column holds the Go value it was marshalled from, a jsonb object
  its members with distinct keys. A transaction that fails anywhere leaves the tables as they were.
\<close>

section \<open>The tables\<close>

record history_row =
  h_device :: string
  h_name :: string
  h_value :: string
  h_type :: "string option"
  h_source :: string
  h_recorded_at :: time

record SupportedCapability =
  sc_Path :: string
  sc_Writable :: bool
  sc_ValueType :: string
  sc_Access :: string
  sc_ValueChange :: string
  sc_Commands :: "string list"
  sc_Events :: "string list"

record names_row =
  pn_device :: string
  pn_names :: "(string \<times> bool) list"
  pn_capabilities :: "SupportedCapability list"
  pn_evidence :: "(string \<times> json) list"
  pn_discovered_at :: time

record snapshot_row =
  sn_id :: nat
  sn_device :: string
  sn_command_key :: string
  sn_protocol :: string
  sn_root :: string
  sn_names :: "(string \<times> bool) list"
  sn_capabilities :: "SupportedCapability list"
  sn_evidence :: "(string \<times> json) list"
  sn_discovered_at :: time

record instance_row =
  ie_device :: string
  ie_path :: string
  ie_firmware :: string
  ie_instances :: "string list"
  ie_discovered_at :: time

record operation_row =
  oe_device :: string
  oe_command_key :: string
  oe_firmware :: string
  oe_operation :: string
  oe_success :: bool
  oe_paths :: "string list"
  oe_detail :: json
  oe_tested_at :: time

text \<open>The columns of devices that are used here.\<close>

record identity_row =
  dr_id :: string
  dr_manufacturer :: string
  dr_product_class :: string
  dr_oui :: string
  dr_serial :: string
  dr_customer :: "string option"
  dr_profile_qualified :: bool

record param_db =
  p_cache :: "(string \<times> (string \<times> CachedValue) list) list"
  p_history :: "history_row list"
  p_names :: "names_row list"
  p_snapshots :: "snapshot_row list"
  p_instances :: "instance_row list"
  p_operations :: "operation_row list"
  p_devices :: "identity_row list"

datatype param_error = PErrDB | PErrNoRows | PErrArgument string | ErrFirmwareChanged | ErrNoDiscovery

type_synonym 'a param_result = "param_error + 'a"

definition known_device :: "string \<Rightarrow> param_db \<Rightarrow> bool" where
  "known_device dev db \<longleftrightarrow> dev \<in> dr_id ` set (p_devices db)"

definition cache_of :: "string \<Rightarrow> param_db \<Rightarrow> (string \<times> CachedValue) list" where
  "cache_of dev db = (case map_of (p_cache db) dev of None \<Rightarrow> [] | Some c \<Rightarrow> c)"

text \<open>The operator \<^verbatim>\<open>||\<close> on jsonb objects: members of the second replace those of the first.\<close>

definition jsonb_concat :: "('k \<times> 'v) list \<Rightarrow> ('k \<times> 'v) list \<Rightarrow> ('k \<times> 'v) list" where
  "jsonb_concat a b = filter (\<lambda>(k, _). k \<notin> fst ` set b) a @ b"

section \<open>Writing the cache\<close>

definition SourceInform :: string where "SourceInform = ''INFORM''"
definition SourceGetValues :: string where "SourceGetValues = ''GET_PARAMETER_VALUES''"
definition SourceSetValues :: string where "SourceSetValues = ''SET_PARAMETER_VALUES''"
definition SourceUSPNotify :: string where "SourceUSPNotify = ''USP_NOTIFY_VALUE_CHANGE''"

definition firmware_paths :: "string list" where
  "firmware_paths = [''Device.DeviceInfo.SoftwareVersion'', ''InternetGatewayDevice.DeviceInfo.SoftwareVersion'']"

definition firmware_changed :: "(string \<times> CachedValue) list \<Rightarrow> (string \<times> CachedValue) list \<Rightarrow> string \<Rightarrow> bool" where
  "firmware_changed current values path =
     (case (map_of current path, map_of values path) of
        (Some old, Some updated) \<Rightarrow> cv_Value old \<noteq> [] \<and> cv_Value old \<noteq> cv_Value updated
      | _ \<Rightarrow> False)"

definition mark_stale :: "string \<Rightarrow> param_db \<Rightarrow> param_db" where
  "mark_stale dev db = db\<lparr>
     p_names := update_where (\<lambda>r. pn_device r = dev)
       (\<lambda>r. r\<lparr> pn_evidence := jsonb_concat (pn_evidence r) [(''stale'', JBool True)] \<rparr>) (p_names db),
     p_devices := update_where (\<lambda>r. dr_id r = dev) (\<lambda>r. r\<lparr> dr_profile_qualified := False \<rparr>) (p_devices db) \<rparr>"

definition firmware_discovery_row :: "env \<Rightarrow> string \<Rightarrow> string \<Rightarrow> string \<Rightarrow> string \<Rightarrow> job_row" where
  "firmware_discovery_row e ckid dev path firmware =
     (let igd = HasPrefix path ''InternetGatewayDevice.'';
          root = (if igd then ''InternetGatewayDevice.'' else ''Device.'');
          fallback = (if igd then ''Device.'' else ''InternetGatewayDevice.'')
      in (new_row e dev TypeParameterDiscovery
            (JObj [(''fallback_root'', JStr fallback), (''firmware'', JStr firmware), (''incremental'', JBool True), (''root'', JStr root)])
            ''system:firmware-discovery'' 512 None None)\<lparr> j_command_key := ''discover-'' @ ckid \<rparr>)"

text \<open>\<^verbatim>\<open>INSERT ... SELECT ... WHERE NOT EXISTS\<close>: \<open>None\<close> is a violated constraint.\<close>

definition queue_firmware_discovery :: "env \<Rightarrow> string \<Rightarrow> string \<Rightarrow> string \<Rightarrow> string \<Rightarrow> jobs_db \<Rightarrow> jobs_db option" where
  "queue_firmware_discovery e ckid dev path firmware jdb =
     (let row = firmware_discovery_row e ckid dev path firmware in
      if list_ex (active_discovery dev) (jobs jdb) then Some jdb
      else if insert_ok row jdb then Some (insert_job row jdb) else None)"

definition value_changed :: "(string \<times> CachedValue) list \<Rightarrow> string \<times> CachedValue \<Rightarrow> bool" where
  "value_changed current nv =
     (case map_of current (fst nv) of None \<Rightarrow> True | Some prev \<Rightarrow> cv_Value prev \<noteq> cv_Value (snd nv))"

definition history_of :: "string \<Rightarrow> string \<times> CachedValue \<Rightarrow> history_row" where
  "history_of dev nv = \<lparr> h_device = dev, h_name = fst nv, h_value = cv_Value (snd nv), h_type = nullIfEmpty (cv_Type (snd nv)),
     h_source = cv_Source (snd nv), h_recorded_at = cv_UpdatedAt (snd nv) \<rparr>"

text \<open>
  The statements after the firmware check: the history rows (statements from 10), the cache row, the
  commit. \<open>values\<close> is already redacted.
\<close>

definition write_values :: "faults \<Rightarrow> string \<Rightarrow> (string \<times> CachedValue) list \<Rightarrow> param_db \<Rightarrow> param_db option" where
  "write_values flt dev values db =
     (let current = cache_of dev db;
          changed = filter (value_changed current) values
      in if list_ex (\<lambda>i. flt (10 + i)) [0..<length changed] \<or> flt 6 \<or> flt 7 \<or> \<not> known_device dev db then None
         else Some (db\<lparr> p_history := p_history db @ map (history_of dev) changed,
                        p_cache := map_put dev (jsonb_concat current values) (p_cache db) \<rparr>))"

definition Upsert ::
  "faults \<Rightarrow> env \<Rightarrow> string \<Rightarrow> string \<Rightarrow> (string \<times> CachedValue) list \<Rightarrow> param_db \<times> jobs_db \<Rightarrow>
   unit param_result \<times> (param_db \<times> jobs_db)" where
  "Upsert flt e ckid dev values0 s =
     (let values = redactSecrets values0; (db, jdb) = s in
      if values0 = [] then (Inr (), s)
      else if flt 0 \<or> flt 1 \<or> flt 2 then (Inl PErrDB, s)
      else case find (firmware_changed (cache_of dev db) values) firmware_paths of
        None \<Rightarrow>
          (case write_values flt dev values db of None \<Rightarrow> (Inl PErrDB, s) | Some db' \<Rightarrow> (Inr (), (db', jdb)))
      | Some path \<Rightarrow>
          (if flt 3 \<or> flt 4 \<or> flt 5 then (Inl PErrDB, s)
           else case queue_firmware_discovery e ckid dev path
                  (case map_of values path of None \<Rightarrow> [] | Some v \<Rightarrow> cv_Value v) jdb of
             None \<Rightarrow> (Inl PErrDB, s)
           | Some jdb' \<Rightarrow>
               (case write_values flt dev values (mark_stale dev db) of
                  None \<Rightarrow> (Inl PErrDB, s)
                | Some db' \<Rightarrow> (Inr (), (db', jdb')))))"

definition InvalidateSubtree :: "faults \<Rightarrow> string \<Rightarrow> string \<Rightarrow> param_db \<Rightarrow> unit param_result \<times> param_db" where
  "InvalidateSubtree flt dev objPath0 db =
     (if objPath0 = [] then (Inl (PErrArgument ''empty objPath would invalidate the whole cache''), db)
      else
        let objPath = (if HasSuffix objPath0 ''.'' then objPath0 else objPath0 @ ''.'') in
        if flt 0 \<or> flt 1 then (Inl PErrDB, db)
        else case map_of (p_cache db) dev of
          None \<Rightarrow> (Inr (), db)
        | Some current \<Rightarrow>
            (let kept = filter (\<lambda>(n, _). \<not> HasPrefix n objPath) current in
             if kept = current then (Inr (), db)
             else if flt 2 \<or> flt 3 then (Inl PErrDB, db)
             else (Inr (), db\<lparr> p_cache := map_put dev kept (p_cache db) \<rparr>)))"

section \<open>Reading the cache\<close>

definition Get_cache :: "faults \<Rightarrow> string \<Rightarrow> param_db \<Rightarrow> (string \<times> CachedValue) list param_result" where
  "Get_cache flt dev db = (if flt 0 then Inl PErrDB else Inr (cache_of dev db))"

definition historyLimit :: nat where "historyLimit = 200"

record HistoryEntry =
  he_Value :: string
  he_Type :: string
  he_Source :: string
  he_RecordedAt :: time

definition History :: "faults \<Rightarrow> string \<Rightarrow> string \<Rightarrow> param_db \<Rightarrow> HistoryEntry list param_result" where
  "History flt dev name db =
     (if flt 0 then Inl PErrDB
      else Inr (map (\<lambda>r. \<lparr> he_Value = h_value r, he_Type = coalesce (h_type r) [], he_Source = h_source r, he_RecordedAt = h_recorded_at r \<rparr>)
        (take historyLimit (sort_key (\<lambda>r. - h_recorded_at r)
           (filter (\<lambda>r. h_device r = dev \<and> h_name r = name) (p_history db))))))"

record TemperatureReading =
  tr_DeviceID :: string
  tr_ParameterName :: string
  tr_Value :: string

definition TemperatureReadings :: "faults \<Rightarrow> string list \<Rightarrow> bool \<Rightarrow> param_db \<Rightarrow> TemperatureReading list param_result" where
  "TemperatureReadings flt customerIDs scoped db =
     (if flt 0 then Inl PErrDB
      else Inr (concat (map (\<lambda>(dev, c).
        (case find (\<lambda>r. dr_id r = dev) (p_devices db) of
           None \<Rightarrow> []
         | Some d \<Rightarrow>
             if scoped \<and> (case dr_customer d of None \<Rightarrow> True | Some cu \<Rightarrow> cu \<notin> set customerIDs) then []
             else map (\<lambda>(n, v). \<lparr> tr_DeviceID = dev, tr_ParameterName = n, tr_Value = cv_Value v \<rparr>)
               (filter (\<lambda>(n, _). Contains (ToLower n) ''temperature'') c))) (p_cache db))))"

definition Firmware :: "(string \<times> CachedValue) list \<Rightarrow> string" where
  "Firmware cache =
     (case find (\<lambda>p. case map_of cache p of None \<Rightarrow> False | Some v \<Rightarrow> cv_Value v \<noteq> []) firmware_paths of
        None \<Rightarrow> [] | Some p \<Rightarrow> (case map_of cache p of None \<Rightarrow> [] | Some v \<Rightarrow> cv_Value v))"

record InventoryFacts =
  inv_SoftwareVersion :: string
  inv_HardwareVersion :: string

definition softwareVersionPaths :: "string list" where
  "softwareVersionPaths = [''Device.DeviceInfo.SoftwareVersion'', ''InternetGatewayDevice.DeviceInfo.SoftwareVersion'',
     ''Device.DeviceInfo.AdditionalSoftwareVersion'', ''InternetGatewayDevice.DeviceInfo.AdditionalSoftwareVersion'']"

definition hardwareVersionPaths :: "string list" where
  "hardwareVersionPaths = [''Device.DeviceInfo.HardwareVersion'', ''InternetGatewayDevice.DeviceInfo.HardwareVersion'']"

fun firstNonEmptyCached :: "(string \<times> CachedValue) list \<Rightarrow> string list \<Rightarrow> string" where
  "firstNonEmptyCached cached [] = []"
| "firstNonEmptyCached cached (p # ps) =
     (case map_of cached p of
        None \<Rightarrow> firstNonEmptyCached cached ps
      | Some v \<Rightarrow> if TrimSpace (cv_Value v) \<noteq> [] then TrimSpace (cv_Value v) else firstNonEmptyCached cached ps)"

definition InventoryFactsForDevices :: "faults \<Rightarrow> string list \<Rightarrow> param_db \<Rightarrow> (string \<times> InventoryFacts) list param_result" where
  "InventoryFactsForDevices flt deviceIDs db =
     (if deviceIDs = [] then Inr []
      else if flt 0 then Inl PErrDB
      else Inr (map (\<lambda>(dev, c). (dev, \<lparr> inv_SoftwareVersion = firstNonEmptyCached c softwareVersionPaths,
                                          inv_HardwareVersion = firstNonEmptyCached c hardwareVersionPaths \<rparr>))
             (filter (\<lambda>(dev, _). dev \<in> set deviceIDs) (p_cache db))))"

section \<open>The discovered tree\<close>

definition put_names :: "names_row \<Rightarrow> names_row list \<Rightarrow> names_row list" where
  "put_names row rows =
     (if pn_device row \<in> pn_device ` set rows then map (\<lambda>r. if pn_device r = pn_device row then row else r) rows
      else rows @ [row])"

definition SaveNames :: "faults \<Rightarrow> time \<Rightarrow> string \<Rightarrow> (string \<times> bool) list \<Rightarrow> param_db \<Rightarrow> unit param_result \<times> param_db" where
  "SaveNames flt now dev writableByName db =
     (if flt 0 \<or> \<not> known_device dev db then (Inl PErrDB, db)
      else (Inr (), db\<lparr> p_names := put_names \<lparr> pn_device = dev, pn_names = writableByName, pn_capabilities = [],
              pn_evidence = [], pn_discovered_at = now \<rparr> (p_names db) \<rparr>))"

text \<open>The evidence column keeps its value on a conflict.\<close>

definition SaveCapabilities ::
  "faults \<Rightarrow> time \<Rightarrow> string \<Rightarrow> SupportedCapability list \<Rightarrow> param_db \<Rightarrow> unit param_result \<times> param_db" where
  "SaveCapabilities flt now dev capabilities db =
     (let names = fold (\<lambda>c m. if sc_Path c \<noteq> [] then map_put (sc_Path c) (sc_Writable c) m else m) capabilities [];
          evidence = (case find (\<lambda>r. pn_device r = dev) (p_names db) of None \<Rightarrow> [] | Some r \<Rightarrow> pn_evidence r)
      in if flt 0 \<or> \<not> known_device dev db then (Inl PErrDB, db)
         else (Inr (), db\<lparr> p_names := put_names \<lparr> pn_device = dev, pn_names = names, pn_capabilities = capabilities,
                 pn_evidence = evidence, pn_discovered_at = now \<rparr> (p_names db) \<rparr>))"

definition GetCapabilities :: "faults \<Rightarrow> string \<Rightarrow> param_db \<Rightarrow> SupportedCapability list param_result" where
  "GetCapabilities flt dev db =
     (if flt 0 then Inl PErrDB
      else Inr (case find (\<lambda>r. pn_device r = dev) (p_names db) of None \<Rightarrow> [] | Some r \<Rightarrow> pn_capabilities r))"

record DiscoveredNames =
  dn_Names :: "(string \<times> bool) list"
  dn_DiscoveredAt :: time
  dn_Stale :: bool

definition stale :: "names_row \<Rightarrow> bool" where
  "stale r \<longleftrightarrow> map_of (pn_evidence r) ''stale'' = Some (JBool True)"

definition GetNames :: "faults \<Rightarrow> string \<Rightarrow> param_db \<Rightarrow> DiscoveredNames option param_result" where
  "GetNames flt dev db =
     (if flt 0 then Inl PErrDB
      else Inr (case find (\<lambda>r. pn_device r = dev) (p_names db) of
        None \<Rightarrow> None
      | Some r \<Rightarrow> Some \<lparr> dn_Names = (if stale r then [] else pn_names r), dn_DiscoveredAt = pn_discovered_at r, dn_Stale = stale r \<rparr>))"

record DiscoverySnapshot =
  ds_ExpectedFirmware :: string
  ds_CommandKey :: string
  ds_Protocol :: string
  ds_Root :: string
  ds_Names :: "(string \<times> bool) list"
  ds_Capabilities :: "SupportedCapability list"

text \<open>
  The firmware a snapshot is published under is read in SQL:
  \<^verbatim>\<open>COALESCE(parameters->'Device...'->>'value', parameters->'InternetGatewayDevice...'->>'value', '')\<close>.
\<close>

definition sql_firmware :: "(string \<times> CachedValue) list \<Rightarrow> string" where
  "sql_firmware c =
     (case map_of c ''Device.DeviceInfo.SoftwareVersion'' of
        Some v \<Rightarrow> cv_Value v
      | None \<Rightarrow> (case map_of c ''InternetGatewayDevice.DeviceInfo.SoftwareVersion'' of Some v \<Rightarrow> cv_Value v | None \<Rightarrow> []))"

definition snapshotLimit :: nat where "snapshotLimit = 20"

text \<open>The newest rows of one device: \<^verbatim>\<open>ORDER BY discovered_at DESC, id DESC LIMIT 20\<close>.\<close>

definition recent_snapshots :: "string \<Rightarrow> snapshot_row list \<Rightarrow> snapshot_row list" where
  "recent_snapshots dev rows =
     take snapshotLimit (sort_key (\<lambda>r. - sn_discovered_at r) (sort_key (\<lambda>r. - int (sn_id r)) (filter (\<lambda>r. sn_device r = dev) rows)))"

definition archive_snapshot :: "snapshot_row \<Rightarrow> snapshot_row list \<Rightarrow> snapshot_row list option" where
  "archive_snapshot row rows =
     (if list_ex (\<lambda>r. sn_device r = sn_device row \<and> sn_command_key r = sn_command_key row) rows then Some rows
      else if sn_id row \<in> sn_id ` set rows \<or> sn_protocol row \<notin> {''CWMP'', ''USP''} then None
      else Some (rows @ [row]))"

definition prune_snapshots :: "string \<Rightarrow> snapshot_row list \<Rightarrow> snapshot_row list" where
  "prune_snapshots dev rows =
     filter (\<lambda>r. sn_device r = dev \<longrightarrow> sn_id r \<in> sn_id ` set (recent_snapshots dev rows)) rows"

text \<open>\<open>sid\<close> is the next value of the table's sequence.\<close>

definition SaveDiscovery ::
  "faults \<Rightarrow> time \<Rightarrow> nat \<Rightarrow> string \<Rightarrow> DiscoverySnapshot \<Rightarrow> param_db \<Rightarrow> unit param_result \<times> param_db" where
  "SaveDiscovery flt now sid dev s db =
     (if flt 0 \<or> flt 1 then (Inl PErrDB, db)
      else case find (\<lambda>r. dr_id r = dev) (p_devices db) of
        None \<Rightarrow> (Inl PErrNoRows, db)
      | Some d \<Rightarrow>
          if flt 2 then (Inl PErrDB, db)
          else
            let firmware = sql_firmware (cache_of dev db);
                evidence = [(''firmware'', JStr firmware), (''manufacturer'', JStr (dr_manufacturer d)), (''model'', JStr (dr_product_class d)),
                  (''oui'', JStr (dr_oui d)), (''serial_number'', JStr (dr_serial d))];
                row = \<lparr> sn_id = sid, sn_device = dev, sn_command_key = ds_CommandKey s, sn_protocol = ds_Protocol s, sn_root = ds_Root s,
                  sn_names = ds_Names s, sn_capabilities = ds_Capabilities s, sn_evidence = evidence, sn_discovered_at = now \<rparr>;
                tree = \<lparr> pn_device = dev, pn_names = ds_Names s, pn_capabilities = ds_Capabilities s, pn_evidence = evidence, pn_discovered_at = now \<rparr>
            in if ds_ExpectedFirmware s \<noteq> [] \<and> ds_ExpectedFirmware s \<noteq> firmware then (Inl ErrFirmwareChanged, db)
               else if flt 3 then (Inl PErrDB, db)
               else case archive_snapshot row (p_snapshots db) of
                 None \<Rightarrow> (Inl PErrDB, db)
               | Some rows \<Rightarrow>
                   if flt 4 \<or> flt 5 \<or> flt 6 then (Inl PErrDB, db)
                   else (Inr (), db\<lparr> p_names := put_names tree (p_names db), p_snapshots := prune_snapshots dev rows \<rparr>))"

definition DiscoverySnapshots :: "faults \<Rightarrow> string \<Rightarrow> param_db \<Rightarrow> snapshot_row list param_result" where
  "DiscoverySnapshots flt dev db = (if flt 0 then Inl PErrDB else Inr (recent_snapshots dev (p_snapshots db)))"

definition MergeDiscoveredSubtree ::
  "faults \<Rightarrow> string \<Rightarrow> string \<Rightarrow> (string \<times> bool) list \<Rightarrow> param_db \<Rightarrow> unit param_result \<times> param_db" where
  "MergeDiscoveredSubtree flt dev rt names db =
     (if \<not> HasSuffix rt ''.'' then (Inl (PErrArgument (''merge root must end in a dot'')), db)
      else
        let scoped = filter (\<lambda>(n, _). HasPrefix n rt) names;
            p = (\<lambda>r. pn_device r = dev)
        in if flt 0 then (Inl PErrDB, db)
           else if rows_affected p (p_names db) = 0 then (Inl ErrNoDiscovery, db)
           else (Inr (), db\<lparr> p_names := update_where p
                   (\<lambda>r. r\<lparr> pn_names := jsonb_concat (filter (\<lambda>(k, _). take (length rt) k \<noteq> rt) (pn_names r)) scoped \<rparr>) (p_names db) \<rparr>))"

section \<open>Evidence\<close>

definition ParseUint32 :: "string \<Rightarrow> nat option" where
  "ParseUint32 s = (case ParseUint 10 s of None \<Rightarrow> None | Some n \<Rightarrow> if n < 2 ^ 32 then Some n else None)"

definition TrimSuffix :: "string \<Rightarrow> string \<Rightarrow> string" where
  "TrimSuffix s suffix = (if HasSuffix s suffix then take (length s - length suffix) s else s)"

fun instance_error :: "string \<Rightarrow> string list \<Rightarrow> string option" where
  "instance_error path [] = None"
| "instance_error path (inst # insts) =
     (if \<not> HasPrefix inst path \<or> \<not> HasSuffix inst ''.'' \<or> Contains inst ''{i}'' then Some ''invalid instantiated path''
      else if (case ParseUint32 (TrimSuffix (TrimPrefix inst path) ''.'') of None \<Rightarrow> True | Some n \<Rightarrow> n = 0)
      then Some ''GetInstances returned a non-immediate or invalid row''
      else instance_error path insts)"

definition evidenceLimit :: nat where "evidenceLimit = 100"

definition recent_instances :: "string \<Rightarrow> instance_row list \<Rightarrow> instance_row list" where
  "recent_instances dev rows = take evidenceLimit (sort_key (\<lambda>r. - ie_discovered_at r) (filter (\<lambda>r. ie_device r = dev) rows))"

definition put_instance :: "instance_row \<Rightarrow> instance_row list \<Rightarrow> instance_row list" where
  "put_instance row rows =
     (let same = (\<lambda>r. ie_device r = ie_device row \<and> ie_path r = ie_path row) in
      if list_ex same rows then map (\<lambda>r. if same r then row else r) rows else rows @ [row])"

definition prune_instances :: "string \<Rightarrow> instance_row list \<Rightarrow> instance_row list" where
  "prune_instances dev rows = filter (\<lambda>r. ie_device r = dev \<longrightarrow> ie_path r \<in> ie_path ` set (recent_instances dev rows)) rows"

definition SaveInstances ::
  "faults \<Rightarrow> time \<Rightarrow> string \<Rightarrow> string \<Rightarrow> string \<Rightarrow> string list \<Rightarrow> param_db \<Rightarrow> unit param_result \<times> param_db" where
  "SaveInstances flt now dev path firmware instances db =
     (if length instances > 2048 then (Inl (PErrArgument ''instance discovery exceeds 2048 rows per table''), db)
      else if instance_error path instances \<noteq> None then (Inl (PErrArgument (the (instance_error path instances))), db)
      else if flt 0 \<or> flt 1 \<or> flt 2 then (Inl PErrDB, db)
      else if Firmware (cache_of dev db) \<noteq> firmware then (Inl ErrFirmwareChanged, db)
      else if flt 3 \<or> flt 4 \<or> flt 5 \<or> \<not> known_device dev db then (Inl PErrDB, db)
      else
        let rows = put_instance \<lparr> ie_device = dev, ie_path = path, ie_firmware = firmware, ie_instances = instances, ie_discovered_at = now \<rparr> (p_instances db)
        in (Inr (), db\<lparr> p_instances := prune_instances dev rows \<rparr>))"

text \<open>\<^verbatim>\<open>ORDER BY requested_path\<close> is left to the database's collation and not modelled here.\<close>

definition Instances_of :: "faults \<Rightarrow> string \<Rightarrow> param_db \<Rightarrow> instance_row list param_result" where
  "Instances_of flt dev db = (if flt 0 then Inl PErrDB else Inr (filter (\<lambda>r. ie_device r = dev) (p_instances db)))"

definition recent_operations :: "string \<Rightarrow> operation_row list \<Rightarrow> operation_row list" where
  "recent_operations dev rows = take evidenceLimit (sort_key (\<lambda>r. - oe_tested_at r) (filter (\<lambda>r. oe_device r = dev) rows))"

definition put_operation :: "operation_row \<Rightarrow> operation_row list \<Rightarrow> operation_row list" where
  "put_operation row rows =
     (if list_ex (\<lambda>r. oe_device r = oe_device row \<and> oe_command_key r = oe_command_key row) rows then rows else rows @ [row])"

definition prune_operations :: "string \<Rightarrow> operation_row list \<Rightarrow> operation_row list" where
  "prune_operations dev rows =
     filter (\<lambda>r. oe_device r = dev \<longrightarrow> oe_command_key r \<in> oe_command_key ` set (recent_operations dev rows)) rows"

definition RecordOperation ::
  "faults \<Rightarrow> time \<Rightarrow> string \<Rightarrow> string \<Rightarrow> string \<Rightarrow> bool \<Rightarrow> string list \<Rightarrow> json \<Rightarrow> string option \<Rightarrow> param_db \<Rightarrow>
   unit param_result \<times> param_db" where
  "RecordOperation flt now dev key operation success paths detail expectedFirmware db =
     (let firmware = Firmware (cache_of dev db) in
      if flt 0 \<or> flt 1 \<or> flt 2 then (Inl PErrDB, db)
      else if expectedFirmware \<noteq> None \<and> expectedFirmware \<noteq> Some firmware then (Inl ErrFirmwareChanged, db)
      else if flt 3 \<or> flt 4 \<or> flt 5 \<or> \<not> known_device dev db \<or> operation \<notin> {''READ'', ''WRITE''} then (Inl PErrDB, db)
      else
        let rows = put_operation \<lparr> oe_device = dev, oe_command_key = key, oe_firmware = firmware, oe_operation = operation,
              oe_success = success, oe_paths = paths, oe_detail = detail, oe_tested_at = now \<rparr> (p_operations db)
        in (Inr (), db\<lparr> p_operations := prune_operations dev rows \<rparr>))"

record operation_summary =
  read_tested :: bool
  write_tested :: bool

definition OperationSummary :: "faults \<Rightarrow> string \<Rightarrow> string \<Rightarrow> param_db \<Rightarrow> operation_summary param_result" where
  "OperationSummary flt dev firmware db =
     (let tested = (\<lambda>op. list_ex (\<lambda>r. oe_device r = dev \<and> oe_firmware r = firmware \<and> oe_operation r = op \<and> oe_success r) (p_operations db))
      in if flt 0 then Inl PErrDB else Inr \<lparr> read_tested = tested ''READ'', write_tested = tested ''WRITE'' \<rparr>)"

text \<open>The first numeric segment of a path without current evidence, if there is one.\<close>

definition current_evidence :: "string \<Rightarrow> time \<Rightarrow> string \<Rightarrow> instance_row \<Rightarrow> bool" where
  "current_evidence firmware now inst r \<longleftrightarrow> ie_firmware r = firmware \<and> now - ie_discovered_at r \<le> 24 * hour \<and>
     ie_discovered_at r \<le> now + minute \<and> inst \<in> set (ie_instances r)"

definition RequireInstances :: "string \<Rightarrow> string \<Rightarrow> instance_row list \<Rightarrow> time \<Rightarrow> string option" where
  "RequireInstances path firmware evidence now =
     (let parts = Split (CHR ''.'') path in
      map_option (\<lambda>i. Join (take (Suc i) parts) ''.'' @ ''.'')
        (find (\<lambda>i. ParseUint32 (parts ! i) \<noteq> None \<and>
           \<not> list_ex (current_evidence firmware now (Join (take (Suc i) parts) ''.'' @ ''.'')) evidence) [0..<length parts]))"

section \<open>Tables that keep the newest rows of a device\<close>

definition rows_of :: "('r \<Rightarrow> string) \<Rightarrow> string \<Rightarrow> 'r list \<Rightarrow> 'r list" where
  "rows_of dev d rows = filter (\<lambda>r. dev r = d) rows"

definition bounded_table :: "('r \<Rightarrow> string) \<Rightarrow> ('r \<Rightarrow> 'k) \<Rightarrow> nat \<Rightarrow> 'r list \<Rightarrow> bool" where
  "bounded_table dev key n rows \<longleftrightarrow> (\<forall>d. distinct (map key (rows_of dev d rows)) \<and> length (rows_of dev d rows) \<le> n)"

text \<open>
  The contract of the three evidence tables: a query for the newest rows of a device, and a DELETE
  of the device's rows whose key the query does not return.
\<close>

locale newest_kept =
  fixes dev :: "'r \<Rightarrow> string" and key :: "'r \<Rightarrow> 'k" and recent :: "string \<Rightarrow> 'r list \<Rightarrow> 'r list"
    and prune :: "string \<Rightarrow> 'r list \<Rightarrow> 'r list" and bound :: nat
  assumes recent_bound: "length (recent d rows) \<le> bound"
    and prune_eq: "prune d rows = filter (\<lambda>r. dev r = d \<longrightarrow> key r \<in> key ` set (recent d rows)) rows"
begin

lemma rows_of_prune:
  "rows_of dev e (prune d rows) = (if e = d then filter (\<lambda>r. key r \<in> key ` set (recent d rows)) (rows_of dev d rows) else rows_of dev e rows)"
  by (auto simp: rows_of_def prune_eq filter_filter intro!: filter_cong)

lemma prune_bounded:
  assumes "\<And>e. distinct (map key (rows_of dev e rows))" and "\<And>e. e \<noteq> d \<Longrightarrow> length (rows_of dev e rows) \<le> bound"
  shows "bounded_table dev key bound (prune d rows)"
  unfolding bounded_table_def
proof (intro allI conjI)
  fix e
  show dist: "distinct (map key (rows_of dev e (prune d rows)))"
    using assms(1) by (simp add: rows_of_prune distinct_filter_keys)
  show "length (rows_of dev e (prune d rows)) \<le> bound"
  proof (cases "e = d")
    case True
    then have "set (map key (rows_of dev e (prune d rows))) \<subseteq> key ` set (recent d rows)"
      by (auto simp: rows_of_prune)
    then have "card (set (map key (rows_of dev e (prune d rows)))) \<le> card (key ` set (recent d rows))"
      by (intro card_mono) auto
    also have "\<dots> \<le> length (recent d rows)"
      by (metis card_image_le card_length finite_set le_trans)
    finally show ?thesis
      using recent_bound [of d rows] distinct_card [OF dist] by simp
  qed (simp add: rows_of_prune assms(2))
qed

end

interpretation snapshots: newest_kept sn_device sn_id recent_snapshots prune_snapshots snapshotLimit
  by unfold_locales (simp_all add: recent_snapshots_def prune_snapshots_def)

interpretation instances: newest_kept ie_device ie_path recent_instances prune_instances evidenceLimit
  by unfold_locales (simp_all add: recent_instances_def prune_instances_def)

interpretation operations: newest_kept oe_device oe_command_key recent_operations prune_operations evidenceLimit
  by unfold_locales (simp_all add: recent_operations_def prune_operations_def)

lemma rows_of_append: "rows_of dev d (rows @ [r]) = rows_of dev d rows @ (if dev r = d then [r] else [])"
  by (simp add: rows_of_def)

lemma archive_snapshot_rows:
  assumes "archive_snapshot row rows = Some rows'" and "distinct (map sn_id rows)"
  shows "distinct (map sn_id rows') \<and> (\<forall>e. e \<noteq> sn_device row \<longrightarrow> rows_of sn_device e rows' = rows_of sn_device e rows)"
  using assms by (auto simp: archive_snapshot_def rows_of_append split: if_splits)

lemma put_operation_rows:
  assumes "bounded_table oe_device oe_command_key n rows"
  shows "distinct (map oe_command_key (rows_of oe_device e (put_operation row rows))) \<and>
    (e \<noteq> oe_device row \<longrightarrow> length (rows_of oe_device e (put_operation row rows)) \<le> n)"
proof (cases "list_ex (\<lambda>r. oe_device r = oe_device row \<and> oe_command_key r = oe_command_key row) rows")
  case True
  then show ?thesis using assms by (simp add: put_operation_def bounded_table_def)
next
  case False
  then have "oe_command_key row \<notin> oe_command_key ` set (rows_of oe_device (oe_device row) rows)"
    by (auto simp: rows_of_def list_ex_iff)
  then show ?thesis using assms False by (auto simp: put_operation_def bounded_table_def rows_of_append)
qed

lemma put_instance_rows:
  assumes "bounded_table ie_device ie_path n rows"
  shows "distinct (map ie_path (rows_of ie_device e (put_instance row rows))) \<and>
    (e \<noteq> ie_device row \<longrightarrow> length (rows_of ie_device e (put_instance row rows)) \<le> n)"
proof -
  let ?same = "\<lambda>r. ie_device r = ie_device row \<and> ie_path r = ie_path row"
  have same: "map ie_path (rows_of ie_device e (map (\<lambda>r. if ?same r then row else r) xs)) = map ie_path (rows_of ie_device e xs)" for xs
    by (induction xs) (auto simp: rows_of_def)
  have len: "length (rows_of ie_device e (map (\<lambda>r. if ?same r then row else r) xs)) = length (rows_of ie_device e xs)" for xs
    using arg_cong [OF same [of xs], of length] by simp
  show ?thesis
  proof (cases "list_ex ?same rows")
    case True
    then show ?thesis using assms by (simp add: put_instance_def bounded_table_def same len)
  next
    case False
    then have "ie_path row \<notin> ie_path ` set (rows_of ie_device (ie_device row) rows)"
      by (auto simp: rows_of_def list_ex_iff)
    then show ?thesis using assms False by (auto simp: put_instance_def bounded_table_def rows_of_append)
  qed
qed

section \<open>What the stored knowledge keeps\<close>

text \<open>A value that hides its secret, and the newest recorded value of a parameter.\<close>

definition hidden :: "string \<Rightarrow> string \<Rightarrow> bool" where
  "hidden name value \<longleftrightarrow> \<not> (IsSecretParameter name \<and> plain value)"

definition last_value :: "history_row list \<Rightarrow> string \<Rightarrow> string \<Rightarrow> string option" where
  "last_value hs dev name = map_option h_value (find (\<lambda>h. h_device h = dev \<and> h_name h = name) (rev hs))"

definition cache_ok :: "param_db \<Rightarrow> bool" where
  "cache_ok db \<longleftrightarrow>
     (\<forall>dev n v. map_of (cache_of dev db) n = Some v \<longrightarrow>
        hidden n (cv_Value v) \<and> last_value (p_history db) dev n = Some (cv_Value v)) \<and>
     (\<forall>h \<in> set (p_history db). hidden (h_name h) (h_value h))"

definition evidence_ok :: "param_db \<Rightarrow> bool" where
  "evidence_ok db \<longleftrightarrow> distinct (map pn_device (p_names db)) \<and> distinct (map sn_id (p_snapshots db)) \<and>
     bounded_table sn_device sn_id snapshotLimit (p_snapshots db) \<and>
     bounded_table ie_device ie_path evidenceLimit (p_instances db) \<and>
     bounded_table oe_device oe_command_key evidenceLimit (p_operations db)"

datatype param_op =
    OpUpsert faults env string string "(string \<times> CachedValue) list"
  | OpInvalidate faults string string
  | OpSaveNames faults time string "(string \<times> bool) list"
  | OpSaveCapabilities faults time string "SupportedCapability list"
  | OpSaveDiscovery faults time nat string DiscoverySnapshot
  | OpMerge faults string string "(string \<times> bool) list"
  | OpSaveInstances faults time string string string "string list"
  | OpRecord faults time string string string bool "string list" json "string option"

fun param_exec :: "param_op \<Rightarrow> param_db \<times> jobs_db \<Rightarrow> param_db \<times> jobs_db" where
  "param_exec (OpUpsert flt e ck dev vs) s = snd (Upsert flt e ck dev vs s)"
| "param_exec (OpInvalidate flt dev p) (db, jdb) = (snd (InvalidateSubtree flt dev p db), jdb)"
| "param_exec (OpSaveNames flt now dev ns) (db, jdb) = (snd (SaveNames flt now dev ns db), jdb)"
| "param_exec (OpSaveCapabilities flt now dev cs) (db, jdb) = (snd (SaveCapabilities flt now dev cs db), jdb)"
| "param_exec (OpSaveDiscovery flt now sid dev sn) (db, jdb) = (snd (SaveDiscovery flt now sid dev sn db), jdb)"
| "param_exec (OpMerge flt dev rt ns) (db, jdb) = (snd (MergeDiscoveredSubtree flt dev rt ns db), jdb)"
| "param_exec (OpSaveInstances flt now dev p fw is) (db, jdb) = (snd (SaveInstances flt now dev p fw is db), jdb)"
| "param_exec (OpRecord flt now dev k op ok ps d fw) (db, jdb) = (snd (RecordOperation flt now dev k op ok ps d fw db), jdb)"

text \<open>A Go map has each key once.\<close>

fun op_map_ok :: "param_op \<Rightarrow> bool" where
  "op_map_ok (OpUpsert flt e ck dev vs) = distinct (map fst vs)"
| "op_map_ok _ = True"

lemma map_of_filter_key: "map_of (filter (\<lambda>(k, _). P k) a) k = (if P k then map_of a k else None)"
  by (induction a) auto

lemma map_of_jsonb_concat:
  "map_of (jsonb_concat a b) k = (case map_of b k of Some v \<Rightarrow> Some v | None \<Rightarrow> map_of a k)"
proof -
  have "k \<in> fst ` set b \<longleftrightarrow> map_of b k \<noteq> None" by (simp add: map_of_eq_None_iff)
  then show ?thesis
    using map_of_filter_key [of "\<lambda>k. k \<notin> fst ` set b" a k]
    by (cases "map_of b k") (simp_all add: jsonb_concat_def map_add_def split: option.split)
qed

lemma fst_redactSecrets [simp]: "map fst (redactSecrets vs) = map fst vs"
  by (induction vs) (auto simp: redactSecrets_def)

lemma redactSecrets_hidden: "(n, v) \<in> set (redactSecrets vs) \<Longrightarrow> hidden n (cv_Value v)"
  by (auto simp: redactSecrets_def hidden_def plain_def)

lemma last_value_append_other:
  "(\<And>h. h \<in> set hs' \<Longrightarrow> \<not> (h_device h = dev \<and> h_name h = n)) \<Longrightarrow> last_value (hs @ hs') dev n = last_value hs dev n"
proof -
  assume "\<And>h. h \<in> set hs' \<Longrightarrow> \<not> (h_device h = dev \<and> h_name h = n)"
  then have "find (\<lambda>h. h_device h = dev \<and> h_name h = n) (rev hs') = None" by (auto simp: find_None_iff)
  then show ?thesis by (simp add: last_value_def find_append_None)
qed

lemma find_append_Some: "find P xs = Some x \<Longrightarrow> find P (xs @ ys) = Some x"
  by (induction xs) (auto split: if_splits)

text \<open>Recording the changed values of one device keeps cache and history in step.\<close>

lemma last_value_history:
  assumes "distinct (map fst vs)" "map_of vs n = Some v" "P (n, v)"
  shows "last_value (hs @ map (history_of dev) (filter P vs)) dev n = Some (cv_Value v)"
proof -
  let ?Q = "\<lambda>h. h_device h = dev \<and> h_name h = n"
  have "(n, v) \<in> set (filter P vs)" using assms map_of_SomeD by fastforce
  then have mem: "history_of dev (n, v) \<in> set (map (history_of dev) (filter P vs))" by auto
  have only: "h = history_of dev (n, v)" if hm: "h \<in> set (map (history_of dev) (filter P vs))" "?Q h" for h
  proof -
    obtain m w where mw: "(m, w) \<in> set vs" "h = history_of dev (m, w)" using hm(1) by force
    then have "m = n" using hm(2) by (simp add: history_of_def)
    then have "w = v" using mw(1) assms(1,2) by (simp add: map_of_is_SomeI)
    then show ?thesis using mw(2) \<open>m = n\<close> by simp
  qed
  obtain h where h: "find ?Q (rev (map (history_of dev) (filter P vs))) = Some h"
    using mem by (cases "find ?Q (rev (map (history_of dev) (filter P vs)))") (auto simp: find_None_iff history_of_def)
  then have "h = history_of dev (n, v)"
    using only [of h] find_SomeD [OF h] by simp
  then have "find ?Q (rev (map (history_of dev) (filter P vs)) @ rev hs) = Some (history_of dev (n, v))"
    using h by (simp add: find_append_Some)
  then show ?thesis by (simp add: last_value_def history_of_def)
qed

lemma write_values_ok:
  assumes w: "write_values flt dev vs db = Some db'" and d: "distinct (map fst vs)"
    and h: "\<And>n v. map_of vs n = Some v \<Longrightarrow> hidden n (cv_Value v)" and ok: "cache_ok db"
  shows "cache_ok db'"
proof -
  let ?cur = "cache_of dev db"
  let ?new = "map (history_of dev) (filter (value_changed ?cur) vs)"
  have db': "p_history db' = p_history db @ ?new" "p_cache db' = map_put dev (jsonb_concat ?cur vs) (p_cache db)"
    using w by (auto simp: write_values_def Let_def split: if_splits)
  have cache: "cache_of e db' = (if e = dev then jsonb_concat ?cur vs else cache_of e db)" for e
    by (simp add: cache_of_def db')
  have hist: "hidden (h_name x) (h_value x)" if "x \<in> set ?new" for x
    using that h map_of_is_SomeI [OF d] by (fastforce simp: history_of_def)
  have entry: "hidden n (cv_Value v) \<and> last_value (p_history db') e n = Some (cv_Value v)"
    if v: "map_of (cache_of e db') n = Some v" for e n v
  proof (cases "e = dev \<and> map_of vs n \<noteq> None")
    case True
    then have vn: "map_of vs n = Some v" using v by (auto simp: cache map_of_jsonb_concat)
    show ?thesis
    proof (cases "value_changed ?cur (n, v)")
      case True
      then show ?thesis using last_value_history [OF d vn, of "value_changed ?cur"] h [OF vn] \<open>e = dev \<and> _\<close> by (simp add: db')
    next
      case False
      then obtain prev where "map_of ?cur n = Some prev" "cv_Value prev = cv_Value v"
        by (auto simp: value_changed_def split: option.splits)
      then have "last_value (p_history db) dev n = Some (cv_Value v)" using ok by (auto simp: cache_ok_def)
      moreover have "last_value (p_history db @ ?new) dev n = last_value (p_history db) dev n"
      proof (rule last_value_append_other)
        fix x assume "x \<in> set ?new"
        then obtain m w where mw: "(m, w) \<in> set vs" "value_changed ?cur (m, w)" "x = history_of dev (m, w)" by force
        have "m \<noteq> n"
        proof
          assume "m = n"
          then have "w = v" using mw(1) vn d by (simp add: map_of_is_SomeI)
          then show False using mw(2) False \<open>m = n\<close> by simp
        qed
        then show "\<not> (h_device x = dev \<and> h_name x = n)" using mw(3) by (simp add: history_of_def)
      qed
      ultimately show ?thesis using h [OF vn] \<open>e = dev \<and> _\<close> by (simp add: db')
    qed
  next
    case False
    then have old: "map_of (cache_of e db) n = Some v"
      using v by (auto simp: cache map_of_jsonb_concat split: if_splits option.splits)
    have "last_value (p_history db @ ?new) e n = last_value (p_history db) e n"
    proof (rule last_value_append_other)
      fix x assume "x \<in> set ?new"
      then obtain m w where mw: "(m, w) \<in> set vs" "x = history_of dev (m, w)" by force
      then have "map_of vs m \<noteq> None" using weak_map_of_SomeI by fastforce
      then show "\<not> (h_device x = e \<and> h_name x = n)" using False mw(2) by (auto simp: history_of_def)
    qed
    then show ?thesis using old ok by (simp add: cache_ok_def db')
  qed
  show ?thesis unfolding cache_ok_def using entry hist ok by (auto simp: db' cache_ok_def)
qed

lemma mark_stale_sel [simp]:
  "p_cache (mark_stale dev db) = p_cache db" "p_history (mark_stale dev db) = p_history db"
  "p_snapshots (mark_stale dev db) = p_snapshots db" "p_instances (mark_stale dev db) = p_instances db"
  "p_operations (mark_stale dev db) = p_operations db"
  "map pn_device (p_names (mark_stale dev db)) = map pn_device (p_names db)"
  by (simp_all add: mark_stale_def map_update_where)

lemma cache_ok_cong: "p_cache db' = p_cache db \<Longrightarrow> p_history db' = p_history db \<Longrightarrow> cache_ok db' = cache_ok db"
  by (simp add: cache_ok_def cache_of_def)

lemma evidence_ok_cong:
  "map pn_device (p_names db') = map pn_device (p_names db) \<Longrightarrow> p_snapshots db' = p_snapshots db \<Longrightarrow>
   p_instances db' = p_instances db \<Longrightarrow> p_operations db' = p_operations db \<Longrightarrow> evidence_ok db' = evidence_ok db"
  by (simp add: evidence_ok_def)

lemma cache_of_write_values:
  "write_values flt dev vs db = Some db' \<Longrightarrow> cache_of dev db' = jsonb_concat (cache_of dev db) vs"
  by (auto simp: write_values_def Let_def cache_of_def split: if_splits)

lemma write_values_evidence:
  "write_values flt dev vs db = Some db' \<Longrightarrow> p_names db' = p_names db \<and> p_snapshots db' = p_snapshots db \<and>
     p_instances db' = p_instances db \<and> p_operations db' = p_operations db"
  by (auto simp: write_values_def Let_def split: if_splits)

text \<open>A run of \<open>Upsert\<close> changes nothing, or writes the redacted values, after marking the tree stale when the firmware changed.\<close>

lemma Upsert_cases:
  obtains "vs = []" "Upsert flt e ck dev vs (db, jdb) = (Inr (), (db, jdb))"
  | "Upsert flt e ck dev vs (db, jdb) = (Inl PErrDB, (db, jdb))"
  | db' where "find (firmware_changed (cache_of dev db) (redactSecrets vs)) firmware_paths = None"
      "write_values flt dev (redactSecrets vs) db = Some db'" "Upsert flt e ck dev vs (db, jdb) = (Inr (), (db', jdb))"
  | path fw db' jdb' where "find (firmware_changed (cache_of dev db) (redactSecrets vs)) firmware_paths = Some path"
      "queue_firmware_discovery e ck dev path fw jdb = Some jdb'"
      "write_values flt dev (redactSecrets vs) (mark_stale dev db) = Some db'"
      "Upsert flt e ck dev vs (db, jdb) = (Inr (), (db', jdb'))"
proof (cases "vs = [] \<or> flt 0 \<or> flt 1 \<or> flt 2")
  case True
  then show thesis using that(1,2) by (cases "vs = []") (auto simp: Upsert_def Let_def)
next
  case ok: False
  show thesis
  proof (cases "find (firmware_changed (cache_of dev db) (redactSecrets vs)) firmware_paths")
    case None
    then show thesis using ok that(2,3) by (cases "write_values flt dev (redactSecrets vs) db") (auto simp: Upsert_def Let_def)
  next
    case (Some path)
    let ?fw = "case map_of (redactSecrets vs) path of None \<Rightarrow> [] | Some v \<Rightarrow> cv_Value v"
    show thesis
      using ok Some that(2) that(4) [OF Some, of ?fw]
      by (cases "flt 3 \<or> flt 4 \<or> flt 5"; cases "queue_firmware_discovery e ck dev path ?fw jdb";
          cases "write_values flt dev (redactSecrets vs) (mark_stale dev db)") (auto simp: Upsert_def Let_def)
  qed
qed

lemma Upsert_keeps:
  assumes "distinct (map fst vs)" "cache_ok db" "evidence_ok db"
  shows "cache_ok (fst (snd (Upsert flt e ck dev vs (db, jdb)))) \<and> evidence_ok (fst (snd (Upsert flt e ck dev vs (db, jdb))))"
proof -
  have d: "distinct (map fst (redactSecrets vs))" using assms(1) by simp
  have h: "hidden n (cv_Value v)" if "map_of (redactSecrets vs) n = Some v" for n v
    using map_of_SomeD [OF that] by (rule redactSecrets_hidden)
  have stale: "cache_ok (mark_stale dev db)" "evidence_ok (mark_stale dev db)"
    using assms(2,3) cache_ok_cong [of "mark_stale dev db" db] evidence_ok_cong [of "mark_stale dev db" db] by simp_all
  show ?thesis
  proof (cases rule: Upsert_cases [where flt = flt and e = e and ck = ck and dev = dev and vs = vs and db = db and jdb = jdb])
    case (3 db')
    then show ?thesis
      using write_values_ok [OF 3(2) d h assms(2)] write_values_evidence [OF 3(2)] assms(3) evidence_ok_cong [of db' db] by simp
  next
    case (4 path fw db' jdb')
    then show ?thesis
      using write_values_ok [OF 4(3) d h stale(1)] write_values_evidence [OF 4(3)] stale(2) evidence_ok_cong [of db' "mark_stale dev db"] by simp
  qed (simp_all add: assms)
qed

lemma distinct_put_names: "distinct (map pn_device rows) \<Longrightarrow> distinct (map pn_device (put_names row rows))"
proof -
  assume d: "distinct (map pn_device rows)"
  have "map pn_device (map (\<lambda>r. if pn_device r = pn_device row then row else r) rows) = map pn_device rows" by simp
  then show ?thesis using d unfolding put_names_def by (auto simp del: map_map)
qed

lemma cache_ok_shrink:
  assumes "cache_ok db" "p_history db' = p_history db"
    and "\<And>dev n v. map_of (cache_of dev db') n = Some v \<Longrightarrow> map_of (cache_of dev db) n = Some v"
  shows "cache_ok db'"
  using assms unfolding cache_ok_def by metis

lemma InvalidateSubtree_keeps:
  assumes "cache_ok db" "evidence_ok db"
  shows "cache_ok (snd (InvalidateSubtree flt dev p db)) \<and> evidence_ok (snd (InvalidateSubtree flt dev p db))"
proof -
  have "cache_ok (db\<lparr> p_cache := map_put dev (filter (\<lambda>(n, _). \<not> HasPrefix n q) cur) (p_cache db) \<rparr>)"
    if "map_of (p_cache db) dev = Some cur" for q cur
    using that map_of_filter_key [of "\<lambda>n. \<not> HasPrefix n q" cur]
    by (intro cache_ok_shrink [OF assms(1)]) (auto simp: cache_of_def split: if_splits)
  moreover have "evidence_ok (db\<lparr> p_cache := c \<rparr>)" for c using assms(2) evidence_ok_cong [of "db\<lparr> p_cache := c \<rparr>" db] by simp
  ultimately show ?thesis using assms by (auto simp: InvalidateSubtree_def Let_def split: option.splits)
qed

lemma names_update_keeps:
  assumes "cache_ok db" "evidence_ok db" "distinct (map pn_device rows)"
  shows "cache_ok (db\<lparr> p_names := rows \<rparr>) \<and> evidence_ok (db\<lparr> p_names := rows \<rparr>)"
  using assms cache_ok_cong [of "db\<lparr> p_names := rows \<rparr>" db] by (simp add: evidence_ok_def)

lemma SaveDiscovery_keeps:
  assumes "cache_ok db" "evidence_ok db"
  shows "cache_ok (snd (SaveDiscovery flt now sid dev s db)) \<and> evidence_ok (snd (SaveDiscovery flt now sid dev s db))"
proof -
  have publish: "evidence_ok (db\<lparr> p_names := put_names tree (p_names db), p_snapshots := prune_snapshots dev rows \<rparr>)"
    if a: "archive_snapshot row (p_snapshots db) = Some rows" "sn_device row = dev" for row rows tree
  proof -
    have r: "distinct (map sn_id rows)" "\<And>e. e \<noteq> dev \<Longrightarrow> rows_of sn_device e rows = rows_of sn_device e (p_snapshots db)"
      using archive_snapshot_rows [OF a(1)] a(2) assms(2) by (auto simp: evidence_ok_def)
    have "bounded_table sn_device sn_id snapshotLimit (prune_snapshots dev rows)"
      using r assms(2) by (intro snapshots.prune_bounded) (auto simp: rows_of_def distinct_filter_keys evidence_ok_def bounded_table_def)
    moreover have "distinct (map sn_id (prune_snapshots dev rows))"
      using r(1) by (simp add: prune_snapshots_def distinct_filter_keys)
    ultimately show ?thesis using assms(2) by (simp add: evidence_ok_def distinct_put_names)
  qed
  have "cache_ok (db\<lparr> p_names := n, p_snapshots := r \<rparr>)" for n r
    using assms(1) cache_ok_cong [of "db\<lparr> p_names := n, p_snapshots := r \<rparr>" db] by simp
  then show ?thesis using assms publish by (auto simp: SaveDiscovery_def Let_def split: option.splits)
qed

lemma SaveInstances_keeps:
  assumes "cache_ok db" "evidence_ok db"
  shows "cache_ok (snd (SaveInstances flt now dev p fw is db)) \<and> evidence_ok (snd (SaveInstances flt now dev p fw is db))"
proof -
  have "bounded_table ie_device ie_path evidenceLimit (prune_instances dev (put_instance row (p_instances db)))"
    if "ie_device row = dev" for row
    using put_instance_rows [of evidenceLimit "p_instances db" _ row] assms(2) that
    by (intro instances.prune_bounded) (auto simp: evidence_ok_def)
  moreover have "cache_ok (db\<lparr> p_instances := r \<rparr>)" for r using assms(1) cache_ok_cong [of "db\<lparr> p_instances := r \<rparr>" db] by simp
  ultimately show ?thesis using assms by (simp add: SaveInstances_def Let_def evidence_ok_def)
qed

lemma RecordOperation_keeps:
  assumes "cache_ok db" "evidence_ok db"
  shows "cache_ok (snd (RecordOperation flt now dev k op ok ps d fw db)) \<and> evidence_ok (snd (RecordOperation flt now dev k op ok ps d fw db))"
proof -
  have "bounded_table oe_device oe_command_key evidenceLimit (prune_operations dev (put_operation row (p_operations db)))"
    if "oe_device row = dev" for row
    using put_operation_rows [of evidenceLimit "p_operations db" _ row] assms(2) that
    by (intro operations.prune_bounded) (auto simp: evidence_ok_def)
  moreover have "cache_ok (db\<lparr> p_operations := r \<rparr>)" for r using assms(1) cache_ok_cong [of "db\<lparr> p_operations := r \<rparr>" db] by simp
  ultimately show ?thesis using assms by (simp add: RecordOperation_def Let_def evidence_ok_def)
qed

lemma param_exec_keeps:
  assumes "cache_ok (fst s)" "evidence_ok (fst s)" "op_map_ok op"
  shows "cache_ok (fst (param_exec op s)) \<and> evidence_ok (fst (param_exec op s))"
proof -
  obtain db jdb where s: "s = (db, jdb)" by (rule prod.exhaust)
  have e: "distinct (map pn_device (p_names db))" using assms(2) by (simp add: s evidence_ok_def)
  note names = names_update_keeps [OF assms(1,2) [unfolded s fst_conv]]
  show ?thesis
  proof (cases op)
    case (OpMerge flt dev rt ns)
    have "cache_ok (snd (MergeDiscoveredSubtree flt dev rt ns db)) \<and> evidence_ok (snd (MergeDiscoveredSubtree flt dev rt ns db))"
      using assms s names [of "update_where p f (p_names db)" for p f] e
      by (auto simp: MergeDiscoveredSubtree_def Let_def map_update_where)
    then show ?thesis by (simp add: OpMerge s)
  qed (use assms s names Upsert_keeps InvalidateSubtree_keeps SaveDiscovery_keeps SaveInstances_keeps RecordOperation_keeps
        distinct_put_names [OF e] in \<open>simp_all add: SaveNames_def SaveCapabilities_def Let_def\<close>)
qed


lemma firmware_path_plain: "path \<in> set firmware_paths \<Longrightarrow> \<not> IsSecretParameter path"
proof -
  have "\<not> list_ex IsSecretParameter firmware_paths" by code_simp
  then show "path \<in> set firmware_paths \<Longrightarrow> \<not> IsSecretParameter path" by (auto simp: list_ex_iff)
qed

lemma map_of_redactSecrets:
  "\<not> IsSecretParameter n \<Longrightarrow> map_of (redactSecrets vs) n = map_of vs n"
  by (induction vs) (auto simp: redactSecrets_def)

lemma queue_firmware_discovery_active:
  "queue_firmware_discovery e ck dev path fw jdb = Some jdb' \<Longrightarrow> list_ex (active_discovery dev) (jobs jdb')"
  by (auto simp: queue_firmware_discovery_def Let_def insert_job_def firmware_discovery_row_def new_row_def active_discovery_def
      split: if_splits)

lemma GetNames_stale:
  "p_names db' = p_names (mark_stale dev db) \<Longrightarrow>
   (case GetNames no_faults dev db' of Inl _ \<Rightarrow> False | Inr None \<Rightarrow> True | Inr (Some n) \<Rightarrow> dn_Names n = [])"
  by (auto simp: GetNames_def mark_stale_def find_update_where [where k = pn_device] stale_def map_of_jsonb_concat
      dest: find_SomeD split: option.split)

text \<open>
  C23. When a device reports a firmware other than the cached one, the upsert that stores it leaves
  no write permission of the old firmware behind: from then on the discovered tree reads as empty,
  and a fresh discovery of the device is queued or in flight.
\<close>

theorem firmware_change_voids_tree:
  assumes "Upsert flt e ck dev vs (db, jdb) = (Inr (), (db', jdb'))"
    and "path \<in> set firmware_paths" "map_of (cache_of dev db) path = Some old" "cv_Value old \<noteq> []"
    and "map_of vs path = Some new" "cv_Value new \<noteq> cv_Value old"
  shows "(case GetNames no_faults dev db' of Inl _ \<Rightarrow> False | Inr None \<Rightarrow> True | Inr (Some n) \<Rightarrow> dn_Names n = []) \<and>
    list_ex (active_discovery dev) (jobs jdb') \<and> map_of (cache_of dev db') path = Some new"
proof -
  have new: "map_of (redactSecrets vs) path = Some new"
    using assms(5) map_of_redactSecrets [OF firmware_path_plain [OF assms(2)]] by simp
  have ch: "firmware_changed (cache_of dev db) (redactSecrets vs) path"
    using assms(3,4,6) new by (simp add: firmware_changed_def)
  have found: "find (firmware_changed (cache_of dev db) (redactSecrets vs)) firmware_paths \<noteq> None"
    using ch assms(2) by (auto simp: find_None_iff)
  show ?thesis
  proof (cases rule: Upsert_cases [where flt = flt and e = e and ck = ck and dev = dev and vs = vs and db = db and jdb = jdb])
    case (4 p fw w j)
    then have w: "write_values flt dev (redactSecrets vs) (mark_stale dev db) = Some db'"
      and q: "queue_firmware_discovery e ck dev p fw jdb = Some jdb'" using assms(1) by simp_all
    have "p_names db' = p_names (mark_stale dev db)" using write_values_evidence [OF w] by simp
    moreover have "map_of (cache_of dev db') path = Some new"
      using new by (simp add: cache_of_write_values [OF w] map_of_jsonb_concat)
    ultimately show ?thesis using GetNames_stale queue_firmware_discovery_active [OF q] by blast
  qed (use assms(1,5) found in simp_all)
qed

section \<open>Corners\<close>

text \<open>
  The two readings of a device's firmware differ when the TR-181 value is cached but empty: SQL's
  COALESCE takes the empty string, the Go code moves on to the TR-098 path.
\<close>

lemma firmware_readings_differ:
  assumes "map_of c ''Device.DeviceInfo.SoftwareVersion'' = Some v" "cv_Value v = []"
    and "map_of c ''InternetGatewayDevice.DeviceInfo.SoftwareVersion'' = Some w" "cv_Value w \<noteq> []"
  shows "sql_firmware c = [] \<and> Firmware c = cv_Value w"
  using assms by (simp add: sql_firmware_def Firmware_def firmware_paths_def)

text \<open>So a walk queued with the firmware the Go code reads cannot be published by a device that never changed it.\<close>

lemma unchanged_firmware_refused:
  assumes "map_of (cache_of dev db) ''Device.DeviceInfo.SoftwareVersion'' = Some v" "cv_Value v = []"
    and "map_of (cache_of dev db) ''InternetGatewayDevice.DeviceInfo.SoftwareVersion'' = Some w" "cv_Value w \<noteq> []"
    and "find (\<lambda>r. dr_id r = dev) (p_devices db) = Some d" "ds_ExpectedFirmware s = Firmware (cache_of dev db)"
  shows "SaveDiscovery no_faults now sid dev s db = (Inl ErrFirmwareChanged, db)"
  using firmware_readings_differ [OF assms(1-4)] assms(4-6) by (simp add: SaveDiscovery_def Let_def)

text \<open>A numeric segment of \<open>2 ^ 32\<close> or more is not taken for an instance number and needs no evidence.\<close>

lemma huge_instance_unchecked: "RequireInstances ''Device.X.4294967296.Y'' fw [] now = None"
  by (simp add: RequireInstances_def ParseUint32_def ParseUint_def digit_val_def)

section \<open>Examples\<close>

definition cv :: "string \<Rightarrow> CachedValue" where
  "cv x = \<lparr> cv_Value = x, cv_Type = [], cv_UpdatedAt = 0, cv_Source = SourceInform \<rparr>"

definition fw_path :: string where "fw_path = ''Device.DeviceInfo.SoftwareVersion''"

definition cpe_row :: identity_row where
  "cpe_row = \<lparr> dr_id = ''d1'', dr_manufacturer = ''ACME'', dr_product_class = ''CPE'', dr_oui = ''00AABB'', dr_serial = ''S1'',
     dr_customer = None, dr_profile_qualified = True \<rparr>"

definition fresh_params :: param_db where
  "fresh_params = \<lparr> p_cache = [], p_history = [], p_names = [], p_snapshots = [], p_instances = [], p_operations = [],
     p_devices = [cpe_row] \<rparr>"

definition known_params :: param_db where
  "known_params = fresh_params\<lparr> p_cache := [(''d1'', [(fw_path, cv ''1.0'')])],
     p_history := [history_of ''d1'' (fw_path, cv ''1.0'')],
     p_names := [\<lparr> pn_device = ''d1'', pn_names = [(''Device.X'', True)], pn_capabilities = [], pn_evidence = [], pn_discovered_at = 0 \<rparr>] \<rparr>"


theorem firmware_change_voids_tree_witness:
  "case Upsert no_faults idem_env ''u'' ''d1'' [(fw_path, cv ''2.0'')] (known_params, idem_db) of
     (r, (db', jdb')) \<Rightarrow>
       (case GetNames no_faults ''d1'' db' of Inl _ \<Rightarrow> False | Inr None \<Rightarrow> True | Inr (Some n) \<Rightarrow> dn_Names n = []) \<and>
       list_ex (active_discovery ''d1'') (jobs jdb') \<and> map_of (cache_of ''d1'' db') fw_path = Some (cv ''2.0'')"
proof -
  obtain r db' jdb' where u: "Upsert no_faults idem_env ''u'' ''d1'' [(fw_path, cv ''2.0'')] (known_params, idem_db) = (r, (db', jdb'))"
    by (metis prod.exhaust)
  have "fst (Upsert no_faults idem_env ''u'' ''d1'' [(fw_path, cv ''2.0'')] (known_params, idem_db)) = Inr ()" by code_simp
  then have "r = Inr ()" using u by simp
  then show ?thesis
    using firmware_change_voids_tree [of no_faults idem_env "''u''" "''d1''" "[(fw_path, cv ''2.0'')]" known_params idem_db db' jdb'
        fw_path "cv ''1.0''" "cv ''2.0''"] u
    by (simp add: firmware_paths_def fw_path_def known_params_def cache_of_def cv_def fresh_params_def)
qed

end
