(* ===== verification/Go_Aead.thy ===== *)
theory Go_Aead
  imports Go_Crypto
begin

text \<open>
  AES-256 (\<^verbatim>\<open>crypto/aes\<close>) and its Galois/counter mode with a 12-byte nonce and a 16-byte tag
  (\<^verbatim>\<open>cipher.NewGCM\<close>), over byte strings. Nothing is assumed of the cipher; opening a sealed value
  gives the value back because the key stream cancels out.
\<close>

unbundle bit_operations_syntax

section \<open>The block cipher\<close>

text \<open>Multiplication in the field of 256 elements modulo \<open>x^8 + x^4 + x^3 + x + 1\<close>.\<close>

definition xtime :: "8 word \<Rightarrow> 8 word" where
  "xtime a = push_bit 1 a XOR (if bit a 7 then 0x1b else 0)"

definition gmul :: "8 word \<Rightarrow> 8 word \<Rightarrow> 8 word" where
  "gmul a b = fold (\<lambda>i acc. if bit b i then acc XOR (xtime ^^ i) a else acc) [0..<8] 0"

text \<open>The inverse is the 254th power.\<close>

definition ginv :: "8 word \<Rightarrow> 8 word" where
  "ginv a = fold (\<lambda>i acc. if bit (254 :: nat) i then gmul acc (((\<lambda>x. gmul x x) ^^ i) a) else acc) [0..<8] 1"

definition aes_sbox :: "8 word \<Rightarrow> 8 word" where
  "aes_sbox a = (let b = ginv a in b XOR word_rotl 1 b XOR word_rotl 2 b XOR word_rotl 3 b XOR word_rotl 4 b XOR 0x63)"

text \<open>The key schedule for a key of eight words: the words so far, latest first.\<close>

fun expand_key :: "nat \<Rightarrow> nat \<Rightarrow> 8 word list list \<Rightarrow> 8 word list list" where
  "expand_key 0 i ws = ws"
| "expand_key (Suc n) i ws =
     (let t = hd ws;
          u = (if i mod 8 = 0 then map2 (XOR) (map aes_sbox (rotate1 t)) [(xtime ^^ (i div 8 - 1)) 1, 0, 0, 0]
               else if i mod 8 = 4 then map aes_sbox t else t)
      in expand_key n (Suc i) (map2 (XOR) (ws ! 7) u # ws))"

definition bytes_of :: "string \<Rightarrow> 8 word list" where
  "bytes_of s = map of_char s"

definition chars_of :: "8 word list \<Rightarrow> string" where
  "chars_of bs = map (\<lambda>b. char_of (unat b)) bs"

definition round_keys :: "string \<Rightarrow> 8 word list list" where
  "round_keys key = chunks 16 (concat (rev (expand_key 52 8 (rev (chunks 4 (bytes_of key))))))"

definition shift_rows :: "8 word list \<Rightarrow> 8 word list" where
  "shift_rows st = map (\<lambda>i. st ! ((i + 4 * (i mod 4)) mod 16)) [0..<16]"

definition mix_columns :: "8 word list \<Rightarrow> 8 word list" where
  "mix_columns st = map (\<lambda>i. let c = 4 * (i div 4); r = (\<lambda>k. st ! (c + (i + k) mod 4))
     in gmul 2 (r 0) XOR gmul 3 (r 1) XOR r 2 XOR r 3) [0..<16]"

definition add_round_key :: "8 word list \<Rightarrow> 8 word list \<Rightarrow> 8 word list" where
  "add_round_key rk st = map (\<lambda>i. st ! i XOR rk ! i) [0..<16]"

definition aes256 :: "string \<Rightarrow> string \<Rightarrow> string" where
  "aes256 key blk =
     (let rks = round_keys key;
          st0 = add_round_key (hd rks) (bytes_of blk);
          st = fold (\<lambda>rk s. add_round_key rk (mix_columns (shift_rows (map aes_sbox s)))) (take 13 (tl rks)) st0
      in chars_of (add_round_key (last rks) (shift_rows (map aes_sbox st))))"

section \<open>Galois/counter mode\<close>

definition ghash_step :: "128 word \<Rightarrow> nat \<Rightarrow> 128 word \<times> 128 word \<Rightarrow> 128 word \<times> 128 word" where
  "ghash_step x i zv = (case zv of (z, v) \<Rightarrow>
     (if bit x (127 - i) then z XOR v else z, if bit v 0 then drop_bit 1 v XOR push_bit 120 0xe1 else drop_bit 1 v))"

definition gf128_mul :: "128 word \<Rightarrow> 128 word \<Rightarrow> 128 word" where
  "gf128_mul x y = fst (fold (ghash_step x) [0..<128] (0, y))"

definition word128 :: "string \<Rightarrow> 128 word" where
  "word128 s = fold (\<lambda>c w. push_bit 8 w OR of_char c) s 0"

definition bytes128 :: "128 word \<Rightarrow> string" where
  "bytes128 w = map (\<lambda>i. char_of (unat (drop_bit (120 - 8 * i) w AND 0xFF))) [0..<16]"

definition zero_pad :: "string \<Rightarrow> string" where
  "zero_pad s = s @ replicate ((16 - length s mod 16) mod 16) (CHR 0x00)"

definition ghash :: "128 word \<Rightarrow> string \<Rightarrow> string \<Rightarrow> 128 word" where
  "ghash h aad ct =
     fold (\<lambda>blk y. gf128_mul (y XOR word128 blk) h)
       (chunks 16 (zero_pad aad @ zero_pad ct @ length_bytes (length aad) @ length_bytes (length ct))) 0"

definition gcm_nonce_size :: nat where "gcm_nonce_size = 12"
definition gcm_tag_size :: nat where "gcm_tag_size = 16"

text \<open>The block with counter \<open>i\<close>; counter 1 is reserved for the tag.\<close>

definition counter_block :: "string \<Rightarrow> nat \<Rightarrow> string" where
  "counter_block nonce i = nonce @ be_bytes (of_nat i)"

definition xor_char :: "char \<Rightarrow> char \<Rightarrow> char" where
  "xor_char a b = char_of ((of_char a :: nat) XOR of_char b)"

definition key_stream :: "string \<Rightarrow> string \<Rightarrow> nat \<Rightarrow> string" where
  "key_stream key nonce n = concat (map (\<lambda>i. aes256 key (counter_block nonce (i + 2))) [0..<(n + 15) div 16])"

definition gcm_crypt :: "string \<Rightarrow> string \<Rightarrow> string \<Rightarrow> string" where
  "gcm_crypt key nonce s = map2 xor_char s (key_stream key nonce (length s))"

definition gcm_tag :: "string \<Rightarrow> string \<Rightarrow> string \<Rightarrow> string \<Rightarrow> string" where
  "gcm_tag key nonce aad ct =
     map2 xor_char (aes256 key (counter_block nonce 1))
       (bytes128 (ghash (word128 (aes256 key (replicate 16 (CHR 0x00)))) aad ct))"

definition gcm_seal :: "string \<Rightarrow> string \<Rightarrow> string \<Rightarrow> string \<Rightarrow> string" where
  "gcm_seal key nonce pt aad = (let ct = gcm_crypt key nonce pt in ct @ gcm_tag key nonce aad ct)"

definition gcm_open :: "string \<Rightarrow> string \<Rightarrow> string \<Rightarrow> string \<Rightarrow> string option" where
  "gcm_open key nonce sealed aad =
     (if length sealed < gcm_tag_size then None
      else let n = length sealed - gcm_tag_size; ct = take n sealed
        in if drop n sealed \<noteq> gcm_tag key nonce aad ct then None else Some (gcm_crypt key nonce ct))"

section \<open>Opening what was sealed\<close>

lemma length_aes256 [simp]: "length (aes256 key blk) = 16"
  by (simp add: aes256_def Let_def chars_of_def add_round_key_def)

lemma length_gcm_tag: "length (gcm_tag key nonce aad ct) = gcm_tag_size"
  by (simp add: gcm_tag_def bytes128_def gcm_tag_size_def)

lemma length_key_stream: "n \<le> length (key_stream key nonce n)"
proof -
  have "length (key_stream key nonce n) = ((n + 15) div 16) * 16"
    by (simp add: key_stream_def length_concat comp_def sum_list_triv)
  then show ?thesis by simp
qed

lemma xor_char_twice [simp]: "xor_char (xor_char a b) b = a"
proof -
  have "(of_char a :: nat) XOR of_char b < 2 ^ 8"
  proof -
    have "(of_char a :: nat) < 2 ^ 8" "(of_char b :: nat) < 2 ^ 8" by simp_all
    then have "take_bit 8 (of_char a :: nat) = of_char a" "take_bit 8 (of_char b :: nat) = of_char b"
      by (simp_all add: take_bit_nat_eq_self)
    then have "take_bit 8 ((of_char a :: nat) XOR of_char b) = of_char a XOR of_char b" by (simp add: take_bit_xor)
    then show ?thesis by (metis take_bit_nat_less_exp)
  qed
  then have "(of_char (char_of ((of_char a :: nat) XOR of_char b)) :: nat) = of_char a XOR of_char b" by simp
  then show ?thesis by (simp add: xor_char_def xor.assoc)
qed

lemma map2_xor_twice: "length s \<le> length ks \<Longrightarrow> map2 xor_char (map2 xor_char s ks) ks = s"
proof (induction s arbitrary: ks)
  case (Cons a s)
  then show ?case by (cases ks) simp_all
qed simp

lemma length_gcm_crypt [simp]: "length (gcm_crypt key nonce s) = length s"
  using length_key_stream [of "length s"] by (simp add: gcm_crypt_def)

lemma gcm_crypt_twice: "gcm_crypt key nonce (gcm_crypt key nonce s) = s"
  using map2_xor_twice [OF length_key_stream] by (simp add: gcm_crypt_def [of key nonce "gcm_crypt key nonce s"]) (simp add: gcm_crypt_def)

lemma gcm_open_seal [simp]: "gcm_open key nonce (gcm_seal key nonce pt aad) aad = Some pt"
  by (simp add: gcm_open_def gcm_seal_def Let_def length_gcm_tag gcm_crypt_twice)

lemma length_gcm_seal: "length (gcm_seal key nonce pt aad) = length pt + gcm_tag_size"
  by (simp add: gcm_seal_def Let_def length_gcm_tag)

end
