(* ===== verification/Secret_Store.thy ===== *)
theory Secret_Store
  imports Go_Aead
begin

text \<open>
  Package \<^verbatim>\<open>internal/secretstore\<close>: sealed secrets behind single-use handles. The table bss_secrets is
  a list of rows; the store's key is \<open>None\<close> when it is disabled. Random bytes are arguments.
\<close>

section \<open>The store\<close>

record secret_row =
  ss_id :: string
  ss_customer :: "string option"
  ss_sealed :: string
  ss_device :: "string option"
  ss_claimed_at :: "time option"
  ss_expires_at :: time

record Handle =
  hd_ID :: string
  hd_ExpiresAt :: time

datatype secret_error = ErrDisabled | ErrInvalidHandle | ErrHandleGone | SErrDB | ErrSealedShort | ErrNotAuthentic

definition MinKeyLength :: nat where "MinKeyLength = 32"
definition MaxValueLength :: nat where "MaxValueLength = 256"

text \<open>\<open>None\<close> is the refusal of a short key.\<close>

definition New_store :: "string \<Rightarrow> string option option" where
  "New_store key0 =
     (let key = TrimSpace key0 in
      if key = [] then Some None
      else if length key < MinKeyLength then None
      else Some (Some (sha256 (''acs-bss-secrets-v1'' @ [CHR 0x00] @ key))))"

definition Enabled_store :: "string option \<Rightarrow> bool" where
  "Enabled_store st \<longleftrightarrow> st \<noteq> None"

definition additionalData :: "string \<Rightarrow> string \<Rightarrow> string" where
  "additionalData hid owner = hid @ [CHR 0x00] @ owner"

text \<open>\<^verbatim>\<open>NULLIF($2, '')::uuid\<close>.\<close>

definition owner_column :: "string \<Rightarrow> string option" where
  "owner_column owner = (if owner = [] then None else Some owner)"

definition handle_id :: "string \<Rightarrow> string" where
  "handle_id raw = ''sh_'' @ b64_encode True raw"

definition Put ::
  "string option \<Rightarrow> faults \<Rightarrow> time \<Rightarrow> string \<Rightarrow> string \<Rightarrow> string \<Rightarrow> string \<Rightarrow> duration \<Rightarrow> secret_row list \<Rightarrow>
   (secret_error + Handle) \<times> secret_row list" where
  "Put st flt now raw nonce owner val ttl rows =
     (case st of
        None \<Rightarrow> (Inl ErrDisabled, rows)
      | Some key \<Rightarrow>
          let hid = handle_id raw;
              sealed = nonce @ gcm_seal key nonce val (additionalData hid owner)
          in if flt 0 \<or> hid \<in> ss_id ` set rows then (Inl SErrDB, rows)
             else (Inr \<lparr> hd_ID = hid, hd_ExpiresAt = now + ttl \<rparr>,
                   rows @ [\<lparr> ss_id = hid, ss_customer = owner_column owner, ss_sealed = sealed, ss_device = None,
                     ss_claimed_at = None, ss_expires_at = now + ttl \<rparr>]))"

text \<open>The WHERE clause of \<^verbatim>\<open>Check\<close> and \<^verbatim>\<open>Claim\<close>.\<close>

definition claimable :: "time \<Rightarrow> string \<Rightarrow> string \<Rightarrow> secret_row \<Rightarrow> bool" where
  "claimable now hid owner r \<longleftrightarrow> ss_id r = hid \<and> ss_customer r = owner_column owner \<and> ss_device r = None \<and> ss_expires_at r > now"

definition Check :: "string option \<Rightarrow> faults \<Rightarrow> time \<Rightarrow> string \<Rightarrow> string \<Rightarrow> secret_row list \<Rightarrow> secret_error option" where
  "Check st flt now hid owner rows =
     (if \<not> Enabled_store st then Some ErrDisabled
      else if flt 0 then Some SErrDB
      else if list_ex (claimable now hid owner) rows then None else Some ErrInvalidHandle)"

definition Claim ::
  "string option \<Rightarrow> faults \<Rightarrow> time \<Rightarrow> string \<Rightarrow> string \<Rightarrow> string \<Rightarrow> secret_row list \<Rightarrow> secret_error option \<times> secret_row list" where
  "Claim st flt now hid owner deviceID rows =
     (if \<not> Enabled_store st then (Some ErrDisabled, rows)
      else if flt 0 then (Some SErrDB, rows)
      else (if rows_affected (claimable now hid owner) rows \<noteq> 1 then Some ErrInvalidHandle else None,
            update_where (claimable now hid owner) (\<lambda>r. r\<lparr> ss_device := Some deviceID, ss_claimed_at := Some now \<rparr>) rows))"

definition openable :: "time \<Rightarrow> string \<Rightarrow> string \<Rightarrow> secret_row \<Rightarrow> bool" where
  "openable now hid deviceID r \<longleftrightarrow> ss_id r = hid \<and> ss_device r = Some deviceID \<and> ss_expires_at r > now"

text \<open>Unsealing the row that \<^verbatim>\<open>DELETE ... RETURNING\<close> returned.\<close>

definition unseal :: "string \<Rightarrow> string \<Rightarrow> secret_row \<Rightarrow> secret_error + string" where
  "unseal key hid r =
     (let n = gcm_nonce_size; sealed = ss_sealed r in
      if length sealed < n then Inl ErrSealedShort
      else case gcm_open key (take n sealed) (drop n sealed)
                  (additionalData hid (case ss_customer r of None \<Rightarrow> [] | Some c \<Rightarrow> c)) of
        None \<Rightarrow> Inl ErrNotAuthentic
      | Some val \<Rightarrow> Inr val)"

definition Open_secret ::
  "string option \<Rightarrow> faults \<Rightarrow> time \<Rightarrow> string \<Rightarrow> string \<Rightarrow> secret_row list \<Rightarrow> (secret_error + string) \<times> secret_row list" where
  "Open_secret st flt now hid deviceID rows =
     (case st of
        None \<Rightarrow> (Inl ErrDisabled, rows)
      | Some key \<Rightarrow>
          if flt 0 then (Inl SErrDB, rows)
          else case find (openable now hid deviceID) rows of
            None \<Rightarrow> (Inl ErrHandleGone, rows)
          | Some r \<Rightarrow> (unseal key hid r, filter (\<lambda>q. \<not> openable now hid deviceID q) rows))"

definition Discard :: "string option \<Rightarrow> faults \<Rightarrow> string \<Rightarrow> string \<Rightarrow> secret_row list \<Rightarrow> (secret_error + bool) \<times> secret_row list" where
  "Discard st flt hid owner rows =
     (let p = (\<lambda>r. ss_id r = hid \<and> ss_customer r = owner_column owner) in
      if \<not> Enabled_store st then (Inr False, rows)
      else if flt 0 then (Inl SErrDB, rows)
      else (Inr (rows_affected p rows = 1), filter (\<lambda>r. \<not> p r) rows))"

definition Sweep_secrets :: "faults \<Rightarrow> time \<Rightarrow> secret_row list \<Rightarrow> (secret_error + nat) \<times> secret_row list" where
  "Sweep_secrets flt now rows =
     (let p = (\<lambda>r. ss_expires_at r \<le> now) in
      if flt 0 then (Inl SErrDB, rows) else (Inr (rows_affected p rows), filter (\<lambda>r. \<not> p r) rows))"

section \<open>A run of the store\<close>

datatype secret_op =
    OpPut faults time string string string string duration
  | OpClaim faults time string string string
  | OpOpen faults time string string
  | OpDiscard faults string string
  | OpSweep faults time

text \<open>What succeeded: a value stored by an owner, a handle claimed by an owner for a device, a value opened for a device.\<close>

datatype secret_event = Stored string string string | Claimed string string string | Opened string string string

fun secret_exec :: "string option \<Rightarrow> secret_op \<Rightarrow> secret_row list \<times> secret_event list \<Rightarrow> secret_row list \<times> secret_event list" where
  "secret_exec st (OpPut flt now raw nonce owner val ttl) (rows, evs) =
     (case Put st flt now raw nonce owner val ttl rows of
        (Inl _, rows') \<Rightarrow> (rows', evs)
      | (Inr h, rows') \<Rightarrow> (rows', evs @ [Stored (hd_ID h) owner val]))"
| "secret_exec st (OpClaim flt now hid owner dev) (rows, evs) =
     (case Claim st flt now hid owner dev rows of
        (Some _, rows') \<Rightarrow> (rows', evs)
      | (None, rows') \<Rightarrow> (rows', evs @ [Claimed hid owner dev]))"
| "secret_exec st (OpOpen flt now hid dev) (rows, evs) =
     (case Open_secret st flt now hid dev rows of
        (Inl _, rows') \<Rightarrow> (rows', evs)
      | (Inr val, rows') \<Rightarrow> (rows', evs @ [Opened hid dev val]))"
| "secret_exec st (OpDiscard flt hid owner) (rows, evs) = (snd (Discard st flt hid owner rows), evs)"
| "secret_exec st (OpSweep flt now) (rows, evs) = (snd (Sweep_secrets flt now rows), evs)"

definition secret_run :: "string option \<Rightarrow> secret_op list \<Rightarrow> secret_event list" where
  "secret_run st ops = snd (fold (secret_exec st) ops ([], []))"

text \<open>The random bytes the stores of a run draw.\<close>

fun drawn :: "secret_op \<Rightarrow> string list" where
  "drawn (OpPut flt now raw nonce owner val ttl) = [handle_id raw]"
| "drawn _ = []"

fun nonce_ok :: "secret_op \<Rightarrow> bool" where
  "nonce_ok (OpPut flt now raw nonce owner val ttl) \<longleftrightarrow> length nonce = gcm_nonce_size"
| "nonce_ok _ = True"

fun opened :: "secret_event \<Rightarrow> string list" where
  "opened (Opened hid dev val) = [hid]"
| "opened _ = []"

text \<open>
  The invariant: a stored row is the sealed value of its Stored event, unopened, and bound to a
  device only by a claim of its owner; opened handles are gone from the table for good.
\<close>

definition row_ok :: "string \<Rightarrow> secret_event list \<Rightarrow> secret_row \<Rightarrow> bool" where
  "row_ok key evs r \<longleftrightarrow>
     (\<exists>owner val. Stored (ss_id r) owner val \<in> set evs \<and> ss_customer r = owner_column owner \<and> unseal key (ss_id r) r = Inr val \<and>
        (\<forall>dev. ss_device r = Some dev \<longrightarrow> Claimed (ss_id r) owner dev \<in> set evs)) \<and>
     ss_id r \<notin> set (concat (map opened evs))"

definition event_ok :: "secret_event list \<Rightarrow> secret_event \<Rightarrow> bool" where
  "event_ok evs e = (case e of
     Opened hid dev val \<Rightarrow> (\<exists>owner. Stored hid owner val \<in> set evs \<and> Claimed hid owner dev \<in> set evs)
   | _ \<Rightarrow> True)"

definition secrets_inv :: "string \<Rightarrow> string set \<Rightarrow> secret_row list \<Rightarrow> secret_event list \<Rightarrow> bool" where
  "secrets_inv key used rows evs \<longleftrightarrow>
     distinct (map ss_id rows) \<and> list_all (row_ok key evs) rows \<and> list_all (event_ok evs) evs \<and>
     distinct (concat (map opened evs)) \<and> ss_id ` set rows \<subseteq> used \<and> set (concat (map opened evs)) \<subseteq> used"

section \<open>Handles open once\<close>

lemma owner_column_inj: "owner_column a = owner_column b \<longleftrightarrow> a = b"
  by (auto simp: owner_column_def)

lemma owner_of_column: "(case owner_column owner of None \<Rightarrow> [] | Some c \<Rightarrow> c) = owner"
  by (simp add: owner_column_def)

lemma unseal_sealed:
  assumes "length nonce = gcm_nonce_size" "ss_customer r = owner_column owner"
    and "ss_sealed r = nonce @ gcm_seal key nonce val (additionalData hid owner)"
  shows "unseal key hid r = Inr val"
  using assms by (simp add: unseal_def Let_def owner_of_column)

lemma unseal_claim [simp]: "unseal key hid (r\<lparr> ss_device := d, ss_claimed_at := t \<rparr>) = unseal key hid r"
  by (simp add: unseal_def Let_def)

lemma rows_affected_key:
  "distinct (map k rows) \<Longrightarrow> r \<in> set rows \<Longrightarrow> P r \<Longrightarrow> (\<And>q. P q \<Longrightarrow> k q = k r) \<Longrightarrow> rows_affected P rows = 1"
proof (induction rows)
  case (Cons a rows)
  have new: "k a \<notin> k ` set rows" using Cons.prems(1) by simp
  show ?case
  proof (cases "a = r")
    case True
    have "\<not> P q" if q: "q \<in> set rows" for q
    proof
      assume "P q"
      then have "k a = k q" using Cons.prems(4) [of q] True by simp
      then have "k a \<in> k ` set rows" using q by (rule image_eqI)
      with new show False ..
    qed
    then have "filter P rows = []" by (simp add: filter_empty_conv)
    then show ?thesis using True Cons.prems(3) by (simp add: rows_affected_def)
  next
    case False
    then have r: "r \<in> set rows" using Cons.prems(2) by simp
    have "\<not> P a"
    proof
      assume "P a"
      then have "k a = k r" by (rule Cons.prems(4))
      then have "k a \<in> k ` set rows" using r by (rule image_eqI)
      with new show False ..
    qed
    moreover have "rows_affected P rows = 1"
      by (rule Cons.IH [OF _ r Cons.prems(3) Cons.prems(4)]) (use Cons.prems(1) in simp_all)
    ultimately show ?thesis by (simp add: rows_affected_def)
  qed
qed simp

lemma row_ok_more: "row_ok key evs r \<Longrightarrow> ss_id r \<notin> set (opened e) \<Longrightarrow> row_ok key (evs @ [e]) r"
  by (auto simp: row_ok_def)

lemma event_ok_more: "event_ok evs e \<Longrightarrow> event_ok (evs @ es) e"
  by (auto simp: event_ok_def split: secret_event.splits)

lemma secrets_inv_filter: "secrets_inv key used rows evs \<Longrightarrow> secrets_inv key used (filter P rows) evs"
  by (auto simp: secrets_inv_def list_all_iff distinct_filter_keys)

lemma secrets_inv_used: "secrets_inv key used rows evs \<Longrightarrow> used \<subseteq> used' \<Longrightarrow> secrets_inv key used' rows evs"
  by (auto simp: secrets_inv_def)

lemma secrets_inv_event:
  assumes "secrets_inv key used rows evs" "opened e = []" "event_ok (evs @ [e]) e"
  shows "secrets_inv key used rows (evs @ [e])"
  using assms row_ok_more [of key evs _ e] event_ok_more [of evs _ "[e]"] by (auto simp: secrets_inv_def list_all_iff)

lemma Put_keeps:
  assumes "secrets_inv key used rows evs" "handle_id raw \<notin> used" "length nonce = gcm_nonce_size"
  shows "case secret_exec (Some key) (OpPut flt now raw nonce owner val ttl) (rows, evs) of
    (rows', evs') \<Rightarrow> secrets_inv key (insert (handle_id raw) used) rows' evs'"
proof (cases "flt 0 \<or> handle_id raw \<in> ss_id ` set rows")
  case True
  then show ?thesis using secrets_inv_used [OF assms(1)] by (auto simp: Put_def Let_def)
next
  case False
  define r where "r = \<lparr> ss_id = handle_id raw, ss_customer = owner_column owner,
     ss_sealed = nonce @ gcm_seal key nonce val (additionalData (handle_id raw) owner), ss_device = None,
     ss_claimed_at = None, ss_expires_at = now + ttl \<rparr>"
  let ?e = "Stored (handle_id raw) owner val"
  have inv: "secrets_inv key used rows (evs @ [?e])" by (rule secrets_inv_event [OF assms(1)]) (simp_all add: event_ok_def)
  have "unseal key (handle_id raw) r = Inr val" by (rule unseal_sealed [OF assms(3)]) (simp_all add: r_def)
  then have "row_ok key (evs @ [?e]) r"
    using assms(1,2) by (auto simp: row_ok_def r_def secrets_inv_def)
  then have "secrets_inv key (insert (handle_id raw) used) (rows @ [r]) (evs @ [?e])"
    using inv False by (auto simp: secrets_inv_def r_def)
  then show ?thesis using False by (simp add: Put_def Let_def r_def)
qed

lemma Claim_keeps:
  assumes inv: "secrets_inv key used rows evs"
  shows "case secret_exec (Some key) (OpClaim flt now hid owner dev) (rows, evs) of
    (rows', evs') \<Rightarrow> secrets_inv key used rows' evs'"
proof (cases "flt 0")
  case True
  then show ?thesis using inv by (simp add: Claim_def)
next
  case False
  let ?p = "claimable now hid owner"
  let ?rows = "update_where ?p (\<lambda>r. r\<lparr> ss_device := Some dev, ss_claimed_at := Some now \<rparr>) rows"
  show ?thesis
  proof (cases "rows_affected ?p rows = 1")
    case True
    let ?e = "Claimed hid owner dev"
    have inv': "secrets_inv key used rows (evs @ [?e])" by (rule secrets_inv_event [OF inv]) (simp_all add: event_ok_def)
    have "row_ok key (evs @ [?e]) r" if "r \<in> set ?rows" for r
      using ex_update_where [OF that] inv' owner_column_inj
      by (fastforce simp: secrets_inv_def list_all_iff row_ok_def claimable_def)
    then have "secrets_inv key used ?rows (evs @ [?e])"
      using inv' by (auto simp: secrets_inv_def list_all_iff map_update_where dest!: ex_update_where)
    then show ?thesis using True False by (simp add: Claim_def Enabled_store_def)
  next
    case nohit: False
    have "\<not> ?p r" if "r \<in> set rows" for r
    proof
      assume "?p r"
      then have "rows_affected ?p rows = 1"
        using that inv by (intro rows_affected_key [of ss_id]) (auto simp: secrets_inv_def claimable_def)
      then show False using nohit by simp
    qed
    then have "?rows = rows" by (rule update_where_None)
    then show ?thesis using inv nohit False by (simp add: Claim_def Enabled_store_def)
  qed
qed

lemma Open_keeps:
  assumes inv: "secrets_inv key used rows evs"
  shows "case secret_exec (Some key) (OpOpen flt now hid dev) (rows, evs) of
    (rows', evs') \<Rightarrow> secrets_inv key used rows' evs'"
proof (cases "flt 0 \<or> find (openable now hid dev) rows = None")
  case True
  then show ?thesis using inv by (auto simp: Open_secret_def split: option.splits)
next
  case False
  then obtain r where r: "find (openable now hid dev) rows = Some r" by auto
  then have mem: "r \<in> set rows" "openable now hid dev r" by (auto simp: find_Some_iff)
  let ?rows = "filter (\<lambda>q. \<not> openable now hid dev q) rows"
  obtain owner val where ok: "Stored hid owner val \<in> set evs" "unseal key hid r = Inr val" "Claimed hid owner dev \<in> set evs"
    "hid \<notin> set (concat (map opened evs))"
    using inv mem by (auto simp: secrets_inv_def list_all_iff row_ok_def openable_def)
  have gone: "ss_id q \<noteq> hid" if "q \<in> set ?rows" for q
  proof
    assume "ss_id q = hid"
    then have "q = r" using that mem inv by (auto simp: secrets_inv_def distinct_map openable_def inj_on_def)
    then show False using that mem(2) by simp
  qed
  let ?e = "Opened hid dev val"
  have inv': "secrets_inv key used ?rows evs" by (rule secrets_inv_filter [OF inv])
  have "row_ok key (evs @ [?e]) q" if "q \<in> set ?rows" for q
    using that gone [OF that] inv' by (intro row_ok_more) (auto simp: secrets_inv_def list_all_iff)
  moreover have "event_ok (evs @ [?e]) e" if "e \<in> set (evs @ [?e])" for e
    using that ok inv event_ok_more [of evs e "[?e]"] by (auto simp: secrets_inv_def list_all_iff event_ok_def)
  moreover have "hid \<in> used" using inv mem by (auto simp: secrets_inv_def openable_def)
  ultimately have "secrets_inv key used ?rows (evs @ [?e])"
    using inv' ok(4) by (auto simp: secrets_inv_def list_all_iff)
  then show ?thesis using False r ok(2) by (simp add: Open_secret_def)
qed

lemma secret_exec_keeps:
  assumes "secrets_inv key used (fst s) (snd s)" "set (drawn op) \<inter> used = {}" "nonce_ok op"
  shows "secrets_inv key (used \<union> set (drawn op)) (fst (secret_exec (Some key) op s)) (snd (secret_exec (Some key) op s))"
proof -
  obtain rows evs where s: "s = (rows, evs)" by (rule prod.exhaust)
  show ?thesis
  proof (cases op)
    case (OpPut flt now raw nonce owner val ttl)
    then show ?thesis
      using Put_keeps [of key used rows evs raw nonce flt now owner val ttl] assms by (simp add: s split: prod.splits)
  next
    case (OpClaim flt now hid owner dev)
    then show ?thesis using Claim_keeps [of key used rows evs flt now hid owner dev] assms by (simp add: s split: prod.splits)
  next
    case (OpOpen flt now hid dev)
    then show ?thesis using Open_keeps [of key used rows evs flt now hid dev] assms by (simp add: s split: prod.splits)
  qed (use assms s secrets_inv_filter in \<open>simp_all add: Discard_def Sweep_secrets_def Let_def\<close>)
qed

lemma secret_run_keeps:
  assumes "secrets_inv key used (fst s) (snd s)" "set (concat (map drawn ops)) \<inter> used = {}"
    and "distinct (concat (map drawn ops))" "list_all nonce_ok ops"
  shows "\<exists>used'. secrets_inv key used' (fst (fold (secret_exec (Some key)) ops s)) (snd (fold (secret_exec (Some key)) ops s))"
  using assms
proof (induction ops arbitrary: s used)
  case (Cons op ops)
  have "secrets_inv key (used \<union> set (drawn op)) (fst (secret_exec (Some key) op s)) (snd (secret_exec (Some key) op s))"
    using Cons.prems by (intro secret_exec_keeps) auto
  moreover have "set (concat (map drawn ops)) \<inter> (used \<union> set (drawn op)) = {}" using Cons.prems(2,3) by auto
  ultimately show ?case using Cons.IH [of "used \<union> set (drawn op)" "secret_exec (Some key) op s"] Cons.prems by simp
qed auto

lemma disabled_run: "snd (fold (secret_exec None) ops s) = snd s"
proof (induction ops arbitrary: s)
  case (Cons op ops)
  obtain rows evs where "s = (rows, evs)" by (rule prod.exhaust)
  then have "snd (secret_exec None op s) = snd s"
    by (cases op) (simp_all add: Put_def Claim_def Open_secret_def Enabled_store_def)
  then show ?case using Cons by simp
qed simp

text \<open>
  C6. Whatever the callers of the secret store do, in whatever order and with whatever failures of
  the database: a handle opens at most once; it opens only for a device that its owner claimed it
  for; and the value that comes out is the value that its owner put in.
\<close>

theorem secret_opens_once:
  assumes "distinct (concat (map drawn ops))" "list_all nonce_ok ops"
  shows "distinct (concat (map opened (secret_run st ops))) \<and>
    (\<forall>hid dev val. Opened hid dev val \<in> set (secret_run st ops) \<longrightarrow>
       (\<exists>owner. Stored hid owner val \<in> set (secret_run st ops) \<and> Claimed hid owner dev \<in> set (secret_run st ops)))"
proof (cases st)
  case None
  then show ?thesis by (simp add: secret_run_def disabled_run)
next
  case (Some key)
  have "secrets_inv key {} (fst ([], [])) (snd ([], []))" by (simp add: secrets_inv_def)
  then obtain used rows where "secrets_inv key used rows (secret_run st ops)"
    using secret_run_keeps [of key "{}" "([], [])" ops] assms Some by (auto simp: secret_run_def)
  then show ?thesis by (fastforce simp: secrets_inv_def list_all_iff event_ok_def)
qed

theorem secret_opens_once_witness:
  "distinct (concat (map opened (secret_run (Some ''k'')
      [OpPut no_faults 0 ''r1'' (replicate 12 CHR 0x01) ''c1'' ''passphrase'' hour, OpClaim no_faults 1 (handle_id ''r1'') ''c1'' ''d1'',
       OpOpen no_faults 2 (handle_id ''r1'') ''d1'', OpOpen no_faults 3 (handle_id ''r1'') ''d1''])))"
  using secret_opens_once [of "[OpPut no_faults 0 ''r1'' (replicate 12 CHR 0x01) ''c1'' ''passphrase'' hour, OpClaim no_faults 1 (handle_id ''r1'') ''c1'' ''d1'',
       OpOpen no_faults 2 (handle_id ''r1'') ''d1'', OpOpen no_faults 3 (handle_id ''r1'') ''d1'']" "Some ''k''"]
  by (simp add: gcm_nonce_size_def)

text \<open>And it does open: a value that was put and claimed in time comes back, and the handle is spent.\<close>

lemma secret_roundtrip:
  assumes "length nonce = gcm_nonce_size" "now < now0 + ttl" "later < now0 + ttl"
  shows "case Put (Some key) no_faults now0 raw nonce owner val ttl [] of
      (_, rows) \<Rightarrow> (case Claim (Some key) no_faults now (handle_id raw) owner dev rows of
        (e, rows') \<Rightarrow> e = None \<and> Open_secret (Some key) no_faults later (handle_id raw) dev rows' = (Inr val, []))"
  using assms
  by (simp add: Put_def Let_def Claim_def Enabled_store_def claimable_def update_where_def rows_affected_def Open_secret_def
      openable_def unseal_sealed [of nonce _ owner])

end
