(* ===== verification/Job_Verify.thy ===== *)
theory Job_Verify
  imports Parameter_Cache "HOL-Library.List_Lexorder" "HOL-Library.Char_ord"
begin

text \<open>
  Package \<^verbatim>\<open>internal/jobs\<close>, the verification of parameter writes (\<^verbatim>\<open>verification.go\<close>), the binding of a
  parameter operation to the firmware it started under (\<^verbatim>\<open>firmware_evidence.go\<close>), and the payloads the
  gateway renders (\<^verbatim>\<open>payloads.go\<close>).
\<close>

section \<open>Payloads of the remaining job types\<close>

record GetParameterPayload =
  gp_EvidenceFirmware :: string
  gp_EvidenceBound :: bool
  gp_Paths :: "string list"
  gp_Instances :: bool
  gp_Firmware :: string

definition dec_GetParameterPayload :: "json \<Rightarrow> GetParameterPayload option" where
  "dec_GetParameterPayload j = do {
     kvs \<leftarrow> struct_members j;
     ef \<leftarrow> decode_field ''evidence_firmware'' dec_string [] kvs;
     eb \<leftarrow> decode_field ''evidence_bound'' dec_bool False kvs;
     ps \<leftarrow> decode_field ''paths'' (dec_list dec_str) [] kvs;
     i \<leftarrow> decode_field ''instances'' dec_bool False kvs;
     f \<leftarrow> decode_field ''firmware'' dec_string [] kvs;
     Some \<lparr> gp_EvidenceFirmware = ef, gp_EvidenceBound = eb, gp_Paths = ps, gp_Instances = i, gp_Firmware = f \<rparr> }"

record FirmwareDownloadPayload =
  fd_FirmwareImageID :: string
  fd_FileType :: string
  fd_URL :: string
  fd_Username :: string
  fd_Password :: string
  fd_FileSize :: int
  fd_TargetFilename :: string
  fd_DelaySeconds :: int
  fd_USPInstance :: string

definition dec_FirmwareDownloadPayload :: "json \<Rightarrow> FirmwareDownloadPayload option" where
  "dec_FirmwareDownloadPayload j = do {
     kvs \<leftarrow> struct_members j;
     im \<leftarrow> decode_field ''firmware_image_id'' dec_string [] kvs;
     ft \<leftarrow> decode_field ''file_type'' dec_string [] kvs;
     u \<leftarrow> decode_field ''url'' dec_string [] kvs;
     us \<leftarrow> decode_field ''username'' dec_string [] kvs;
     pw \<leftarrow> decode_field ''password'' dec_string [] kvs;
     fs \<leftarrow> decode_field ''file_size'' dec_int 0 kvs;
     tf \<leftarrow> decode_field ''target_filename'' dec_string [] kvs;
     ds \<leftarrow> decode_field ''delay_seconds'' dec_int 0 kvs;
     ui \<leftarrow> decode_field ''usp_instance'' dec_string [] kvs;
     Some \<lparr> fd_FirmwareImageID = im, fd_FileType = ft, fd_URL = u, fd_Username = us, fd_Password = pw, fd_FileSize = fs,
            fd_TargetFilename = tf, fd_DelaySeconds = ds, fd_USPInstance = ui \<rparr> }"

fun dec_uint :: "nat \<Rightarrow> json \<Rightarrow> nat option" where
  "dec_uint old JNull = Some old"
| "dec_uint old (JNum n) = ParseUint 10 n"
| "dec_uint old _ = None"

text \<open>The anonymous struct the gateway decodes both TR-143 payloads with.\<close>

record ThroughputPayload =
  th_URL :: string
  th_TestFileLength :: nat
  th_Plan :: DiagnosticsPlan

definition dec_ThroughputPayload :: "json \<Rightarrow> ThroughputPayload option" where
  "dec_ThroughputPayload j = do {
     kvs \<leftarrow> struct_members j;
     u \<leftarrow> decode_field ''url'' dec_string [] kvs;
     l \<leftarrow> decode_field ''test_file_length'' dec_uint 0 kvs;
     pl \<leftarrow> dec_DiagnosticsPlan kvs;
     Some \<lparr> th_URL = u, th_TestFileLength = l, th_Plan = pl \<rparr> }"

record AddObjectPayload =
  ao_ObjectPath :: string
  ao_Parameters :: "ParameterWrite list"

definition dec_AddObjectPayload :: "json \<Rightarrow> AddObjectPayload option" where
  "dec_AddObjectPayload j = do {
     kvs \<leftarrow> struct_members j;
     p \<leftarrow> decode_field ''object_path'' dec_string [] kvs;
     ps \<leftarrow> decode_field ''parameters'' (dec_list dec_ParameterWrite) [] kvs;
     Some \<lparr> ao_ObjectPath = p, ao_Parameters = ps \<rparr> }"

definition dec_DeleteObjectPayload :: "json \<Rightarrow> string option" where
  "dec_DeleteObjectPayload j = do { kvs \<leftarrow> struct_members j; decode_field ''object_path'' dec_string [] kvs }"

definition dec_ScheduleInformPayload :: "json \<Rightarrow> int option" where
  "dec_ScheduleInformPayload j = do { kvs \<leftarrow> struct_members j; decode_field ''delay_seconds'' dec_int 0 kvs }"

definition dec_attribute :: "json \<Rightarrow> (string \<times> int) option" where
  "dec_attribute j = do {
     kvs \<leftarrow> struct_members j;
     n \<leftarrow> decode_field ''name'' dec_string [] kvs;
     v \<leftarrow> decode_field ''notification'' dec_int 0 kvs;
     Some (n, v) }"

definition dec_SetParameterAttributesPayload :: "json \<Rightarrow> (string \<times> int) list option" where
  "dec_SetParameterAttributesPayload j = do { kvs \<leftarrow> struct_members j; decode_field ''attributes'' (dec_list dec_attribute) [] kvs }"

definition dec_GetParameterAttributesPayload :: "json \<Rightarrow> string list option" where
  "dec_GetParameterAttributesPayload j = do { kvs \<leftarrow> struct_members j; decode_field ''paths'' (dec_list dec_str) [] kvs }"

record UploadPayload =
  up_FileType :: string
  up_URL :: string
  up_Username :: string
  up_Password :: string
  up_DelaySeconds :: int

definition dec_UploadPayload :: "json \<Rightarrow> UploadPayload option" where
  "dec_UploadPayload j = do {
     kvs \<leftarrow> struct_members j;
     ft \<leftarrow> decode_field ''file_type'' dec_string [] kvs;
     u \<leftarrow> decode_field ''url'' dec_string [] kvs;
     us \<leftarrow> decode_field ''username'' dec_string [] kvs;
     pw \<leftarrow> decode_field ''password'' dec_string [] kvs;
     ds \<leftarrow> decode_field ''delay_seconds'' dec_int 0 kvs;
     Some \<lparr> up_FileType = ft, up_URL = u, up_Username = us, up_Password = pw, up_DelaySeconds = ds \<rparr> }"

text \<open>The payload of a discovery walk. The member \<^verbatim>\<open>capabilities\<close> belongs to USP walks and is not kept.\<close>

fun dec_bool_map :: "(string \<times> bool) list \<Rightarrow> json \<Rightarrow> (string \<times> bool) list option" where
  "dec_bool_map old JNull = Some []"
| "dec_bool_map old (JObj kvs) =
     (case those (map (\<lambda>(k, v). case dec_bool False v of None \<Rightarrow> None | Some b \<Rightarrow> Some (k, b)) kvs) of
        None \<Rightarrow> None | Some ms \<Rightarrow> Some (fold (\<lambda>(k, b) m. map_put k b m) ms old))"
| "dec_bool_map old _ = None"

definition dec_ParameterDiscoveryPayload :: "json \<Rightarrow> ParameterDiscoveryPayload option" where
  "dec_ParameterDiscoveryPayload j = do {
     kvs \<leftarrow> struct_members j;
     r \<leftarrow> decode_field ''root'' dec_string [] kvs;
     fr \<leftarrow> decode_field ''fallback_root'' dec_string [] kvs;
     fb \<leftarrow> decode_field ''is_fallback'' dec_bool False kvs;
     inc \<leftarrow> decode_field ''incremental'' dec_bool False kvs;
     cu \<leftarrow> decode_field ''cursor'' dec_string [] kvs;
     pe \<leftarrow> decode_field ''pending'' (dec_list dec_str) [] kvs;
     vi \<leftarrow> decode_field ''visited'' dec_bool_map [] kvs;
     na \<leftarrow> decode_field ''names'' dec_bool_map [] kvs;
     sk \<leftarrow> decode_field ''skipped'' (dec_list dec_str) [] kvs;
     re \<leftarrow> decode_field ''retried'' dec_bool_map [] kvs;
     fw \<leftarrow> decode_field ''firmware'' dec_string [] kvs;
     me \<leftarrow> decode_field ''merge'' dec_bool False kvs;
     Some \<lparr> Root = r, FallbackRoot = fr, IsFallback = fb, Incremental = inc, Cursor = cu, Pending = pe, Visited = vi,
            Names = na, Skipped = sk, Retried = re, disc_Firmware = fw, Merge = me \<rparr> }"

definition enc_opt_list :: "string \<Rightarrow> string list \<Rightarrow> (string \<times> json) list" where
  "enc_opt_list k xs = (if xs = [] then [] else [(k, JArr (map JStr xs))])"

definition enc_opt_map :: "string \<Rightarrow> (string \<times> bool) list \<Rightarrow> (string \<times> json) list" where
  "enc_opt_map k m = (if m = [] then [] else [(k, JObj (map (\<lambda>(n, b). (n, JBool b)) m))])"

definition enc_ParameterDiscoveryPayload :: "ParameterDiscoveryPayload \<Rightarrow> json" where
  "enc_ParameterDiscoveryPayload p = JObj (
     [(''root'', JStr (Root p))] @ enc_opt_str ''fallback_root'' (FallbackRoot p) @ enc_opt_bool ''is_fallback'' (IsFallback p) @
     enc_opt_bool ''incremental'' (Incremental p) @ enc_opt_str ''cursor'' (Cursor p) @ enc_opt_list ''pending'' (Pending p) @
     enc_opt_map ''visited'' (Visited p) @ enc_opt_map ''names'' (Names p) @ enc_opt_list ''skipped'' (Skipped p) @
     enc_opt_map ''retried'' (Retried p) @ enc_opt_str ''firmware'' (disc_Firmware p) @ enc_opt_bool ''merge'' (Merge p))"

section \<open>Reading back what was written\<close>

record Verification =
  v_Matched :: "string list"
  v_Mismatched :: "string list"
  v_Missing :: "string list"
  v_Skipped :: "string list"

definition SensitivePath :: "string \<Rightarrow> bool" where
  "SensitivePath path = list_ex (\<lambda>word. Contains (ToLower path) (ToLower word))
     [''password'', ''passphrase'', ''preSharedKey'', ''secret'', ''token'', ''privatekey'']"

definition skipReadback :: "SetParameterPayload \<Rightarrow> string \<Rightarrow> bool" where
  "skipReadback p path \<longleftrightarrow> SensitivePath path \<or> path \<in> set (sp_NonReadable p)"

definition VerificationPaths :: "SetParameterPayload \<Rightarrow> string list" where
  "VerificationPaths p = filter (\<lambda>n. \<not> skipReadback p n) (map pw_Name (sp_Parameters p))"

definition normalizeBool :: "string \<Rightarrow> string" where
  "normalizeBool v = (if v = ''1'' then ''true'' else if v = ''0'' then ''false'' else v)"

definition value_matches :: "ParameterWrite \<Rightarrow> string \<Rightarrow> bool" where
  "value_matches w v \<longleftrightarrow>
     (if TrimPrefix (pw_Type w) ''xsd:'' = ''boolean'' then normalizeBool v = normalizeBool (pw_Value w) else v = pw_Value w)"

fun compare_writes :: "SetParameterPayload \<Rightarrow> (string \<times> string) list \<Rightarrow> ParameterWrite list \<Rightarrow> Verification \<Rightarrow> Verification" where
  "compare_writes p actual [] out = out"
| "compare_writes p actual (w # ws) out = compare_writes p actual ws
     (if skipReadback p (pw_Name w) then out\<lparr> v_Skipped := v_Skipped out @ [pw_Name w] \<rparr>
      else case map_of actual (pw_Name w) of
        None \<Rightarrow> out\<lparr> v_Missing := v_Missing out @ [pw_Name w] \<rparr>
      | Some v \<Rightarrow> if value_matches w v then out\<lparr> v_Matched := v_Matched out @ [pw_Name w] \<rparr>
                  else out\<lparr> v_Mismatched := v_Mismatched out @ [pw_Name w] \<rparr>)"

definition CompareReadback :: "SetParameterPayload \<Rightarrow> (string \<times> string) list \<Rightarrow> Verification" where
  "CompareReadback p actual =
     (let out = compare_writes p actual (sp_Parameters p) \<lparr> v_Matched = [], v_Mismatched = [], v_Missing = [], v_Skipped = [] \<rparr>
      in \<lparr> v_Matched = sort (v_Matched out), v_Mismatched = sort (v_Mismatched out), v_Missing = sort (v_Missing out),
           v_Skipped = sort (v_Skipped out) \<rparr>)"

definition BeginReadback :: "faults \<Rightarrow> time \<Rightarrow> Job \<Rightarrow> SetParameterPayload \<Rightarrow> jobs_db \<Rightarrow> unit result \<times> jobs_db" where
  "BeginReadback flt now job payload db =
     (let raw = enc_SetParameterPayload (payload\<lparr> sp_VerificationPending := True \<rparr>) in
      case exec_guarded flt (current_attempt job)
        (\<lambda>r. r\<lparr> j_payload := raw, j_status := StatusQueued, j_updated_at := now, j_lease_owner := None, j_leased_until := None \<rparr>) db of
        (Inl err, db') \<Rightarrow> (Inl err, db')
      | (Inr one, db') \<Rightarrow> (if \<not> one then Inl ErrNotCurrent else Inr (), db'))"

definition MissingReadPaths :: "string list \<Rightarrow> (string \<times> string) list \<Rightarrow> string list" where
  "MissingReadPaths paths actual =
     filter (\<lambda>p. \<not> (HasSuffix p ''.'' \<or> list_ex (\<lambda>c. c \<in> set ''*[{('') p) \<and> map_of actual p = None) paths"

section \<open>The firmware an operation started under\<close>

definition is_instance_number :: "string \<Rightarrow> bool" where
  "is_instance_number s \<longleftrightarrow> s \<noteq> [] \<and> list_all is_digit s \<and> hd s \<noteq> CHR ''0''"

definition NormalizePath :: "string \<Rightarrow> string" where
  "NormalizePath path = Join (map (\<lambda>part. if is_instance_number part then ''{i}'' else part) (Split (CHR ''.'') path)) ''.''"

datatype bind_error = BindDB | BindPayload | BindFirmwareChanged | BindNotCurrent | BindPanic

definition cached_firmware :: "(string \<times> CachedValue) list \<Rightarrow> string" where
  "cached_firmware c =
     (let v = (\<lambda>p. case map_of c p of None \<Rightarrow> [] | Some x \<Rightarrow> cv_Value x)
      in if v ''Device.DeviceInfo.SoftwareVersion'' = [] then v ''InternetGatewayDevice.DeviceInfo.SoftwareVersion''
         else v ''Device.DeviceInfo.SoftwareVersion'')"

definition write_only :: "SupportedCapability list \<Rightarrow> SetParameterPayload \<Rightarrow> string list" where
  "write_only capabilities p = concat (map (\<lambda>n. map (\<lambda>_. n)
     (filter (\<lambda>c. sc_Access c = ''PARAM_WRITE_ONLY'' \<and> (sc_Path c = n \<or> sc_Path c = NormalizePath n)) capabilities))
     (map pw_Name (sp_Parameters p)))"

definition bound_payload :: "job_type \<Rightarrow> json \<Rightarrow> (string \<times> json) list \<Rightarrow> string \<Rightarrow> SupportedCapability list \<Rightarrow> json option" where
  "bound_payload t raw kvs firmware capabilities =
     (let bound = map_put ''evidence_firmware'' (JStr firmware) (map_put ''evidence_bound'' (JBool True) kvs) in
      if t \<noteq> TypeSetParameter then Some (JObj bound)
      else case dec_SetParameterPayload raw of
        None \<Rightarrow> None
      | Some w \<Rightarrow> Some (JObj (map_put ''non_readable'' (JArr (map JStr (write_only capabilities w))) bound)))"

text \<open>
  The job is returned with its new payload. A payload that is the JSON null decodes to a nil map, on
  which the assignment panics.
\<close>

definition BindFirmware :: "faults \<Rightarrow> Job \<Rightarrow> param_db \<Rightarrow> jobs_db \<Rightarrow> (bind_error + Job) \<times> jobs_db" where
  "BindFirmware flt job pdb jdb =
     (if job_Type job \<notin> {TypeGetParameter, TypeSetParameter} then (Inr job, jdb)
      else if flt 0 \<or> flt 1 \<or> flt 2 then (Inl BindDB, jdb)
      else
        let firmware = cached_firmware (cache_of (job_DeviceID job) pdb);
            capabilities = (case find (\<lambda>r. pn_device r = job_DeviceID job) (p_names pdb) of None \<Rightarrow> [] | Some r \<Rightarrow> pn_capabilities r)
        in case job_Payload job of
          JNull \<Rightarrow> (Inl BindPanic, jdb)
        | JObj kvs \<Rightarrow>
            (if map_of kvs ''evidence_bound'' = Some (JBool True) then
               (if (case map_of kvs ''evidence_firmware'' of Some (JStr s) \<Rightarrow> s | _ \<Rightarrow> []) \<noteq> firmware
                then (Inl BindFirmwareChanged, jdb) else (Inr job, jdb))
             else if job_Type job = TypeSetParameter \<and> flt 3 then (Inl BindDB, jdb)
             else case bound_payload (job_Type job) (job_Payload job) kvs firmware capabilities of
               None \<Rightarrow> (Inl BindPayload, jdb)
             | Some raw \<Rightarrow>
                 if flt 4 then (Inl BindDB, jdb)
                 else if rows_affected (current_attempt job) (jobs jdb) \<noteq> 1 then (Inl BindNotCurrent, jdb)
                 else if flt 5 then (Inl BindDB, jdb)
                 else (Inr (job\<lparr> job_Payload := raw \<rparr>), update_jobs (current_attempt job) (\<lambda>r. r\<lparr> j_payload := raw \<rparr>) jdb))
        | _ \<Rightarrow> (Inl BindPayload, jdb))"

definition EvidenceFirmware :: "Job \<Rightarrow> string" where
  "EvidenceFirmware job =
     (case struct_members (job_Payload job) of
        None \<Rightarrow> []
      | Some kvs \<Rightarrow> (case decode_field ''evidence_firmware'' dec_string [] kvs of None \<Rightarrow> [] | Some s \<Rightarrow> s))"

end
