(* ===== verification/Gateway_Render.thy ===== *)
theory Gateway_Render
  imports Job_Verify Secret_Store Cwmp_Render
begin

text \<open>
  The gateway's job to RPC rendering (\<^verbatim>\<open>cmd/acs/dispatch.go\<close>): diagnostics triggers and polls, opening
  of secret handles, and the request each job type is sent as.
\<close>

section \<open>Diagnostics\<close>

datatype data_model_root = DataModelRootUnknown | DataModelRootDevice2 | DataModelRootIGD1
datatype diagnostic_kind = DiagnosticPing | DiagnosticTraceroute

definition DiagnosticsPrefix :: "data_model_root \<Rightarrow> diagnostic_kind \<Rightarrow> string" where
  "DiagnosticsPrefix rt kind =
     (let igd1 = (rt = DataModelRootIGD1) in
      if igd1 \<and> kind = DiagnosticTraceroute then ''InternetGatewayDevice.TraceRouteDiagnostics.''
      else if igd1 then ''InternetGatewayDevice.IPPingDiagnostics.''
      else if kind = DiagnosticTraceroute then ''Device.IP.Diagnostics.TraceRoute.''
      else ''Device.IP.Diagnostics.IPPing.'')"

definition defaultDiagPrefix :: "diagnostic_kind \<Rightarrow> string" where
  "defaultDiagPrefix kind = DiagnosticsPrefix DataModelRootDevice2 kind"

definition leafTypes :: "(string \<times> string) list" where
  "leafTypes = [(''Host'', ''xsd:string''), (''DiagnosticsState'', ''xsd:string''),
     (''NumberOfRepetitions'', ''xsd:unsignedInt''), (''NumberOfTries'', ''xsd:unsignedInt''), (''Timeout'', ''xsd:unsignedInt''),
     (''DataBlockSize'', ''xsd:unsignedInt''), (''DSCP'', ''xsd:unsignedInt''), (''MaxHopCount'', ''xsd:unsignedInt''),
     (''DownloadURL'', ''xsd:string''), (''UploadURL'', ''xsd:string''), (''TestFileLength'', ''xsd:unsignedLong'')]"

definition LeafType :: "string \<Rightarrow> string" where
  "LeafType leaf = (case map_of leafTypes leaf of None \<Rightarrow> [] | Some t \<Rightarrow> t)"

definition PingResultLeaves :: "string list" where
  "PingResultLeaves = [''SuccessCount'', ''FailureCount'', ''AverageResponseTime'', ''MinimumResponseTime'', ''MaximumResponseTime'']"

definition TracerouteResultLeaves :: "string list" where
  "TracerouteResultLeaves = [''ResponseTime'', ''RouteHopsNumberOfEntries'']"

definition prefixed :: "string \<Rightarrow> string list \<Rightarrow> string list" where
  "prefixed prefix leaves = map (\<lambda>l. prefix @ l) leaves"

definition diagIPPingPollPaths :: "string \<Rightarrow> string list" where
  "diagIPPingPollPaths prefix = prefixed prefix (''DiagnosticsState'' # PingResultLeaves)"

definition diagTraceroutePollPaths :: "string \<Rightarrow> string list" where
  "diagTraceroutePollPaths prefix = prefixed prefix (''DiagnosticsState'' # TracerouteResultLeaves)"

definition diagTR143PollPaths :: "string \<Rightarrow> string list" where
  "diagTR143PollPaths prefix = prefixed prefix [''DiagnosticsState'', ''ROMTime'', ''BOMTime'', ''EOMTime'',
     ''TestBytesReceived'', ''TestBytesSent'', ''TotalBytesReceived'', ''TotalBytesSent'',
     ''TCPOpenRequestTime'', ''TCPOpenResponseTime'']"

definition write_struct :: "ParameterWrite \<Rightarrow> ParameterValueStruct" where
  "write_struct p = \<lparr> pv_Name = pw_Name p, pv_Value = pw_Value p, pv_Type = pw_Type p \<rparr>"

definition diagnosticTrigger :: "ParameterWrite list \<Rightarrow> string \<Rightarrow> (string \<times> string) list \<Rightarrow> ParameterValueStruct list" where
  "diagnosticTrigger planned prefix pairs =
     (if planned \<noteq> [] then map write_struct planned
      else map (\<lambda>(leaf, v). \<lparr> pv_Name = prefix @ leaf, pv_Value = v, pv_Type = LeafType leaf \<rparr>) pairs @
           [\<lparr> pv_Name = prefix @ ''DiagnosticsState'', pv_Value = ''Requested'', pv_Type = LeafType ''DiagnosticsState'' \<rparr>])"

definition diagnosticPollPaths :: "string list \<Rightarrow> string list \<Rightarrow> string list" where
  "diagnosticPollPaths planned standard = (if planned \<noteq> [] then planned else standard)"

definition payload_prefix :: "json \<Rightarrow> string" where
  "payload_prefix j =
     (case struct_members j of
        None \<Rightarrow> []
      | Some kvs \<Rightarrow> (case decode_field ''prefix'' dec_string [] kvs of None \<Rightarrow> [] | Some s \<Rightarrow> s))"

definition diagnosticPayloadPrefix :: "Job \<Rightarrow> string" where
  "diagnosticPayloadPrefix job =
     (if payload_prefix (job_Payload job) \<noteq> [] then payload_prefix (job_Payload job)
      else case job_Type job of
        TypeDiagnosticsTraceroute \<Rightarrow> defaultDiagPrefix DiagnosticTraceroute
      | TypeDiagnosticsDownload \<Rightarrow> ''Device.IP.Diagnostics.DownloadDiagnostics.''
      | TypeDiagnosticsUpload \<Rightarrow> ''Device.IP.Diagnostics.UploadDiagnostics.''
      | _ \<Rightarrow> defaultDiagPrefix DiagnosticPing)"

section \<open>Secret handles\<close>

text \<open>
  The loop over the parameters: the values opened so far by handle, the secrets table, the new
  parameters in reverse. \<open>n\<close> numbers the calls of the store.
\<close>

fun open_handles ::
  "string option option \<Rightarrow> (nat \<Rightarrow> faults) \<Rightarrow> time \<Rightarrow> string \<Rightarrow> nat \<Rightarrow> ParameterWrite list \<Rightarrow> (string \<times> string) list \<Rightarrow>
   secret_row list \<Rightarrow> (secret_error + ParameterWrite list \<times> (string \<times> string) list) \<times> secret_row list" where
  "open_handles st flt now dev n [] vals rows = (Inr ([], vals), rows)"
| "open_handles st flt now dev n (p # ps) vals rows =
     (if pw_SecretHandle p = [] then
        (case open_handles st flt now dev n ps vals rows of
           (Inl e, rows') \<Rightarrow> (Inl e, rows')
         | (Inr (qs, vals'), rows') \<Rightarrow> (Inr (p # qs, vals'), rows'))
      else case map_of vals (pw_SecretHandle p) of
        Some v \<Rightarrow>
          (case open_handles st flt now dev n ps vals rows of
             (Inl e, rows') \<Rightarrow> (Inl e, rows')
           | (Inr (qs, vals'), rows') \<Rightarrow> (Inr (p\<lparr> pw_Value := v, pw_SecretHandle := [] \<rparr> # qs, vals'), rows'))
      | None \<Rightarrow>
          (case st of
             None \<Rightarrow> (Inl ErrDisabled, rows)
           | Some store \<Rightarrow>
               (case Open_secret store (flt n) now (pw_SecretHandle p) dev rows of
                  (Inl e, rows1) \<Rightarrow> (Inl e, rows1)
                | (Inr v, rows1) \<Rightarrow>
                    (case open_handles st flt now dev (Suc n) ps (map_put (pw_SecretHandle p) v vals) rows1 of
                       (Inl e, rows') \<Rightarrow> (Inl e, rows')
                     | (Inr (qs, vals'), rows') \<Rightarrow> (Inr (p\<lparr> pw_Value := v, pw_SecretHandle := [] \<rparr> # qs, vals'), rows')))))"

definition openSecretHandles ::
  "string option option \<Rightarrow> (nat \<Rightarrow> faults) \<Rightarrow> time \<Rightarrow> Job \<Rightarrow> secret_row list \<Rightarrow> (secret_error + Job) \<times> secret_row list" where
  "openSecretHandles st flt now job rows =
     (if job_Type job \<noteq> TypeSetParameter then (Inr job, rows)
      else case dec_SetParameterPayload (job_Payload job) of
        None \<Rightarrow> (Inr job, rows)
      | Some p \<Rightarrow>
          if sp_VerificationPending p then (Inr job, rows)
          else (case open_handles st flt now (job_DeviceID job) 0 (sp_Parameters p) [] rows of
                  (Inl e, rows') \<Rightarrow> (Inl e, rows')
                | (Inr (qs, vals), rows') \<Rightarrow>
                    (Inr (if vals = [] then job else job\<lparr> job_Payload := enc_SetParameterPayload (p\<lparr> sp_Parameters := qs \<rparr>) \<rparr>), rows')))"

section \<open>Requests\<close>

definition render_ping :: "string \<Rightarrow> Job \<Rightarrow> DiagnosticsPingPayload \<Rightarrow> string" where
  "render_ping rid job p =
     (let prefix = (if ping_Prefix p = [] then defaultDiagPrefix DiagnosticPing else ping_Prefix p) in
      if \<not> DiagnosticsTriggered (Some job) then
        RenderSetParameterValues rid (diagnosticTrigger (dp_Trigger (ping_Plan p)) prefix
          [(''Host'', ping_Host p), (''NumberOfRepetitions'', Itoa (NumberOfRepetitions p)), (''Timeout'', Itoa (ping_Timeout p)),
           (''DataBlockSize'', Itoa (ping_DataBlockSize p)), (''DSCP'', Itoa (ping_DSCP p))]) (job_CommandKey job)
      else RenderGetParameterValues rid (diagnosticPollPaths (dp_PollPaths (ping_Plan p)) (diagIPPingPollPaths prefix)))"

definition render_traceroute :: "string \<Rightarrow> Job \<Rightarrow> DiagnosticsTraceroutePayload \<Rightarrow> string" where
  "render_traceroute rid job p =
     (let prefix = (if trace_Prefix p = [] then defaultDiagPrefix DiagnosticTraceroute else trace_Prefix p) in
      if \<not> DiagnosticsTriggered (Some job) then
        RenderSetParameterValues rid (diagnosticTrigger (dp_Trigger (trace_Plan p)) prefix
          [(''Host'', trace_Host p), (''NumberOfTries'', Itoa (NumberOfTries p)), (''Timeout'', Itoa (trace_Timeout p)),
           (''DataBlockSize'', Itoa (trace_DataBlockSize p)), (''DSCP'', Itoa (trace_DSCP p)), (''MaxHopCount'', Itoa (MaxHopCount p))])
          (job_CommandKey job)
      else RenderGetParameterValues rid (diagnosticPollPaths (dp_PollPaths (trace_Plan p)) (diagTraceroutePollPaths prefix)))"

definition render_throughput :: "string \<Rightarrow> Job \<Rightarrow> ThroughputPayload \<Rightarrow> string" where
  "render_throughput rid job p =
     (let prefix = diagnosticPayloadPrefix job in
      if \<not> DiagnosticsTriggered (Some job) then
        (if job_Type job = TypeDiagnosticsUpload then
           let len = (if th_TestFileLength p = 0 then 1048576 else th_TestFileLength p) in
           RenderSetParameterValues rid (diagnosticTrigger (dp_Trigger (th_Plan p)) prefix
             [(''UploadURL'', th_URL p), (''TestFileLength'', FormatUint 10 len)]) (job_CommandKey job)
         else RenderSetParameterValues rid (diagnosticTrigger (dp_Trigger (th_Plan p)) prefix [(''DownloadURL'', th_URL p)]) (job_CommandKey job))
      else RenderGetParameterValues rid (diagnosticPollPaths (dp_PollPaths (th_Plan p)) (diagTR143PollPaths prefix)))"

text \<open>\<open>rid\<close> is the random envelope id.\<close>

definition renderJobRequest :: "string \<Rightarrow> Job \<Rightarrow> string option" where
  "renderJobRequest rid job =
     (case job_Type job of
        TypeSetParameter \<Rightarrow>
          map_option (\<lambda>p. if sp_VerificationPending p then RenderGetParameterValues rid (VerificationPaths p)
              else RenderSetParameterValues rid (map write_struct (sp_Parameters p)) (job_CommandKey job))
            (dec_SetParameterPayload (job_Payload job))
      | TypeGetParameter \<Rightarrow> map_option (\<lambda>p. RenderGetParameterValues rid (gp_Paths p)) (dec_GetParameterPayload (job_Payload job))
      | TypeFirmwareDownload \<Rightarrow>
          map_option (\<lambda>p. RenderDownload rid (job_CommandKey job) (fd_FileType p) (fd_URL p) (fd_Username p) (fd_Password p)
              (fd_FileSize p) (fd_TargetFilename p) (fd_DelaySeconds p)) (dec_FirmwareDownloadPayload (job_Payload job))
      | TypeDiagnosticsPing \<Rightarrow> map_option (render_ping rid job) (dec_DiagnosticsPingPayload (job_Payload job))
      | TypeDiagnosticsTraceroute \<Rightarrow> map_option (render_traceroute rid job) (dec_DiagnosticsTraceroutePayload (job_Payload job))
      | TypeDiagnosticsDownload \<Rightarrow> map_option (render_throughput rid job) (dec_ThroughputPayload (job_Payload job))
      | TypeDiagnosticsUpload \<Rightarrow> map_option (render_throughput rid job) (dec_ThroughputPayload (job_Payload job))
      | TypeAddObject \<Rightarrow>
          map_option (\<lambda>p. RenderAddObject rid (ao_ObjectPath p) (job_CommandKey job)) (dec_AddObjectPayload (job_Payload job))
      | TypeDeleteObject \<Rightarrow>
          map_option (\<lambda>p. RenderDeleteObject rid p (job_CommandKey job)) (dec_DeleteObjectPayload (job_Payload job))
      | TypeReboot \<Rightarrow> Some (RenderReboot rid (job_CommandKey job))
      | TypeFactoryReset \<Rightarrow> Some (RenderFactoryReset rid)
      | TypeScheduleInform \<Rightarrow>
          map_option (RenderScheduleInform rid (job_CommandKey job)) (dec_ScheduleInformPayload (job_Payload job))
      | TypeSetParameterAttributes \<Rightarrow>
          map_option (\<lambda>as. RenderSetParameterAttributes rid (map (\<lambda>(n, v). \<lparr> aw_Name = n, aw_Notification = v \<rparr>) as))
            (dec_SetParameterAttributesPayload (job_Payload job))
      | TypeGetParameterAttributes \<Rightarrow>
          map_option (RenderGetParameterAttributes rid) (dec_GetParameterAttributesPayload (job_Payload job))
      | TypeUpload \<Rightarrow>
          map_option (\<lambda>p. RenderUpload rid (job_CommandKey job) (up_FileType p) (up_URL p) (up_Username p) (up_Password p) (up_DelaySeconds p))
            (dec_UploadPayload (job_Payload job))
      | TypeParameterDiscovery \<Rightarrow>
          map_option (\<lambda>p. RenderGetParameterNames rid (RequestPath p) (Incremental p)) (dec_ParameterDiscoveryPayload (job_Payload job))
      | _ \<Rightarrow> None)"

section \<open>The RPC a job is sent as\<close>

datatype rpc = SetParameterValues | GetParameterValues | Download | AddObject | DeleteObject | Reboot | FactoryReset
  | ScheduleInform | SetParameterAttributes | GetParameterAttributes | Upload | GetParameterNames

fun rpc_name :: "rpc \<Rightarrow> string" where
  "rpc_name SetParameterValues = ''SetParameterValues''"
| "rpc_name GetParameterValues = ''GetParameterValues''"
| "rpc_name Download = ''Download''"
| "rpc_name AddObject = ''AddObject''"
| "rpc_name DeleteObject = ''DeleteObject''"
| "rpc_name Reboot = ''Reboot''"
| "rpc_name FactoryReset = ''FactoryReset''"
| "rpc_name ScheduleInform = ''ScheduleInform''"
| "rpc_name SetParameterAttributes = ''SetParameterAttributes''"
| "rpc_name GetParameterAttributes = ''GetParameterAttributes''"
| "rpc_name Upload = ''Upload''"
| "rpc_name GetParameterNames = ''GetParameterNames''"

text \<open>The method a job's next request has: a diagnostic is triggered and then polled, a write is sent and then read back.\<close>

definition diagnostic_rpc :: "Job \<Rightarrow> rpc" where
  "diagnostic_rpc job = (if DiagnosticsTriggered (Some job) then GetParameterValues else SetParameterValues)"

definition request_rpc :: "Job \<Rightarrow> rpc" where
  "request_rpc job =
     (case job_Type job of
        TypeSetParameter \<Rightarrow>
          (case dec_SetParameterPayload (job_Payload job) of
             Some p \<Rightarrow> if sp_VerificationPending p then GetParameterValues else SetParameterValues
           | None \<Rightarrow> SetParameterValues)
      | TypeFirmwareDownload \<Rightarrow> Download
      | TypeAddObject \<Rightarrow> AddObject
      | TypeDeleteObject \<Rightarrow> DeleteObject
      | TypeReboot \<Rightarrow> Reboot
      | TypeFactoryReset \<Rightarrow> FactoryReset
      | TypeScheduleInform \<Rightarrow> ScheduleInform
      | TypeSetParameterAttributes \<Rightarrow> SetParameterAttributes
      | TypeGetParameterAttributes \<Rightarrow> GetParameterAttributes
      | TypeUpload \<Rightarrow> Upload
      | TypeParameterDiscovery \<Rightarrow> GetParameterNames
      | TypeGetParameter \<Rightarrow> GetParameterValues
      | _ \<Rightarrow> diagnostic_rpc job)"

text \<open>A request of one method: an envelope whose body is the method's element.\<close>

definition is_request :: "rpc \<Rightarrow> string \<Rightarrow> string \<Rightarrow> bool" where
  "is_request m rid body \<longleftrightarrow>
     (\<exists>elem. body = renderEnvelope rid elem \<and> HasPrefix elem (''<cwmp:'' @ rpc_name m @ ''>'') \<and>
        HasSuffix elem (''</cwmp:'' @ rpc_name m @ ''>''))"

lemma is_requestI:
  "HasPrefix elem (''<cwmp:'' @ rpc_name m @ ''>'') \<Longrightarrow> HasSuffix elem (''</cwmp:'' @ rpc_name m @ ''>'') \<Longrightarrow>
   is_request m rid (renderEnvelope rid elem)"
  by (auto simp: is_request_def)

lemma HasSuffix_append: "HasSuffix b p \<Longrightarrow> HasSuffix (a @ b) p"
  by (auto simp: HasSuffix_iff)

lemma HasSuffix_Cons: "HasSuffix b p \<Longrightarrow> HasSuffix (c # b) p"
  by (auto simp: HasSuffix_iff intro: exI [of _ "c # _"])

lemma HasSuffix_refl: "HasSuffix p p"
  using HasSuffixI [of "[]" p] by simp

named_theorems renderers

lemmas [renderers] = RenderSetParameterValues_def RenderGetParameterValues_def RenderDownload_def RenderUpload_def
  RenderAddObject_def RenderDeleteObject_def RenderReboot_def RenderFactoryReset_def RenderScheduleInform_def
  RenderSetParameterAttributes_def RenderGetParameterAttributes_def RenderGetParameterNames_def

lemma render_is_request:
  "is_request SetParameterValues rid (RenderSetParameterValues rid ps k)"
  "is_request GetParameterValues rid (RenderGetParameterValues rid ns)"
  "is_request Download rid (RenderDownload rid k ft u us pw fs tf ds)"
  "is_request Upload rid (RenderUpload rid k ft u us pw ds)"
  "is_request AddObject rid (RenderAddObject rid p k)"
  "is_request DeleteObject rid (RenderDeleteObject rid p k)"
  "is_request Reboot rid (RenderReboot rid k)"
  "is_request FactoryReset rid (RenderFactoryReset rid)"
  "is_request ScheduleInform rid (RenderScheduleInform rid k n)"
  "is_request SetParameterAttributes rid (RenderSetParameterAttributes rid as)"
  "is_request GetParameterAttributes rid (RenderGetParameterAttributes rid ns)"
  "is_request GetParameterNames rid (RenderGetParameterNames rid p b)"
  unfolding renderers
  by (rule is_requestI; (simp add: HasPrefix_def; fail | (simp only: rpc_name.simps append_assoc append.simps;
      (rule HasSuffix_append | rule HasSuffix_refl | rule HasSuffix_Cons)+)))+

lemma render_diagnostic_is_request:
  "is_request (diagnostic_rpc job) rid (render_ping rid job p)"
  "is_request (diagnostic_rpc job) rid (render_traceroute rid job q)"
  "is_request (diagnostic_rpc job) rid (render_throughput rid job t)"
  by (simp_all add: diagnostic_rpc_def render_ping_def render_traceroute_def render_throughput_def Let_def render_is_request)

lemma renderJobRequest_rpc:
  assumes "renderJobRequest rid job = Some body"
  shows "is_request (request_rpc job) rid body"
  using assms
  by (cases "job_Type job")
    (auto simp: renderJobRequest_def request_rpc_def render_is_request render_diagnostic_is_request)

end
