(* ===== verification/Sessions.thy ===== *)
theory Sessions
  imports Go_Prelude
begin

text \<open>
  Package \<^verbatim>\<open>internal/sessions\<close>: the CWMP sessions in the table cwmp_sessions.
\<close>

datatype session_state = StateInformReceived | StateInformResponseSent | StateReadyForDispatch | StateRPCDispatched | StateClosed

definition DefaultSessionNamespace :: string where "DefaultSessionNamespace = ''urn:dslforum-org:cwmp-1-0''"

text \<open>A row of the table, which is also what \<^verbatim>\<open>Get\<close> returns.\<close>

record Session =
  s_ID :: string
  s_DeviceID :: string
  s_State :: session_state
  s_InformEventCodes :: "string list"
  s_CurrentJobID :: "string option"
  s_CWMPNamespace :: string
  s_OpenedAt :: time
  s_ClosedAt :: "time option"
  s_CloseReason :: "string option"

datatype session_error = SessDB | SessNoRows

definition IsClosed :: "Session \<Rightarrow> bool" where
  "IsClosed s \<longleftrightarrow> s_ClosedAt s \<noteq> None"

definition Get_session :: "faults \<Rightarrow> string \<Rightarrow> Session list \<Rightarrow> session_error + Session" where
  "Get_session flt sid rows =
     (if flt 0 then Inl SessDB else case find (\<lambda>s. s_ID s = sid) rows of None \<Rightarrow> Inl SessNoRows | Some s \<Rightarrow> Inr s)"

text \<open>\<open>known\<close> is the foreign key on devices, \<open>sid\<close> the fresh UUID.\<close>

definition Open_session ::
  "faults \<Rightarrow> time \<Rightarrow> string \<Rightarrow> (string \<Rightarrow> bool) \<Rightarrow> string \<Rightarrow> string list \<Rightarrow> string list \<Rightarrow> Session list \<Rightarrow>
   (session_error + Session) \<times> Session list" where
  "Open_session flt now sid known deviceID eventCodes cwmpNamespace rows =
     (let ns = (if cwmpNamespace \<noteq> [] \<and> hd cwmpNamespace \<noteq> [] then hd cwmpNamespace else DefaultSessionNamespace);
          row = \<lparr> s_ID = sid, s_DeviceID = deviceID, s_State = StateInformResponseSent, s_InformEventCodes = eventCodes,
                  s_CurrentJobID = None, s_CWMPNamespace = ns, s_OpenedAt = now, s_ClosedAt = None, s_CloseReason = None \<rparr>
      in if flt 0 \<or> \<not> known deviceID \<or> sid \<in> s_ID ` set rows then (Inl SessDB, rows)
         else (Get_session (\<lambda>n. flt (Suc n)) sid (rows @ [row]), rows @ [row]))"

definition SetCurrentJob :: "faults \<Rightarrow> string \<Rightarrow> string \<Rightarrow> Session list \<Rightarrow> (session_error + unit) \<times> Session list" where
  "SetCurrentJob flt sid jobID rows =
     (let state = (if jobID \<noteq> [] then StateRPCDispatched else StateReadyForDispatch);
          arg = (if jobID \<noteq> [] then Some jobID else None)
      in if flt 0 then (Inl SessDB, rows)
         else (Inr (), update_where (\<lambda>s. s_ID s = sid) (\<lambda>s. s\<lparr> s_CurrentJobID := arg, s_State := state \<rparr>) rows))"

definition Close_session :: "faults \<Rightarrow> time \<Rightarrow> string \<Rightarrow> string \<Rightarrow> Session list \<Rightarrow> (session_error + unit) \<times> Session list" where
  "Close_session flt now sid reason rows =
     (if flt 0 then (Inl SessDB, rows)
      else (Inr (), update_where (\<lambda>s. s_ID s = sid)
              (\<lambda>s. s\<lparr> s_State := StateClosed, s_ClosedAt := Some now, s_CloseReason := Some reason \<rparr>) rows))"

definition IsOpen :: "faults \<Rightarrow> string \<Rightarrow> Session list \<Rightarrow> session_error + bool \<times> string" where
  "IsOpen flt sid rows =
     (if flt 0 then Inl SessDB
      else case find (\<lambda>s. s_ID s = sid) rows of
        None \<Rightarrow> Inr (False, [])
      | Some s \<Rightarrow> Inr (s_ClosedAt s = None, s_DeviceID s))"

section \<open>Updates of one session\<close>

lemma Get_session_Inr: "Get_session flt sid rows = Inr s \<Longrightarrow> s \<in> set rows \<and> s_ID s = sid"
  by (auto simp: Get_session_def find_Some_iff split: if_splits option.splits)

lemma ids_SetCurrentJob [simp]: "map s_ID (snd (SetCurrentJob flt sid jid rows)) = map s_ID rows"
  by (simp add: SetCurrentJob_def Let_def map_update_where)

lemma ids_Close [simp]: "map s_ID (snd (Close_session flt now sid reason rows)) = map s_ID rows"
  by (simp add: Close_session_def map_update_where)

lemma find_SetCurrentJob:
  "fst (SetCurrentJob flt sid jid rows) = Inr () \<Longrightarrow>
   find (\<lambda>s. s_ID s = x) (snd (SetCurrentJob flt sid jid rows)) =
     map_option (\<lambda>s. if s_ID s = sid then s\<lparr> s_CurrentJobID := (if jid \<noteq> [] then Some jid else None),
         s_State := (if jid \<noteq> [] then StateRPCDispatched else StateReadyForDispatch) \<rparr> else s) (find (\<lambda>s. s_ID s = x) rows)"
  by (auto simp: SetCurrentJob_def Let_def find_update_where [where k = s_ID] split: if_splits intro!: arg_cong2 [where f = map_option])

lemma other_sessions_SetCurrentJob:
  "filter (\<lambda>s. s_ID s \<noteq> sid) (snd (SetCurrentJob flt sid jid rows)) = filter (\<lambda>s. s_ID s \<noteq> sid) rows"
  by (induction rows) (auto simp: SetCurrentJob_def Let_def update_where_def)

lemma other_sessions_Close:
  "filter (\<lambda>s. s_ID s \<noteq> sid) (snd (Close_session flt now sid reason rows)) = filter (\<lambda>s. s_ID s \<noteq> sid) rows"
  by (induction rows) (auto simp: Close_session_def update_where_def)

end
