(* ===== verification/Gateway_Complete.thy ===== *)
theory Gateway_Complete
  imports Gateway_Render Onboarding_Reconcile Sessions
begin

text \<open>
  What the gateway does with a response of the device (\<^verbatim>\<open>cmd/acs/dispatch.go\<close> and
  \<^verbatim>\<open>cmd/acs/discovery.go\<close>): the job the session has in flight is completed, failed, parked or
  requeued, the parameter cache and the evidence tables are updated, and follow-up jobs are queued.
  Logs, metrics and captures are left out.
\<close>

section \<open>The gateway's state\<close>

text \<open>Calls into packages that are not modelled, in order.\<close>

datatype call = MarkRebooting string | UpdateDataModelRoot string string | RefreshGatewayLink string
  | RecordWiFiInsights string "ParameterValueStruct list" | PublishCellularStateChanges string "ParameterValueStruct list"
  | PublishFault string string string string | PublishRecoveries string job_type

record audit_row =
  ar_device :: string
  ar_action :: string
  ar_detail :: "(string \<times> json) list"

record acs =
  acs_gw :: gateway
  acs_params :: param_db
  acs_sessions :: "Session list"
  acs_secrets :: "secret_row list"
  acs_audit :: "audit_row list"
  acs_calls :: "call list"

text \<open>
  What a request reads from outside the state. The \<open>n\<close>-th repository call of a request has the
  faults \<open>gd_flt n\<close> and, when it inserts a row, the fresh values \<open>gd_env n\<close>. \<open>gd_tr143\<close> is the
  result \<^verbatim>\<open>computeTR143Result\<close> derives from the polled values, with its byte count and rate.
\<close>

record gdeps =
  gd_now :: time
  gd_flt :: "nat \<Rightarrow> faults"
  gd_env :: "nat \<Rightarrow> env"
  gd_ckid :: string
  gd_sid :: nat
  gd_tmfEvents :: bool
  gd_tr143 :: "ParameterValueStruct list \<Rightarrow> string \<Rightarrow> bool \<Rightarrow> json \<times> int \<times> int"
  gd_perr :: "param_error \<Rightarrow> string"

definition jobs_of :: "acs \<Rightarrow> jobs_db" where
  "jobs_of a = gw_jobs (acs_gw a)"

definition set_jobs :: "jobs_db \<Rightarrow> acs \<Rightarrow> acs" where
  "set_jobs jdb a = a\<lparr> acs_gw := (acs_gw a)\<lparr> gw_jobs := jdb \<rparr> \<rparr>"

definition on_jobs :: "(jobs_db \<Rightarrow> 'r \<times> jobs_db) \<Rightarrow> acs \<Rightarrow> 'r \<times> acs" where
  "on_jobs f a = (case f (jobs_of a) of (r, jdb) \<Rightarrow> (r, set_jobs jdb a))"

definition run_jobs :: "(jobs_db \<Rightarrow> 'r \<times> jobs_db) \<Rightarrow> acs \<Rightarrow> acs" where
  "run_jobs f a = snd (on_jobs f a)"

definition call :: "call \<Rightarrow> acs \<Rightarrow> acs" where
  "call c a = a\<lparr> acs_calls := acs_calls a @ [c] \<rparr>"

text \<open>\<^verbatim>\<open>auditor.Record\<close>; an error is only logged.\<close>

definition audit :: "gdeps \<Rightarrow> string \<Rightarrow> string \<Rightarrow> (string \<times> json) list \<Rightarrow> acs \<Rightarrow> acs" where
  "audit d dev action detail a =
     (if gd_flt d 0 0 then a
      else a\<lparr> acs_audit := acs_audit a @ [\<lparr> ar_device = dev, ar_action = action, ar_detail = detail \<rparr>] \<rparr>)"

definition job_fields :: "Job \<Rightarrow> (string \<times> json) list" where
  "job_fields job = [(''job_id'', JStr (job_ID job)), (''command_key'', JStr (job_CommandKey job)),
     (''type'', JStr (job_type_name (job_Type job)))]"

definition enc_GetParameterPayload :: "string list \<Rightarrow> json" where
  "enc_GetParameterPayload paths = JObj [(''paths'', JArr (map JStr paths))]"

section \<open>Outcomes\<close>

definition auditFailure :: "gdeps \<Rightarrow> string \<Rightarrow> Job \<Rightarrow> string \<Rightarrow> string \<Rightarrow> acs \<Rightarrow> acs" where
  "auditFailure d dev job code msg =
     audit d dev ''JobFailed'' (job_fields job @ [(''fault_code'', JStr code), (''fault_string'', JStr msg)])"

definition fail_job :: "gdeps \<Rightarrow> Job \<Rightarrow> string \<Rightarrow> string \<Rightarrow> acs \<Rightarrow> acs" where
  "fail_job d job code msg = run_jobs (MarkFailed (gd_flt d 1) (gd_now d) (job_ID job) code msg)"

definition markJobSuccess :: "gdeps \<Rightarrow> string \<Rightarrow> Job \<Rightarrow> acs \<Rightarrow> acs" where
  "markJobSuccess d dev job a =
     (let a1 = audit d dev ''JobSucceeded'' (job_fields job) (run_jobs (MarkSuccess (gd_flt d 1) (gd_now d) (job_ID job)) a)
      in if job_Type job \<in> {TypeReboot, TypeFactoryReset} then call (MarkRebooting dev) a1 else a1)"

definition success_detail :: "gdeps \<Rightarrow> Job \<Rightarrow> json \<Rightarrow> acs \<Rightarrow> acs" where
  "success_detail d job detail = run_jobs (MarkSuccessWithDetail (gd_flt d 1) (gd_now d) (job_ID job) detail)"

definition markUnexpectedResponse :: "gdeps \<Rightarrow> string \<Rightarrow> Job \<Rightarrow> acs \<Rightarrow> acs" where
  "markUnexpectedResponse d dev job a =
     (let msg = ''response did not match the RPC that was sent'' in auditFailure d dev job [] msg (fail_job d job [] msg a))"

definition publishTMFFault :: "gdeps \<Rightarrow> string \<Rightarrow> string \<Rightarrow> string \<Rightarrow> string \<Rightarrow> acs \<Rightarrow> acs" where
  "publishTMFFault d dev jid code message a = (if gd_tmfEvents d then call (PublishFault dev jid code message) a else a)"

section \<open>The parameter cache\<close>

definition GatewayInfoPrefix :: string where "GatewayInfoPrefix = ''Device.GatewayInfo.''"

definition GatewayInfoPaths :: "string list" where
  "GatewayInfoPaths = [''Device.GatewayInfo.ManufacturerOUI'', ''Device.GatewayInfo.ProductClass'', ''Device.GatewayInfo.SerialNumber'']"

definition hasGatewayInfo :: "ParameterValueStruct list \<Rightarrow> bool" where
  "hasGatewayInfo = list_ex (\<lambda>p. HasPrefix (pv_Name p) GatewayInfoPrefix)"

definition value_map :: "ParameterValueStruct list \<Rightarrow> (string \<times> string) list" where
  "value_map list = foldl (\<lambda>m v. map_put (pv_Name v) (pv_Value v) m) [] list"

definition upsert_values :: "gdeps \<Rightarrow> string \<Rightarrow> (string \<times> CachedValue) list \<Rightarrow> acs \<Rightarrow> unit param_result \<times> acs" where
  "upsert_values d dev values a =
     (case Upsert (gd_flt d 2) (gd_env d 2) (gd_ckid d) dev values (acs_params a, jobs_of a) of
        (res, (pdb, jdb)) \<Rightarrow> (res, set_jobs jdb (a\<lparr> acs_params := pdb \<rparr>)))"

definition cacheParameterValues :: "gdeps \<Rightarrow> string \<Rightarrow> ParameterValueStruct list \<Rightarrow> string \<Rightarrow> acs \<Rightarrow> acs" where
  "cacheParameterValues d dev list source a =
     (if list = [] then a
      else
        let values = foldl (\<lambda>m p. map_put (pv_Name p)
              \<lparr> cv_Value = pv_Value p, cv_Type = [], cv_UpdatedAt = gd_now d, cv_Source = source \<rparr> m) [] list
        in case upsert_values d dev values a of
          (Inl _, a1) \<Rightarrow> a1
        | (Inr _, a1) \<Rightarrow>
            let a2 = (if gd_tmfEvents d then call (PublishCellularStateChanges dev list) a1 else a1)
            in if hasGatewayInfo list then call (RefreshGatewayLink dev) a2 else a2)"

section \<open>Diagnostics\<close>

datatype diagStateClass = diagPending | diagComplete | diagFailed

definition classifyDiagnosticsState :: "string \<Rightarrow> diagStateClass" where
  "classifyDiagnosticsState state =
     (if state \<in> {'''', ''Requested'', ''None''} then diagPending
      else if state \<in> {''Complete'', ''Completed''} then diagComplete else diagFailed)"

definition paramValue :: "ParameterValueStruct list \<Rightarrow> string \<Rightarrow> string" where
  "paramValue list name = (case find (\<lambda>p. pv_Name p = name) list of None \<Rightarrow> [] | Some p \<Rightarrow> pv_Value p)"

definition diagnosticsState :: "ParameterValueStruct list \<Rightarrow> string \<Rightarrow> string" where
  "diagnosticsState list prefix = paramValue list (prefix @ ''DiagnosticsState'')"

definition awaitDiagnostic :: "gdeps \<Rightarrow> Job \<Rightarrow> acs \<Rightarrow> acs" where
  "awaitDiagnostic d job =
     (if DiagnosticsExpired (Some job) (gd_now d) \<or> job_Attempts job \<ge> job_MaxAttempts job then
        run_jobs (MarkTimeout (gd_flt d 1) (gd_now d) (job_ID job)
          (if job_Attempts job \<ge> job_MaxAttempts job
           then ''diagnostic did not complete within '' @ Itoa (job_MaxAttempts job) @ '' attempts''
           else ''diagnostic did not complete by its deadline''))
      else run_jobs (MarkAwaitingDiagnostics (gd_flt d 1) (gd_now d) job (DiagnosticsWindow (Some job))))"

definition markTR143Success :: "gdeps \<Rightarrow> string \<Rightarrow> Job \<Rightarrow> ParameterValueStruct list \<Rightarrow> string \<Rightarrow> bool \<Rightarrow> acs \<Rightarrow> acs" where
  "markTR143Success d dev job list prefix upload a =
     (case gd_tr143 d list prefix upload of
        (result, bytes, bps) \<Rightarrow>
          audit d dev ''JobSucceeded'' (job_fields job @ [(''test_bytes'', JNum (Itoa bytes)), (''throughput_bps'', JNum (Itoa bps))])
            (success_detail d job result a))"

definition completeDiagnostic :: "gdeps \<Rightarrow> string \<Rightarrow> Job \<Rightarrow> InboundBody \<Rightarrow> acs \<Rightarrow> acs" where
  "completeDiagnostic d dev job body a =
     (if \<not> DiagnosticsTriggered (Some job) then
        (if b_SetParameterValuesResponse body = None then markUnexpectedResponse d dev job a else awaitDiagnostic d job a)
      else case b_GetParameterValuesResponse body of
        None \<Rightarrow> markUnexpectedResponse d dev job a
      | Some list \<Rightarrow>
          let a1 = cacheParameterValues d dev list SourceGetValues a;
              prefix = diagnosticPayloadPrefix job;
              state = diagnosticsState list prefix
          in case classifyDiagnosticsState state of
            diagPending \<Rightarrow> awaitDiagnostic d job a1
          | diagComplete \<Rightarrow>
              if job_Type job \<in> {TypeDiagnosticsDownload, TypeDiagnosticsUpload}
              then markTR143Success d dev job list prefix (job_Type job = TypeDiagnosticsUpload) a1
              else markJobSuccess d dev job a1
          | diagFailed \<Rightarrow> auditFailure d dev job [] state (fail_job d job [] state a1))"

section \<open>Parameter discovery\<close>

definition rootDevice2 :: string where "rootDevice2 = ''Device.''"
definition rootIGD1 :: string where "rootIGD1 = ''InternetGatewayDevice.''"

fun disc_text :: "disc_error \<Rightarrow> string" where
  "disc_text (OutsideSubtree path) = ''discovery returned path outside requested subtree: '' @ path"
| "disc_text PathTooLong = ''discovery path exceeds 1024 bytes''"
| "disc_text DepthLimit = ''discovery exceeds depth limit''"
| "disc_text WalkLimits = ''discovery exceeds bounded walk limits''"
| "disc_text NoObject = ''discovery has no object in progress to skip''"
| "disc_text TooManySkipped = ''discovery skipped more than '' @ Itoa (int DiscoveryMaxSkipped) @ '' objects the device could not serve''"

definition GatewayInfoReadPaths :: "(string \<times> bool) list \<Rightarrow> string list" where
  "GatewayInfoReadPaths names =
     (if map_of names ''Device.GatewayInfo.SerialNumber'' = None then []
      else filter (\<lambda>path. map_of names path \<noteq> None) GatewayInfoPaths)"

definition lastPathSegment :: "string \<Rightarrow> string" where
  "lastPathSegment path = rev (takeWhile (\<lambda>c. c \<noteq> CHR ''.'') (rev path))"

definition ssidLeafRE :: rx where
  "ssidLeafRE = rx_seq [rx_lit ''Device.WiFi.SSID.'', rx_plus rx_digit, rx_lit ''.SSID'']"

definition apRefRE :: rx where
  "apRefRE = rx_seq [rx_lit ''Device.WiFi.AccessPoint.'', rx_plus rx_digit, rx_lit ''.SSIDReference'']"

definition guestRefRE :: rx where
  "guestRefRE = rx_seq [rx_lit ''Device.WiFi.X_'', rx_plus (RSet (\<lambda>c. c \<noteq> CHR ''.'')), rx_lit ''.'', rx_plus rx_digit, rx_lit ''.SSIDReference'']"

definition wifi_read_path :: "string \<Rightarrow> bool" where
  "wifi_read_path path =
     (let leaf = lastPathSegment path in
      if \<not> HasPrefix path ''Device.WiFi.'' \<or> HasSuffix path ''.'' then False
      else if Contains path ''.AssociatedDevice.'' \<or> Contains path ''.DataElements.'' then False
      else if rx_match ssidLeafRE path \<or> rx_match apRefRE path \<or> rx_match guestRefRE path then True
      else if HasPrefix path ''Device.WiFi.SSID.'' \<and>
        (leaf \<in> {''Enable'', ''LowerLayers'', ''Status''} \<or> HasSuffix leaf ''IsGuestSSID'') then True
      else if HasPrefix path ''Device.WiFi.AccessPoint.'' \<and>
        (leaf \<in> {''SSIDAdvertisementEnabled'', ''Enable''} \<or> HasSuffix path ''.Security.ModeEnabled'' \<or>
         HasSuffix path ''.Security.ModesSupported'') then True
      else HasPrefix path ''Device.WiFi.Radio.'' \<and> leaf \<in> {''OperatingFrequencyBand'', ''Channel''})"

definition WiFiNetworkReadPaths :: "(string \<times> bool) list \<Rightarrow> string list" where
  "WiFiNetworkReadPaths names = sort (filter wifi_read_path (map fst names))"

definition queue_read :: "gdeps \<Rightarrow> nat \<Rightarrow> string \<Rightarrow> string list \<Rightarrow> string \<Rightarrow> acs \<Rightarrow> acs" where
  "queue_read d n dev paths creator a =
     run_jobs (Create (gd_flt d n) (gd_env d n) [] dev TypeGetParameter (enc_GetParameterPayload paths) creator) a"

definition queueGatewayInfoRead :: "gdeps \<Rightarrow> string \<Rightarrow> (string \<times> bool) list \<Rightarrow> acs \<Rightarrow> acs" where
  "queueGatewayInfoRead d dev names a =
     (let paths = GatewayInfoReadPaths names in if paths = [] then a else queue_read d 4 dev paths ''system:gateway-info'' a)"

definition enc_discoveryResultDetail :: "string \<Rightarrow> nat \<Rightarrow> nat \<Rightarrow> string list \<Rightarrow> json" where
  "enc_discoveryResultDetail rt n w skipped = JObj ([(''root'', JStr rt), (''parameter_count'', JNum (Itoa (int n))),
     (''writable_count'', JNum (Itoa (int w)))] @ enc_opt_list ''skipped'' skipped)"

definition finishParameterDiscovery ::
  "gdeps \<Rightarrow> string \<Rightarrow> Job \<Rightarrow> ParameterDiscoveryPayload \<Rightarrow> (string \<times> bool) list \<Rightarrow> acs \<Rightarrow> acs" where
  "finishParameterDiscovery d dev job payload names a =
     (let writable = length (filter snd names);
          snapshot = \<lparr> ds_ExpectedFirmware = disc_Firmware payload, ds_CommandKey = job_CommandKey job, ds_Protocol = ''CWMP'',
            ds_Root = Root payload, ds_Names = names, ds_Capabilities = [] \<rparr>
      in case SaveDiscovery (gd_flt d 5) (gd_now d) (gd_sid d) dev snapshot (acs_params a) of
        (Inl e, pdb) \<Rightarrow>
          let a1 = fail_job d job [] ''failed to persist discovery snapshot'' (a\<lparr> acs_params := pdb \<rparr>)
          in if e = ErrFirmwareChanged
             then run_jobs (QueueDiscoveryIfNeeded (gd_flt d 6) (gd_env d 6) (sql_firmware (cache_of dev (acs_params a1))) dev) a1
             else a1
      | (Inr _, pdb) \<Rightarrow>
          let a1 = call (UpdateDataModelRoot dev (if Root payload = rootIGD1 then ''IGD1'' else ''DEVICE2'')) (a\<lparr> acs_params := pdb \<rparr>);
              a2 = success_detail d job (enc_discoveryResultDetail (Root payload) (length names) writable (Skipped payload)) a1;
              a3 = audit d dev ''ParameterDiscoveryCompleted''
                [(''job_id'', JStr (job_ID job)), (''command_key'', JStr (job_CommandKey job)), (''root'', JStr (Root payload)),
                 (''parameter_count'', JNum (Itoa (int (length names)))), (''writable_count'', JNum (Itoa (int writable))),
                 (''skipped'', if Skipped payload = [] then JNull else JArr (map JStr (Skipped payload)))] a2
          in if Root payload = rootDevice2 then
               let paths = WiFiNetworkReadPaths names;
                   a4 = (if paths = [] then a3 else queue_read d 3 dev paths ''system:wifi-state'' a3)
               in queueGatewayInfoRead d dev names a4
             else a3)"

definition finishSubtreeMerge ::
  "gdeps \<Rightarrow> string \<Rightarrow> Job \<Rightarrow> ParameterDiscoveryPayload \<Rightarrow> (string \<times> bool) list \<Rightarrow> acs \<Rightarrow> acs" where
  "finishSubtreeMerge d dev job payload names a =
     (case MergeDiscoveredSubtree (gd_flt d 5) dev (Root payload) names (acs_params a) of
        (Inl e, pdb) \<Rightarrow> fail_job d job [] (''failed to merge discovered subtree: '' @ gd_perr d e) (a\<lparr> acs_params := pdb \<rparr>)
      | (Inr _, pdb) \<Rightarrow> success_detail d job
          (enc_discoveryResultDetail (Root payload) (length names) (length (filter snd names)) []) (a\<lparr> acs_params := pdb \<rparr>))"

definition requeue_walk :: "gdeps \<Rightarrow> Job \<Rightarrow> ParameterDiscoveryPayload \<Rightarrow> acs \<Rightarrow> acs" where
  "requeue_walk d job payload = run_jobs (RequeueDiscovery (gd_flt d 1) (gd_now d) job (enc_ParameterDiscoveryPayload payload))"

definition skipDiscoveryObject :: "gdeps \<Rightarrow> string \<Rightarrow> Job \<Rightarrow> ParameterDiscoveryPayload \<Rightarrow> acs \<Rightarrow> acs" where
  "skipDiscoveryObject d dev job payload a =
     (case SkipDiscoveryCursor payload of
        (payload', Inl e) \<Rightarrow> fail_job d job [] (disc_text e) a
      | (payload', Inr (finished_walk, skipped)) \<Rightarrow>
          if finished_walk then finishParameterDiscovery d dev job payload' (Names payload') a
          else requeue_walk d job payload' a)"

text \<open>An empty answer: the job fails and one walk of the other root is queued.\<close>

definition fallback_payload :: "ParameterDiscoveryPayload \<Rightarrow> ParameterDiscoveryPayload" where
  "fallback_payload p = \<lparr> Root = FallbackRoot p, FallbackRoot = [], IsFallback = True, Incremental = Incremental p, Cursor = [],
     Pending = [], Visited = [], Names = [], Skipped = [], Retried = [], disc_Firmware = disc_Firmware p, Merge = False \<rparr>"

definition discovery_empty :: "gdeps \<Rightarrow> string \<Rightarrow> Job \<Rightarrow> ParameterDiscoveryPayload \<Rightarrow> SoapFault option \<Rightarrow> acs \<Rightarrow> acs" where
  "discovery_empty d dev job payload fault a =
     (let detail = (if fault \<noteq> None then CWMPMessage fault else ''device returned no parameters under '' @ Root payload);
          a1 = fail_job d job [] detail a
      in if IsFallback payload \<or> FallbackRoot payload = [] \<or> Cursor payload \<noteq> [] then a1
         else case on_jobs (CreateWithMaxAttempts (gd_flt d 3) (gd_env d 3) [] dev TypeParameterDiscovery
                (enc_ParameterDiscoveryPayload (fallback_payload payload)) ''system:bootstrap-discovery'' (int DiscoveryMaxObjects)) a1 of
           (Inl _, a2) \<Rightarrow> a2
         | (Inr fallback, a2) \<Rightarrow>
             run_jobs (RecordDiscoveryFallback (gd_flt d 4) (gd_now d) (job_ID job) (job_CommandKey fallback)) a2)"

text \<open>Go ranges over the map in an arbitrary order; the list is one of them.\<close>

definition writable_map :: "ParameterInfoStruct list \<Rightarrow> (string \<times> bool) list" where
  "writable_map list = foldl (\<lambda>m p. map_put (pi_Name p) (pi_Writable p = ''1'' \<or> pi_Writable p = ''true'') m) [] list"

definition completeParameterDiscovery :: "gdeps \<Rightarrow> string \<Rightarrow> Job \<Rightarrow> InboundBody \<Rightarrow> acs \<Rightarrow> acs" where
  "completeParameterDiscovery d dev job body a =
     (case dec_ParameterDiscoveryPayload (job_Payload job) of
        None \<Rightarrow> a
      | Some payload \<Rightarrow>
          if Incremental payload \<and> Cursor payload \<noteq> [] \<and> b_Fault body \<noteq> None then skipDiscoveryObject d dev job payload a
          else case b_GetParameterNamesResponse body of
            None \<Rightarrow> discovery_empty d dev job payload (b_Fault body) a
          | Some list \<Rightarrow>
              if b_Fault body \<noteq> None \<or> list = [] \<and> Cursor payload = [] then discovery_empty d dev job payload (b_Fault body) a
              else if Merge payload then finishSubtreeMerge d dev job payload (writable_map list) a
              else if Incremental payload then
                (case AdvanceDiscovery payload (writable_map list) of
                   (payload', Inl e) \<Rightarrow> fail_job d job [] (disc_text e) a
                 | (payload', Inr walk_done) \<Rightarrow>
                     if \<not> walk_done then requeue_walk d job payload' a
                     else finishParameterDiscovery d dev job payload' (Names payload') a)
              else finishParameterDiscovery d dev job payload (writable_map list) a)"

section \<open>Completing a job\<close>

definition enc_Verification :: "Verification \<Rightarrow> json" where
  "enc_Verification v = JObj [(''matched'', JArr (map JStr (v_Matched v))), (''mismatched'', JArr (map JStr (v_Mismatched v))),
     (''missing'', JArr (map JStr (v_Missing v))), (''skipped'', JArr (map JStr (v_Skipped v)))]"

definition record_operation ::
  "gdeps \<Rightarrow> string \<Rightarrow> Job \<Rightarrow> string \<Rightarrow> bool \<Rightarrow> string list \<Rightarrow> json \<Rightarrow> acs \<Rightarrow> unit param_result \<times> acs" where
  "record_operation d dev job operation success paths detail a =
     (case RecordOperation (gd_flt d 5) (gd_now d) dev (job_CommandKey job) operation success paths detail
             (Some (EvidenceFirmware job)) (acs_params a) of
        (res, pdb) \<Rightarrow> (res, a\<lparr> acs_params := pdb \<rparr>))"

definition verified :: "Verification \<Rightarrow> bool" where
  "verified check \<longleftrightarrow> v_Mismatched check = [] \<and> v_Missing check = [] \<and> v_Matched check \<noteq> []"

definition complete_readback ::
  "gdeps \<Rightarrow> string \<Rightarrow> Job \<Rightarrow> SetParameterPayload \<Rightarrow> ParameterValueStruct list \<Rightarrow> acs \<Rightarrow> acs" where
  "complete_readback d dev job payload list a =
     (let check = CompareReadback payload (value_map list); success = verified check
      in case record_operation d dev job ''WRITE'' success (VerificationPaths payload) (enc_Verification check) a of
        (Inl _, a1) \<Rightarrow> fail_job d job ''EVIDENCE_FAILED'' ''failed to persist write verification'' a1
      | (Inr _, a1) \<Rightarrow>
          let a2 = cacheParameterValues d dev list SourceGetValues a1
          in if \<not> success then fail_job d job ''READBACK_MISMATCH'' ''readback did not confirm every readable parameter'' a2
             else markJobSuccess d dev job a2)"

definition written_value :: "gdeps \<Rightarrow> ParameterWrite \<Rightarrow> CachedValue" where
  "written_value d p = \<lparr> cv_Value = (if pw_SecretHandle p \<noteq> [] then SecretRedacted else pw_Value p), cv_Type = pw_Type p,
     cv_UpdatedAt = gd_now d, cv_Source = SourceSetValues \<rparr>"

definition complete_write :: "gdeps \<Rightarrow> string \<Rightarrow> Job \<Rightarrow> acs \<Rightarrow> acs" where
  "complete_write d dev job a =
     (let payload = dec_SetParameterPayload (job_Payload job) in
      if (case payload of None \<Rightarrow> False | Some p \<Rightarrow> sp_Verify p \<and> VerificationPaths p \<noteq> []) then
        (case on_jobs (BeginReadback (gd_flt d 3) (gd_now d) job (the payload)) a of
           (Inl _, a1) \<Rightarrow> fail_job d job ''READBACK_QUEUE_FAILED'' ''failed to queue verification'' a1
         | (Inr _, a1) \<Rightarrow> a1)
      else
        let a1 = markJobSuccess d dev job a
        in case payload of
          None \<Rightarrow> a1
        | Some p \<Rightarrow>
            if sp_Parameters p = [] then a1
            else queue_read d 3 dev (map pw_Name (sp_Parameters p)) ''system:confirm''
              (snd (upsert_values d dev (foldl (\<lambda>m w. map_put (pw_Name w) (written_value d w) m) [] (sp_Parameters p)) a1)))"

definition completeSetParameter :: "gdeps \<Rightarrow> string \<Rightarrow> Job \<Rightarrow> InboundBody \<Rightarrow> acs \<Rightarrow> acs" where
  "completeSetParameter d dev job body a =
     (if b_SetParameterValuesResponse body = None then
        (case (dec_SetParameterPayload (job_Payload job), b_GetParameterValuesResponse body) of
           (Some payload, Some list) \<Rightarrow>
             if sp_VerificationPending payload then complete_readback d dev job payload list a
             else markUnexpectedResponse d dev job a
         | _ \<Rightarrow> markUnexpectedResponse d dev job a)
      else complete_write d dev job a)"

definition wifiInsightsCreatedBy :: string where "wifiInsightsCreatedBy = ''system:wifi-insights''"

definition completeGetParameter :: "gdeps \<Rightarrow> string \<Rightarrow> Job \<Rightarrow> InboundBody \<Rightarrow> acs \<Rightarrow> acs" where
  "completeGetParameter d dev job body a =
     (case b_GetParameterValuesResponse body of
        None \<Rightarrow> markUnexpectedResponse d dev job a
      | Some list \<Rightarrow>
          if (case dec_GetParameterPayload (job_Payload job) of
                None \<Rightarrow> True | Some read \<Rightarrow> MissingReadPaths (gp_Paths read) (value_map list) \<noteq> [])
          then fail_job d job ''PARTIAL_READ'' ''device omitted requested readable parameters'' a
          else
            let a1 = markJobSuccess d dev job a
            in if job_CreatedBy job = wifiInsightsCreatedBy then call (RecordWiFiInsights dev list) a1
               else
                 let a2 = cacheParameterValues d dev list SourceGetValues a1; paths = map pv_Name list
                 in if paths = [] then a2
                    else snd (record_operation d dev job ''READ'' True paths (JObj [(''protocol'', JStr ''CWMP'')]) a2))"

definition attribute_detail :: "ParameterAttributeStruct list \<Rightarrow> json" where
  "attribute_detail list = JObj (foldl (\<lambda>m p. map_put (pa_Name p) (JObj
     [(''access_list'', if pa_AccessList p = [] then JNull else JArr (map JStr (pa_AccessList p))),
     (''notification'', JNum (Itoa (pa_Notification p)))]) m) [] list)"

definition expect :: "gdeps \<Rightarrow> string \<Rightarrow> Job \<Rightarrow> 'x option \<Rightarrow> ('x \<Rightarrow> acs \<Rightarrow> acs) \<Rightarrow> acs \<Rightarrow> acs" where
  "expect d dev job resp f a = (case resp of None \<Rightarrow> markUnexpectedResponse d dev job a | Some x \<Rightarrow> f x a)"

text \<open>The response of a job other than a discovery, and not a fault.\<close>

definition complete_response :: "gdeps \<Rightarrow> string \<Rightarrow> Job \<Rightarrow> InboundBody \<Rightarrow> acs \<Rightarrow> acs" where
  "complete_response d dev job body =
     (let transfer = run_jobs (MarkAwaitingTransferComplete (gd_flt d 1) (gd_now d) (job_ID job)) in
      case job_Type job of
        TypeSetParameter \<Rightarrow> completeSetParameter d dev job body
      | TypeGetParameter \<Rightarrow> completeGetParameter d dev job body
      | TypeFirmwareDownload \<Rightarrow> expect d dev job (b_DownloadResponse body) (\<lambda>_. transfer)
      | TypeUpload \<Rightarrow> expect d dev job (b_UploadResponse body) (\<lambda>_. transfer)
      | TypeDiagnosticsPing \<Rightarrow> completeDiagnostic d dev job body
      | TypeDiagnosticsTraceroute \<Rightarrow> completeDiagnostic d dev job body
      | TypeDiagnosticsDownload \<Rightarrow> completeDiagnostic d dev job body
      | TypeDiagnosticsUpload \<Rightarrow> completeDiagnostic d dev job body
      | TypeAddObject \<Rightarrow> expect d dev job (b_AddObjectResponse body) (\<lambda>(n, _) a.
          audit d dev ''JobSucceeded'' (job_fields job @ [(''instance_number'', JNum (Itoa n))])
            (success_detail d job (JObj [(''instance_number'', JNum (Itoa n))]) a))
      | TypeDeleteObject \<Rightarrow> expect d dev job (b_DeleteObjectResponse body) (\<lambda>_. markJobSuccess d dev job)
      | TypeReboot \<Rightarrow> expect d dev job (b_RebootResponse body) (\<lambda>_. markJobSuccess d dev job)
      | TypeFactoryReset \<Rightarrow> expect d dev job (b_FactoryResetResponse body) (\<lambda>_. markJobSuccess d dev job)
      | TypeScheduleInform \<Rightarrow> expect d dev job (b_ScheduleInformResponse body) (\<lambda>_. markJobSuccess d dev job)
      | TypeSetParameterAttributes \<Rightarrow> expect d dev job (b_SetParameterAttributesResponse body) (\<lambda>_. markJobSuccess d dev job)
      | TypeGetParameterAttributes \<Rightarrow> expect d dev job (b_GetParameterAttributesResponse body)
          (\<lambda>list. success_detail d job (attribute_detail list))
      | _ \<Rightarrow> (\<lambda>a. a))"

definition completeJob :: "gdeps \<Rightarrow> string \<Rightarrow> string \<Rightarrow> InboundBody \<Rightarrow> acs \<Rightarrow> acs" where
  "completeJob d dev jid body a =
     (case ByID (gd_flt d 7) jid (jobs_of a) of
        Inl _ \<Rightarrow> a
      | Inr job \<Rightarrow>
          if job_DeviceID job \<noteq> dev \<or> job_Status job \<noteq> StatusRPCSent then a
          else if job_Type job = TypeParameterDiscovery then completeParameterDiscovery d dev job body a
          else if b_Fault body \<noteq> None then
            let code = CWMPCode (b_Fault body); msg = CWMPMessage (b_Fault body)
            in publishTMFFault d dev (job_ID job) code msg (auditFailure d dev job code msg (fail_job d job code msg a))
          else complete_response d dev job body
            (if gd_tmfEvents d then call (PublishRecoveries dev (job_Type job)) a else a))"

section \<open>The parts of the state\<close>

lemma jobs_of_simps [simp]:
  "jobs_of (set_jobs jdb a) = jdb" "jobs_of (call c a) = jobs_of a" "jobs_of (audit d dev act det a) = jobs_of a"
  "jobs_of (a\<lparr> acs_params := pdb \<rparr>) = jobs_of a" "jobs_of (run_jobs f a) = snd (f (jobs_of a))"
  "fst (on_jobs f a) = fst (f (jobs_of a))" "jobs_of (snd (on_jobs f a)) = snd (f (jobs_of a))"
  by (simp_all add: jobs_of_def set_jobs_def call_def audit_def run_jobs_def on_jobs_def split_beta)

lemma acs_params_simps [simp]:
  "acs_params (set_jobs jdb a) = acs_params a" "acs_params (call c a) = acs_params a" "acs_params (audit d dev act det a) = acs_params a"
  "acs_params (run_jobs f a) = acs_params a" "acs_params (snd (on_jobs g a)) = acs_params a"
  by (simp_all add: set_jobs_def call_def audit_def run_jobs_def on_jobs_def split_beta)

lemma acs_sessions_simps [simp]:
  "acs_sessions (set_jobs jdb a) = acs_sessions a" "acs_sessions (call c a) = acs_sessions a" "acs_sessions (audit d dev act det a) = acs_sessions a"
  "acs_sessions (run_jobs f a) = acs_sessions a" "acs_sessions (snd (on_jobs g a)) = acs_sessions a"
  by (simp_all add: set_jobs_def call_def audit_def run_jobs_def on_jobs_def split_beta)

lemma acs_secrets_simps [simp]:
  "acs_secrets (set_jobs jdb a) = acs_secrets a" "acs_secrets (call c a) = acs_secrets a" "acs_secrets (audit d dev act det a) = acs_secrets a"
  "acs_secrets (run_jobs f a) = acs_secrets a" "acs_secrets (snd (on_jobs g a)) = acs_secrets a"
  by (simp_all add: set_jobs_def call_def audit_def run_jobs_def on_jobs_def split_beta)

end
