(* ===== verification/Gateway_Confined.thy ===== *)
theory Gateway_Confined
  imports Gateway_Complete
begin

text \<open>
  Completing a job changes the jobs of the device that answered and of no other device: a calculus of
  updates that stay inside one device's rows, followed through every outcome.
\<close>


definition others :: "string \<Rightarrow> jobs_db \<Rightarrow> job_row list" where
  "others dev db = filter (\<lambda>r. j_device_id r \<noteq> dev) (jobs db)"

definition owned :: "string \<Rightarrow> string \<Rightarrow> jobs_db \<Rightarrow> bool" where
  "owned dev jid db \<longleftrightarrow> jid \<notin> j_id ` set (others dev db)"

text \<open>\<open>db'\<close> is \<open>db\<close> with changes to the device's own jobs only, and the primary key still holds.\<close>

definition confined :: "string \<Rightarrow> jobs_db \<Rightarrow> jobs_db \<Rightarrow> bool" where
  "confined dev db db' \<longleftrightarrow> others dev db' = others dev db \<and> distinct (map j_id (jobs db'))"

named_theorems confined

lemma others_update_jobs:
  assumes "\<And>r. r \<in> set (jobs db) \<Longrightarrow> p r \<Longrightarrow> j_device_id r = dev" "\<And>r. j_device_id (f r) = j_device_id r"
  shows "others dev (update_jobs p f db) = others dev db"
proof -
  have "filter (\<lambda>r. j_device_id r \<noteq> dev) (map (\<lambda>r. if p r then redact_finished_job_secrets r (f r) else r) rs) =
      filter (\<lambda>r. j_device_id r \<noteq> dev) rs" if "\<And>r. r \<in> set rs \<Longrightarrow> p r \<Longrightarrow> j_device_id r = dev" for rs
    using that assms(2) by (induction rs) auto
  then show ?thesis using assms(1) by (simp add: others_def jobs_update_jobs)
qed

lemma confined_update_jobs:
  assumes "confined dev db db'" "\<And>r. r \<in> set (jobs db') \<Longrightarrow> p r \<Longrightarrow> j_device_id r = dev"
    "\<And>r. j_device_id (f r) = j_device_id r" "\<And>r. j_id (f r) = j_id r"
  shows "confined dev db (update_jobs p f db')"
  using assms others_update_jobs [of db' p dev f] map_update_jobs [of j_id] by (simp add: confined_def)

lemma owned_row: "confined dev db db' \<Longrightarrow> owned dev jid db \<Longrightarrow> r \<in> set (jobs db') \<Longrightarrow> j_id r = jid \<Longrightarrow> j_device_id r = dev"
proof (rule ccontr)
  assume "confined dev db db'" "owned dev jid db" "r \<in> set (jobs db')" "j_id r = jid" "j_device_id r \<noteq> dev"
  then have "r \<in> set (others dev db')" by (simp add: others_def)
  then show False using \<open>confined dev db db'\<close> \<open>owned dev jid db\<close> \<open>j_id r = jid\<close> by (auto simp: confined_def owned_def)
qed

lemma owned_found:
  assumes "distinct (map j_id (jobs db))" "r \<in> set (jobs db)"
  shows "owned (j_device_id r) (j_id r) db"
  using assms by (auto simp: owned_def others_def image_iff distinct_map inj_on_def)

lemma confined_insert:
  "confined dev db db' \<Longrightarrow> insert_ok r db' \<Longrightarrow> j_device_id r = dev \<Longrightarrow> confined dev db (insert_job r db')"
  by (auto simp: confined_def others_def insert_job_def insert_ok_def)

lemma confined_exec_update:
  assumes "confined dev db db'" "owned dev jid db" "\<And>r. p r \<Longrightarrow> j_id r = jid"
    "\<And>r. j_device_id (f r) = j_device_id r" "\<And>r. j_id (f r) = j_id r"
  shows "confined dev db (snd (exec_update flt p f db'))" "confined dev db (snd (exec_guarded flt p f db'))"
  using assms confined_update_jobs [OF assms(1), of p f] owned_row [OF assms(1,2)]
  by (auto simp: exec_update_def exec_guarded_def)

lemma confined_marks [confined]:
  assumes "confined dev db db'" "owned dev jid db"
  shows "confined dev db (snd (MarkSuccess flt now jid db'))"
    "confined dev db (snd (MarkSuccessWithDetail flt now jid detail db'))"
    "confined dev db (snd (MarkFailed flt now jid code msg db'))"
    "confined dev db (snd (MarkTimeout flt now jid msg db'))"
    "confined dev db (snd (MarkAwaitingTransferComplete flt now jid db'))"
    "confined dev db (snd (RecordDiscoveryFallback flt now jid key db'))"
  using assms unfolding MarkSuccess_def MarkSuccessWithDetail_def MarkFailed_def MarkTimeout_def
    MarkAwaitingTransferComplete_def RecordDiscoveryFallback_def
  by (auto intro: confined_exec_update(1))

lemma confined_guarded [confined]:
  assumes "confined dev db db'" "owned dev (job_ID job) db"
  shows "confined dev db (snd (MarkAwaitingDiagnostics flt now job w db'))"
    "confined dev db (snd (RequeueDiscovery flt now job raw db'))"
    "confined dev db (snd (BeginReadback flt now job payload db'))"
    "confined dev db (snd (ApplyDroppedSessionAction flt now job action db'))"
  using confined_exec_update(2) [OF assms, where p = "current_attempt job" and flt = flt]
  by (simp_all add: MarkAwaitingDiagnostics_def RequeueDiscovery_def BeginReadback_def ApplyDroppedSessionAction_def
      current_attempt_def set_deadline_def dropped_update_def Let_def case_prod_unfold split: sum.split DroppedSessionAction.split)

lemma confined_insert_returning: "confined dev db db' \<Longrightarrow> j_device_id r = dev \<Longrightarrow> confined dev db (snd (insert_returning flt r db'))"
  by (simp add: insert_returning_def confined_insert)

lemma confined_creates [confined]:
  assumes "confined dev db db'"
  shows "confined dev db (snd (Create flt e ctx dev t payload creator db'))"
    "confined dev db (snd (CreateWithMaxAttempts flt e ctx dev t payload creator m db'))"
    "confined dev db (snd (QueueDiscoveryIfNeeded flt e fw dev db'))"
  using assms
  by (simp_all add: Create_def CreateWithMaxAttempts_def QueueDiscoveryIfNeeded_def Let_def confined_insert_returning confined_insert split: option.split)

lemma confined_Upsert:
  assumes "confined dev db db'"
  shows "confined dev db (snd (snd (Upsert flt e ckid dev values (pdb, db'))))"
  using assms
  by (auto simp: Upsert_def queue_firmware_discovery_def firmware_discovery_row_def Let_def
      intro!: confined_insert split: option.split if_splits)

section \<open>Through the outcomes\<close>

lemma confined_outcomes [confined]:
  assumes "confined dev db (jobs_of a)" "owned dev (job_ID job) db"
  shows "confined dev db (jobs_of (fail_job d job code msg a))"
    "confined dev db (jobs_of (markJobSuccess d dev' job a))"
    "confined dev db (jobs_of (success_detail d job detail a))"
    "confined dev db (jobs_of (markUnexpectedResponse d dev' job a))"
    "confined dev db (jobs_of (awaitDiagnostic d job a))"
    "confined dev db (jobs_of (requeue_walk d job payload a))"
    "confined dev db (jobs_of (markTR143Success d dev' job list prefix up a))"
  using assms
  by (simp_all add: fail_job_def markJobSuccess_def success_detail_def markUnexpectedResponse_def awaitDiagnostic_def
      requeue_walk_def auditFailure_def markTR143Success_def confined Let_def split: prod.split)

lemma confined_params [confined]:
  assumes "confined dev db (jobs_of a)"
  shows "confined dev db (jobs_of (snd (upsert_values d dev vs a)))"
    "confined dev db (jobs_of (cacheParameterValues d dev list source a))"
    "confined dev db (jobs_of (snd (record_operation d dev' job operation success paths detail a)))"
    "confined dev db (jobs_of (queue_read d n dev paths creator a))"
    "confined dev db (jobs_of (queueGatewayInfoRead d dev names a))"
proof -
  show up: "confined dev db (jobs_of (snd (upsert_values d dev vs a)))" for vs
    using confined_Upsert [OF assms] by (simp add: upsert_values_def case_prod_unfold)
  show "confined dev db (jobs_of (cacheParameterValues d dev list source a))"
    using assms up by (simp add: cacheParameterValues_def case_prod_unfold Let_def split: sum.split)
qed (use assms in \<open>simp_all add: record_operation_def queue_read_def queueGatewayInfoRead_def case_prod_unfold Let_def confined\<close>)

lemma confined_discovery [confined]:
  assumes "confined dev db (jobs_of a)" "owned dev (job_ID job) db"
  shows "confined dev db (jobs_of (finishParameterDiscovery d dev job payload names a))"
    "confined dev db (jobs_of (finishSubtreeMerge d dev job payload names a))"
    "confined dev db (jobs_of (discovery_empty d dev job payload fault a))"
  using assms
  by (simp_all add: finishParameterDiscovery_def finishSubtreeMerge_def discovery_empty_def case_prod_unfold Let_def confined split: sum.split)

lemma confined_skip [confined]:
  assumes "confined dev db (jobs_of a)" "owned dev (job_ID job) db"
  shows "confined dev db (jobs_of (skipDiscoveryObject d dev job payload a))"
  using assms by (simp add: skipDiscoveryObject_def confined split: prod.split sum.split)

lemma confined_completeParameterDiscovery [confined]:
  assumes "confined dev db (jobs_of a)" "owned dev (job_ID job) db"
  shows "confined dev db (jobs_of (completeParameterDiscovery d dev job body a))"
  using assms by (simp add: completeParameterDiscovery_def confined split: prod.split sum.split option.split)

lemma confined_complete [confined]:
  assumes "confined dev db (jobs_of a)" "owned dev (job_ID job) db"
  shows "confined dev db (jobs_of (completeSetParameter d dev job body a))"
    "confined dev db (jobs_of (completeGetParameter d dev job body a))"
    "confined dev db (jobs_of (completeDiagnostic d dev job body a))"
  using assms
  by (simp_all add: completeSetParameter_def complete_readback_def complete_write_def completeGetParameter_def completeDiagnostic_def
      auditFailure_def case_prod_unfold Let_def confined split: sum.split option.split diagStateClass.split)

lemma confined_complete_response:
  assumes "confined dev db (jobs_of a)" "owned dev (job_ID job) db"
  shows "confined dev db (jobs_of (complete_response d dev job body a))"
  using assms by (simp add: complete_response_def expect_def Let_def confined split: job_type.split option.split prod.split)

lemma ByID_row: "ByID flt jid db = Inr job \<Longrightarrow> \<exists>r \<in> set (jobs db). job = scanJob r \<and> j_id r = jid"
  by (auto simp: ByID_def dest: find_SomeD split: if_splits option.splits)

lemma scanJob_sel [simp]:
  "job_ID (scanJob r) = j_id r" "job_DeviceID (scanJob r) = j_device_id r" "job_Type (scanJob r) = j_type r"
  "job_Status (scanJob r) = j_status r" "job_Payload (scanJob r) = j_payload r" "job_CommandKey (scanJob r) = j_command_key r"
  by (simp_all add: scanJob_def)

lemma confined_refl: "distinct (map j_id (jobs db)) \<Longrightarrow> confined dev db db"
  by (simp add: confined_def)

lemma completeJob_confined:
  assumes "distinct (map j_id (jobs (jobs_of a)))"
  shows "confined dev (jobs_of a) (jobs_of (completeJob d dev jid body a))"
proof (cases "ByID (gd_flt d 7) jid (jobs_of a)")
  case (Inr job)
  then obtain r where r: "r \<in> set (jobs (jobs_of a))" "job = scanJob r" by (blast dest: ByID_row)
  then have "owned (job_DeviceID job) (job_ID job) (jobs_of a)" using owned_found [OF assms] by simp
  then show ?thesis using Inr confined_refl [OF assms, of dev]
    by (cases "job_DeviceID job = dev")
      (simp_all add: completeJob_def confined confined_complete_response publishTMFFault_def auditFailure_def Let_def)
qed (simp add: completeJob_def confined_refl [OF assms])

end
