(* ===== verification/Gateway_Typed.thy ===== *)
theory Gateway_Typed
  imports Gateway_Confined
begin

text \<open>
  What counts as an answer: a job only succeeds, or is parked until its transfer ends, on the
  response of the very RPC that was sent for it, and a verified write only when the device reads
  back every readable parameter with the value written.
\<close>

section \<open>Responses have the type of their request\<close>

fun has_response :: "rpc \<Rightarrow> InboundBody \<Rightarrow> bool" where
  "has_response SetParameterValues b = (b_SetParameterValuesResponse b \<noteq> None)"
| "has_response GetParameterValues b = (b_GetParameterValuesResponse b \<noteq> None)"
| "has_response Download b = (b_DownloadResponse b \<noteq> None)"
| "has_response AddObject b = (b_AddObjectResponse b \<noteq> None)"
| "has_response DeleteObject b = (b_DeleteObjectResponse b \<noteq> None)"
| "has_response Reboot b = (b_RebootResponse b \<noteq> None)"
| "has_response FactoryReset b = (b_FactoryResetResponse b \<noteq> None)"
| "has_response ScheduleInform b = (b_ScheduleInformResponse b \<noteq> None)"
| "has_response SetParameterAttributes b = (b_SetParameterAttributesResponse b \<noteq> None)"
| "has_response GetParameterAttributes b = (b_GetParameterAttributesResponse b \<noteq> None)"
| "has_response Upload b = (b_UploadResponse b \<noteq> None)"
| "has_response GetParameterNames b = (b_GetParameterNamesResponse b \<noteq> None)"

lemma HasPrefix_two:
  assumes "HasPrefix s (t @ n @ ''>'')" "HasPrefix s (t @ n' @ ''>'')" "CHR ''>'' \<notin> set n" "CHR ''>'' \<notin> set n'"
  shows "n = n'"
proof -
  obtain u where u: "s = (t @ n @ ''>'') @ u" using assms(1) unfolding HasPrefix_iff ..
  obtain u' where u': "s = (t @ n' @ ''>'') @ u'" using assms(2) unfolding HasPrefix_iff ..
  have "n @ CHR ''>'' # u = n' @ CHR ''>'' # u'" using u u' by simp
  moreover have "takeWhile (\<lambda>c. c \<noteq> CHR ''>'') (x @ CHR ''>'' # v) = x" if "CHR ''>'' \<notin> set x" for x v
    using that by (induction x) auto
  ultimately show ?thesis using assms(3,4) by metis
qed

lemma rpc_name_inj: "rpc_name m = rpc_name m' \<Longrightarrow> m = m'"
  by (cases m; cases m') simp_all

lemma rpc_name_plain: "CHR ''>'' \<notin> set (rpc_name m)"
  by (cases m) simp_all

lemma is_request_unique: "is_request m rid req \<Longrightarrow> is_request m' rid req \<Longrightarrow> m = m'"
proof -
  assume "is_request m rid req" "is_request m' rid req"
  then obtain elem where "HasPrefix elem (''<cwmp:'' @ rpc_name m @ ''>'')" "HasPrefix elem (''<cwmp:'' @ rpc_name m' @ ''>'')"
    unfolding is_request_def renderEnvelope_def renderEnvelopeNS_def soapEnvelopeTemplate_def by auto
  then have "rpc_name m = rpc_name m'" using HasPrefix_two rpc_name_plain by blast
  then show "m = m'" by (rule rpc_name_inj)
qed

text \<open>A write whose readback is under way: the request of the job is the read.\<close>

definition awaiting_readback :: "Job \<Rightarrow> bool" where
  "awaiting_readback job \<longleftrightarrow> job_Type job = TypeSetParameter \<and>
     (case dec_SetParameterPayload (job_Payload job) of None \<Rightarrow> False | Some p \<Rightarrow> sp_VerificationPending p)"

lemma no_response:
  assumes "\<not> has_response (request_rpc job) body" "job_Type job \<noteq> TypeParameterDiscovery"
    "awaiting_readback job \<Longrightarrow> b_SetParameterValuesResponse body = None" "renderJobRequest rid job \<noteq> None"
  shows "complete_response d dev job body a = markUnexpectedResponse d dev job a"
  using assms
  by (cases "job_Type job")
    (auto simp: request_rpc_def diagnostic_rpc_def complete_response_def expect_def completeSetParameter_def completeGetParameter_def
      completeDiagnostic_def awaiting_readback_def renderJobRequest_def Let_def split: option.splits if_splits)

lemma find_id:
  "distinct (map j_id rs) \<Longrightarrow> r \<in> set rs \<Longrightarrow> find (\<lambda>q. j_id q = j_id r) rs = Some r"
  by (rule find_distinct)


section \<open>Verified writes\<close>

lemma compare_writes_grow:
  "\<exists>ms mis. v_Missing (compare_writes p actual ws out) = v_Missing out @ ms \<and> v_Mismatched (compare_writes p actual ws out) = v_Mismatched out @ mis"
proof (induction ws arbitrary: out)
  case (Cons w ws)
  show ?case using Cons [of "if skipReadback p (pw_Name w) then out\<lparr> v_Skipped := v_Skipped out @ [pw_Name w] \<rparr>
      else case map_of actual (pw_Name w) of
        None \<Rightarrow> out\<lparr> v_Missing := v_Missing out @ [pw_Name w] \<rparr>
      | Some v \<Rightarrow> if value_matches w v then out\<lparr> v_Matched := v_Matched out @ [pw_Name w] \<rparr>
                  else out\<lparr> v_Mismatched := v_Mismatched out @ [pw_Name w] \<rparr>"]
    by (simp split: option.split) fastforce
qed simp

lemma compare_writes_ok:
  assumes "v_Missing (compare_writes p actual ws out) = []" "v_Mismatched (compare_writes p actual ws out) = []"
    "w \<in> set ws" "\<not> skipReadback p (pw_Name w)"
  shows "\<exists>v. map_of actual (pw_Name w) = Some v \<and> value_matches w v"
  using assms
proof (induction ws arbitrary: out)
  case (Cons x ws)
  show ?case
  proof (cases "w = x")
    case True
    show ?thesis
      using Cons.prems compare_writes_grow [of p actual ws "out\<lparr> v_Missing := v_Missing out @ [pw_Name w] \<rparr>"]
        compare_writes_grow [of p actual ws "out\<lparr> v_Mismatched := v_Mismatched out @ [pw_Name w] \<rparr>"] True
      by (fastforce split: option.splits if_splits)
  next
    case False
    then show ?thesis using Cons.prems by (intro Cons.IH) auto
  qed
qed simp

lemma verified_reads:
  assumes "verified (CompareReadback p actual)" "w \<in> set (sp_Parameters p)" "\<not> skipReadback p (pw_Name w)"
  shows "\<exists>v. map_of actual (pw_Name w) = Some v \<and> value_matches w v"
proof -
  have "set (v_Missing (CompareReadback p actual)) = {}" "set (v_Mismatched (CompareReadback p actual)) = {}"
    using assms(1) by (simp_all add: verified_def)
  then show ?thesis
    by (intro compare_writes_ok [OF _ _ assms(2,3), where out = "\<lparr> v_Matched = [], v_Mismatched = [], v_Missing = [], v_Skipped = [] \<rparr>"])
      (simp_all add: CompareReadback_def Let_def)
qed

text \<open>No row of the job is a success.\<close>

definition unconfirmed :: "string \<Rightarrow> jobs_db \<Rightarrow> bool" where
  "unconfirmed jid db \<longleftrightarrow> (\<forall>r \<in> set (jobs db). j_id r = jid \<longrightarrow> j_status r \<noteq> StatusSuccess)"

lemma unconfirmed_fail: "unconfirmed (job_ID job) (jobs_of a) \<Longrightarrow> unconfirmed (job_ID job) (jobs_of (fail_job d job code msg a))"
  by (auto simp: unconfirmed_def fail_job_def MarkFailed_def exec_update_def jobs_update_jobs)

lemma unconfirmed_insert: "unconfirmed jid db \<Longrightarrow> j_status r = StatusQueued \<Longrightarrow> unconfirmed jid (insert_job r db)"
  by (auto simp: unconfirmed_def insert_job_def)

lemma unconfirmed_Upsert: "unconfirmed jid jdb \<Longrightarrow> unconfirmed jid (snd (snd (Upsert flt e ck dev vs (db, jdb))))"
  by (cases rule: Upsert_cases [where flt = flt and e = e and ck = ck and dev = dev and vs = vs and db = db and jdb = jdb])
    (auto simp: queue_firmware_discovery_def firmware_discovery_row_def Let_def intro!: unconfirmed_insert split: if_splits)

lemma unconfirmed_cache:
  "unconfirmed jid (jobs_of a) \<Longrightarrow> unconfirmed jid (jobs_of (cacheParameterValues d dev list source a))"
  by (simp add: cacheParameterValues_def upsert_values_def case_prod_unfold Let_def unconfirmed_Upsert split: sum.split)

lemma unconfirmed_readback:
  "unconfirmed (job_ID job) db \<Longrightarrow> unconfirmed (job_ID job) (snd (BeginReadback flt now job p db))"
  by (auto simp: unconfirmed_def BeginReadback_def exec_guarded_def jobs_update_jobs Let_def split: if_splits)

lemma jobs_record_operation [simp]: "jobs_of (snd (record_operation d dev job operation success paths detail a)) = jobs_of a"
  by (simp add: record_operation_def case_prod_unfold)

text \<open>A verified write is only confirmed by a successful comparison.\<close>

lemma unconfirmed_completeSetParameter:
  assumes "unconfirmed (job_ID job) (jobs_of a)" "dec_SetParameterPayload (job_Payload job) = Some p" "sp_Verify p" "VerificationPaths p \<noteq> []"
    "\<not> (sp_VerificationPending p \<and> (\<exists>list. b_GetParameterValuesResponse body = Some list \<and> verified (CompareReadback p (value_map list))))"
  shows "unconfirmed (job_ID job) (jobs_of (completeSetParameter d dev job body a))"
  using assms
  by (auto simp: completeSetParameter_def complete_readback_def complete_write_def markUnexpectedResponse_def auditFailure_def
      Let_def case_prod_unfold unconfirmed_fail unconfirmed_cache unconfirmed_readback split: option.split sum.split)


section \<open>Examples\<close>

definition sent_row :: "job_type \<Rightarrow> json \<Rightarrow> job_row" where
  "sent_row t payload = (new_row idem_env ''d1'' t payload [] 3 None None)\<lparr> j_status := StatusRPCSent, j_attempts := 1 \<rparr>"

definition sent_state :: "job_row \<Rightarrow> acs" where
  "sent_state r = \<lparr> acs_gw = demo_gateway\<lparr> gw_jobs := idem_db\<lparr> jobs := [r] \<rparr> \<rparr>, acs_params = fresh_params, acs_sessions = [],
     acs_secrets = [], acs_audit = [], acs_calls = [] \<rparr>"

definition demo_gdeps :: gdeps where
  "demo_gdeps = \<lparr> gd_now = 9, gd_flt = (\<lambda>_. no_faults), gd_env = (\<lambda>_. idem_env), gd_ckid = ''ck'', gd_sid = 1, gd_tmfEvents = False,
     gd_tr143 = (\<lambda>_ _ _. (JNull, 0, 0)), gd_perr = (\<lambda>_. []) \<rparr>"

lemma sent_row_sel [simp]:
  "j_id (sent_row t p) = ''u1''" "j_device_id (sent_row t p) = ''d1''" "j_status (sent_row t p) = StatusRPCSent"
  "j_type (sent_row t p) = t" "j_payload (sent_row t p) = p"
  by (simp_all add: sent_row_def idem_env_def)

lemma jobs_sent_state [simp]: "jobs (jobs_of (sent_state r)) = [r]"
  by (simp add: sent_state_def jobs_of_def)


definition verified_payload :: json where
  "verified_payload = JObj [(''parameters'', JArr [JObj [(''name'', JStr ''Device.X.Enable''), (''value'', JStr ''1''), (''type'', JStr ''xsd:boolean'')]]),
     (''verify'', JBool True), (''verification_pending'', JBool True)]"

definition read_answer :: "string \<Rightarrow> InboundBody" where
  "read_answer v = empty_body\<lparr> b_GetParameterValuesResponse :=
     Some [\<lparr> pv_Name = ''Device.X.Enable'', pv_Value = v, pv_Type = ''xsd:boolean'' \<rparr>] \<rparr>"

lemma verified_run:
  "map (\<lambda>q. (j_id q, j_status q)) (jobs (jobs_of (completeJob demo_gdeps ''d1'' ''u1'' (read_answer ''true'')
     (sent_state (sent_row TypeSetParameter verified_payload))))) = [(''u1'', StatusSuccess)]"
  by code_simp

lemma dec_verified_payload:
  "dec_SetParameterPayload verified_payload = Some \<lparr> sp_EvidenceFirmware = [], sp_EvidenceBound = False, sp_NonReadable = [],
     sp_Parameters = [\<lparr> pw_Name = ''Device.X.Enable'', pw_Value = ''1'', pw_Type = ''xsd:boolean'', pw_SecretHandle = [] \<rparr>],
     sp_Verify = True, sp_VerificationPending = True \<rparr>"
  by code_simp

lemma readable_enable: "\<not> SensitivePath ''Device.X.Enable''"
  by code_simp


end
