(* ===== verification/Gateway_Session.thy ===== *)
theory Gateway_Session
  imports Gateway_Confined
begin

text \<open>
  The CWMP session (\<^verbatim>\<open>cmd/acs/session.go\<close>): every message after the Inform completes the job in
  flight, leases the next one, and sends it or closes the session. A TransferComplete is correlated by
  its command key. A new Inform first settles what the previous session left behind. The Inform's own
  side effects on the device record, policies and templates are not modelled; its identity check is.
\<close>

section \<open>Identities and replies\<close>

record inboundIdentity =
  credentialDeviceID :: string
  credentialUsername :: string
  mtlsNaturalKey :: string
  sharedCredential :: bool

text \<open>\<open>ReplyEmpty\<close> is the empty 204 (or 200) answer; \<open>ReplyAborted\<close> a connection cut by a panic.\<close>

datatype reply = ReplyEmpty | ReplyError nat string | ReplyXml string | ReplyAborted

text \<open>
  \<open>sd_serial dev\<close> is the OUI serial that \<^verbatim>\<open>devices.Get\<close> returns; \<open>sd_locked\<close> the job rows other
  transactions hold.
\<close>

record sdeps =
  sd_g :: gdeps
  sd_params :: bool
  sd_store :: "string option option"
  sd_locked :: "string \<Rightarrow> bool"
  sd_secret_flt :: "nat \<Rightarrow> faults"
  sd_onb :: deps
  sd_device :: "string \<Rightarrow> Device option"
  sd_serial :: "string \<Rightarrow> string option"
  sd_rid :: string
  sd_bind_text :: "bind_error \<Rightarrow> string"
  sd_secret_text :: "Job \<Rightarrow> secret_error \<Rightarrow> string"
  sd_bootstrap_only :: bool

definition identity_mismatch :: "sdeps \<Rightarrow> inboundIdentity \<Rightarrow> string \<Rightarrow> bool" where
  "identity_mismatch s bound dev \<longleftrightarrow>
     credentialDeviceID bound \<noteq> [] \<and> credentialDeviceID bound \<noteq> dev \<or>
     mtlsNaturalKey bound \<noteq> [] \<and> sd_serial s dev \<noteq> Some (mtlsNaturalKey bound)"

definition forbidden :: reply where "forbidden = ReplyError 403 ''device identity mismatch''"
definition internal_error :: reply where "internal_error = ReplyError 500 ''internal error''"

definition on_sessions :: "(Session list \<Rightarrow> 'r \<times> Session list) \<Rightarrow> acs \<Rightarrow> 'r \<times> acs" where
  "on_sessions f a = (case f (acs_sessions a) of (r, rows) \<Rightarrow> (r, a\<lparr> acs_sessions := rows \<rparr>))"

section \<open>Dispatch\<close>

definition closeSession :: "sdeps \<Rightarrow> string \<Rightarrow> string \<Rightarrow> acs \<Rightarrow> reply \<times> acs" where
  "closeSession s sid dev a =
     (case on_sessions (Close_session (gd_flt (sd_g s) 17) (gd_now (sd_g s)) sid ''NO_PENDING_RPCS'') a of
        (Inl _, a1) \<Rightarrow> (internal_error, a1)
      | (Inr _, a1) \<Rightarrow> (ReplyEmpty, audit (sd_g s) dev ''SessionClosed''
          [(''session_id'', JStr sid), (''reason'', JStr ''NO_PENDING_RPCS'')] a1))"

definition fail_leased :: "sdeps \<Rightarrow> Job \<Rightarrow> string \<Rightarrow> string \<Rightarrow> acs \<Rightarrow> acs" where
  "fail_leased s job code msg = run_jobs (MarkFailed (gd_flt (sd_g s) 16) (gd_now (sd_g s)) (job_ID job) code msg)"

text \<open>Sending a leased job.\<close>

definition send_job :: "sdeps \<Rightarrow> Session \<Rightarrow> Job \<Rightarrow> acs \<Rightarrow> reply \<times> acs" where
  "send_job s session job a =
     (case openSecretHandles (sd_store s) (sd_secret_flt s) (gd_now (sd_g s)) job (acs_secrets a) of
        (Inl e, rows) \<Rightarrow> (ReplyEmpty, fail_leased s job ''SECRET_HANDLE_UNAVAILABLE'' (sd_secret_text s job e) (a\<lparr> acs_secrets := rows \<rparr>))
      | (Inr rendered, rows) \<Rightarrow>
          let a1 = a\<lparr> acs_secrets := rows \<rparr>
          in case renderJobRequest (sd_rid s) rendered of
            None \<Rightarrow> (ReplyEmpty, fail_leased s job [] ''unrenderable job payload'' a1)
          | Some requestBody \<Rightarrow> (ReplyXml (RewriteCWMPNamespace requestBody (s_CWMPNamespace session)), a1))"

definition bind_and_send :: "sdeps \<Rightarrow> Session \<Rightarrow> Job \<Rightarrow> acs \<Rightarrow> reply \<times> acs" where
  "bind_and_send s session job a =
     (if \<not> sd_params s then send_job s session job a
      else case on_jobs (BindFirmware (gd_flt (sd_g s) 15) job (acs_params a)) a of
        (Inl BindPanic, a1) \<Rightarrow> (ReplyAborted, a1)
      | (Inl e, a1) \<Rightarrow> (ReplyEmpty, fail_leased s job ''FIRMWARE_CHANGED'' (sd_bind_text s e) a1)
      | (Inr bound_job, a1) \<Rightarrow> send_job s session bound_job a1)"

definition lease_next :: "sdeps \<Rightarrow> string \<Rightarrow> acs \<Rightarrow> Job option result \<times> acs" where
  "lease_next s dev a =
     (case on_jobs (Lease (gd_flt (sd_g s) 12) (gd_env (sd_g s) 12) (sd_locked s) dev) a of
        (Inr None, a1) \<Rightarrow>
          (case reconcileOnboardingAtSessionEnd (sd_device s) (sd_onb s) dev (acs_gw a1) of
             (queued, g) \<Rightarrow>
               let a2 = a1\<lparr> acs_gw := g \<rparr>
               in if queued then on_jobs (Lease (gd_flt (sd_g s) 13) (gd_env (sd_g s) 13) (sd_locked s) dev) a2
                  else (Inr None, a2))
      | (res, a1) \<Rightarrow> (res, a1))"

definition dispatch_next :: "sdeps \<Rightarrow> Session \<Rightarrow> acs \<Rightarrow> reply \<times> acs" where
  "dispatch_next s session a =
     (case lease_next s (s_DeviceID session) a of
        (Inl _, a1) \<Rightarrow> (internal_error, a1)
      | (Inr None, a1) \<Rightarrow> closeSession s (s_ID session) (s_DeviceID session) a1
      | (Inr (Some job), a1) \<Rightarrow>
          (case on_sessions (SetCurrentJob (gd_flt (sd_g s) 14) (s_ID session) (job_ID job)) a1 of
             (Inl _, a2) \<Rightarrow> (internal_error, a2)
           | (Inr _, a2) \<Rightarrow> bind_and_send s session job a2))"

definition dispatch :: "sdeps \<Rightarrow> string option \<Rightarrow> InboundBody \<Rightarrow> inboundIdentity \<Rightarrow> acs \<Rightarrow> reply \<times> acs" where
  "dispatch s cookie body bound a =
     (case cookie of
        None \<Rightarrow> (ReplyEmpty, a)
      | Some sid \<Rightarrow>
          case Get_session (gd_flt (sd_g s) 10) sid (acs_sessions a) of
            Inl _ \<Rightarrow> (ReplyEmpty, a)
          | Inr session \<Rightarrow>
              if IsClosed session then (ReplyEmpty, a)
              else if identity_mismatch s bound (s_DeviceID session) then (forbidden, a)
              else case s_CurrentJobID session of
                None \<Rightarrow> dispatch_next s session a
              | Some jid \<Rightarrow>
                  (case on_sessions (SetCurrentJob (gd_flt (sd_g s) 11) (s_ID session) [])
                          (completeJob (sd_g s) (s_DeviceID session) jid body a) of
                     (Inl _, a1) \<Rightarrow> (internal_error, a1)
                   | (Inr _, a1) \<Rightarrow> dispatch_next s session a1))"

section \<open>Transfers\<close>

definition handleTransferComplete :: "sdeps \<Rightarrow> TransferComplete \<Rightarrow> inboundIdentity \<Rightarrow> string \<Rightarrow> string \<Rightarrow> acs \<Rightarrow> reply \<times> acs" where
  "handleTransferComplete s tc bound respID ns a =
     (let g = sd_g s; ok = ReplyXml (RenderTransferCompleteResponseNS respID ns) in
      case ByCommandKey (gd_flt g 10) (tc_CommandKey tc) (jobs_of a) of
        Inl _ \<Rightarrow> (ok, a)
      | Inr job \<Rightarrow>
          if identity_mismatch s bound (job_DeviceID job) then (forbidden, a)
          else if \<not> LateTransferReconcilable job \<and> job_Status job \<notin> {StatusAwaitingTransferComplete, StatusRPCSent} then (ok, a)
          else if IsFault tc then
            let code = FaultCode (the (tc_FaultStruct tc)); msg = FaultString (the (tc_FaultStruct tc))
            in (ok, auditFailure g (job_DeviceID job) job code msg (fail_job g job code msg a))
          else
            let a1 = markJobSuccess g (job_DeviceID job) job a
            in (ok, if job_Type job = TypeFirmwareDownload
                    then queue_read g 3 (job_DeviceID job) [''Device.DeviceInfo.SoftwareVersion''] ''system:confirm'' a1 else a1))"

section \<open>Routing\<close>

definition writeCPEInitiatedReply :: "InboundBody \<Rightarrow> string \<Rightarrow> string \<Rightarrow> string option" where
  "writeCPEInitiatedReply body respID ns =
     (if b_GetRPCMethods body \<noteq> None then Some (RenderGetRPCMethodsResponseNS respID ns)
      else if UnsupportedRequest body \<noteq> [] then Some (RenderMethodNotSupportedFaultNS respID ns)
      else None)"

text \<open>
  What \<^verbatim>\<open>handleCWMP\<close> does with a parsed message that is not an Inform. \<open>allowed\<close> is the answer of the
  device rate limiter.
\<close>

definition handleMessage :: "sdeps \<Rightarrow> bool \<Rightarrow> string option \<Rightarrow> inboundIdentity \<Rightarrow> string \<Rightarrow> string \<Rightarrow> InboundBody \<Rightarrow> acs \<Rightarrow> reply \<times> acs" where
  "handleMessage s allowed cookie bound respID ns body a =
     (if sharedCredential bound \<and> sd_bootstrap_only s then (ReplyError 403 ''shared credential is restricted to device bootstrap'', a)
      else if \<not> allowed then (ReplyError 429 ''rate limit exceeded'', a)
      else case b_TransferComplete body of
        Some tc \<Rightarrow> handleTransferComplete s tc bound respID ns a
      | None \<Rightarrow>
          (case writeCPEInitiatedReply body respID ns of
             Some out \<Rightarrow> (ReplyXml out, a)
           | None \<Rightarrow> dispatch s cookie body bound a))"

section \<open>The Inform's identity\<close>

datatype device_lookup = DeviceFound string | DeviceUnknown | DeviceError

text \<open>
  The first part of \<^verbatim>\<open>handleInform\<close>: the identity the Inform claims against the one its credential
  asserts. \<open>look\<close> is \<^verbatim>\<open>GetByOUIserial\<close> at its two calls. The result is the refusal or the device's key,
  with the user name the hook \<^verbatim>\<open>OnAuthenticated\<close> is called for.
\<close>

definition informIdentity ::
  "sdeps \<Rightarrow> (nat \<Rightarrow> string \<Rightarrow> device_lookup) \<Rightarrow> inboundIdentity \<Rightarrow> DeviceID \<Rightarrow> (reply + string) \<times> string option" where
  "informIdentity s look bound informed =
     (let deviceId = Normalized informed; naturalKey = NaturalKey deviceId;
          shared = (if sharedCredential bound \<and> sd_bootstrap_only s then
              (case look 0 naturalKey of
                 DeviceFound _ \<Rightarrow> Some (ReplyError 403 ''shared credential cannot authenticate an established device'')
               | DeviceError \<Rightarrow> Some internal_error
               | DeviceUnknown \<Rightarrow> None) else None);
          credential = (if credentialDeviceID bound \<noteq> [] then
              (case look 1 naturalKey of
                 DeviceError \<Rightarrow> Some internal_error
               | DeviceUnknown \<Rightarrow> Some forbidden
               | DeviceFound i \<Rightarrow> if i \<noteq> credentialDeviceID bound then Some forbidden else None) else None);
          proved = (if credentialDeviceID bound \<noteq> [] \<and> credentialUsername bound \<noteq> [] then Some (credentialUsername bound) else None)
      in if OUI deviceId = [] \<or> SerialNumber deviceId = []
         then (Inl (ReplyError 400 ''Inform DeviceId requires OUI and SerialNumber''), None)
         else case shared of
           Some r \<Rightarrow> (Inl r, None)
         | None \<Rightarrow>
             (case credential of
                Some r \<Rightarrow> (Inl r, None)
              | None \<Rightarrow>
                  (if mtlsNaturalKey bound \<noteq> [] \<and> mtlsNaturalKey bound \<noteq> naturalKey then Inl forbidden else Inr naturalKey, proved)))"

section \<open>What a new Inform settles\<close>

text \<open>The \<open>n\<close>-th recovered job has the faults and fresh values of \<open>d n\<close>.\<close>

fun recover_walks :: "(nat \<Rightarrow> gdeps) \<Rightarrow> string \<Rightarrow> nat \<Rightarrow> Job list \<Rightarrow> acs \<Rightarrow> acs" where
  "recover_walks d dev n [] a = a"
| "recover_walks d dev n (job # rest) a =
     recover_walks d dev (Suc n) rest
       (case dec_ParameterDiscoveryPayload (job_Payload job) of
          None \<Rightarrow> a
        | Some payload \<Rightarrow>
            if \<not> Incremental payload \<or> Cursor payload = [] then a else skipDiscoveryObject (d n) dev job payload a)"

definition recoverAbandonedDiscovery :: "(nat \<Rightarrow> gdeps) \<Rightarrow> string \<Rightarrow> acs \<Rightarrow> acs" where
  "recoverAbandonedDiscovery d dev a =
     (case InFlightDiscoveries (gd_flt (d 0) 8) dev (jobs_of a) of
        Inl _ \<Rightarrow> a
      | Inr inFlight \<Rightarrow> recover_walks d dev 0 inFlight a)"

definition method_keys :: "EventStruct list \<Rightarrow> string \<Rightarrow> string \<Rightarrow> bool" where
  "method_keys events method key \<longleftrightarrow>
     list_ex (\<lambda>e. CutPrefix (TrimSpace (EventCode e)) ''M '' = Some method \<and> EventCommandKey e = key) events"

fun recover_dropped :: "(nat \<Rightarrow> gdeps) \<Rightarrow> EventStruct list \<Rightarrow> nat \<Rightarrow> Job list \<Rightarrow> acs \<Rightarrow> acs" where
  "recover_dropped d events n [] a = a"
| "recover_dropped d events n (job # rest) a =
     recover_dropped d events (Suc n) rest
       (run_jobs (ApplyDroppedSessionAction (gd_flt (d n) 9) (gd_now (d n)) job
          (ClassifyDroppedSessionJob job (method_keys events) (has_event_code events EventDiagnosticsComplete))) a)"

definition recoverDroppedSessionJobs :: "(nat \<Rightarrow> gdeps) \<Rightarrow> string \<Rightarrow> EventStruct list \<Rightarrow> acs \<Rightarrow> acs" where
  "recoverDroppedSessionJobs d dev events a =
     (case DroppedSessionJobs (gd_flt (d 0) 8) dev (jobs_of a) of
        Inl _ \<Rightarrow> a
      | Inr dropped \<Rightarrow> recover_dropped d events 0 dropped a)"

definition releaseAwaitingDiagnostics :: "gdeps \<Rightarrow> string \<Rightarrow> acs \<Rightarrow> acs" where
  "releaseAwaitingDiagnostics d dev = run_jobs (ReleaseAwaitingDiagnostics (gd_flt d 8) (gd_now d) dev)"

definition autoDiscoverParameters :: "gdeps \<Rightarrow> string \<Rightarrow> string \<Rightarrow> acs \<Rightarrow> acs" where
  "autoDiscoverParameters d dev dataModelRoot a =
     (let igd = (dataModelRoot = ''IGD1'');
          firmware = (case Get_cache (gd_flt d 5) dev (acs_params a) of Inl _ \<Rightarrow> [] | Inr values' \<Rightarrow> cached_firmware values')
      in case ActiveDiscovery (gd_flt d 8) dev (jobs_of a) of
        Inl _ \<Rightarrow> a
      | Inr (Some active) \<Rightarrow> a
      | Inr None \<Rightarrow>
          run_jobs (CreateWithMaxAttempts (gd_flt d 3) (gd_env d 3) [] dev TypeParameterDiscovery
            (enc_ParameterDiscoveryPayload (new_walk (if igd then rootIGD1 else rootDevice2) (if igd then rootDevice2 else rootIGD1) firmware))
            ''system:bootstrap-discovery'' (int DiscoveryMaxObjects)) a)"

definition refreshGatewayInfoOnBoot :: "gdeps \<Rightarrow> string \<Rightarrow> acs \<Rightarrow> acs" where
  "refreshGatewayInfoOnBoot d dev a =
     (case GetNames (gd_flt d 5) dev (acs_params a) of
        Inl _ \<Rightarrow> a
      | Inr None \<Rightarrow> a
      | Inr (Some names) \<Rightarrow> queueGatewayInfoRead d dev (dn_Names names) a)"

definition extractConnectionRequestURL :: "ParameterValueStruct list \<Rightarrow> string" where
  "extractConnectionRequestURL list =
     (case find (\<lambda>p. pv_Name p \<in> {''Device.ManagementServer.ConnectionRequestURL'',
         ''InternetGatewayDevice.ManagementServer.ConnectionRequestURL''}) list of None \<Rightarrow> [] | Some p \<Rightarrow> pv_Value p)"

fun extractSTUNStatus :: "ParameterValueStruct list \<Rightarrow> string \<times> bool \<times> bool \<Rightarrow> string \<times> bool \<times> bool" where
  "extractSTUNStatus [] out = out"
| "extractSTUNStatus (p # list) (addr, natDetected, ok) = extractSTUNStatus list
     (if pv_Name p \<in> {''Device.ManagementServer.UDPConnectionRequestAddress'',
           ''InternetGatewayDevice.ManagementServer.UDPConnectionRequestAddress''} then (pv_Value p, natDetected, True)
      else if pv_Name p \<in> {''Device.ManagementServer.NATDetected'', ''InternetGatewayDevice.ManagementServer.NATDetected''}
        then (addr, pv_Value p = ''1'' \<or> EqualFold (pv_Value p) ''true'', ok)
      else (addr, natDetected, ok))"

end
