(* ===== verification/Gateway_Isolation.thy ===== *)
theory Gateway_Isolation
  imports Gateway_Session
begin

text \<open>
  A message of one device stays with that device, whatever it contains: the other devices' jobs,
  cached parameters, sealed secrets and sessions are what they were.
\<close>

section \<open>Leasing and sending\<close>

lemma confined_owned: "confined dev db db' \<Longrightarrow> owned dev jid db' = owned dev jid db"
  by (simp add: confined_def owned_def)

lemma Lease_confined:
  assumes "confined dev db db'" "Lease flt e locked dev db' = (res, db2)"
  shows "confined dev db db2 \<and> (\<forall>job. res = Inr (Some job) \<longrightarrow> owned dev (job_ID job) db \<and> job_DeviceID job = dev)"
proof -
  have l: "lease_tx flt e locked (lease_eligible dev sessionDispatchableTypes False) StatusRPCSent sessionLease db' = (res, db2)"
    using assms(2) by (simp add: Lease_def LeaseForTypes_def leaseForTypes_def)
  show ?thesis using l
  proof (cases rule: lease_tx_cases)
    case (leased r)
    then have dv: "j_device_id r = dev" by (simp add: lease_eligible_def)
    moreover have "distinct (map j_id (jobs db'))" using assms(1) by (simp add: confined_def)
    ultimately have o: "owned dev (j_id r) db" using owned_found [of db' r] leased(1) confined_owned [OF assms(1)] by simp
    have "confined dev db db2" unfolding leased(6)
      by (rule confined_update_jobs [OF assms(1)]) (use owned_row [OF assms(1) o] in auto)
    then show ?thesis using o dv leased(5) by simp
  qed (use assms(1) in auto)
qed

lemma BindFirmware_confined [confined]:
  assumes "confined dev db db'" "owned dev (job_ID job) db"
  shows "confined dev db (snd (BindFirmware flt job pdb db'))"
proof -
  have "confined dev db (update_jobs (current_attempt job) (\<lambda>r. r\<lparr> j_payload := raw \<rparr>) db')" for raw
    by (rule confined_update_jobs [OF assms(1)]) (use owned_row [OF assms] in \<open>auto simp: current_attempt_def\<close>)
  then have "confined dev db (snd (case x of None \<Rightarrow> (Inl BindPayload, db') | Some raw \<Rightarrow>
       if b then (Inl BindDB, db') else if c then (Inl BindNotCurrent, db') else if e then (Inl BindDB, db')
       else (Inr (job\<lparr> job_Payload := raw \<rparr>), update_jobs (current_attempt job) (\<lambda>r. r\<lparr> j_payload := raw \<rparr>) db')))" for x b c e
    using assms(1) by (cases x) simp_all
  then show ?thesis using assms(1) by (cases "job_Payload job") (simp_all add: BindFirmware_def Let_def)
qed

lemma BindFirmware_job: "fst (BindFirmware flt job pdb db) = Inr job' \<Longrightarrow> job_ID job' = job_ID job \<and> job_DeviceID job' = job_DeviceID job"
proof -
  assume "fst (BindFirmware flt job pdb db) = Inr job'"
  moreover have "fst (case x of None \<Rightarrow> (Inl BindPayload, db) | Some raw \<Rightarrow>
       if b then (Inl BindDB, db) else if c then (Inl BindNotCurrent, db) else if e then (Inl BindDB, db)
       else (Inr (job\<lparr> job_Payload := raw \<rparr>), update_jobs (current_attempt job) (\<lambda>r. r\<lparr> j_payload := raw \<rparr>) db)) = Inr job' \<Longrightarrow>
     job_ID job' = job_ID job \<and> job_DeviceID job' = job_DeviceID job" for x b c e
    by (cases x) (auto split: if_splits)
  ultimately show ?thesis by (cases "job_Payload job") (simp_all add: BindFirmware_def Let_def split: if_splits)
qed

lemma confined_extends:
  assumes "confined dev db db'" "extends (queued_for dev oid) db' db2"
  shows "confined dev db db2"
  using assms by (auto simp: confined_def extends_def others_def queued_for_def filter_empty_conv list_all_iff)

lemma reconcile_confined:
  assumes "confined dev db (gw_jobs g)" "\<And>i dv. get i = Some dv \<Longrightarrow> dev_ID dv = i"
  shows "confined dev db (gw_jobs (snd (reconcileOnboardingAtSessionEnd get dp dev g)))"
proof (cases "get dev")
  case (Some device)
  obtain q g' where r: "reconcileOnboarding dp device False g = (q, g')" by (rule prod.exhaust)
  then have "gw_jobs g' = gw_jobs g \<or> (\<exists>oid. extends (queued_for (dev_ID device) oid) (gw_jobs g) (gw_jobs g'))"
    by (rule reconcile_cases) (auto elim: carry_out_spec)
  then show ?thesis
    using assms(1) assms(2) [OF Some] Some r confined_extends [of dev db] by (auto simp: reconcileOnboardingAtSessionEnd_def)
qed (use assms in \<open>simp add: reconcileOnboardingAtSessionEnd_def\<close>)

section \<open>What another device sees\<close>

definition view :: "string \<Rightarrow> acs \<Rightarrow> (string \<times> CachedValue) list \<times> secret_row list \<times> Session list" where
  "view x a = (cache_of x (acs_params a), acs_secrets a, acs_sessions a)"

named_theorems views

lemma view_simps [simp]:
  "view x (set_jobs jdb a) = view x a" "view x (call c a) = view x a" "view x (audit d dev act det a) = view x a"
  "view x (run_jobs f a) = view x a" "view x (snd (on_jobs g a)) = view x a"
  by (simp_all add: view_def)

lemma view_params: "cache_of x pdb = cache_of x (acs_params a) \<Longrightarrow> view x (a\<lparr> acs_params := pdb \<rparr>) = view x a"
  by (simp add: view_def)

lemma cache_of_other:
  assumes "x \<noteq> dev"
  shows "write_values flt dev vs db = Some db' \<Longrightarrow> cache_of x db' = cache_of x db" "cache_of x (mark_stale dev db) = cache_of x db"
    "cache_of x (fst (snd (Upsert flt e ck dev vs (db, jdb)))) = cache_of x db"
proof -
  show w: "write_values flt dev vs db = Some db' \<Longrightarrow> cache_of x db' = cache_of x db" for vs db db'
    using assms by (auto simp: write_values_def Let_def cache_of_def split: if_splits)
  show "cache_of x (mark_stale dev db) = cache_of x db" by (simp add: cache_of_def)
  then show "cache_of x (fst (snd (Upsert flt e ck dev vs (db, jdb)))) = cache_of x db"
    using w by (cases rule: Upsert_cases [where flt = flt and e = e and ck = ck and dev = dev and vs = vs and db = db and jdb = jdb]) auto
qed

lemma cache_of_params [simp]:
  "cache_of x (snd (RecordOperation flt now dev key operation success paths detail fw db)) = cache_of x db"
  "cache_of x (snd (SaveDiscovery flt now sid dev snap db)) = cache_of x db"
  "cache_of x (snd (MergeDiscoveredSubtree flt dev rt names db)) = cache_of x db"
proof -
  show "cache_of x (snd (SaveDiscovery flt now sid dev snap db)) = cache_of x db"
    by (cases "find (\<lambda>r. dr_id r = dev) (p_devices db)") (simp_all add: SaveDiscovery_def Let_def cache_of_def split: option.split)
qed (simp_all add: RecordOperation_def MergeDiscoveredSubtree_def cache_of_def Let_def)

lemma view_basic [views]:
  assumes "x \<noteq> dev"
  shows "view x (fail_job d job code msg a) = view x a" "view x (success_detail d job detail a) = view x a"
    "view x (markJobSuccess d dev job a) = view x a" "view x (markUnexpectedResponse d dev job a) = view x a"
    "view x (awaitDiagnostic d job a) = view x a" "view x (requeue_walk d job payload a) = view x a"
    "view x (markTR143Success d dev job list prefix up a) = view x a" "view x (auditFailure d dev job code msg a) = view x a"
    "view x (queue_read d n dev paths creator a) = view x a" "view x (queueGatewayInfoRead d dev names a) = view x a"
    "view x (publishTMFFault d dev jid code msg a) = view x a"
    "view x (snd (record_operation d dev job operation success paths detail a)) = view x a"
    "view x (snd (upsert_values d dev vs a)) = view x a"
  using assms
  by (simp_all add: fail_job_def success_detail_def markJobSuccess_def markUnexpectedResponse_def awaitDiagnostic_def requeue_walk_def
      markTR143Success_def auditFailure_def queue_read_def queueGatewayInfoRead_def publishTMFFault_def record_operation_def
      upsert_values_def case_prod_unfold Let_def view_params cache_of_other)

lemma view_discovery [views]:
  assumes "x \<noteq> dev"
  shows "view x (cacheParameterValues d dev list source a) = view x a"
    "view x (finishParameterDiscovery d dev job payload names a) = view x a"
    "view x (finishSubtreeMerge d dev job payload names a) = view x a"
    "view x (discovery_empty d dev job payload fault a) = view x a"
  using assms
  by (simp_all add: cacheParameterValues_def finishParameterDiscovery_def finishSubtreeMerge_def discovery_empty_def
      case_prod_unfold Let_def view_params views split: sum.split)

lemma view_complete [views]:
  assumes "x \<noteq> dev"
  shows "view x (completeParameterDiscovery d dev job body a) = view x a"
    "view x (completeSetParameter d dev job body a) = view x a"
    "view x (completeGetParameter d dev job body a) = view x a"
    "view x (completeDiagnostic d dev job body a) = view x a"
  using assms
  by (simp_all add: completeParameterDiscovery_def skipDiscoveryObject_def completeSetParameter_def complete_readback_def complete_write_def
      completeGetParameter_def completeDiagnostic_def case_prod_unfold Let_def views split: sum.split option.split diagStateClass.split)

lemma view_completeJob [views]:
  assumes "x \<noteq> dev"
  shows "view x (completeJob d dev jid body a) = view x a"
  using assms
  by (simp add: completeJob_def complete_response_def expect_def Let_def views split: sum.split option.split job_type.split prod.split)

section \<open>A message spares the other devices\<close>

definition spares :: "string \<Rightarrow> string option \<Rightarrow> acs \<Rightarrow> acs \<Rightarrow> bool" where
  "spares dev cookie a a' \<longleftrightarrow> confined dev (jobs_of a) (jobs_of a') \<and>
     (\<forall>x. x \<noteq> dev \<longrightarrow> cache_of x (acs_params a') = cache_of x (acs_params a)) \<and>
     filter (\<lambda>r. ss_device r \<noteq> Some dev) (acs_secrets a') = filter (\<lambda>r. ss_device r \<noteq> Some dev) (acs_secrets a) \<and>
     filter (\<lambda>q. cookie \<noteq> Some (s_ID q)) (acs_sessions a') = filter (\<lambda>q. cookie \<noteq> Some (s_ID q)) (acs_sessions a)"

lemma spares_refl: "distinct (map j_id (jobs (jobs_of a))) \<Longrightarrow> spares dev cookie a a"
  by (simp add: spares_def confined_refl)

text \<open>A step that only works on jobs and the device's own cache.\<close>

lemma spares_step:
  assumes "spares dev cookie a b" "confined dev (jobs_of a) (jobs_of b')" "\<And>x. x \<noteq> dev \<Longrightarrow> view x b' = view x b"
  shows "spares dev cookie a b'"
proof -
  have "acs_secrets b' = acs_secrets b" "acs_sessions b' = acs_sessions b"
    using assms(3) [of "CHR ''x'' # dev"] by (simp_all add: view_def)
  then show ?thesis using assms by (simp add: spares_def view_def)
qed

lemma spares_completeJob:
  assumes "distinct (map j_id (jobs (jobs_of a)))"
  shows "spares dev cookie a (completeJob d dev jid body a)"
  using spares_step [OF spares_refl [OF assms] completeJob_confined [OF assms]] view_completeJob by blast

lemma spares_sessions:
  assumes "spares dev (Some sid) a b"
  shows "spares dev (Some sid) a (snd (on_sessions (SetCurrentJob flt sid jid) b))"
    "spares dev (Some sid) a (snd (on_sessions (Close_session flt now sid reason) b))"
proof -
  have "spares dev (Some sid) a (b\<lparr> acs_sessions := rows \<rparr>)"
    if "filter (\<lambda>q. s_ID q \<noteq> sid) rows = filter (\<lambda>q. s_ID q \<noteq> sid) (acs_sessions b)" for rows
    using assms that by (simp add: spares_def jobs_of_def eq_commute [of sid])
  then show "spares dev (Some sid) a (snd (on_sessions (SetCurrentJob flt sid jid) b))"
    "spares dev (Some sid) a (snd (on_sessions (Close_session flt now sid reason) b))"
    using other_sessions_SetCurrentJob other_sessions_Close by (simp_all add: on_sessions_def case_prod_unfold)
qed

lemma spares_gw: "spares dev cookie a b \<Longrightarrow> confined dev (jobs_of a) (gw_jobs g) \<Longrightarrow> spares dev cookie a (b\<lparr> acs_gw := g \<rparr>)"
  by (simp add: spares_def jobs_of_def)

lemma spares_Lease:
  assumes "spares dev cookie a b" "on_jobs (Lease flt e locked dev) b = (res, b')"
  shows "spares dev cookie a b' \<and> (\<forall>job. res = Inr (Some job) \<longrightarrow> owned dev (job_ID job) (jobs_of a) \<and> job_DeviceID job = dev)"
proof -
  obtain r db2 where l: "Lease flt e locked dev (jobs_of b) = (r, db2)" by (rule prod.exhaust)
  then have "res = r" "b' = set_jobs db2 b" using assms(2) by (simp_all add: on_jobs_def)
  moreover have "confined dev (jobs_of a) (jobs_of b)" using assms(1) by (simp add: spares_def)
  ultimately show ?thesis
    using Lease_confined [OF _ l] spares_step [OF assms(1), of b'] by simp
qed

lemma spares_lease_next:
  assumes "spares dev cookie a b" "lease_next s dev b = (res, b')" "\<And>i dv. sd_device s i = Some dv \<Longrightarrow> dev_ID dv = i"
  shows "spares dev cookie a b' \<and> (\<forall>job. res = Inr (Some job) \<longrightarrow> owned dev (job_ID job) (jobs_of a) \<and> job_DeviceID job = dev)"
proof -
  obtain r1 b1 where l1: "on_jobs (Lease (gd_flt (sd_g s) 12) (gd_env (sd_g s) 12) (sd_locked s) dev) b = (r1, b1)" by (rule prod.exhaust)
  note s1 = spares_Lease [OF assms(1) l1]
  show ?thesis
  proof (cases "r1 = Inr None")
    case True
    obtain q g where q: "reconcileOnboardingAtSessionEnd (sd_device s) (sd_onb s) dev (acs_gw b1) = (q, g)" by (rule prod.exhaust)
    have "confined dev (jobs_of a) (gw_jobs (acs_gw b1))" using s1 by (simp add: spares_def jobs_of_def)
    then have s2: "spares dev cookie a (b1\<lparr> acs_gw := g \<rparr>)"
      using reconcile_confined [of dev "jobs_of a" "acs_gw b1" "sd_device s" "sd_onb s"] assms(3) q s1 spares_gw by simp
    show ?thesis
    proof (cases q)
      case q1: True
      have "on_jobs (Lease (gd_flt (sd_g s) 13) (gd_env (sd_g s) 13) (sd_locked s) dev) (b1\<lparr> acs_gw := g \<rparr>) = (res, b')"
        using assms(2) l1 q True q1 by (simp add: lease_next_def Let_def)
      then show ?thesis by (rule spares_Lease [OF s2])
    next
      case False
      then have "res = Inr None" "b' = b1\<lparr> acs_gw := g \<rparr>" using assms(2) l1 q True by (simp_all add: lease_next_def Let_def)
      then show ?thesis using s2 by simp
    qed
  next
    case False
    then have "res = r1" "b' = b1" using assms(2) l1 by (simp_all add: lease_next_def split: sum.splits option.splits)
    then show ?thesis using s1 by simp
  qed
qed

section \<open>Dispatch and transfers\<close>

lemma open_handles_others:
  "filter (\<lambda>r. ss_device r \<noteq> Some dev) (snd (open_handles st flt now dev n ps vals rows)) = filter (\<lambda>r. ss_device r \<noteq> Some dev) rows"
proof (induction ps arbitrary: n vals rows)
  case (Cons p ps)
  have o: "filter (\<lambda>r. ss_device r \<noteq> Some dev) (snd (Open_secret store f now h dev rows)) = filter (\<lambda>r. ss_device r \<noteq> Some dev) rows"
    for store f h rows by (auto simp: Open_secret_def openable_def split: option.split intro: filter_cong)
  show ?case using Cons o by (simp add: case_prod_unfold split: sum.split option.split) metis
qed simp

lemma openSecretHandles_spec:
  assumes "openSecretHandles st flt now job rows = (res, rows')"
  shows "filter (\<lambda>r. ss_device r \<noteq> Some (job_DeviceID job)) rows' = filter (\<lambda>r. ss_device r \<noteq> Some (job_DeviceID job)) rows"
proof -
  have "rows' = rows \<or> (\<exists>ps. rows' = snd (open_handles st flt now (job_DeviceID job) 0 ps [] rows))"
    using assms by (auto simp: openSecretHandles_def case_prod_unfold split: if_splits option.splits sum.splits prod.splits)
  then show ?thesis using open_handles_others by auto
qed

lemma spares_fail_leased:
  assumes "spares dev cookie a b" "owned dev (job_ID job) (jobs_of a)"
  shows "spares dev cookie a (fail_leased s job code msg b)"
  by (rule spares_step [OF assms(1)])
    (use assms confined_marks(3) in \<open>simp_all add: fail_leased_def spares_def\<close>)

lemma spares_send_job:
  assumes "spares dev cookie a b" "owned dev (job_ID job) (jobs_of a)" "job_DeviceID job = dev"
  shows "spares dev cookie a (snd (send_job s session job b))"
proof -
  obtain res rows where o: "openSecretHandles (sd_store s) (sd_secret_flt s) (gd_now (sd_g s)) job (acs_secrets b) = (res, rows)"
    by (rule prod.exhaust)
  then have "spares dev cookie a (b\<lparr> acs_secrets := rows \<rparr>)"
    using openSecretHandles_spec [OF o] assms(1,3) by (simp add: spares_def jobs_of_def)
  then show ?thesis using o spares_fail_leased assms(2)
    by (simp add: send_job_def Let_def split: sum.split option.split)
qed

lemma spares_bind_and_send:
  assumes "spares dev cookie a b" "owned dev (job_ID job) (jobs_of a)" "job_DeviceID job = dev"
  shows "spares dev cookie a (snd (bind_and_send s session job b))"
proof -
  let ?bind = "BindFirmware (gd_flt (sd_g s) 15) job (acs_params b)"
  obtain res b1 where r: "on_jobs ?bind b = (res, b1)" by (rule prod.exhaust)
  have "confined dev (jobs_of a) (jobs_of b)" using assms(1) by (simp add: spares_def)
  then have "spares dev cookie a (snd (on_jobs ?bind b))"
    by (intro spares_step [OF assms(1)]) (simp_all add: BindFirmware_confined assms(2))
  then have b1: "spares dev cookie a b1" using r by simp
  show ?thesis
  proof (cases res)
    case (Inr job')
    then have "fst (?bind (jobs_of b)) = Inr job'" using r by (simp add: on_jobs_def case_prod_unfold)
    then show ?thesis using Inr r b1 spares_send_job assms BindFirmware_job by (simp add: bind_and_send_def)
  next
    case (Inl e)
    then show ?thesis using r b1 spares_fail_leased [OF b1 assms(2)] spares_send_job [OF assms]
      by (cases e) (simp_all add: bind_and_send_def)
  qed
qed

lemma spares_dispatch_next:
  assumes "spares (s_DeviceID session) (Some (s_ID session)) a b" "\<And>i dv. sd_device s i = Some dv \<Longrightarrow> dev_ID dv = i"
  shows "spares (s_DeviceID session) (Some (s_ID session)) a (snd (dispatch_next s session b))"
proof -
  let ?dev = "s_DeviceID session" and ?sid = "s_ID session"
  obtain res b1 where l: "lease_next s ?dev b = (res, b1)" by (rule prod.exhaust)
  note s1 = spares_lease_next [OF assms(1) l assms(2)]
  have aud: "spares ?dev (Some ?sid) a (audit d dv act det c)" if "spares ?dev (Some ?sid) a c" for c d dv act det
    using that spares_step [OF that, of "audit d dv act det c"] by (simp add: spares_def)
  show ?thesis
  proof (cases "\<exists>job. res = Inr (Some job)")
    case True
    then obtain job where job: "res = Inr (Some job)" ..
    obtain r b2 where q: "on_sessions (SetCurrentJob (gd_flt (sd_g s) 14) ?sid (job_ID job)) b1 = (r, b2)" by (rule prod.exhaust)
    have "spares ?dev (Some ?sid) a b2" using spares_sessions(1) [of ?dev ?sid a b1] s1 q by (metis snd_conv)
    then show ?thesis using l job q s1 spares_bind_and_send by (simp add: dispatch_next_def split: sum.split)
  next
    case False
    then show ?thesis using l s1 spares_sessions(2) [of ?dev ?sid a b1] aud
      by (auto simp: dispatch_next_def closeSession_def case_prod_unfold split: sum.split option.split)
  qed
qed

lemma dispatch_spares:
  assumes "distinct (map j_id (jobs (jobs_of a)))" "\<And>i dv. sd_device s i = Some dv \<Longrightarrow> dev_ID dv = i"
    "dispatch s cookie body bound a = (reply, a')"
  shows "a' = a \<or> (\<exists>q \<in> set (acs_sessions a). cookie = Some (s_ID q) \<and> \<not> IsClosed q \<and>
    \<not> identity_mismatch s bound (s_DeviceID q) \<and> spares (s_DeviceID q) cookie a a')"
proof (cases "\<exists>sid q. cookie = Some sid \<and> Get_session (gd_flt (sd_g s) 10) sid (acs_sessions a) = Inr q \<and> \<not> IsClosed q \<and>
    \<not> identity_mismatch s bound (s_DeviceID q)")
  case True
  then obtain sid q where q: "cookie = Some sid" "Get_session (gd_flt (sd_g s) 10) sid (acs_sessions a) = Inr q" "\<not> IsClosed q"
    "\<not> identity_mismatch s bound (s_DeviceID q)" by blast
  from Get_session_Inr [OF q(2)] have qs: "q \<in> set (acs_sessions a)" "s_ID q = sid" by simp_all
  have "spares (s_DeviceID q) (Some (s_ID q)) a a'"
  proof (cases "s_CurrentJobID q")
    case None
    then have "a' = snd (dispatch_next s q a)" using assms(3) q by (simp add: dispatch_def)
    then show ?thesis using spares_dispatch_next [OF spares_refl [OF assms(1)] assms(2)] by simp
  next
    case (Some jid)
    let ?c = "on_sessions (SetCurrentJob (gd_flt (sd_g s) 11) (s_ID q) []) (completeJob (sd_g s) (s_DeviceID q) jid body a)"
    have c: "spares (s_DeviceID q) (Some (s_ID q)) a (snd ?c)" using spares_sessions(1) spares_completeJob [OF assms(1)] by blast
    have "a' = snd ?c \<or> a' = snd (dispatch_next s q (snd ?c))"
      using assms(3) q Some by (simp add: dispatch_def case_prod_unfold split: sum.splits)
    then show ?thesis using c spares_dispatch_next [OF c assms(2)] by auto
  qed
  then show ?thesis using q qs by auto
next
  case False
  then show ?thesis using assms(3) by (auto simp: dispatch_def split: option.splits sum.splits if_splits)
qed

lemma transfer_spares:
  assumes "distinct (map j_id (jobs (jobs_of a)))" "handleTransferComplete s tc bound respID ns a = (reply, a')"
  shows "a' = a \<or> (\<exists>r \<in> set (jobs (jobs_of a)). j_command_key r = tc_CommandKey tc \<and>
    \<not> identity_mismatch s bound (j_device_id r) \<and> spares (j_device_id r) cookie a a')"
proof (cases "ByCommandKey (gd_flt (sd_g s) 10) (tc_CommandKey tc) (jobs_of a)")
  case (Inr job)
  then obtain r where r: "r \<in> set (jobs (jobs_of a))" "job = scanJob r" "j_command_key r = tc_CommandKey tc"
    by (auto simp: ByCommandKey_def dest: find_SomeD split: if_splits option.splits)
  let ?dev = "j_device_id r"
  have o: "owned ?dev (j_id r) (jobs_of a)" by (rule owned_found [OF assms(1) r(1)])
  note refl = spares_refl [OF assms(1), of ?dev cookie]
  have step: "spares ?dev cookie a b'" if "confined ?dev (jobs_of a) (jobs_of b')" "\<And>x. x \<noteq> ?dev \<Longrightarrow> view x b' = view x a" for b'
    by (rule spares_step [OF refl]) (use that in auto)
  have "a' = a \<or> \<not> identity_mismatch s bound ?dev \<and> spares ?dev cookie a a'"
    using assms(2) Inr r confined_refl [OF assms(1), of ?dev] o
    by (auto simp: handleTransferComplete_def Let_def auditFailure_def confined views split: if_splits intro!: step)
  then show ?thesis using r by auto
qed (use assms in \<open>simp add: handleTransferComplete_def Let_def\<close>)

text \<open>
  C1. The gateway keeps devices apart. Whatever a message contains, it is worked on for one device: the
  one its open session belongs to, or the one whose transfer it reports, and only if the credential
  that authenticated the message is not bound to another device. The jobs, the cached parameters and
  the sealed secrets of every other device, and every other session, are left as they were.
\<close>

theorem message_spares_others:
  assumes "distinct (map j_id (jobs (jobs_of a)))" "\<And>i dv. sd_device s i = Some dv \<Longrightarrow> dev_ID dv = i"
    and "handleMessage s allowed cookie bound respID ns body a = (reply, a')"
  shows "a' = a \<or> (\<exists>dev. \<not> identity_mismatch s bound dev \<and> spares dev cookie a a' \<and>
    ((\<exists>q \<in> set (acs_sessions a). cookie = Some (s_ID q) \<and> \<not> IsClosed q \<and> s_DeviceID q = dev) \<or>
     (\<exists>tc. \<exists>r \<in> set (jobs (jobs_of a)). b_TransferComplete body = Some tc \<and> j_command_key r = tc_CommandKey tc \<and> j_device_id r = dev)))"
proof (cases "handleMessage s allowed cookie bound respID ns body a = dispatch s cookie body bound a")
  case True
  then have "dispatch s cookie body bound a = (reply, a')" using assms(3) by simp
  from dispatch_spares [OF assms(1) _ this] assms(2) show ?thesis by blast
next
  case False
  show ?thesis
  proof (cases "b_TransferComplete body")
    case None
    then show ?thesis using False assms(3) by (auto simp: handleMessage_def split: if_splits option.splits)
  next
    case (Some tc)
    then have "a' = a \<or> handleTransferComplete s tc bound respID ns a = (reply, a')"
      using assms(3) by (auto simp: handleMessage_def split: if_splits)
    then show ?thesis using transfer_spares [OF assms(1), of s tc bound respID ns reply a' cookie] Some by blast
  qed
qed

section \<open>Example\<close>

definition demo_session :: Session where
  "demo_session = \<lparr> s_ID = ''s1'', s_DeviceID = ''d1'', s_State = StateRPCDispatched, s_InformEventCodes = [], s_CurrentJobID = Some ''u1'',
     s_CWMPNamespace = DefaultSessionNamespace, s_OpenedAt = 0, s_ClosedAt = None, s_CloseReason = None \<rparr>"

definition two_devices :: acs where
  "two_devices = \<lparr> acs_gw = demo_gateway\<lparr> gw_jobs := \<lparr> jobs =
       [(new_row idem_env ''d1'' TypeReboot JNull [] 3 None None)\<lparr> j_status := StatusRPCSent, j_attempts := 1 \<rparr>,
        (new_row idem_env ''d2'' TypeReboot JNull [] 3 None None)\<lparr> j_id := ''u2'' \<rparr>],
       devices = [(''d1'', None), (''d2'', None)] \<rparr> \<rparr>,
     acs_params = fresh_params, acs_sessions = [demo_session], acs_secrets = [], acs_audit = [], acs_calls = [] \<rparr>"

definition demo_sdeps :: sdeps where
  "demo_sdeps = \<lparr> sd_g = \<lparr> gd_now = 9, gd_flt = (\<lambda>_. no_faults), gd_env = (\<lambda>_. idem_env), gd_ckid = ''ck'', gd_sid = 1, gd_tmfEvents = False,
       gd_tr143 = (\<lambda>_ _ _. (JNull, 0, 0)), gd_perr = (\<lambda>_. []) \<rparr>, sd_params = True, sd_store = None, sd_locked = (\<lambda>_. False),
     sd_secret_flt = (\<lambda>_. no_faults), sd_onb = demo_deps, sd_device = (\<lambda>_. None), sd_serial = (\<lambda>_. None), sd_rid = ''1'',
     sd_bind_text = (\<lambda>_. []), sd_secret_text = (\<lambda>_ _. []), sd_bootstrap_only = False \<rparr>"

definition anonymous :: inboundIdentity where
  "anonymous = \<lparr> credentialDeviceID = [], credentialUsername = [], mtlsNaturalKey = [], sharedCredential = False \<rparr>"

theorem message_spares_others_witness:
  "\<exists>r. others ''d1'' (jobs_of (snd (handleMessage demo_sdeps True (Some ''s1'') anonymous ''1'' [] (empty_body\<lparr> b_RebootResponse := Some () \<rparr>)
     two_devices))) = [r] \<and> j_device_id r = ''d2''"
proof -
  let ?body = "empty_body\<lparr> b_RebootResponse := Some () \<rparr>"
  obtain reply a' where h: "handleMessage demo_sdeps True (Some ''s1'') anonymous ''1'' [] ?body two_devices = (reply, a')"
    by (rule prod.exhaust)
  have "distinct (map j_id (jobs (jobs_of two_devices)))" by (simp add: two_devices_def jobs_of_def idem_env_def)
  then have "a' = two_devices \<or> spares ''d1'' (Some ''s1'') two_devices a'"
    using message_spares_others [OF _ _ h]
    by (auto simp: demo_sdeps_def two_devices_def demo_session_def empty_body_def)
  then have "others ''d1'' (jobs_of a') = others ''d1'' (jobs_of two_devices)" by (auto simp: spares_def confined_def)
  then show ?thesis using h by (simp add: others_def two_devices_def jobs_of_def)
qed

end
