(* ===== verification/Account_Mapping.thy ===== *)
theory Account_Mapping
  imports Onboarding_Store
begin

text \<open>
  Accounts of the business systems and the devices that serve them: the assignments
  (\<^verbatim>\<open>internal/bss/mapping.go\<close>), which customer owns an account (\<^verbatim>\<open>accounts.go\<close>) and the sales made
  before a device has connected (\<^verbatim>\<open>preprovision.go\<close>, also of \<^verbatim>\<open>cmd/bssadapter\<close>). The tables share the
  devices and onboardings of the onboarding store. Assignments obey the two partial unique indexes
  of migration 0052.
\<close>

section \<open>Tables\<close>

record mapping_row =
  mp_id :: string
  mp_account_id :: string
  mp_device_id :: string
  mp_oui_serial :: string
  mp_service_plan :: "string option"
  mp_status :: string
  mp_role :: string
  mp_assigned_at :: time
  mp_unassigned_at :: "time option"
  mp_unassign_reason :: "string option"
  mp_updated_at :: time

record account_row =
  ac_account_id :: string
  ac_customer_id :: string
  ac_claimed_by :: string

record profile_row =
  pf_account_id :: string
  pf_display_name :: "string option"
  pf_name_source :: "string option"
  pf_vip :: bool

record archive_row =
  ar_account_id :: string
  ar_display_name :: "string option"
  ar_name_source :: "string option"
  ar_vip :: bool
  ar_reason :: string
  ar_archived_by :: string

text \<open>\<open>sv_history\<close> are the accounts named by the order, service order and webhook tables;
  \<open>sv_bss_mapping\<close> is the column bss_mapping_id of the onboardings, by onboarding.\<close>

record svc_db =
  sv_onb :: onb_db
  sv_mappings :: "mapping_row list"
  sv_accounts :: "account_row list"
  sv_history :: "string list"
  sv_bss_mapping :: "(string \<times> string) list"
  sv_profiles :: "profile_row list"
  sv_archive :: "archive_row list"
  sv_projects :: "(string \<times> string) list"

datatype bss_error = ErrDeviceNotFound | ErrNoDeviceForRole | ErrRoleAlreadyAssigned | ErrDeviceAlreadyAssigned
  | ErrInvalidRole | ErrInvalidUnassignReason | ErrMappingNotFound | ErrAccountHasHistory | ErrAccountIDRequired | ErrBssDB
  | ErrPreProvisionUnavailable | ErrPreProvisionCustomer | ErrNoSerial | ErrSerialOtherAccount | ErrSerialOtherCustomer
  | ErrSale onb_error

type_synonym 'a bss_result = "bss_error + 'a"

section \<open>Assignments\<close>

definition validRoles :: "string list" where
  "validRoles = [''gateway'', ''ont'', ''extender'', ''stb'', ''ata'', ''other'']"

definition validReasons :: "string list" where
  "validReasons = [''rma'', ''upgrade'', ''return'', ''moved'', ''corrected'']"

definition ValidRole :: "string \<Rightarrow> bool" where
  "ValidRole role \<longleftrightarrow> role \<in> set validRoles"

definition ValidUnassignReason :: "string \<Rightarrow> bool" where
  "ValidUnassignReason reason \<longleftrightarrow> reason \<in> set validReasons"

definition mapping_statuses :: "string list" where
  "mapping_statuses = [''PENDING_ACTIVE'', ''ACTIVE'', ''SUSPENDED'', ''TERMINATED'']"

definition is_current :: "mapping_row \<Rightarrow> bool" where
  "is_current m \<longleftrightarrow> mp_unassigned_at m = None"

definition active_idx :: "mapping_row list \<Rightarrow> bool" where
  "active_idx ms \<longleftrightarrow> distinct (map (\<lambda>m. (mp_account_id m, mp_device_id m)) (filter is_current ms))"

definition active_role_idx :: "mapping_row list \<Rightarrow> bool" where
  "active_role_idx ms \<longleftrightarrow> distinct (map (\<lambda>m. (mp_account_id m, mp_role m)) (filter is_current ms))"

record AccountDeviceMapping =
  am_ID :: string
  am_AccountID :: string
  am_DeviceID :: string
  am_OUISerial :: string
  am_ServicePlan :: string
  am_Status :: string
  am_Role :: string
  am_AssignedAt :: time
  am_UnassignedAt :: "time option"
  am_UnassignReason :: string

definition scanMapping :: "mapping_row \<Rightarrow> AccountDeviceMapping" where
  "scanMapping m = \<lparr> am_ID = mp_id m, am_AccountID = mp_account_id m, am_DeviceID = mp_device_id m,
     am_OUISerial = mp_oui_serial m, am_ServicePlan = deref (mp_service_plan m), am_Status = mp_status m, am_Role = mp_role m,
     am_AssignedAt = mp_assigned_at m, am_UnassignedAt = mp_unassigned_at m, am_UnassignReason = deref (mp_unassign_reason m) \<rparr>"

definition resolveDeviceID :: "bool \<Rightarrow> string \<Rightarrow> svc_db \<Rightarrow> string bss_result" where
  "resolveDeviceID fault ouiSerial db =
     (if fault then Inl ErrBssDB
      else case find (\<lambda>d. dv_oui_serial d = ouiSerial) (od_devices (sv_onb db)) of
        None \<Rightarrow> Inl ErrDeviceNotFound
      | Some d \<Rightarrow> Inr (dv_id d))"

definition DeviceIDForSerial :: "faults \<Rightarrow> string \<Rightarrow> svc_db \<Rightarrow> string bss_result" where
  "DeviceIDForSerial flt = resolveDeviceID (flt 0)"

text \<open>A violated unique index other than the one on account and device, the primary key included, is
  reported as a taken role.\<close>

definition insertAssignment ::
  "bool \<Rightarrow> env \<Rightarrow> string \<Rightarrow> string \<Rightarrow> string \<Rightarrow> string \<Rightarrow> string option \<Rightarrow> string \<Rightarrow> svc_db \<Rightarrow> unit bss_result \<times> svc_db" where
  "insertAssignment fault e accountID deviceID ouiSerial role servicePlan status db =
     (let m = \<lparr> mp_id = env_uuid e, mp_account_id = accountID, mp_device_id = deviceID, mp_oui_serial = ouiSerial,
            mp_service_plan = servicePlan, mp_status = status, mp_role = role, mp_assigned_at = env_now e,
            mp_unassigned_at = None, mp_unassign_reason = None, mp_updated_at = env_now e \<rparr>;
          ms = sv_mappings db @ [m]
      in if fault \<or> status \<notin> set mapping_statuses \<or> role \<notin> set validRoles then (Inl ErrBssDB, db)
         else if mp_id m \<in> mp_id ` set (sv_mappings db) then (Inl ErrRoleAlreadyAssigned, db)
         else if \<not> active_idx ms then (Inl ErrDeviceAlreadyAssigned, db)
         else if \<not> active_role_idx ms then (Inl ErrRoleAlreadyAssigned, db)
         else if deviceID \<notin> dv_id ` set (od_devices (sv_onb db)) then (Inl ErrBssDB, db)
         else (Inr (), db\<lparr> sv_mappings := ms \<rparr>))"

definition account_customer :: "string \<Rightarrow> svc_db \<Rightarrow> string option" where
  "account_customer accountID db = map_option ac_customer_id (find (\<lambda>a. ac_account_id a = accountID) (sv_accounts db))"

definition update_devices :: "(device_row \<Rightarrow> bool) \<Rightarrow> (device_row \<Rightarrow> device_row) \<Rightarrow> svc_db \<Rightarrow> svc_db" where
  "update_devices p f db = db\<lparr> sv_onb := (sv_onb db)\<lparr> od_devices := update_where p f (od_devices (sv_onb db)) \<rparr> \<rparr>"

text \<open>Statements 1 and 2 of the caller's transaction.\<close>

definition deviceForAccount :: "faults \<Rightarrow> time \<Rightarrow> string \<Rightarrow> string \<Rightarrow> svc_db \<Rightarrow> string bss_result \<times> svc_db" where
  "deviceForAccount flt now ouiSerial accountID db =
     (if flt 1 then (Inl ErrBssDB, db)
      else case find (\<lambda>d. dv_oui_serial d = ouiSerial) (od_devices (sv_onb db)) of
        None \<Rightarrow> (Inl ErrDeviceNotFound, db)
      | Some d \<Rightarrow>
          (case account_customer accountID db of
             None \<Rightarrow> (Inr (dv_id d), db)
           | Some holder \<Rightarrow>
               (case dv_customer_id d of
                  None \<Rightarrow>
                    if flt 2 \<or> holder \<notin> set (od_customers (sv_onb db)) then (Inl ErrBssDB, db)
                    else (Inr (dv_id d), update_devices (\<lambda>r. dv_id r = dv_id d \<and> dv_customer_id r = None)
                           (\<lambda>r. r\<lparr> dv_customer_id := Some holder, dv_last_updated_at := now \<rparr>) db)
                | Some c \<Rightarrow> if c \<noteq> holder then (Inl ErrDeviceNotFound, db) else (Inr (dv_id d), db))))"

definition getByAccountDevice :: "bool \<Rightarrow> string \<Rightarrow> string \<Rightarrow> svc_db \<Rightarrow> AccountDeviceMapping bss_result" where
  "getByAccountDevice fault accountID deviceID db =
     (if fault then Inl ErrBssDB
      else case find (\<lambda>m. mp_account_id m = accountID \<and> mp_device_id m = deviceID \<and> is_current m) (sv_mappings db) of
        None \<Rightarrow> Inl ErrBssDB
      | Some m \<Rightarrow> Inr (scanMapping m))"

text \<open>A transaction of statements 0 (begin) to 4 (commit); the mapping is read back after it (5).\<close>

definition AssignDeviceStatus ::
  "faults \<Rightarrow> env \<Rightarrow> string \<Rightarrow> string \<Rightarrow> string \<Rightarrow> string \<Rightarrow> string \<Rightarrow> svc_db \<Rightarrow> AccountDeviceMapping bss_result \<times> svc_db" where
  "AssignDeviceStatus flt e accountID ouiSerial role servicePlan status db =
     (if \<not> ValidRole role then (Inl ErrInvalidRole, db)
      else if flt 0 then (Inl ErrBssDB, db)
      else case deviceForAccount flt (env_now e) ouiSerial accountID db of
        (Inl err, _) \<Rightarrow> (Inl err, db)
      | (Inr deviceID, db1) \<Rightarrow>
          (case insertAssignment (flt 3) e accountID deviceID ouiSerial role (nullIfEmpty servicePlan) status db1 of
             (Inl err, _) \<Rightarrow> (Inl err, db)
           | (Inr _, db2) \<Rightarrow>
               if flt 4 then (Inl ErrBssDB, db) else (getByAccountDevice (flt 5) accountID deviceID db2, db2)))"

definition AssignDevice ::
  "faults \<Rightarrow> env \<Rightarrow> string \<Rightarrow> string \<Rightarrow> string \<Rightarrow> string \<Rightarrow> svc_db \<Rightarrow> AccountDeviceMapping bss_result \<times> svc_db" where
  "AssignDevice flt e accountID ouiSerial role servicePlan =
     AssignDeviceStatus flt e accountID ouiSerial role servicePlan ''ACTIVE''"

definition serves :: "string \<Rightarrow> string \<Rightarrow> mapping_row \<Rightarrow> bool" where
  "serves accountID role m \<longleftrightarrow> mp_account_id m = accountID \<and> mp_role m = role \<and> is_current m"

definition close_mapping :: "time \<Rightarrow> string \<Rightarrow> mapping_row \<Rightarrow> mapping_row" where
  "close_mapping now reason m =
     m\<lparr> mp_unassigned_at := Some now, mp_unassign_reason := Some reason, mp_updated_at := now \<rparr>"

definition UnassignDevice :: "faults \<Rightarrow> time \<Rightarrow> string \<Rightarrow> string \<Rightarrow> string \<Rightarrow> svc_db \<Rightarrow> bss_error option \<times> svc_db" where
  "UnassignDevice flt now accountID role reason db =
     (if \<not> ValidRole role then (Some ErrInvalidRole, db)
      else if \<not> ValidUnassignReason reason then (Some ErrInvalidUnassignReason, db)
      else if flt 0 then (Some ErrBssDB, db)
      else if rows_affected (serves accountID role) (sv_mappings db) = 0 then (Some ErrNoDeviceForRole, db)
      else (None, db\<lparr> sv_mappings := update_where (serves accountID role) (close_mapping now reason) (sv_mappings db) \<rparr>))"

text \<open>Statement 6 closes the old assignment.\<close>

definition SwapDevice ::
  "faults \<Rightarrow> env \<Rightarrow> string \<Rightarrow> string \<Rightarrow> string \<Rightarrow> string \<Rightarrow> svc_db \<Rightarrow> AccountDeviceMapping bss_result \<times> svc_db" where
  "SwapDevice flt e accountID role newOUISerial reason db =
     (if \<not> ValidRole role then (Inl ErrInvalidRole, db)
      else if \<not> ValidUnassignReason reason then (Inl ErrInvalidUnassignReason, db)
      else if flt 0 \<or> flt 6 then (Inl ErrBssDB, db)
      else case find (serves accountID role) (sv_mappings db) of
        None \<Rightarrow> (Inl ErrNoDeviceForRole, db)
      | Some old \<Rightarrow>
          let db0 = db\<lparr> sv_mappings := update_where (serves accountID role) (close_mapping (env_now e) reason) (sv_mappings db) \<rparr>
          in case deviceForAccount flt (env_now e) newOUISerial accountID db0 of
               (Inl err, _) \<Rightarrow> (Inl err, db)
             | (Inr deviceID, db1) \<Rightarrow>
                 (case insertAssignment (flt 3) e accountID deviceID newOUISerial role (mp_service_plan old) ''ACTIVE'' db1 of
                    (Inl err, _) \<Rightarrow> (Inl err, db)
                  | (Inr _, db2) \<Rightarrow>
                      if flt 4 then (Inl ErrBssDB, db) else (getByAccountDevice (flt 5) accountID deviceID db2, db2)))"

definition oldest_assigned :: "mapping_row list \<Rightarrow> mapping_row list" where
  "oldest_assigned ms = sort_key mp_assigned_at (sort_key mp_id ms)"

definition ListByAccount :: "faults \<Rightarrow> string \<Rightarrow> svc_db \<Rightarrow> AccountDeviceMapping list bss_result" where
  "ListByAccount flt accountID db =
     (if flt 0 then Inl ErrBssDB
      else Inr (map scanMapping (oldest_assigned (filter (\<lambda>m. mp_account_id m = accountID \<and> is_current m) (sv_mappings db)))))"

definition ListAll_mappings :: "faults \<Rightarrow> nat \<Rightarrow> svc_db \<Rightarrow> AccountDeviceMapping list bss_result" where
  "ListAll_mappings flt limit db =
     (if flt 0 then Inl ErrBssDB
      else Inr (map scanMapping (take limit (sort_key (\<lambda>m. - mp_assigned_at m) (filter is_current (sv_mappings db))))))"

definition ActiveDeviceForAccount :: "faults \<Rightarrow> string \<Rightarrow> string \<Rightarrow> svc_db \<Rightarrow> AccountDeviceMapping bss_result" where
  "ActiveDeviceForAccount flt accountID role db =
     (if flt 0 then Inl ErrBssDB
      else case find (serves accountID role) (sv_mappings db) of
        None \<Rightarrow> Inl ErrNoDeviceForRole
      | Some m \<Rightarrow> Inr (scanMapping m))"

definition CurrentAccountForDevice :: "faults \<Rightarrow> string \<Rightarrow> svc_db \<Rightarrow> string bss_result" where
  "CurrentAccountForDevice flt deviceID db =
     (if flt 0 then Inl ErrBssDB
      else case find (\<lambda>m. mp_device_id m = deviceID \<and> is_current m) (sv_mappings db) of
        None \<Rightarrow> Inr []
      | Some m \<Rightarrow> Inr (mp_account_id m))"

definition GetMappingByID :: "faults \<Rightarrow> string \<Rightarrow> svc_db \<Rightarrow> AccountDeviceMapping bss_result" where
  "GetMappingByID flt mid db =
     (if flt 0 then Inl ErrBssDB
      else case find (\<lambda>m. mp_id m = mid) (sv_mappings db) of
        None \<Rightarrow> Inl ErrMappingNotFound
      | Some m \<Rightarrow> Inr (scanMapping m))"

definition AssignmentHistory :: "faults \<Rightarrow> string \<Rightarrow> svc_db \<Rightarrow> AccountDeviceMapping list bss_result" where
  "AssignmentHistory flt accountID db =
     (if flt 0 then Inl ErrBssDB
      else Inr (map scanMapping (oldest_assigned (filter (\<lambda>m. mp_account_id m = accountID) (sv_mappings db)))))"

section \<open>Account ownership\<close>

definition AccountOwner :: "bool \<Rightarrow> string \<Rightarrow> svc_db \<Rightarrow> string bss_result" where
  "AccountOwner fault accountID db =
     (if fault then Inl ErrBssDB else Inr (deref (account_customer (TrimSpace accountID) db)))"

text \<open>\<^verbatim>\<open>ON CONFLICT DO NOTHING\<close> for an owned account; otherwise the customer must exist.\<close>

definition ClaimAccount :: "faults \<Rightarrow> string \<Rightarrow> string \<Rightarrow> string \<Rightarrow> svc_db \<Rightarrow> string bss_result \<times> svc_db" where
  "ClaimAccount flt accountID0 customerID claimedBy db =
     (let accountID = TrimSpace accountID0;
          unused = (\<not> list_ex (\<lambda>m. mp_account_id m = accountID) (sv_mappings db) \<and> accountID \<notin> set (sv_history db));
          fresh = (unused \<and> account_customer accountID db = None);
          db' = (if fresh then db\<lparr> sv_accounts := sv_accounts db @ [\<lparr> ac_account_id = accountID,
                   ac_customer_id = customerID, ac_claimed_by = claimedBy \<rparr>] \<rparr> else db)
      in if flt 0 \<or> (fresh \<and> customerID \<notin> set (od_customers (sv_onb db))) then (Inl ErrBssDB, db)
         else case AccountOwner (flt 1) accountID db' of
           Inl err \<Rightarrow> (Inl err, db')
         | Inr holder \<Rightarrow> (if holder = [] then Inl ErrAccountHasHistory else Inr holder, db'))"

definition AssignAccountOwner :: "faults \<Rightarrow> string \<Rightarrow> string \<Rightarrow> string \<Rightarrow> svc_db \<Rightarrow> bss_error option \<times> svc_db" where
  "AssignAccountOwner flt accountID0 customerID claimed_by db =
     (let accountID = TrimSpace accountID0 in
      if accountID = [] then (Some ErrAccountIDRequired, db)
      else if flt 0 \<or> customerID \<notin> set (od_customers (sv_onb db)) then (Some ErrBssDB, db)
      else (None, db\<lparr> sv_accounts :=
        (if account_customer accountID db = None
         then sv_accounts db @ [\<lparr> ac_account_id = accountID, ac_customer_id = customerID, ac_claimed_by = claimed_by \<rparr>]
         else update_where (\<lambda>a. ac_account_id a = accountID)
                (\<lambda>a. a\<lparr> ac_customer_id := customerID, ac_claimed_by := claimed_by \<rparr>) (sv_accounts db)) \<rparr>))"

definition OwnedAccounts :: "faults \<Rightarrow> string \<Rightarrow> svc_db \<Rightarrow> string list bss_result" where
  "OwnedAccounts flt customerID db =
     (if flt 0 then Inl ErrBssDB
      else Inr (map ac_account_id (filter (\<lambda>a. ac_customer_id a = customerID) (sv_accounts db))))"

section \<open>What every operation keeps\<close>

text \<open>The constraints of the tables, and tenancy: a device that serves an owned account belongs to the
  account's customer.\<close>

definition mapping_ok :: "onb_db \<Rightarrow> mapping_row \<Rightarrow> bool" where
  "mapping_ok odb m \<longleftrightarrow> mp_device_id m \<in> set (map dv_id (od_devices odb)) \<and> ValidRole (mp_role m) \<and>
     (case mp_unassign_reason m of None \<Rightarrow> is_current m | Some reason \<Rightarrow> \<not> is_current m \<and> ValidUnassignReason reason)"

definition mapping_tenant :: "svc_db \<Rightarrow> mapping_row \<Rightarrow> bool" where
  "mapping_tenant db m \<longleftrightarrow> is_current m \<longrightarrow>
     (case account_customer (mp_account_id m) db of None \<Rightarrow> True | Some c \<Rightarrow> owner (sv_onb db) (mp_device_id m) = Some c)"

definition svc_wf :: "svc_db \<Rightarrow> bool" where
  "svc_wf db \<longleftrightarrow> onb_wf (sv_onb db) \<and>
     distinct (map dv_id (od_devices (sv_onb db))) \<and> distinct (map dv_oui_serial (od_devices (sv_onb db))) \<and>
     distinct (map mp_id (sv_mappings db)) \<and> active_idx (sv_mappings db) \<and> active_role_idx (sv_mappings db) \<and>
     list_all (mapping_ok (sv_onb db)) (sv_mappings db) \<and> list_all (mapping_tenant db) (sv_mappings db) \<and>
     distinct (map ac_account_id (sv_accounts db)) \<and>
     list_all (\<lambda>a. ac_customer_id a \<in> set (od_customers (sv_onb db))) (sv_accounts db)"

lemma account_customer_mappings [simp]: "account_customer a (db\<lparr> sv_mappings := ms \<rparr>) = account_customer a db"
  by (simp add: account_customer_def)

lemma svc_wfD:
  assumes "svc_wf db"
  shows "onb_wf (sv_onb db)" "distinct (map dv_id (od_devices (sv_onb db)))"
    "active_idx (sv_mappings db)" "active_role_idx (sv_mappings db)"
    "m \<in> set (sv_mappings db) \<Longrightarrow> mapping_ok (sv_onb db) m"
    "m \<in> set (sv_mappings db) \<Longrightarrow> mapping_tenant db m"
  using assms by (simp_all add: svc_wf_def list_all_iff)

lemma mapping_tenant_mappings [simp]: "mapping_tenant (db\<lparr> sv_mappings := ms \<rparr>) = mapping_tenant db"
  by (rule ext) (simp add: mapping_tenant_def split: option.split)

text \<open>Closing assignments only takes rows out of the partial indexes.\<close>

lemma svc_wf_mappings:
  assumes "svc_wf db"
    and "\<And>m. mp_id (f m) = mp_id m \<and> mp_account_id (f m) = mp_account_id m \<and> mp_device_id (f m) = mp_device_id m \<and>
      mp_role (f m) = mp_role m"
    and "\<And>m. (mp_unassigned_at (f m) = mp_unassigned_at m \<and> mp_unassign_reason (f m) = mp_unassign_reason m) \<or>
      (\<not> is_current (f m) \<and> (\<exists>reason. mp_unassign_reason (f m) = Some reason \<and> ValidUnassignReason reason))"
  shows "svc_wf (db\<lparr> sv_mappings := update_where p f (sv_mappings db) \<rparr>)"
proof -
  let ?db = "db\<lparr> sv_mappings := update_where p f (sv_mappings db) \<rparr>"
  have cur: "is_current (f m) \<Longrightarrow> is_current m" for m using assms(3) [of m] by (auto simp: is_current_def)
  have idx: "active_idx (sv_mappings ?db)" "active_role_idx (sv_mappings ?db)"
    using assms(1,2) cur by (auto simp: svc_wf_def active_idx_def active_role_idx_def intro!: distinct_filter_update)
  have "mapping_ok odb m \<Longrightarrow> mapping_ok odb (f m)" "mapping_tenant db m \<Longrightarrow> mapping_tenant db (f m)" for odb m
    using assms(2) [of m] assms(3) [of m] by (auto simp: mapping_ok_def mapping_tenant_def is_current_def split: option.splits)
  then have "list_all (mapping_ok (sv_onb db)) (sv_mappings ?db)" "list_all (mapping_tenant ?db) (sv_mappings ?db)"
    using assms(1) by (auto simp: svc_wf_def list_all_iff update_where_def)
  moreover have "map mp_id (update_where p f (sv_mappings db)) = map mp_id (sv_mappings db)"
    using assms(2) by (simp add: map_update_where)
  ultimately show ?thesis using assms(1) idx by (simp add: svc_wf_def)
qed

lemma svc_wf_close:
  assumes "svc_wf db" "ValidUnassignReason reason"
  shows "svc_wf (db\<lparr> sv_mappings := update_where p (close_mapping now reason) (sv_mappings db) \<rparr>)"
  by (rule svc_wf_mappings [OF assms(1)]) (simp_all add: close_mapping_def is_current_def assms(2))

text \<open>A device that joins a customer while it has none serves no owned account.\<close>

lemma owner_update_devices:
  assumes "\<And>d. dv_id (f d) = dv_id d"
  shows "owner (sv_onb (update_devices p f db)) did =
    (case find (\<lambda>d. dv_id d = did) (od_devices (sv_onb db)) of
       None \<Rightarrow> None | Some d \<Rightarrow> dv_customer_id (if p d then f d else d))"
  using assms by (simp add: owner_def update_devices_def find_update_where [of dv_id] split: option.split)

lemma update_devices_more [simp]:
  "sv_mappings (update_devices p f db) = sv_mappings db" "sv_accounts (update_devices p f db) = sv_accounts db"
  "od_customers (sv_onb (update_devices p f db)) = od_customers (sv_onb db)"
  "od_onboardings (sv_onb (update_devices p f db)) = od_onboardings (sv_onb db)"
  "od_sites (sv_onb (update_devices p f db)) = od_sites (sv_onb db)"
  "od_plans (sv_onb (update_devices p f db)) = od_plans (sv_onb db)"
  "account_customer a (update_devices p f db) = account_customer a db"
  by (simp_all add: update_devices_def account_customer_def)

lemma svc_wf_devices:
  assumes wf: "svc_wf db" and key: "\<And>d. dv_id (f d) = dv_id d \<and> dv_oui_serial (f d) = dv_oui_serial d"
    and ten: "\<And>m. m \<in> set (sv_mappings db) \<Longrightarrow> mapping_tenant (update_devices p f db) m"
  shows "svc_wf (update_devices p f db)"
proof -
  let ?db = "update_devices p f db"
  have ids: "map dv_id (od_devices (sv_onb ?db)) = map dv_id (od_devices (sv_onb db))"
    and serials: "map dv_oui_serial (od_devices (sv_onb ?db)) = map dv_oui_serial (od_devices (sv_onb db))"
    using key by (simp_all add: update_devices_def map_update_where)
  have "onboarding_fks (sv_onb ?db) = onboarding_fks (sv_onb db)" by (rule onboarding_fks_cong) (simp_all add: ids)
  then have "onb_wf (sv_onb ?db)" using wf by (simp add: svc_wf_def onb_wf_def)
  moreover have "mapping_ok (sv_onb ?db) = mapping_ok (sv_onb db)" by (rule ext) (simp only: mapping_ok_def ids)
  ultimately show ?thesis using wf ten by (simp add: svc_wf_def ids serials list_all_iff)
qed

lemma mapping_tenant_mono:
  assumes "mapping_tenant db m" "account_customer (mp_account_id m) db' = account_customer (mp_account_id m) db"
    "\<And>c. is_current m \<Longrightarrow> owner (sv_onb db) (mp_device_id m) = Some c \<Longrightarrow> owner (sv_onb db') (mp_device_id m) = Some c"
  shows "mapping_tenant db' m"
  using assms by (simp add: mapping_tenant_def split: option.splits)

lemma svc_wf_join:
  assumes "svc_wf db"
  shows "svc_wf (update_devices (\<lambda>r. dv_id r = did \<and> dv_customer_id r = None)
    (\<lambda>r. r\<lparr> dv_customer_id := Some c, dv_last_updated_at := now \<rparr>) db)"
proof (rule svc_wf_devices [OF assms])
  fix m assume "m \<in> set (sv_mappings db)"
  then have "mapping_tenant db m" by (rule svc_wfD [OF assms])
  then show "mapping_tenant (update_devices (\<lambda>r. dv_id r = did \<and> dv_customer_id r = None)
      (\<lambda>r. r\<lparr> dv_customer_id := Some c, dv_last_updated_at := now \<rparr>) db) m"
    by (rule mapping_tenant_mono) (auto simp: owner_update_devices owner_def [of "sv_onb db"] split: option.splits)
qed simp_all

lemma deviceForAccount_wf:
  assumes wf: "svc_wf db" and r: "deviceForAccount flt now ouiSerial accountID db = (Inr did, db')"
  shows "svc_wf db' \<and> sv_mappings db' = sv_mappings db \<and> (\<forall>a. account_customer a db' = account_customer a db) \<and>
    (case account_customer accountID db of None \<Rightarrow> True | Some c \<Rightarrow> owner (sv_onb db') did = Some c)"
proof -
  obtain d where d: "find (\<lambda>d. dv_oui_serial d = ouiSerial) (od_devices (sv_onb db)) = Some d"
    using r by (auto simp: deviceForAccount_def split: if_splits option.splits)
  then have "d \<in> set (od_devices (sv_onb db))" by (auto simp: find_Some_iff)
  then have f: "find (\<lambda>x. dv_id x = dv_id d) (od_devices (sv_onb db)) = Some d"
    by (rule find_distinct [OF svc_wfD(2) [OF wf]])
  show ?thesis
  proof (cases "account_customer accountID db")
    case None
    then show ?thesis using r d wf by (auto simp: deviceForAccount_def split: if_splits)
  next
    case (Some c)
    show ?thesis
    proof (cases "dv_customer_id d")
      case None
      then show ?thesis using r d f Some svc_wf_join [OF wf]
        by (auto simp: deviceForAccount_def owner_update_devices split: if_splits)
    next
      case (Some c')
      then show ?thesis using r d f wf \<open>account_customer accountID db = Some c\<close>
        by (auto simp: deviceForAccount_def owner_def split: if_splits)
    qed
  qed
qed

lemma insertAssignment_wf:
  assumes wf: "svc_wf db" and r: "insertAssignment fault e accountID did ouiSerial role plan status db = (Inr u, db')"
    and ten: "case account_customer accountID db of None \<Rightarrow> True | Some c \<Rightarrow> owner (sv_onb db) did = Some c"
  shows "svc_wf db' \<and> (\<forall>a. account_customer a db' = account_customer a db)"
proof -
  let ?m = "\<lparr> mp_id = env_uuid e, mp_account_id = accountID, mp_device_id = did, mp_oui_serial = ouiSerial,
    mp_service_plan = plan, mp_status = status, mp_role = role, mp_assigned_at = env_now e, mp_unassigned_at = None,
    mp_unassign_reason = None, mp_updated_at = env_now e \<rparr>"
  have db': "db' = db\<lparr> sv_mappings := sv_mappings db @ [?m] \<rparr>" and idx: "active_idx (sv_mappings db @ [?m])"
    "active_role_idx (sv_mappings db @ [?m])" "env_uuid e \<notin> mp_id ` set (sv_mappings db)"
    and ok: "role \<in> set validRoles" "did \<in> dv_id ` set (od_devices (sv_onb db))"
    using r by (auto simp: insertAssignment_def Let_def split: if_splits)
  have same: "account_customer a db' = account_customer a db" for a by (simp add: db' account_customer_def)
  have "mapping_tenant db ?m" using ten by (simp add: mapping_tenant_def split: option.splits)
  moreover have "mapping_ok (sv_onb db) ?m" using ok by (simp add: mapping_ok_def is_current_def ValidRole_def)
  ultimately have "svc_wf db'" using wf idx by (simp add: svc_wf_def db')
  then show ?thesis using same by simp
qed

text \<open>A step keeps the constraints and never takes an account from its customer.\<close>

definition keeps :: "svc_db \<Rightarrow> svc_db \<Rightarrow> bool" where
  "keeps db db' \<longleftrightarrow> svc_wf db' \<and> (\<forall>a c. account_customer a db = Some c \<longrightarrow> account_customer a db' = Some c)"

lemma keeps_refl: "svc_wf db \<Longrightarrow> keeps db db"
  by (simp add: keeps_def)

lemma keeps_trans [trans]: "keeps a b \<Longrightarrow> keeps b c \<Longrightarrow> keeps a c"
  by (simp add: keeps_def)

lemma keeps_frame:
  assumes "keeps db d" "sv_onb d' = sv_onb d" "sv_mappings d' = sv_mappings d" "sv_accounts d' = sv_accounts d"
  shows "keeps db d'"
proof -
  have cust: "account_customer a d' = account_customer a d" for a by (simp add: account_customer_def assms(4))
  have "mapping_tenant d' = mapping_tenant d" by (rule ext) (simp add: mapping_tenant_def cust assms(2) split: option.split)
  then show ?thesis using assms by (simp add: keeps_def svc_wf_def cust)
qed

lemma AssignDeviceStatus_keeps:
  assumes "svc_wf db"
  shows "keeps db (snd (AssignDeviceStatus flt e accountID ouiSerial role plan status db))"
proof -
  obtain x db1 where d: "deviceForAccount flt (env_now e) ouiSerial accountID db = (x, db1)" by (rule prod.exhaust)
  show ?thesis
  proof (cases x)
    case (Inr did)
    obtain y db2 where i: "insertAssignment (flt 3) e accountID did ouiSerial role (nullIfEmpty plan) status db1 = (y, db2)"
      by (rule prod.exhaust)
    have 1: "svc_wf db1" "\<And>a. account_customer a db1 = account_customer a db"
      "case account_customer accountID db1 of None \<Rightarrow> True | Some c \<Rightarrow> owner (sv_onb db1) did = Some c"
      using deviceForAccount_wf [OF assms d [unfolded Inr]] by simp_all
    show ?thesis
      using keeps_refl [OF assms] insertAssignment_wf [OF 1(1) _ 1(3)] i 1(2)
      by (cases y) (auto simp: AssignDeviceStatus_def d Inr keeps_def)
  qed (simp add: AssignDeviceStatus_def d keeps_refl [OF assms])
qed

lemma UnassignDevice_keeps: "svc_wf db \<Longrightarrow> keeps db (snd (UnassignDevice flt now accountID role reason db))"
  by (simp add: UnassignDevice_def keeps_def svc_wf_close)

lemma SwapDevice_keeps:
  assumes "svc_wf db"
  shows "keeps db (snd (SwapDevice flt e accountID role newOUISerial reason db))"
proof (cases "ValidRole role \<and> ValidUnassignReason reason \<and> \<not> flt 0 \<and> \<not> flt 6 \<and> find (serves accountID role) (sv_mappings db) \<noteq> None")
  case True
  then obtain old where old: "find (serves accountID role) (sv_mappings db) = Some old" by auto
  let ?db0 = "db\<lparr> sv_mappings := update_where (serves accountID role) (close_mapping (env_now e) reason) (sv_mappings db) \<rparr>"
  have 0: "svc_wf ?db0" using True by (intro svc_wf_close [OF assms]) simp
  obtain x db1 where d: "deviceForAccount flt (env_now e) newOUISerial accountID ?db0 = (x, db1)" by (rule prod.exhaust)
  show ?thesis
  proof (cases x)
    case (Inr did)
    obtain y db2 where i: "insertAssignment (flt 3) e accountID did newOUISerial role (mp_service_plan old) ''ACTIVE'' db1 = (y, db2)"
      by (rule prod.exhaust)
    have 1: "svc_wf db1" "\<And>a. account_customer a db1 = account_customer a db"
      "case account_customer accountID db1 of None \<Rightarrow> True | Some c \<Rightarrow> owner (sv_onb db1) did = Some c"
      using deviceForAccount_wf [OF 0 d [unfolded Inr]] by simp_all
    show ?thesis
      using keeps_refl [OF assms] insertAssignment_wf [OF 1(1) _ 1(3)] i 1(2) True
      by (cases y) (auto simp: SwapDevice_def Let_def d Inr keeps_def old)
  qed (use True in \<open>simp add: SwapDevice_def Let_def d old keeps_refl [OF assms]\<close>)
qed (auto simp: SwapDevice_def keeps_refl [OF assms])

lemma ClaimAccount_keeps:
  assumes wf: "svc_wf db"
  shows "keeps db (snd (ClaimAccount flt accountID customerID by' db))"
proof -
  let ?a = "TrimSpace accountID"
  let ?new = "db\<lparr> sv_accounts := sv_accounts db @ [\<lparr> ac_account_id = ?a, ac_customer_id = customerID, ac_claimed_by = by' \<rparr>] \<rparr>"
  have "keeps db ?new" if new: "\<not> list_ex (\<lambda>m. mp_account_id m = ?a) (sv_mappings db)" "account_customer ?a db = None"
    "customerID \<in> set (od_customers (sv_onb db))"
  proof -
    have cust: "account_customer x ?new = (if x = ?a then Some customerID else account_customer x db)" for x
      using new(2) by (auto simp: account_customer_def find_append split: option.split)
    have "mapping_tenant ?new m" if m: "m \<in> set (sv_mappings db)" for m
    proof -
      have "mapping_tenant db m" by (rule svc_wfD [OF wf]) (rule m)
      then show ?thesis using new(1) m by (auto simp: mapping_tenant_def cust list_ex_iff split: option.splits)
    qed
    moreover have "?a \<notin> ac_account_id ` set (sv_accounts db)" using new(2) by (auto simp: account_customer_def find_None_iff)
    ultimately show ?thesis using wf new(3) by (auto simp: keeps_def svc_wf_def cust new(2) list_all_iff)
  qed
  then show ?thesis using keeps_refl [OF wf] by (auto simp: ClaimAccount_def Let_def split: sum.split)
qed

text \<open>The operations of the onboarding store.\<close>

lemma update_onboardings_customers: "od_customers (snd (update_onboardings fault p f odb)) = od_customers odb"
  by (simp add: update_onboardings_def Let_def)

lemma exec_onb_customers: "od_customers (snd (exec_onb flt p f odb)) = od_customers odb"
  using update_onboardings_customers [of "flt 0" p f odb]
  by (simp add: exec_onb_def case_prod_unfold split: sum.split)

lemma Apply_devices:
  "map dv_id (od_devices (snd (Apply flt now o' d did js odb))) = map dv_id (od_devices odb) \<and>
   map dv_oui_serial (od_devices (snd (Apply flt now o' d did js odb))) = map dv_oui_serial (od_devices odb) \<and>
   od_customers (snd (Apply flt now o' d did js odb)) = od_customers odb"
proof -
  obtain res db' where a: "Apply flt now o' d did js odb = (res, db')" by (rule prod.exhaust)
  from a show ?thesis
  proof (rule Apply_cases)
    fix n db1 devs
    assume u: "update_onboardings (flt 1) (as_read o') (apply_row now d did js) odb = (Inr n, db1)"
      and db': "db' = db1\<lparr> od_devices := devs \<rparr>"
      and devs: "devs = od_devices db1 \<or> devs = update_where (assign_ok did (o_CustomerID o'))
        (assign_row now (o_SiteID o') (o_CustomerID o')) (od_devices db1)"
    have same: "od_devices db1 = od_devices odb" using u by (rule update_onboardings_cases) simp_all
    have "dv_oui_serial (assign_row now s c r) = dv_oui_serial r" for s c r by (simp add: assign_row_def)
    moreover have "od_customers db1 = od_customers odb"
      using update_onboardings_customers [of "flt 1" "as_read o'" "apply_row now d did js" odb] u by simp
    ultimately show ?thesis using devs by (auto simp: a db' same map_update_where)
  qed (simp add: a)
qed

lemma created_customers:
  "od_customers (snd (CreateSite flt e site odb)) = od_customers odb"
  "od_customers (snd (CreatePlan flt e plan odb)) = od_customers odb"
  "od_customers (snd (Create_onboarding flt e o' odb)) = od_customers odb"
  "od_customers (snd (ExpireUncontacted flt now src ttl reason limit odb)) = od_customers odb"
  by (simp_all add: CreateSite_def CreatePlan_def Create_onboarding_def ExpireUncontacted_def Let_def
      update_onboardings_customers case_prod_unfold split: option.split sum.split)

lemma onb_exec_frame:
  assumes "onb_wf odb"
  shows "map dv_id (od_devices (onb_exec op odb)) = map dv_id (od_devices odb) \<and>
    map dv_oui_serial (od_devices (onb_exec op odb)) = map dv_oui_serial (od_devices odb) \<and>
    od_customers (onb_exec op odb) = od_customers odb"
  using assms
  by (cases op)
    (simp_all add: CreateSite_wf CreatePlan_wf Create_onboarding_wf Expire_wf exec_onb_wf Apply_devices
      Retry_def Cancel_def CancelWithReason_def exec_onb_customers created_customers)

lemma onb_exec_keeps:
  assumes wf: "svc_wf db"
  shows "keeps db (db\<lparr> sv_onb := onb_exec op (sv_onb db) \<rparr>)"
proof -
  let ?db = "db\<lparr> sv_onb := onb_exec op (sv_onb db) \<rparr>"
  note o = svc_wfD(1) [OF wf]
  note fr = onb_exec_frame [OF o, of op]
  have cust: "account_customer a ?db = account_customer a db" for a by (simp add: account_customer_def)
  have "mapping_tenant ?db m" if "m \<in> set (sv_mappings db)" for m
    by (rule mapping_tenant_mono [OF svc_wfD(6) [OF wf that] cust]) (simp add: onb_exec_owner [OF o])
  moreover have "mapping_ok (sv_onb ?db) = mapping_ok (sv_onb db)" using fr by (intro ext) (simp add: mapping_ok_def)
  ultimately show ?thesis using wf fr onb_exec_wf [OF o, of op] by (simp add: keeps_def svc_wf_def cust list_all_iff)
qed

end
