(* ===== verification/Pre_Provision.thy ===== *)
theory Pre_Provision
  imports Account_Mapping Cwmp_Types
begin

text \<open>
  Sales the business systems send before a device has connected: the device identity they name
  (\<^verbatim>\<open>ParseOUISerial\<close>), the planned onboarding (\<^verbatim>\<open>preProvision\<close> of \<^verbatim>\<open>cmd/bssadapter\<close>) and the pass that
  writes the account's assignment as the device connects (\<^verbatim>\<open>syncMapping\<close>). Audit records are left out:
  a failed write of one is only logged.
\<close>

section \<open>Device identity\<close>

fun split_esc :: "string \<Rightarrow> string \<Rightarrow> string list" where
  "split_esc cur [] = [cur]"
| "split_esc cur (c # cs) =
     (if c = backslash \<and> cs \<noteq> [] then split_esc (cur @ [hd cs]) (tl cs)
      else if c = CHR ''+'' then cur # split_esc [] cs
      else split_esc (cur @ [c]) cs)"

definition splitEscaped :: "string \<Rightarrow> string list" where
  "splitEscaped s = split_esc [] s"

definition ParseOUISerial :: "string \<Rightarrow> string \<times> string" where
  "ParseOUISerial s0 =
     (let s = TrimSpace s0;
          parts = (if CHR ''+'' \<in> set s then splitEscaped s else Split (CHR ''-'') s)
      in if length parts < 2 then ([], s) else (ToUpper (hd parts), last parts))"

section \<open>Recording a sale\<close>

definition onboardingRole :: "string \<Rightarrow> string" where
  "onboardingRole role = (if role \<in> {''gateway'', ''extender'', ''ont''} then role else ''other'')"

definition roleOrDefault :: "string \<Rightarrow> string" where
  "roleOrDefault role = (if role = [] then ''gateway'' else role)"

record tmf641Place =
  pl_ID :: string
  pl_Name :: string
  pl_Street :: string
  pl_City :: string
  pl_PostalCode :: string
  pl_Country :: string

record preProvisionRequest =
  pp_CustomerID :: string
  pp_AccountID :: string
  pp_ExternalRef :: string
  pp_OUISerial :: string
  pp_Role :: string
  pp_ServicePlan :: string
  pp_ICCID :: string
  pp_IMSI :: string
  pp_Place :: "tmf641Place option"

definition resolvePlan :: "bool \<Rightarrow> string \<Rightarrow> string \<Rightarrow> onb_db \<Rightarrow> ServicePlan option onb_result" where
  "resolvePlan fault code0 holder odb =
     (let code = TrimSpace code0 in
      if code = [] then Inr None
      else case (if holder \<noteq> [] then PlanForCustomer (\<lambda>_. fault) code holder odb else PlanByCode (\<lambda>_. fault) code odb) of
        Inl ErrNotFound \<Rightarrow> Inr None
      | Inl err \<Rightarrow> Inl err
      | Inr p \<Rightarrow> Inr (Some p))"

text \<open>The site named by the BSS, created when it is new.\<close>

definition place_site :: "bool \<Rightarrow> bool \<Rightarrow> env \<Rightarrow> string option \<Rightarrow> tmf641Place \<Rightarrow> onb_db \<Rightarrow> Site onb_result \<times> onb_db" where
  "place_site fault fault' e customerID pl odb =
     (case SiteByRef (\<lambda>_. fault) customerID (pl_ID pl) odb of
        Inl ErrNotFound \<Rightarrow>
          CreateSite (\<lambda>_. fault') e \<lparr> site_ID = [], site_CustomerID = customerID, site_ExternalRef = Some (TrimSpace (pl_ID pl)),
            site_Name = (if TrimSpace (pl_Name pl) = [] then pl_ID pl else TrimSpace (pl_Name pl)), site_Street = pl_Street pl,
            site_Suburb = [], site_City = pl_City pl, site_PostalCode = pl_PostalCode pl, site_Country = pl_Country pl,
            site_Latitude = None, site_Longitude = None, site_RegionID = None, site_CreatedAt = 0, site_UpdatedAt = 0 \<rparr> odb
      | Inl err \<Rightarrow> (Inl err, odb)
      | Inr site \<Rightarrow> (Inr site, odb))"

definition bss_sale :: "preProvisionRequest \<Rightarrow> string option \<Rightarrow> string option \<Rightarrow> string option \<Rightarrow> Onboarding" where
  "bss_sale req customerID planID siteID =
     (let (oui, serial) = ParseOUISerial (pp_OUISerial req); role = roleOrDefault (pp_Role req) in
      \<lparr> o_ID = [], o_CustomerID = customerID, o_DeviceID = None, o_ExpectedOUI = oui, o_ExpectedSerial = serial,
        o_ExpectedIMEI = [], o_ExpectedICCID = pp_ICCID req, o_ExpectedIMSI = pp_IMSI req, o_AccountRef = pp_AccountID req,
        o_SiteID = siteID, o_ServicePlanID = planID, o_Role = onboardingRole role, o_CommercialModel = [], o_Source = ''bss'',
        o_ExternalRef = pp_ExternalRef req, o_State = StatePlanned, o_StateReason = [], o_StateCode = CodeNone,
        o_ConfigJobs = [], o_RequestedBy = ''bss:'' @ pp_AccountID req, o_BSSRole = role,
        o_BSSServicePlan = TrimSpace (pp_ServicePlan req), o_CreatedAt = 0, o_UpdatedAt = 0, o_ContactedAt = None,
        o_InServiceAt = None, o_EndedAt = None \<rparr>)"

text \<open>The checks before anything is written: the sale's customer and plan, or the open sale the serial
  has already.\<close>

definition sale_terms ::
  "faults \<Rightarrow> preProvisionRequest \<Rightarrow> svc_db \<Rightarrow> (Onboarding + (string option \<times> string option)) bss_result" where
  "sale_terms flt req db =
     (let (oui, serial) = ParseOUISerial (pp_OUISerial req); odb = sv_onb db in
      if \<not> ValidRole (roleOrDefault (pp_Role req)) then Inl ErrInvalidRole
      else if serial = [] then Inl ErrNoSerial
      else case OpenBySerial (\<lambda>_. flt 0) serial odb of
        Inr existing \<Rightarrow> if o_AccountRef existing \<noteq> pp_AccountID req then Inl ErrSerialOtherAccount else Inr (Inl existing)
      | Inl err \<Rightarrow>
          if err \<noteq> ErrNotFound then Inl (ErrSale err)
          else case AccountOwner (flt 1) (pp_AccountID req) db of
            Inl err' \<Rightarrow> Inl err'
          | Inr holder \<Rightarrow>
              if pp_CustomerID req \<noteq> [] \<and> pp_CustomerID req \<noteq> holder then Inl ErrPreProvisionCustomer
              else case resolvePlan (flt 2) (pp_ServicePlan req) holder odb of
                Inl err' \<Rightarrow> Inl (ErrSale err')
              | Inr plan \<Rightarrow>
                  let customerID = (if holder \<noteq> [] then Some holder
                        else case plan of None \<Rightarrow> None | Some p \<Rightarrow> plan_CustomerID p)
                  in case DeviceOwners (\<lambda>_. flt 3) oui serial odb of
                       Inl err' \<Rightarrow> Inl (ErrSale err')
                     | Inr owners \<Rightarrow>
                         if list_ex (\<lambda>c. c \<noteq> None \<and> customerID \<noteq> None \<and> c \<noteq> customerID) owners then Inl ErrSerialOtherCustomer
                         else Inr (Inr (customerID, map_option plan_ID plan)))"

definition preProvision ::
  "bool \<Rightarrow> faults \<Rightarrow> env \<Rightarrow> env \<Rightarrow> preProvisionRequest \<Rightarrow> svc_db \<Rightarrow> Onboarding bss_result \<times> svc_db" where
  "preProvision available flt e1 e2 req db =
     (if \<not> available then (Inl ErrPreProvisionUnavailable, db)
      else case sale_terms flt req db of
        Inl err \<Rightarrow> (Inl err, db)
      | Inr (Inl existing) \<Rightarrow> (Inr existing, db)
      | Inr (Inr (customerID, planID)) \<Rightarrow>
          (case (case pp_Place req of
                   None \<Rightarrow> (Inr None, sv_onb db)
                 | Some pl \<Rightarrow> if TrimSpace (pl_ID pl) = [] then (Inr None, sv_onb db)
                     else map_prod (map_sum id (\<lambda>site. Some (site_ID site))) id
                            (place_site (flt 4) (flt 5) e1 customerID pl (sv_onb db))) of
             (Inl err, odb) \<Rightarrow> (Inl (ErrSale err), db\<lparr> sv_onb := odb \<rparr>)
           | (Inr siteID, odb) \<Rightarrow>
               (case Create_onboarding (\<lambda>_. flt 6) e2 (bss_sale req customerID planID siteID) odb of
                  (Inl err, odb') \<Rightarrow> (Inl (ErrSale err), db\<lparr> sv_onb := odb' \<rparr>)
                | (Inr o', odb') \<Rightarrow> (Inr o', db\<lparr> sv_onb := odb' \<rparr>))))"

section \<open>Following a sale\<close>

definition SetMappingStatus :: "bool \<Rightarrow> time \<Rightarrow> string \<Rightarrow> string \<Rightarrow> svc_db \<Rightarrow> bss_error option \<times> svc_db" where
  "SetMappingStatus fault now mappingID status db =
     (let p = (\<lambda>m. mp_id m = mappingID \<and> is_current m) in
      if fault \<or> (rows_affected p (sv_mappings db) > 0 \<and> status \<notin> set mapping_statuses) then (Some ErrBssDB, db)
      else (None, db\<lparr> sv_mappings := update_where p (\<lambda>m. m\<lparr> mp_status := status, mp_updated_at := now \<rparr>) (sv_mappings db) \<rparr>))"

definition EndMapping :: "bool \<Rightarrow> time \<Rightarrow> string \<Rightarrow> string \<Rightarrow> svc_db \<Rightarrow> bss_error option \<times> svc_db" where
  "EndMapping fault now mappingID reason db =
     (if \<not> ValidUnassignReason reason then (Some ErrInvalidUnassignReason, db)
      else if fault then (Some ErrBssDB, db)
      else (None, db\<lparr> sv_mappings := update_where (\<lambda>m. mp_id m = mappingID \<and> is_current m) (close_mapping now reason)
             (sv_mappings db) \<rparr>))"

definition SetOnboardingMapping :: "bool \<Rightarrow> string \<Rightarrow> string \<Rightarrow> svc_db \<Rightarrow> bss_error option \<times> svc_db" where
  "SetOnboardingMapping fault onboardingID mappingID db =
     (if fault then (Some ErrBssDB, db)
      else if onboardingID \<notin> o_ID ` set (od_onboardings (sv_onb db)) then (None, db)
      else if mappingID \<notin> mp_id ` set (sv_mappings db) then (Some ErrBssDB, db)
      else (None, db\<lparr> sv_bss_mapping := map_put onboardingID mappingID (sv_bss_mapping db) \<rparr>))"

record PreProvisioned =
  pv_OnboardingID :: string
  pv_State :: onb_state
  pv_DeviceID :: string
  pv_DeviceOUISerial :: string
  pv_AccountID :: string
  pv_Role :: string
  pv_ServicePlan :: string
  pv_MappingID :: string
  pv_MappingStatus :: string

definition sale_mapping :: "svc_db \<Rightarrow> Onboarding \<Rightarrow> mapping_row option" where
  "sale_mapping db o' =
     (case map_of (sv_bss_mapping db) (o_ID o') of None \<Rightarrow> None | Some mid \<Rightarrow> find (\<lambda>m. mp_id m = mid) (sv_mappings db))"

definition needs_sync :: "svc_db \<Rightarrow> Onboarding \<Rightarrow> bool" where
  "needs_sync db o' \<longleftrightarrow> o_Source o' = ''bss'' \<and> o_AccountRef o' \<noteq> [] \<and>
     ((o_DeviceID o' \<noteq> None \<and> map_of (sv_bss_mapping db) (o_ID o') = None \<and> o_State o' \<notin> {StateCancelled, StateEnded}) \<or>
      (case sale_mapping db o' of None \<Rightarrow> False | Some m \<Rightarrow> is_current m \<and>
         ((o_State o' = StateInService \<and> mp_status m = ''PENDING_ACTIVE'') \<or> o_State o' = StateCancelled)))"

definition pre_provisioned :: "svc_db \<Rightarrow> Onboarding \<Rightarrow> PreProvisioned" where
  "pre_provisioned db o' =
     \<lparr> pv_OnboardingID = o_ID o', pv_State = o_State o', pv_DeviceID = deref (o_DeviceID o'),
       pv_DeviceOUISerial = (case find (\<lambda>d. Some (dv_id d) = o_DeviceID o') (od_devices (sv_onb db)) of
          None \<Rightarrow> [] | Some d \<Rightarrow> dv_oui_serial d),
       pv_AccountID = o_AccountRef o', pv_Role = (if o_BSSRole o' = [] then ''gateway'' else o_BSSRole o'),
       pv_ServicePlan = o_BSSServicePlan o',
       pv_MappingID = (case sale_mapping db o' of None \<Rightarrow> [] | Some m \<Rightarrow> mp_id m),
       pv_MappingStatus = (case sale_mapping db o' of None \<Rightarrow> [] | Some m \<Rightarrow> mp_status m) \<rparr>"

definition PreProvisionedNeedingSync :: "bool \<Rightarrow> nat \<Rightarrow> svc_db \<Rightarrow> PreProvisioned list bss_result" where
  "PreProvisionedNeedingSync fault limit db =
     (if fault then Inl ErrBssDB
      else Inr (map (pre_provisioned db) (take limit (sort_key o_UpdatedAt (filter (needs_sync db) (od_onboardings (sv_onb db)))))))"

text \<open>Statements of the assignment are 0 to 5; 6 looks up the active device, 7 records the mapping.\<close>

definition syncMapping :: "faults \<Rightarrow> env \<Rightarrow> PreProvisioned \<Rightarrow> svc_db \<Rightarrow> bss_error option \<times> svc_db" where
  "syncMapping flt e p db =
     (if pv_MappingID p = [] then
        (let status = (if pv_State p = StateInService then ''ACTIVE'' else ''PENDING_ACTIVE'');
             (res, db1) = AssignDeviceStatus flt e (pv_AccountID p) (pv_DeviceOUISerial p) (pv_Role p) (pv_ServicePlan p) status db
         in case res of
              Inr m \<Rightarrow> SetOnboardingMapping (flt 7) (pv_OnboardingID p) (am_ID m) db1
            | Inl err \<Rightarrow>
                if err = ErrDeviceAlreadyAssigned \<or> err = ErrRoleAlreadyAssigned then
                  (case ActiveDeviceForAccount (\<lambda>_. flt 6) (pv_AccountID p) (pv_Role p) db1 of
                     Inl _ \<Rightarrow> (Some err, db1)
                   | Inr active \<Rightarrow>
                       if am_DeviceID active \<noteq> pv_DeviceID p then (Some err, db1)
                       else SetOnboardingMapping (flt 7) (pv_OnboardingID p) (am_ID active) db1)
                else (Some err, db1))
      else if pv_State p = StateInService then SetMappingStatus (flt 0) (env_now e) (pv_MappingID p) ''ACTIVE'' db
      else if pv_State p = StateCancelled then EndMapping (flt 0) (env_now e) (pv_MappingID p) ''corrected'' db
      else (None, db))"

text \<open>The mapping half of a pass of \<^verbatim>\<open>syncPreProvisioned\<close>; each sale has its own randomness and failures.\<close>

definition sync_mappings :: "bool \<Rightarrow> (string \<Rightarrow> faults) \<Rightarrow> (string \<Rightarrow> env) \<Rightarrow> svc_db \<Rightarrow> svc_db" where
  "sync_mappings fault flts es db =
     (case PreProvisionedNeedingSync fault 100 db of
        Inl _ \<Rightarrow> db
      | Inr pending \<Rightarrow> fold (\<lambda>p d. snd (syncMapping (flts (pv_OnboardingID p)) (es (pv_OnboardingID p)) p d)) pending db)"

section \<open>What the sales keep\<close>

lemma place_site_exec:
  "snd (place_site fault fault' e customerID pl odb) = odb \<or>
   (\<exists>s. snd (place_site fault fault' e customerID pl odb) = onb_exec (OpCreateSite (\<lambda>_. fault') e s) odb)"
  by (auto simp: place_site_def split: sum.split onb_error.split)

lemma preProvision_keeps:
  assumes wf: "svc_wf db"
  shows "keeps db (snd (preProvision available flt e1 e2 req db))"
proof -
  have one: "keeps db (db\<lparr> sv_onb := odb \<rparr>)" if "odb = sv_onb db \<or> (\<exists>f s. odb = onb_exec (OpCreateSite f e1 s) (sv_onb db))" for odb
    using that onb_exec_keeps [OF wf] keeps_refl [OF wf] by (auto simp del: onb_exec.simps)
  have two: "keeps db (db\<lparr> sv_onb := snd (Create_onboarding f e2 o' odb) \<rparr>)"
    if "odb = sv_onb db \<or> (\<exists>f s. odb = onb_exec (OpCreateSite f e1 s) (sv_onb db))" for odb f o'
  proof -
    note k = one [OF that]
    then have "keeps (db\<lparr> sv_onb := odb \<rparr>) ((db\<lparr> sv_onb := odb \<rparr>)\<lparr> sv_onb := onb_exec (OpCreate f e2 o') odb \<rparr>)"
      using onb_exec_keeps [of "db\<lparr> sv_onb := odb \<rparr>" "OpCreate f e2 o'"] by (simp add: keeps_def)
    then show ?thesis using keeps_trans [OF k] by simp
  qed
  have place: "snd (place_site (flt 4) (flt 5) e1 c pl (sv_onb db)) = sv_onb db \<or>
      (\<exists>f s. snd (place_site (flt 4) (flt 5) e1 c pl (sv_onb db)) = onb_exec (OpCreateSite f e1 s) (sv_onb db))" for c pl
    using place_site_exec by blast
  show ?thesis
    using one [OF place] two [OF place] two [of "sv_onb db"] keeps_refl [OF wf]
    by (simp add: preProvision_def case_prod_unfold split: sum.split option.split)
qed

lemma SetMappingStatus_keeps: "svc_wf db \<Longrightarrow> keeps db (snd (SetMappingStatus fault now mid status db))"
  by (auto simp: SetMappingStatus_def Let_def keeps_def intro!: svc_wf_mappings)

lemma EndMapping_keeps: "svc_wf db \<Longrightarrow> keeps db (snd (EndMapping fault now mid reason db))"
  by (simp add: EndMapping_def keeps_def svc_wf_close)

lemma SetOnboardingMapping_keeps: "keeps db d \<Longrightarrow> keeps db (snd (SetOnboardingMapping fault oid mid d))"
  by (auto simp: SetOnboardingMapping_def intro: keeps_frame)

lemma syncMapping_keeps:
  assumes wf: "svc_wf db"
  shows "keeps db (snd (syncMapping flt e p db))"
proof -
  note k = AssignDeviceStatus_keeps [OF wf]
  show ?thesis
    using SetMappingStatus_keeps [OF wf] EndMapping_keeps [OF wf] keeps_refl [OF wf] k SetOnboardingMapping_keeps [OF k]
    by (simp add: syncMapping_def Let_def case_prod_unfold split: sum.split)
qed

lemma fold_keeps:
  assumes "\<And>x d. svc_wf d \<Longrightarrow> keeps d (f x d)" "svc_wf db"
  shows "keeps db (fold f xs db)"
  using assms(2)
proof (induction xs arbitrary: db)
  case (Cons x xs)
  have "keeps db (f x db)" by (rule assms(1) [OF Cons.prems])
  moreover have "keeps (f x db) (fold f xs (f x db))" using calculation by (intro Cons.IH) (simp add: keeps_def)
  ultimately show ?case by (simp add: keeps_trans)
qed (simp add: keeps_refl)

lemma sync_mappings_keeps: "svc_wf db \<Longrightarrow> keeps db (sync_mappings fault flts es db)"
  by (auto simp: sync_mappings_def keeps_refl split: sum.split intro!: fold_keeps syncMapping_keeps)

section \<open>Reading a natural key back\<close>

lemma split_esc_field: "split_esc cur (esc a @ x) = split_esc (cur @ a) x"
  by (induction a arbitrary: cur) (auto simp: esc_char_def)

lemma last_esc: "s \<noteq> [] \<Longrightarrow> last (esc s) = last s"
  by (induction s rule: rev_induct) (auto simp: esc_concat esc_char_def)

lemma esc_eq_Nil [simp]: "esc s = [] \<longleftrightarrow> s = []"
  by (cases s) (auto simp: esc_char_def)

lemma hd_esc: "s \<noteq> [] \<Longrightarrow> hd (esc s) = hd s \<or> hd (esc s) = backslash"
  by (cases s) (auto simp: esc_char_def)

lemma TrimSpace_tight:
  assumes "s \<noteq> []" "\<not> is_space (hd s)" "\<not> is_space (last s)"
  shows "TrimSpace s = s"
proof -
  have "dropWhile is_space s = s" using assms(1,2) by (cases s) simp_all
  moreover have "dropWhile is_space (rev s) = rev s" using assms(1,3) by (cases s rule: rev_cases) simp_all
  ultimately show ?thesis by (simp add: TrimSpace_def)
qed

lemma ToUpper_NormalizeOUI: "ToUpper (NormalizeOUI oui) = NormalizeOUI oui"
  by (simp add: ToUpper_def NormalizeOUI_def filter_map comp_def)

lemma not_space: "\<not> is_space (CHR ''+'')" "\<not> is_space backslash"
  by (simp_all add: is_space_def backslash_def)

lemma NaturalKey_tight:
  assumes "NormalizeOUI (OUI d) = [] \<or> \<not> is_space (hd (NormalizeOUI (OUI d)))"
    and "SerialNumber d = [] \<or> \<not> is_space (last (SerialNumber d))"
  shows "TrimSpace (NaturalKey d) = NaturalKey d"
proof -
  obtain mid where key: "NaturalKey d = esc (NormalizeOUI (OUI d)) @ ''+'' @ mid @ esc (SerialNumber d)" "mid = [] \<or> last mid = CHR ''+''"
    by (cases "ProductClass d = []") (force simp: NaturalKey_def Let_def)+
  have "\<not> is_space (hd (NaturalKey d))"
    using assms(1) hd_esc [of "NormalizeOUI (OUI d)"] by (cases "NormalizeOUI (OUI d) = []") (auto simp: key not_space hd_append)
  moreover have "\<not> is_space (last (NaturalKey d))"
    using assms(2) key(2) by (cases "SerialNumber d = []") (auto simp: key(1) not_space last_append last_esc)
  ultimately show ?thesis by (intro TrimSpace_tight) (simp_all add: key)
qed



section \<open>A sale is recorded once\<close>

lemma Create_onboarding_Inr:
  assumes "Create_onboarding flt e o' odb = (Inr r, odb')"
  shows "r = onboarding_row e o' \<and> odb' = odb\<lparr> od_onboardings := od_onboardings odb @ [r] \<rparr>"
  using assms by (auto simp: Create_onboarding_def Let_def split: if_splits)

lemma place_site_onboardings [simp]:
  "od_onboardings (snd (place_site fault fault' e customerID pl odb)) = od_onboardings odb"
  by (simp add: place_site_def CreateSite_def Let_def split: sum.split onb_error.split)

text \<open>What a successful call did: it found the open sale of the serial, or recorded one.\<close>

lemma preProvision_cases:
  assumes "preProvision available flt e1 e2 req db = (Inr o', db')"
  obtains "sale_terms flt req db = Inr (Inl o')" "db' = db" "available"
  | customerID planID siteID odb where "sale_terms flt req db = Inr (Inr (customerID, planID))" "available"
    "o' = onboarding_row e2 (bss_sale req customerID planID siteID)" "od_onboardings odb = od_onboardings (sv_onb db)"
    "db' = db\<lparr> sv_onb := odb\<lparr> od_onboardings := od_onboardings odb @ [o'] \<rparr> \<rparr>"
proof -
  have av: "available" using assms by (simp add: preProvision_def split: if_splits)
  show thesis
  proof (cases "sale_terms flt req db")
    case (Inr t)
    show thesis
    proof (cases t)
      case (Inl existing)
      then show thesis using assms Inr av by (intro that(1)) (simp_all add: preProvision_def)
    next
      case (Inr t')
      obtain customerID planID where t': "t' = (customerID, planID)" by (rule prod.exhaust)
      obtain s odb where s: "(case pp_Place req of None \<Rightarrow> (Inr None, sv_onb db)
          | Some pl \<Rightarrow> if TrimSpace (pl_ID pl) = [] then (Inr None, sv_onb db)
              else map_prod (map_sum id (\<lambda>site. Some (site_ID site))) id
                     (place_site (flt 4) (flt 5) e1 customerID pl (sv_onb db))) = (s, odb)" by (rule prod.exhaust)
      then have odb: "od_onboardings odb = od_onboardings (sv_onb db)"
        using place_site_onboardings by (auto simp: map_prod_def case_prod_unfold split: option.splits if_splits)
      obtain siteID where siteID: "s = Inr siteID"
        using assms s \<open>sale_terms flt req db = Inr t\<close> Inr t' by (cases s) (simp_all add: preProvision_def split: if_splits)
      obtain y odb' where c: "Create_onboarding (\<lambda>_. flt 6) e2 (bss_sale req customerID planID siteID) odb = (y, odb')"
        by (rule prod.exhaust)
      have "y = Inr o' \<and> db' = db\<lparr> sv_onb := odb' \<rparr>"
        using assms s siteID c \<open>sale_terms flt req db = Inr t\<close> Inr t' av by (cases y) (simp_all add: preProvision_def)
      then show thesis
        using that(2) [of customerID planID siteID odb] Create_onboarding_Inr [of "\<lambda>_. flt 6" e2 _ odb o' odb'] c
          \<open>sale_terms flt req db = Inr t\<close> Inr t' av odb by simp
    qed
  qed (use assms av in \<open>simp add: preProvision_def\<close>)
qed

lemma sale_terms_existing:
  "sale_terms flt req db = Inr (Inl o') \<longleftrightarrow> ValidRole (roleOrDefault (pp_Role req)) \<and> snd (ParseOUISerial (pp_OUISerial req)) \<noteq> [] \<and>
     OpenBySerial (\<lambda>_. flt 0) (snd (ParseOUISerial (pp_OUISerial req))) (sv_onb db) = Inr o' \<and> o_AccountRef o' = pp_AccountID req"
  by (simp add: sale_terms_def Let_def case_prod_unfold split: sum.split) auto

lemma sale_terms_new:
  assumes "sale_terms flt req db = Inr (Inr (customerID, planID))"
  shows "ValidRole (roleOrDefault (pp_Role req)) \<and> snd (ParseOUISerial (pp_OUISerial req)) \<noteq> [] \<and>
    OpenBySerial (\<lambda>_. flt 0) (snd (ParseOUISerial (pp_OUISerial req))) (sv_onb db) = Inl ErrNotFound \<and>
    (\<forall>c. account_customer (TrimSpace (pp_AccountID req)) db = Some c \<and> c \<noteq> [] \<longrightarrow> customerID = Some c)"
  using assms by (auto simp: sale_terms_def AccountOwner_def deref_def Let_def case_prod_unfold split: sum.splits if_splits)

lemma bss_sale_fields [simp]:
  "o_ExpectedSerial (bss_sale req c p s) = snd (ParseOUISerial (pp_OUISerial req))"
  "o_AccountRef (bss_sale req c p s) = pp_AccountID req" "o_CustomerID (bss_sale req c p s) = c"
  by (simp_all add: bss_sale_def Let_def case_prod_unfold)

lemma onboarding_row_fields [simp]:
  "o_ExpectedSerial (onboarding_row e o') = TrimSpace (o_ExpectedSerial o')" "o_State (onboarding_row e o') = StatePlanned"
  "o_AccountRef (onboarding_row e o') = TrimSpace (o_AccountRef o')" "o_CustomerID (onboarding_row e o') = o_CustomerID o'"
  by (simp_all add: onboarding_row_def)


definition shop_db :: svc_db where
  "shop_db = \<lparr> sv_onb = \<lparr> od_customers = [''c1'', ''c2''], od_regions = [], od_sites = [], od_plans = [],
       od_onboardings = [(sale StateInService)\<lparr> o_DeviceID := Some ''d1'', o_AccountRef := ''A1'', o_Source := ''console'' \<rparr>],
       od_devices = [\<lparr> dv_id = ''d1'', dv_oui_serial = ''O+SN1'', dv_oui = Some ''O'', dv_serial_number = Some ''SN1'',
         dv_manufacturer = None, dv_product_class = None, dv_online_status = None, dv_last_inform_at = None,
         dv_customer_id = Some ''c1'', dv_site_id = None, dv_label = Some ''hall'', dv_location = None, dv_latitude = None,
         dv_longitude = None, dv_last_updated_at = 0 \<rparr>] \<rparr>,
     sv_mappings = [\<lparr> mp_id = ''m1'', mp_account_id = ''A1'', mp_device_id = ''d1'', mp_oui_serial = ''O+SN1'',
       mp_service_plan = Some ''gold'', mp_status = ''ACTIVE'', mp_role = ''gateway'', mp_assigned_at = 0, mp_unassigned_at = None,
       mp_unassign_reason = None, mp_updated_at = 0 \<rparr>],
     sv_accounts = [\<lparr> ac_account_id = ''A1'', ac_customer_id = ''c1'', ac_claimed_by = ''x'' \<rparr>], sv_history = [],
     sv_bss_mapping = [],
     sv_profiles = [\<lparr> pf_account_id = ''A1'', pf_display_name = Some ''Ann'', pf_name_source = Some ''bss'', pf_vip = False \<rparr>],
     sv_archive = [], sv_projects = [(''d1'', ''p1'')] \<rparr>"

definition shop_env :: "string \<Rightarrow> env" where
  "shop_env u = \<lparr> env_now = 9, env_uuid = u, env_rand = [], env_owner = [] \<rparr>"

definition shop_request :: preProvisionRequest where
  "shop_request = \<lparr> pp_CustomerID = [], pp_AccountID = ''A1'', pp_ExternalRef = [], pp_OUISerial = ''O+SN9'', pp_Role = ''stb'',
     pp_ServicePlan = [], pp_ICCID = [], pp_IMSI = [], pp_Place = None \<rparr>"


end
