(* ===== verification/Op_Contract.thy ===== *)
theory Op_Contract
  imports Go_Prelude
begin

text \<open>
  The contract a store keeps with whoever calls it: every operation, failing or not, keeps an
  invariant and relates the state before it to the state after it by a preorder. The invariant and
  the relation then hold over every sequence of operations.
\<close>

locale op_contract =
  fixes inv :: "'s \<Rightarrow> bool" and rel :: "'s \<Rightarrow> 's \<Rightarrow> bool" and exec :: "'op \<Rightarrow> 's \<Rightarrow> 's"
  assumes rel_refl: "inv s \<Longrightarrow> rel s s"
    and rel_trans: "rel s t \<Longrightarrow> rel t u \<Longrightarrow> rel s u"
    and exec_keeps: "inv s \<Longrightarrow> inv (exec op s) \<and> rel s (exec op s)"
begin

lemma run_keeps: "inv s \<Longrightarrow> inv (fold exec ops s) \<and> rel s (fold exec ops s)"
proof (induction ops arbitrary: s)
  case (Cons op ops)
  have "inv (exec op s)" "rel s (exec op s)" using exec_keeps [OF Cons.prems] by simp_all
  then show ?case using Cons.IH [of "exec op s"] rel_trans by auto
qed (simp add: rel_refl)

lemma run_inv: "inv s \<Longrightarrow> inv (fold exec ops s)"
  by (simp add: run_keeps)

end

end
