(* ===== verification/Lifecycle.thy ===== *)
theory Lifecycle
  imports Pre_Provision Op_Contract
begin

text \<open>
  Package \<^verbatim>\<open>internal/lifecycle\<close>: ending the service of a sale, swapping its device, moving it to another
  site or service plan. Each is one transaction over the onboardings, the account mappings, the
  devices and the subscriber profiles: the state before it is what a rollback restores. The tenancy of
  the tables is shown to survive every operation on them, these and those of the business systems.
\<close>

section \<open>The changes\<close>

datatype lc_error = ErrNotInService | ErrLcInvalid string | ErrSerialInUse | ErrDeviceMoved | ErrSaleNotFound | ErrLcDB

type_synonym 'a lc_result = "lc_error + 'a"

definition reasonText :: "(string \<times> string) list" where
  "reasonText = [(''return'', ''service ended: device returned''), (''rma'', ''service ended: device faulty (RMA)''),
     (''upgrade'', ''service ended: device replaced by a newer one''), (''moved'', ''service ended: moved to another account''),
     (''corrected'', ''service ended: sold in error'')]"

definition ValidReason :: "string \<Rightarrow> bool" where
  "ValidReason reason \<longleftrightarrow> map_of reasonText reason \<noteq> None"

record EndRequest =
  er_OnboardingID :: string
  er_Reason :: string
  er_Actor :: string
  er_KeepProfiles :: bool

record EndResult =
  en_DeviceID :: string
  en_Accounts :: "string list"
  en_Archived :: "string list"
  en_MappingRole :: string
  en_MappingPlan :: string

text \<open>Statements 1 and 2 of each transaction. A device row that is missing is a database error.\<close>

definition lockInService :: "faults \<Rightarrow> string \<Rightarrow> svc_db \<Rightarrow> string lc_result" where
  "lockInService flt onboardingID db =
     (if flt 1 then Inl ErrLcDB
      else case find (\<lambda>r. o_ID r = onboardingID) (od_onboardings (sv_onb db)) of
        None \<Rightarrow> Inl ErrSaleNotFound
      | Some o' \<Rightarrow>
          if o_State o' \<noteq> StateInService \<or> o_DeviceID o' = None then Inl ErrNotInService
          else if flt 2 then Inl ErrLcDB
          else case find (\<lambda>d. dv_id d = deref (o_DeviceID o')) (od_devices (sv_onb db)) of
            None \<Rightarrow> Inl ErrLcDB
          | Some d \<Rightarrow>
              if o_CustomerID o' \<noteq> None \<and> dv_customer_id d \<noteq> o_CustomerID o' then Inl ErrDeviceMoved
              else Inr (dv_id d))"

definition archivable :: "string \<Rightarrow> profile_row \<Rightarrow> bool" where
  "archivable account p \<longleftrightarrow> pf_account_id p = account \<and> (pf_display_name p \<noteq> None \<or> pf_vip p)"

definition archive_of :: "string \<Rightarrow> string \<Rightarrow> profile_row \<Rightarrow> archive_row" where
  "archive_of actor reason p = \<lparr> ar_account_id = pf_account_id p, ar_display_name = pf_display_name p,
     ar_name_source = pf_name_source p, ar_vip = pf_vip p, ar_reason = reason, ar_archived_by = actor \<rparr>"

definition archiveProfile :: "bool \<Rightarrow> string \<Rightarrow> string \<Rightarrow> string \<Rightarrow> svc_db \<Rightarrow> bool lc_result \<times> svc_db" where
  "archiveProfile fault account actor reason db =
     (if fault then (Inl ErrLcDB, db)
      else (Inr (rows_affected (archivable account) (sv_profiles db) > 0),
        db\<lparr> sv_archive := sv_archive db @ map (archive_of actor reason) (filter (archivable account) (sv_profiles db)),
            sv_profiles := filter (\<lambda>p. pf_account_id p \<noteq> account) (sv_profiles db) \<rparr>))"

text \<open>The loop over the accounts; \<open>n\<close> counts the statements before it.\<close>

fun archive_accounts :: "faults \<Rightarrow> nat \<Rightarrow> string \<Rightarrow> string \<Rightarrow> string list \<Rightarrow> svc_db \<Rightarrow> string list lc_result \<times> svc_db" where
  "archive_accounts flt n actor reason [] db = (Inr [], db)"
| "archive_accounts flt n actor reason (account # accounts) db =
     (if flt n then (Inl ErrLcDB, db)
      else if list_ex (\<lambda>m. mp_account_id m = account \<and> is_current m) (sv_mappings db)
      then archive_accounts flt (n + 2) actor reason accounts db
      else case archiveProfile (flt (n + 1)) account actor reason db of
        (Inl err, db') \<Rightarrow> (Inl err, db')
      | (Inr archived, db') \<Rightarrow>
          (case archive_accounts flt (n + 2) actor reason accounts db' of
             (Inl err, db'') \<Rightarrow> (Inl err, db'')
           | (Inr rest, db'') \<Rightarrow> (Inr (if archived then account # rest else rest), db'')))"

definition note_mapping :: "mapping_row \<Rightarrow> EndResult \<Rightarrow> EndResult" where
  "note_mapping m res =
     (let res' = (if mp_account_id m \<in> set (en_Accounts res) then res
                  else res\<lparr> en_Accounts := en_Accounts res @ [mp_account_id m] \<rparr>)
      in if en_MappingRole res' = [] \<or> mp_role m = ''gateway''
         then res'\<lparr> en_MappingRole := mp_role m, en_MappingPlan := deref (mp_service_plan m) \<rparr> else res')"

definition end_row :: "time \<Rightarrow> string \<Rightarrow> Onboarding \<Rightarrow> Onboarding" where
  "end_row now reason r = r\<lparr> o_State := StateEnded, o_StateCode := CodeNone, o_StateReason := reason,
     o_EndedAt := Some now, o_UpdatedAt := now \<rparr>"

definition release_row :: "time \<Rightarrow> device_row \<Rightarrow> device_row" where
  "release_row now d = d\<lparr> dv_customer_id := None, dv_site_id := None, dv_label := None, dv_location := None,
     dv_latitude := None, dv_longitude := None, dv_last_updated_at := now \<rparr>"

definition of_device :: "string \<Rightarrow> mapping_row \<Rightarrow> bool" where
  "of_device deviceID m \<longleftrightarrow> mp_device_id m = deviceID \<and> is_current m"

text \<open>\<^verbatim>\<open>end\<close> within the caller's transaction: statements 3 to 6, then the profiles. What it returns with an
  error is rolled back.\<close>

definition end_service :: "faults \<Rightarrow> time \<Rightarrow> EndRequest \<Rightarrow> svc_db \<Rightarrow> EndResult lc_result \<times> svc_db" where
  "end_service flt now req db =
     (case map_of reasonText (er_Reason req) of
        None \<Rightarrow> (Inl (ErrLcInvalid ''reason must be one of return, rma, upgrade, moved, corrected''), db)
      | Some why \<Rightarrow>
          (case lockInService flt (er_OnboardingID req) db of
             Inl err \<Rightarrow> (Inl err, db)
           | Inr deviceID \<Rightarrow>
               (case update_onboardings (flt 3) (\<lambda>r. o_ID r = er_OnboardingID req) (end_row now why) (sv_onb db) of
                  (Inl _, _) \<Rightarrow> (Inl ErrLcDB, db)
                | (Inr _, odb) \<Rightarrow>
                    let closed = filter (of_device deviceID) (sv_mappings db);
                        res = fold note_mapping closed \<lparr> en_DeviceID = deviceID, en_Accounts = [], en_Archived = [],
                                en_MappingRole = [], en_MappingPlan = [] \<rparr>;
                        db1 = db\<lparr> sv_onb := odb, sv_mappings :=
                                update_where (of_device deviceID) (close_mapping now (er_Reason req)) (sv_mappings db) \<rparr>;
                        db2 = (update_devices (\<lambda>d. dv_id d = deviceID) (release_row now) db1)
                                \<lparr> sv_projects := filter (\<lambda>(d, _). d \<noteq> deviceID) (sv_projects db) \<rparr>
                    in if flt 4 \<or> flt 5 \<or> flt 6 then (Inl ErrLcDB, db)
                       else if er_KeepProfiles req then (Inr res, db2)
                       else case archive_accounts flt 7 (er_Actor req) why (en_Accounts res) db2 of
                         (Inl err, _) \<Rightarrow> (Inl err, db)
                       | (Inr archived, db3) \<Rightarrow> (Inr (res\<lparr> en_Archived := archived \<rparr>), db3))))"

text \<open>Statement 0 begins a transaction; the commit is an argument of its own.\<close>

definition End_sale :: "faults \<Rightarrow> bool \<Rightarrow> time \<Rightarrow> EndRequest \<Rightarrow> svc_db \<Rightarrow> EndResult lc_result \<times> svc_db" where
  "End_sale flt commit now req db =
     (if flt 0 then (Inl ErrLcDB, db)
      else case end_service flt now req db of
        (Inl err, _) \<Rightarrow> (Inl err, db)
      | (Inr res, db') \<Rightarrow> if commit then (Inr res, db') else (Inl ErrLcDB, db))"

record SwapRequest =
  sq_OnboardingID :: string
  sq_Reason :: string
  sq_NewSerial :: string
  sq_NewOUI :: string
  sq_Actor :: string

definition replacement_row :: "env \<Rightarrow> SwapRequest \<Rightarrow> EndResult \<Rightarrow> Onboarding \<Rightarrow> Onboarding" where
  "replacement_row e req ended r = r\<lparr> o_ID := env_uuid e, o_DeviceID := None,
     o_ExpectedOUI := ToUpper (TrimSpace (sq_NewOUI req)), o_ExpectedSerial := TrimSpace (sq_NewSerial req),
     o_ExpectedIMEI := [], o_ExpectedICCID := [], o_ExpectedIMSI := [], o_ExternalRef := [], o_State := StatePlanned,
     o_StateReason := [], o_StateCode := CodeNone, o_ConfigJobs := [], o_RequestedBy := sq_Actor req,
     o_BSSRole := en_MappingRole ended, o_BSSServicePlan := en_MappingPlan ended, o_CreatedAt := env_now e,
     o_UpdatedAt := env_now e, o_ContactedAt := None, o_InServiceAt := None, o_EndedAt := None \<rparr>"

definition Swap ::
  "faults \<Rightarrow> bool \<Rightarrow> bool \<Rightarrow> env \<Rightarrow> SwapRequest \<Rightarrow> svc_db \<Rightarrow> (EndResult \<times> string) lc_result \<times> svc_db" where
  "Swap flt fault commit e req db =
     (if sq_Reason req \<noteq> ''rma'' \<and> sq_Reason req \<noteq> ''upgrade'' then (Inl (ErrLcInvalid ''a swap's reason is rma or upgrade''), db)
      else if TrimSpace (sq_NewSerial req) = [] then (Inl (ErrLcInvalid ''the replacement's serial is required''), db)
      else if flt 0 then (Inl ErrLcDB, db)
      else case end_service flt (env_now e) \<lparr> er_OnboardingID = sq_OnboardingID req, er_Reason = sq_Reason req,
                  er_Actor = sq_Actor req, er_KeepProfiles = True \<rparr> db of
        (Inl err, _) \<Rightarrow> (Inl err, db)
      | (Inr ended, db1) \<Rightarrow>
          (let odb = sv_onb db1;
               new = map (replacement_row e req ended) (filter (\<lambda>r. o_ID r = sq_OnboardingID req) (od_onboardings odb));
               rows = od_onboardings odb @ new
           in if fault \<or> \<not> list_all onboarding_checks new \<or> \<not> distinct (map o_ID rows) then (Inl ErrLcDB, db)
              else if \<not> onboardings_open_serial_idx rows then (Inl ErrSerialInUse, db)
              else if \<not> list_all (onboarding_fks odb) new \<or> \<not> commit then (Inl ErrLcDB, db)
              else (Inr (ended, env_uuid e), db1\<lparr> sv_onb := odb\<lparr> od_onboardings := rows \<rparr> \<rparr>)))"

definition MoveSite :: "faults \<Rightarrow> bool \<Rightarrow> time \<Rightarrow> string \<Rightarrow> string \<Rightarrow> svc_db \<Rightarrow> unit lc_result \<times> svc_db" where
  "MoveSite flt commit now onboardingID siteID db =
     (if flt 0 then (Inl ErrLcDB, db)
      else case lockInService flt onboardingID db of
        Inl err \<Rightarrow> (Inl err, db)
      | Inr deviceID \<Rightarrow>
          (let p = (\<lambda>r. o_ID r = onboardingID \<and> list_ex (\<lambda>s. site_ID s = siteID \<and>
                 (site_CustomerID s = None \<or> (o_CustomerID r \<noteq> None \<and> site_CustomerID s = o_CustomerID r))) (od_sites (sv_onb db)))
           in case update_onboardings (flt 3) p (\<lambda>r. r\<lparr> o_SiteID := Some siteID, o_UpdatedAt := now \<rparr>) (sv_onb db) of
                (Inl _, _) \<Rightarrow> (Inl ErrLcDB, db)
              | (Inr n, odb) \<Rightarrow>
                  if n = 0 then (Inl (ErrLcInvalid ''that site is not one this sale's customer can use''), db)
                  else if flt 4 \<or> \<not> commit then (Inl ErrLcDB, db)
                  else (Inr (), update_devices (\<lambda>d. dv_id d = deviceID)
                         (\<lambda>d. d\<lparr> dv_site_id := Some siteID, dv_last_updated_at := now \<rparr>) (db\<lparr> sv_onb := odb \<rparr>))))"

definition plan_code :: "onb_db \<Rightarrow> string \<Rightarrow> string" where
  "plan_code odb planID = (case find (\<lambda>p. pr_id p = planID) (od_plans odb) of None \<Rightarrow> [] | Some p \<Rightarrow> pr_code p)"

definition replan_row :: "time \<Rightarrow> onb_db \<Rightarrow> string \<Rightarrow> bool \<Rightarrow> Onboarding \<Rightarrow> Onboarding" where
  "replan_row now odb planID configures r = r\<lparr> o_ServicePlanID := Some planID,
     o_BSSServicePlan := (if o_BSSRole r \<noteq> [] then plan_code odb planID else o_BSSServicePlan r),
     o_State := (if configures then StateDiscovered else o_State r),
     o_StateReason := (if configures then ''service plan changed; configuring on the next check-in'' else o_StateReason r),
     o_StateCode := CodeNone, o_ConfigJobs := [], o_UpdatedAt := now \<rparr>"

definition ChangePlan :: "faults \<Rightarrow> bool \<Rightarrow> time \<Rightarrow> string \<Rightarrow> string \<Rightarrow> bool \<Rightarrow> svc_db \<Rightarrow> unit lc_result \<times> svc_db" where
  "ChangePlan flt commit now onboardingID planID configures db =
     (if flt 0 then (Inl ErrLcDB, db)
      else case lockInService flt onboardingID db of
        Inl err \<Rightarrow> (Inl err, db)
      | Inr deviceID \<Rightarrow>
          (let p = (\<lambda>r. o_ID r = onboardingID \<and> list_ex (\<lambda>q. pr_id q = planID \<and>
                 (pr_customer_id q = None \<or> (o_CustomerID r \<noteq> None \<and> pr_customer_id q = o_CustomerID r))) (od_plans (sv_onb db)));
               bss_made = list_ex (\<lambda>r. o_ID r = onboardingID \<and> o_BSSRole r \<noteq> []) (od_onboardings (sv_onb db))
           in case update_onboardings (flt 3) p (replan_row now (sv_onb db) planID configures) (sv_onb db) of
                (Inl _, _) \<Rightarrow> (Inl ErrLcDB, db)
              | (Inr n, odb) \<Rightarrow>
                  if n = 0 then (Inl (ErrLcInvalid ''that service plan is not one this sale's customer can use''), db)
                  else if flt 4 \<or> \<not> commit then (Inl ErrLcDB, db)
                  else (Inr (), db\<lparr> sv_onb := odb, sv_mappings := update_where (\<lambda>m. bss_made \<and> of_device deviceID m)
                         (\<lambda>m. m\<lparr> mp_service_plan := Some (plan_code (sv_onb db) planID), mp_updated_at := now \<rparr>)
                         (sv_mappings db) \<rparr>)))"

section \<open>The constraints and tenants\<close>

lemma keeps_onboardings:
  assumes wf: "svc_wf db" and u: "update_onboardings fault p f (sv_onb db) = (res, odb)" and id: "\<And>r. o_ID (f r) = o_ID r"
  shows "keeps db (db\<lparr> sv_onb := odb \<rparr>)"
proof -
  have o: "onb_wf odb" "od_devices odb = od_devices (sv_onb db)"
    using update_onboardings_wf [OF svc_wfD(1) [OF wf] u id] by simp_all
  have c: "od_customers odb = od_customers (sv_onb db)" using update_onboardings_customers [of fault p f "sv_onb db"] u by simp
  have cust: "account_customer a (db\<lparr> sv_onb := odb \<rparr>) = account_customer a db" for a by (simp add: account_customer_def)
  have "mapping_tenant (db\<lparr> sv_onb := odb \<rparr>) = mapping_tenant db"
    by (rule ext) (simp add: mapping_tenant_def cust owner_def o(2) split: option.split)
  moreover have "mapping_ok odb = mapping_ok (sv_onb db)" by (rule ext) (simp add: mapping_ok_def o(2))
  ultimately show ?thesis using wf by (simp add: keeps_def svc_wf_def o c cust)
qed

lemma keeps_wf: "keeps db d \<Longrightarrow> svc_wf d"
  by (simp add: keeps_def)

lemma keeps_devices:
  assumes "keeps db d" "\<And>x. dv_id (f x) = dv_id x \<and> dv_oui_serial (f x) = dv_oui_serial x"
    and "\<And>m. m \<in> set (sv_mappings d) \<Longrightarrow> mapping_tenant (update_devices p f d) m"
  shows "keeps db (update_devices p f d)"
  using svc_wf_devices [of d f p] assms by (simp add: keeps_def)

definition core :: "svc_db \<Rightarrow> onb_db \<times> mapping_row list \<times> account_row list \<times> (string \<times> string) list \<times> (string \<times> string) list" where
  "core d = (sv_onb d, sv_mappings d, sv_accounts d, sv_projects d, sv_bss_mapping d)"

lemma archiveProfile_core: "core (snd (archiveProfile fault account actor reason d)) = core d"
  by (simp add: archiveProfile_def core_def)

lemma archive_accounts_core: "core (snd (archive_accounts flt n actor reason as d)) = core d"
  by (induction as arbitrary: n d) (simp_all add: archiveProfile_core case_prod_unfold split: sum.split)

lemma owner_other_device:
  assumes "\<And>d. dv_id (f d) = dv_id d" "x \<noteq> did"
  shows "owner (sv_onb (update_devices (\<lambda>d. dv_id d = did) f db)) x = owner (sv_onb db) x"
proof (cases "find (\<lambda>d. dv_id d = x) (od_devices (sv_onb db))")
  case (Some d)
  then have "dv_id d \<noteq> did" using find_key [OF Some] assms(2) by simp
  then show ?thesis unfolding owner_update_devices [OF assms(1)] by (simp add: owner_def Some)
next
  case None
  then show ?thesis unfolding owner_update_devices [OF assms(1)] by (simp add: owner_def)
qed

lemma closed_not_current [simp]: "\<not> is_current (close_mapping now reason m)"
  by (simp add: close_mapping_def is_current_def)

text \<open>A device whose assignments are all closed may be released.\<close>

lemma keeps_release:
  assumes wf: "svc_wf db" and reason: "ValidUnassignReason reason"
  shows "keeps db (update_devices (\<lambda>d. dv_id d = did) (release_row now)
    (db\<lparr> sv_mappings := update_where (of_device did) (close_mapping now reason) (sv_mappings db) \<rparr>))"
proof (rule keeps_devices)
  let ?d = "db\<lparr> sv_mappings := update_where (of_device did) (close_mapping now reason) (sv_mappings db) \<rparr>"
  show k: "keeps db ?d" using svc_wf_close [OF assms] by (simp add: keeps_def)
  fix m assume m: "m \<in> set (sv_mappings ?d)"
  then have "m \<in> set (update_where (of_device did) (close_mapping now reason) (sv_mappings db))" by simp
  then have other: "is_current m \<Longrightarrow> mp_device_id m \<noteq> did"
    using ex_update_where [of m] closed_not_current of_device_def by blast
  show "mapping_tenant (update_devices (\<lambda>d. dv_id d = did) (release_row now) ?d) m"
  proof (rule mapping_tenant_mono [OF svc_wfD(6) [OF keeps_wf [OF k] m]])
    fix c assume "is_current m" "owner (sv_onb ?d) (mp_device_id m) = Some c"
    then show "owner (sv_onb (update_devices (\<lambda>d. dv_id d = did) (release_row now) ?d)) (mp_device_id m) = Some c"
      using owner_other_device [of "release_row now" "mp_device_id m" did ?d] other by (simp add: release_row_def)
  qed simp
qed (simp add: release_row_def)

lemma reason_valid: "map_of reasonText reason = Some why \<Longrightarrow> ValidUnassignReason reason"
  by (auto simp: reasonText_def ValidUnassignReason_def validReasons_def split: if_splits)

text \<open>A successful \<^verbatim>\<open>end\<close>, step by step.\<close>

lemma end_service_cases:
  assumes "end_service flt now req db = (Inr res, db')"
  obtains why did n odb res0 db2 where "map_of reasonText (er_Reason req) = Some why"
    "lockInService flt (er_OnboardingID req) db = Inr did"
    "update_onboardings (flt 3) (\<lambda>r. o_ID r = er_OnboardingID req) (end_row now why) (sv_onb db) = (Inr n, odb)"
    "res0 = fold note_mapping (filter (of_device did) (sv_mappings db))
       \<lparr> en_DeviceID = did, en_Accounts = [], en_Archived = [], en_MappingRole = [], en_MappingPlan = [] \<rparr>"
    "db2 = (update_devices (\<lambda>d. dv_id d = did) (release_row now)
       (db\<lparr> sv_onb := odb, sv_mappings := update_where (of_device did) (close_mapping now (er_Reason req)) (sv_mappings db) \<rparr>))
       \<lparr> sv_projects := filter (\<lambda>(d, _). d \<noteq> did) (sv_projects db) \<rparr>"
    "if er_KeepProfiles req then res = res0 \<and> db' = db2
     else \<exists>archived. archive_accounts flt 7 (er_Actor req) why (en_Accounts res0) db2 = (Inr archived, db') \<and>
       res = res0\<lparr> en_Archived := archived \<rparr>"
proof -
  obtain why where why: "map_of reasonText (er_Reason req) = Some why"
    using assms by (auto simp: end_service_def split: option.splits)
  obtain did where did: "lockInService flt (er_OnboardingID req) db = Inr did"
    using assms why by (auto simp: end_service_def split: sum.splits)
  obtain n odb where u: "update_onboardings (flt 3) (\<lambda>r. o_ID r = er_OnboardingID req) (end_row now why) (sv_onb db) = (Inr n, odb)"
    using assms why did by (auto simp: end_service_def split: sum.splits prod.splits)
  show thesis
    by (rule that [OF why did u refl refl])
      (use assms why did u in \<open>auto simp: end_service_def Let_def split: sum.splits prod.splits if_splits\<close>)
qed

lemma end_service_keeps:
  assumes wf: "svc_wf db" and r: "end_service flt now req db = (Inr res, db')"
  shows "keeps db db'"
  using r
proof (rule end_service_cases)
  fix why did n odb res0 db2
  assume why: "map_of reasonText (er_Reason req) = Some why"
    and u: "update_onboardings (flt 3) (\<lambda>r. o_ID r = er_OnboardingID req) (end_row now why) (sv_onb db) = (Inr n, odb)"
    and db2: "db2 = (update_devices (\<lambda>d. dv_id d = did) (release_row now)
       (db\<lparr> sv_onb := odb, sv_mappings := update_where (of_device did) (close_mapping now (er_Reason req)) (sv_mappings db) \<rparr>))
       \<lparr> sv_projects := filter (\<lambda>(d, _). d \<noteq> did) (sv_projects db) \<rparr>"
    and r: "if er_KeepProfiles req then res = res0 \<and> db' = db2
     else \<exists>archived. archive_accounts flt 7 (er_Actor req) why (en_Accounts res0) db2 = (Inr archived, db') \<and>
       res = res0\<lparr> en_Archived := archived \<rparr>"
  have 1: "keeps db (db\<lparr> sv_onb := odb \<rparr>)" by (rule keeps_onboardings [OF wf u]) (simp add: end_row_def)
  note 2 = keeps_trans [OF 1 keeps_release [OF keeps_wf [OF 1] reason_valid [OF why]]]
  have 3: "keeps db db2" by (rule keeps_frame [OF 2]) (simp_all add: db2)
  show ?thesis
  proof (cases "er_KeepProfiles req")
    case False
    then obtain archived where "archive_accounts flt 7 (er_Actor req) why (en_Accounts res0) db2 = (Inr archived, db')"
      using r by auto
    then show ?thesis using archive_accounts_core [of flt 7 "er_Actor req" why "en_Accounts res0" db2]
      by (intro keeps_frame [OF 3]) (simp_all add: core_def)
  qed (use r 3 in simp)
qed

lemma End_sale_keeps: "svc_wf db \<Longrightarrow> keeps db (snd (End_sale flt commit now req db))"
  using end_service_keeps by (auto simp: End_sale_def keeps_refl split: prod.split sum.split)

lemma keeps_new_sales:
  assumes wf: "svc_wf d" and "distinct (map o_ID (od_onboardings (sv_onb d) @ new))" "list_all onboarding_checks new"
    "onboardings_open_serial_idx (od_onboardings (sv_onb d) @ new)" "list_all (onboarding_fks (sv_onb d)) new"
  shows "keeps d (d\<lparr> sv_onb := (sv_onb d)\<lparr> od_onboardings := od_onboardings (sv_onb d) @ new \<rparr> \<rparr>)"
proof -
  let ?odb = "(sv_onb d)\<lparr> od_onboardings := od_onboardings (sv_onb d) @ new \<rparr>"
  have cust: "account_customer a (d\<lparr> sv_onb := ?odb \<rparr>) = account_customer a d" for a by (simp add: account_customer_def)
  have "onboarding_fks ?odb = onboarding_fks (sv_onb d)" by (rule onboarding_fks_cong) simp_all
  moreover have "mapping_tenant (d\<lparr> sv_onb := ?odb \<rparr>) = mapping_tenant d"
    by (rule ext) (simp add: mapping_tenant_def cust owner_def split: option.split)
  moreover have "mapping_ok ?odb = mapping_ok (sv_onb d)" by (rule ext) (simp add: mapping_ok_def)
  ultimately show ?thesis using assms by (simp add: keeps_def svc_wf_def onb_wf_def cust)
qed

text \<open>A swap either changes nothing or ends the old sale and adds the sale of the replacement.\<close>

lemma Swap_cases:
  assumes "Swap flt fault commit e req db = (x, db')"
  obtains err where "x = Inl err" "db' = db"
  | ended db1 new where "x = Inr (ended, env_uuid e)" "commit" "sq_Reason req = ''rma'' \<or> sq_Reason req = ''upgrade''"
    "end_service flt (env_now e) \<lparr> er_OnboardingID = sq_OnboardingID req, er_Reason = sq_Reason req,
       er_Actor = sq_Actor req, er_KeepProfiles = True \<rparr> db = (Inr ended, db1)"
    "new = map (replacement_row e req ended) (filter (\<lambda>r. o_ID r = sq_OnboardingID req) (od_onboardings (sv_onb db1)))"
    "db' = db1\<lparr> sv_onb := (sv_onb db1)\<lparr> od_onboardings := od_onboardings (sv_onb db1) @ new \<rparr> \<rparr>"
    "list_all onboarding_checks new" "distinct (map o_ID (od_onboardings (sv_onb db1) @ new))"
    "onboardings_open_serial_idx (od_onboardings (sv_onb db1) @ new)" "list_all (onboarding_fks (sv_onb db1)) new"
proof (cases x)
  case (Inl err)
  then have "db' = db" using assms by (auto simp: Swap_def Let_def split: if_splits prod.splits sum.splits)
  with Inl show thesis by (rule that(1))
next
  case (Inr y)
  let ?ended = "end_service flt (env_now e) \<lparr> er_OnboardingID = sq_OnboardingID req, er_Reason = sq_Reason req,
    er_Actor = sq_Actor req, er_KeepProfiles = True \<rparr> db"
  obtain z db1 where z: "?ended = (z, db1)" by (rule prod.exhaust)
  obtain ended where ended: "z = Inr ended" using assms Inr z by (cases z) (auto simp: Swap_def split: if_splits)
  show thesis
    by (rule that(2) [OF _ _ _ z [unfolded ended] refl])
      (use assms Inr z ended in \<open>auto simp: Swap_def Let_def split: if_splits\<close>)
qed

lemma Swap_keeps:
  assumes wf: "svc_wf db"
  shows "keeps db (snd (Swap flt fault commit e req db))"
proof -
  obtain x db' where s: "Swap flt fault commit e req db = (x, db')" by (rule prod.exhaust)
  have "keeps db db'"
    using s
  proof (rule Swap_cases)
    fix ended db1 new
    assume e: "end_service flt (env_now e) \<lparr> er_OnboardingID = sq_OnboardingID req, er_Reason = sq_Reason req,
        er_Actor = sq_Actor req, er_KeepProfiles = True \<rparr> db = (Inr ended, db1)"
      and db': "db' = db1\<lparr> sv_onb := (sv_onb db1)\<lparr> od_onboardings := od_onboardings (sv_onb db1) @ new \<rparr> \<rparr>"
      and c: "list_all onboarding_checks new" "distinct (map o_ID (od_onboardings (sv_onb db1) @ new))"
        "onboardings_open_serial_idx (od_onboardings (sv_onb db1) @ new)" "list_all (onboarding_fks (sv_onb db1)) new"
    note k = end_service_keeps [OF wf e]
    show "keeps db db'" unfolding db' by (rule keeps_trans [OF k keeps_new_sales [OF keeps_wf [OF k] c(2,1,3,4)]])
  qed (use keeps_refl [OF wf] in simp)
  then show ?thesis by (simp add: s)
qed

lemma MoveSite_keeps:
  assumes wf: "svc_wf db"
  shows "keeps db (snd (MoveSite flt commit now oid siteID db))"
proof -
  have "keeps db (update_devices (\<lambda>d. dv_id d = did) (\<lambda>d. d\<lparr> dv_site_id := Some siteID, dv_last_updated_at := now \<rparr>)
      (db\<lparr> sv_onb := odb \<rparr>))"
    if u: "update_onboardings fault p (\<lambda>r. r\<lparr> o_SiteID := Some siteID, o_UpdatedAt := now \<rparr>) (sv_onb db) = (res, odb)"
    for fault p res odb did
  proof (rule keeps_devices)
    show k: "keeps db (db\<lparr> sv_onb := odb \<rparr>)" by (rule keeps_onboardings [OF wf u]) simp
    fix m assume m: "m \<in> set (sv_mappings (db\<lparr> sv_onb := odb \<rparr>))"
    show "mapping_tenant (update_devices (\<lambda>d. dv_id d = did) (\<lambda>d. d\<lparr> dv_site_id := Some siteID, dv_last_updated_at := now \<rparr>)
        (db\<lparr> sv_onb := odb \<rparr>)) m"
      by (rule mapping_tenant_mono [OF svc_wfD(6) [OF keeps_wf [OF k] m]])
        (simp_all add: owner_update_devices owner_def [of odb] split: option.splits)
  qed simp
  then show ?thesis using keeps_refl [OF wf] by (auto simp: MoveSite_def Let_def split: sum.split prod.split)
qed

lemma ChangePlan_keeps:
  assumes wf: "svc_wf db"
  shows "keeps db (snd (ChangePlan flt commit now oid planID configures db))"
proof -
  have "keeps db (db\<lparr> sv_onb := odb, sv_mappings := update_where q
      (\<lambda>m. m\<lparr> mp_service_plan := Some code, mp_updated_at := now \<rparr>) (sv_mappings db) \<rparr>)"
    if u: "update_onboardings fault p (replan_row now (sv_onb db) planID configures) (sv_onb db) = (res, odb)"
    for fault p res odb q code
  proof -
    have k: "keeps db (db\<lparr> sv_onb := odb \<rparr>)" by (rule keeps_onboardings [OF wf u]) (simp add: replan_row_def)
    have "svc_wf ((db\<lparr> sv_onb := odb \<rparr>)\<lparr> sv_mappings := update_where q
        (\<lambda>m. m\<lparr> mp_service_plan := Some code, mp_updated_at := now \<rparr>) (sv_mappings (db\<lparr> sv_onb := odb \<rparr>)) \<rparr>)"
      by (rule svc_wf_mappings [OF keeps_wf [OF k]]) simp_all
    then show ?thesis using k by (simp add: keeps_def account_customer_def)
  qed
  then show ?thesis using keeps_refl [OF wf] by (auto simp: ChangePlan_def Let_def split: sum.split prod.split)
qed

section \<open>Every sequence of operations\<close>

text \<open>The operations that write, of the onboarding store, the account mappings, the sales sync and the
  lifecycle; the operator's reassignment of an account to another customer is not among them.\<close>

datatype svc_op = SvcOnboarding onb_op | SvcAssign faults env string string string string string
  | SvcUnassign faults time string string string | SvcSwapDevice faults env string string string string
  | SvcClaim faults string string string | SvcPreProvision bool faults env env preProvisionRequest
  | SvcSync bool "string \<Rightarrow> faults" "string \<Rightarrow> env" | SvcEnd faults bool time EndRequest
  | SvcSwap faults bool bool env SwapRequest | SvcMoveSite faults bool time string string
  | SvcChangePlan faults bool time string string bool

fun svc_exec :: "svc_op \<Rightarrow> svc_db \<Rightarrow> svc_db" where
  "svc_exec (SvcOnboarding op) db = db\<lparr> sv_onb := onb_exec op (sv_onb db) \<rparr>"
| "svc_exec (SvcAssign flt e a s r p st) db = snd (AssignDeviceStatus flt e a s r p st db)"
| "svc_exec (SvcUnassign flt now a r reason) db = snd (UnassignDevice flt now a r reason db)"
| "svc_exec (SvcSwapDevice flt e a r s reason) db = snd (SwapDevice flt e a r s reason db)"
| "svc_exec (SvcClaim flt a c cb) db = snd (ClaimAccount flt a c cb db)"
| "svc_exec (SvcPreProvision av flt e1 e2 req) db = snd (preProvision av flt e1 e2 req db)"
| "svc_exec (SvcSync fault flts es) db = sync_mappings fault flts es db"
| "svc_exec (SvcEnd flt commit now req) db = snd (End_sale flt commit now req db)"
| "svc_exec (SvcSwap flt fault commit e req) db = snd (Swap flt fault commit e req db)"
| "svc_exec (SvcMoveSite flt commit now oid sid) db = snd (MoveSite flt commit now oid sid db)"
| "svc_exec (SvcChangePlan flt commit now oid pid cfg) db = snd (ChangePlan flt commit now oid pid cfg db)"

lemma svc_exec_keeps: "svc_wf db \<Longrightarrow> keeps db (svc_exec op db)"
  by (cases op) (simp_all add: onb_exec_keeps AssignDeviceStatus_keeps UnassignDevice_keeps SwapDevice_keeps
      ClaimAccount_keeps preProvision_keeps sync_mappings_keeps End_sale_keeps Swap_keeps MoveSite_keeps ChangePlan_keeps)

interpretation svc: op_contract svc_wf keeps svc_exec
proof unfold_locales
  fix op and s :: svc_db assume "svc_wf s"
  then have "keeps s (svc_exec op s)" by (rule svc_exec_keeps)
  then show "svc_wf (svc_exec op s) \<and> keeps s (svc_exec op s)" by (simp add: keeps_wf)
qed (auto intro: keeps_refl keeps_trans)

lemma role_unique: "active_role_idx ms \<Longrightarrow> length (filter (serves a role) ms) \<le> 1"
proof (induction ms)
  case (Cons m ms)
  then have idx: "active_role_idx ms" by (simp add: active_role_idx_def split: if_splits)
  show ?case
  proof (cases "serves a role m")
    case True
    then have "(a, role) \<notin> (\<lambda>m. (mp_account_id m, mp_role m)) ` {x \<in> set ms. is_current x}"
      using Cons.prems by (simp add: active_role_idx_def serves_def)
    then have "filter (serves a role) ms = []" by (auto simp: serves_def filter_empty_conv)
    then show ?thesis by simp
  qed (use Cons.IH [OF idx] in simp)
qed simp


lemma shop_db_wf: "svc_wf shop_db"
  by (simp add: svc_wf_def onb_wf_def shop_db_def sale_def onboarding_checks_def onboardings_open_serial_idx_def onboarding_fks_def
      fk_def Open_def open_state_def active_idx_def active_role_idx_def mapping_ok_def mapping_tenant_def is_current_def
      account_customer_def owner_def ValidRole_def validRoles_def)


section \<open>Ending a service\<close>

lemma lockInService_Inr:
  assumes "lockInService flt oid db = Inr did"
  obtains o' where "find (\<lambda>r. o_ID r = oid) (od_onboardings (sv_onb db)) = Some o'" "o_State o' = StateInService"
    "o_DeviceID o' = Some did" "o_CustomerID o' \<noteq> None \<longrightarrow> owner (sv_onb db) did = o_CustomerID o'"
proof -
  obtain o' where o': "find (\<lambda>r. o_ID r = oid) (od_onboardings (sv_onb db)) = Some o'"
    using assms by (auto simp: lockInService_def split: if_splits option.splits)
  obtain d where d: "find (\<lambda>d. dv_id d = deref (o_DeviceID o')) (od_devices (sv_onb db)) = Some d"
    using assms o' by (auto simp: lockInService_def split: if_splits option.splits)
  have st: "o_State o' = StateInService" "o_DeviceID o' \<noteq> None" "did = dv_id d"
    "o_CustomerID o' \<noteq> None \<longrightarrow> dv_customer_id d = o_CustomerID o'"
    using assms o' d by (auto simp: lockInService_def split: if_splits)
  have dev: "o_DeviceID o' = Some did" using find_key [OF d] st(2,3) by (auto simp: deref_def)
  then have "owner (sv_onb db) did = dv_customer_id d" using d by (simp add: owner_def deref_def)
  then show thesis using that [OF o' st(1) dev] st(4) by simp
qed

lemma note_mapping_accounts:
  "set (en_Accounts (fold note_mapping ms res)) = set (en_Accounts res) \<union> mp_account_id ` set ms \<and>
   en_DeviceID (fold note_mapping ms res) = en_DeviceID res"
proof (induction ms arbitrary: res)
  case (Cons m ms)
  have "set (en_Accounts (note_mapping m res)) = insert (mp_account_id m) (set (en_Accounts res))"
    "en_DeviceID (note_mapping m res) = en_DeviceID res"
    by (auto simp: note_mapping_def Let_def)
  then show ?case using Cons.IH [of "note_mapping m res"] by auto
qed simp

text \<open>The tables after a successful \<^verbatim>\<open>end\<close>.\<close>

lemma end_service_state:
  assumes wf: "svc_wf db" and r: "end_service flt now req db = (Inr res, db')"
  obtains why where "map_of reasonText (er_Reason req) = Some why"
    "lockInService flt (er_OnboardingID req) db = Inr (en_DeviceID res)"
    "od_onboardings (sv_onb db') = update_where (\<lambda>r. o_ID r = er_OnboardingID req) (end_row now why) (od_onboardings (sv_onb db))"
    "od_devices (sv_onb db') = update_where (\<lambda>d. dv_id d = en_DeviceID res) (release_row now) (od_devices (sv_onb db))"
    "sv_mappings db' = update_where (of_device (en_DeviceID res)) (close_mapping now (er_Reason req)) (sv_mappings db)"
    "set (en_Accounts res) = mp_account_id ` {m \<in> set (sv_mappings db). of_device (en_DeviceID res) m}"
    "en_MappingRole res = en_MappingRole (fold note_mapping (filter (of_device (en_DeviceID res)) (sv_mappings db))
       \<lparr> en_DeviceID = en_DeviceID res, en_Accounts = [], en_Archived = [], en_MappingRole = [], en_MappingPlan = [] \<rparr>)"
    "er_KeepProfiles req \<longrightarrow> sv_profiles db' = sv_profiles db \<and> sv_archive db' = sv_archive db"
  using r
proof (rule end_service_cases)
  fix why did n odb res0 db2
  assume why: "map_of reasonText (er_Reason req) = Some why" and lock: "lockInService flt (er_OnboardingID req) db = Inr did"
    and u: "update_onboardings (flt 3) (\<lambda>r. o_ID r = er_OnboardingID req) (end_row now why) (sv_onb db) = (Inr n, odb)"
    and res0: "res0 = fold note_mapping (filter (of_device did) (sv_mappings db))
      \<lparr> en_DeviceID = did, en_Accounts = [], en_Archived = [], en_MappingRole = [], en_MappingPlan = [] \<rparr>"
    and db2: "db2 = (update_devices (\<lambda>d. dv_id d = did) (release_row now)
       (db\<lparr> sv_onb := odb, sv_mappings := update_where (of_device did) (close_mapping now (er_Reason req)) (sv_mappings db) \<rparr>))
       \<lparr> sv_projects := filter (\<lambda>(d, _). d \<noteq> did) (sv_projects db) \<rparr>"
    and r: "if er_KeepProfiles req then res = res0 \<and> db' = db2
     else \<exists>archived. archive_accounts flt 7 (er_Actor req) why (en_Accounts res0) db2 = (Inr archived, db') \<and>
       res = res0\<lparr> en_Archived := archived \<rparr>"
  have odb: "odb = (sv_onb db)\<lparr> od_onboardings :=
      update_where (\<lambda>r. o_ID r = er_OnboardingID req) (end_row now why) (od_onboardings (sv_onb db)) \<rparr>"
    using u by (rule update_onboardings_cases) simp_all
  have core: "core db' = core db2" and acc: "en_DeviceID res = en_DeviceID res0" "en_Accounts res = en_Accounts res0"
      "en_MappingRole res = en_MappingRole res0"
    and keep: "er_KeepProfiles req \<longrightarrow> sv_profiles db' = sv_profiles db \<and> sv_archive db' = sv_archive db"
    using r archive_accounts_core [of flt 7 "er_Actor req" why "en_Accounts res0" db2]
    by (auto simp: db2 update_devices_def split: if_splits)
  have did: "en_DeviceID res = did" "set (en_Accounts res) = mp_account_id ` {m \<in> set (sv_mappings db). of_device did m}"
    using note_mapping_accounts [of "filter (of_device did) (sv_mappings db)"] by (simp_all add: acc res0)
  show thesis
    by (rule that [OF why]) (use lock core keep in \<open>simp_all add: did core_def db2 update_devices_def odb acc(3) res0\<close>)
qed

lemma released_rest:
  "filter (\<lambda>x. o_ID x \<noteq> oid) (update_where (\<lambda>x. o_ID x = oid) (end_row now why) sales) = filter (\<lambda>x. o_ID x \<noteq> oid) sales"
  "filter (\<lambda>x. dv_id x \<noteq> did) (update_where (\<lambda>d. dv_id d = did) (release_row now) devs) = filter (\<lambda>x. dv_id x \<noteq> did) devs"
  "filter (\<lambda>m. mp_device_id m \<noteq> did) (update_where (of_device did) (close_mapping now reason) ms) =
     filter (\<lambda>m. mp_device_id m \<noteq> did) ms"
  by (rule filter_update_where; simp add: end_row_def release_row_def of_device_def close_mapping_def)+

text \<open>
  C28. Ending the service of a sale is all or nothing. It succeeds only for a sale in service whose device
  still belongs to the sale's customer; then the sale is ENDED, the device belongs to nobody and serves
  no account any more, the accounts reported are exactly those it served, and every other sale, device
  and assignment is as before. After any error nothing has changed.
\<close>

theorem End_releases:
  assumes "svc_wf db" and "End_sale flt commit now req db = (res, db')"
  shows "case res of
      Inl _ \<Rightarrow> db' = db
    | Inr r \<Rightarrow>
        (\<exists>o'. find (\<lambda>x. o_ID x = er_OnboardingID req) (od_onboardings (sv_onb db)) = Some o' \<and> o_State o' = StateInService \<and>
           o_DeviceID o' = Some (en_DeviceID r) \<and>
           (o_CustomerID o' \<noteq> None \<longrightarrow> owner (sv_onb db) (en_DeviceID r) = o_CustomerID o')) \<and>
        stored_state (sv_onb db') (er_OnboardingID req) = Some StateEnded \<and> owner (sv_onb db') (en_DeviceID r) = None \<and>
        \<not> list_ex (of_device (en_DeviceID r)) (sv_mappings db') \<and>
        set (en_Accounts r) = mp_account_id ` {m \<in> set (sv_mappings db). of_device (en_DeviceID r) m} \<and>
        filter (\<lambda>x. o_ID x \<noteq> er_OnboardingID req) (od_onboardings (sv_onb db')) =
          filter (\<lambda>x. o_ID x \<noteq> er_OnboardingID req) (od_onboardings (sv_onb db)) \<and>
        filter (\<lambda>x. dv_id x \<noteq> en_DeviceID r) (od_devices (sv_onb db')) =
          filter (\<lambda>x. dv_id x \<noteq> en_DeviceID r) (od_devices (sv_onb db)) \<and>
        filter (\<lambda>m. mp_device_id m \<noteq> en_DeviceID r) (sv_mappings db') =
          filter (\<lambda>m. mp_device_id m \<noteq> en_DeviceID r) (sv_mappings db)"
proof (cases res)
  case (Inl err)
  then show ?thesis using assms(2) by (auto simp: End_sale_def split: if_splits prod.splits sum.splits)
next
  case (Inr r)
  then have "end_service flt now req db = (Inr r, db')"
    using assms(2) by (auto simp: End_sale_def split: if_splits prod.splits sum.splits)
  then obtain why where lock: "lockInService flt (er_OnboardingID req) db = Inr (en_DeviceID r)"
    and onb: "od_onboardings (sv_onb db') = update_where (\<lambda>x. o_ID x = er_OnboardingID req) (end_row now why) (od_onboardings (sv_onb db))"
    and dev: "od_devices (sv_onb db') = update_where (\<lambda>d. dv_id d = en_DeviceID r) (release_row now) (od_devices (sv_onb db))"
    and map: "sv_mappings db' = update_where (of_device (en_DeviceID r)) (close_mapping now (er_Reason req)) (sv_mappings db)"
    and acc: "set (en_Accounts r) = mp_account_id ` {m \<in> set (sv_mappings db). of_device (en_DeviceID r) m}"
    by (rule end_service_state [OF assms(1)])
  from lock obtain o' where o': "find (\<lambda>x. o_ID x = er_OnboardingID req) (od_onboardings (sv_onb db)) = Some o'"
    "o_State o' = StateInService" "o_DeviceID o' = Some (en_DeviceID r)"
    "o_CustomerID o' \<noteq> None \<longrightarrow> owner (sv_onb db) (en_DeviceID r) = o_CustomerID o'"
    by (rule lockInService_Inr)
  have "stored_state (sv_onb db') (er_OnboardingID req) = Some StateEnded"
    using find_update_where [of o_ID "end_row now why" "er_OnboardingID req" _ "od_onboardings (sv_onb db)"] o'(1) find_key [OF o'(1)]
    by (simp add: stored_state_def onb end_row_def)
  moreover have "owner (sv_onb db') (en_DeviceID r) = None"
    using find_update_where [of dv_id "release_row now" "en_DeviceID r" _ "od_devices (sv_onb db)"]
    by (auto simp: owner_def dev release_row_def find_Some_iff split: option.split)
  moreover have "\<not> list_ex (of_device (en_DeviceID r)) (sv_mappings db')"
    by (auto simp: map list_ex_iff update_where_def of_device_def)
  ultimately show ?thesis using o' acc by (simp add: Inr onb dev map released_rest)
qed

definition shop_end :: "bool \<Rightarrow> EndRequest" where
  "shop_end keep = \<lparr> er_OnboardingID = ''s1'', er_Reason = ''return'', er_Actor = ''op'', er_KeepProfiles = keep \<rparr>"

theorem End_releases_witness:
  "\<exists>r db'. End_sale no_faults True 7 (shop_end False) shop_db = (Inr r, db') \<and> en_Accounts r = [''A1''] \<and>
     owner (sv_onb shop_db) ''d1'' = Some ''c1'' \<and> owner (sv_onb db') ''d1'' = None"
proof -
  obtain r db' where e: "End_sale no_faults True 7 (shop_end False) shop_db = (Inr r, db')" "en_Accounts r = [''A1'']" "en_DeviceID r = ''d1''"
  proof -
    have "(\<lambda>(r, _). case r of Inl _ \<Rightarrow> False | Inr r \<Rightarrow> en_Accounts r = [''A1''] \<and> en_DeviceID r = ''d1'')
        (End_sale no_faults True 7 (shop_end False) shop_db)" by code_simp
    then show thesis using that by (auto split: prod.splits sum.splits)
  qed
  have "owner (sv_onb shop_db) ''d1'' = Some ''c1''" by code_simp
  then show ?thesis using End_releases [OF shop_db_wf e(1)] e by auto
qed

section \<open>Subscriber profiles\<close>

definition served :: "svc_db \<Rightarrow> string \<Rightarrow> bool" where
  "served db account = list_ex (\<lambda>m. mp_account_id m = account \<and> is_current m) (sv_mappings db)"

lemma archive_accounts_Inr:
  assumes "archive_accounts flt n actor reason as d = (Inr xs, d')"
  shows "sv_profiles d' = filter (\<lambda>p. pf_account_id p \<notin> set as \<or> served d (pf_account_id p)) (sv_profiles d) \<and>
    set (sv_archive d') = set (sv_archive d) \<union> archive_of actor reason `
      {p \<in> set (sv_profiles d). pf_account_id p \<in> set as \<and> \<not> served d (pf_account_id p) \<and> (pf_display_name p \<noteq> None \<or> pf_vip p)}"
  using assms
proof (induction as arbitrary: n d d' xs)
  case (Cons a as)
  show ?case
  proof (cases "served d a")
    case True
    then have "archive_accounts flt (n + 2) actor reason as d = (Inr xs, d')" using Cons.prems by (simp add: served_def split: if_splits)
    note ih = Cons.IH [OF this]
    have "filter (\<lambda>p. pf_account_id p \<notin> set as \<or> served d (pf_account_id p)) (sv_profiles d) =
        filter (\<lambda>p. pf_account_id p \<notin> set (a # as) \<or> served d (pf_account_id p)) (sv_profiles d)"
      using True by (intro filter_cong) auto
    then show ?thesis using ih True by auto
  next
    case False
    let ?d = "d\<lparr> sv_archive := sv_archive d @ map (archive_of actor reason) (filter (archivable a) (sv_profiles d)),
      sv_profiles := filter (\<lambda>p. pf_account_id p \<noteq> a) (sv_profiles d) \<rparr>"
    obtain ys where "archive_accounts flt (n + 2) actor reason as ?d = (Inr ys, d')"
      using Cons.prems False by (auto simp: served_def archiveProfile_def split: if_splits prod.splits sum.splits)
    note ih = Cons.IH [OF this]
    have sv: "served ?d = served d" by (rule ext) (simp add: served_def)
    show ?thesis using ih False unfolding sv by (auto simp: archivable_def intro: filter_cong)
  qed
qed simp



section \<open>Swapping the device\<close>

lemma replacement_row_fields [simp]:
  "o_ID (replacement_row e req r old) = env_uuid e" "o_State (replacement_row e req r old) = StatePlanned"
  "o_CustomerID (replacement_row e req r old) = o_CustomerID old" "o_AccountRef (replacement_row e req r old) = o_AccountRef old"
  "o_SiteID (replacement_row e req r old) = o_SiteID old" "o_ServicePlanID (replacement_row e req r old) = o_ServicePlanID old"
  "o_Source (replacement_row e req r old) = o_Source old" "o_DeviceID (replacement_row e req r old) = None"
  "o_ExpectedSerial (replacement_row e req r old) = TrimSpace (sq_NewSerial req)"
  "o_BSSRole (replacement_row e req r old) = en_MappingRole r" "o_BSSServicePlan (replacement_row e req r old) = en_MappingPlan r"
  by (simp_all add: replacement_row_def)

lemma end_row_fields [simp]:
  "o_ID (end_row now why o') = o_ID o'" "o_State (end_row now why o') = StateEnded" "o_CustomerID (end_row now why o') = o_CustomerID o'"
  "o_AccountRef (end_row now why o') = o_AccountRef o'" "o_SiteID (end_row now why o') = o_SiteID o'"
  "o_ServicePlanID (end_row now why o') = o_ServicePlanID o'" "o_Source (end_row now why o') = o_Source o'"
  by (simp_all add: end_row_def)

lemma mapping_role_named: "mapping_ok odb m \<Longrightarrow> mp_role m \<noteq> []"
  by (auto simp: mapping_ok_def ValidRole_def validRoles_def)

lemma note_mapping_role:
  assumes "\<forall>m \<in> set ms. mp_role m \<noteq> []"
  shows "(en_MappingRole (fold note_mapping ms res) = [] \<longleftrightarrow> ms = [] \<and> en_MappingRole res = []) \<and>
    (en_MappingRole res = ''gateway'' \<or> ''gateway'' \<in> mp_role ` set ms \<longrightarrow> en_MappingRole (fold note_mapping ms res) = ''gateway'')"
  using assms
proof (induction ms arbitrary: res)
  case (Cons m ms)
  have "en_MappingRole (note_mapping m res) =
      (if en_MappingRole res = [] \<or> mp_role m = ''gateway'' then mp_role m else en_MappingRole res)"
    by (simp add: note_mapping_def Let_def)
  then show ?case using Cons.IH [of "note_mapping m res"] Cons.prems by auto
qed simp

text \<open>A successful swap: the old sale and the one recorded for the replacement.\<close>

lemma Swap_rows:
  assumes wf: "svc_wf db" and "Swap flt fault commit e req db = (Inr (r, newID), db')"
  obtains old new why where "find (\<lambda>x. o_ID x = sq_OnboardingID req) (od_onboardings (sv_onb db)) = Some old"
    "o_State old = StateInService" "new = replacement_row e req r (end_row (env_now e) why old)"
    "filter (\<lambda>x. o_ID x = newID) (od_onboardings (sv_onb db')) = [new]"
    "stored_state (sv_onb db') (sq_OnboardingID req) = Some StateEnded"
    "sv_profiles db' = sv_profiles db" "sv_archive db' = sv_archive db" "onboardings_open_serial_idx (od_onboardings (sv_onb db'))"
    "en_MappingRole r = en_MappingRole (fold note_mapping (filter (of_device (en_DeviceID r)) (sv_mappings db))
       \<lparr> en_DeviceID = en_DeviceID r, en_Accounts = [], en_Archived = [], en_MappingRole = [], en_MappingPlan = [] \<rparr>)"
  using assms(2)
proof (rule Swap_cases)
  fix ended db1 new
  assume res: "(Inr (r, newID) :: (EndResult \<times> string) lc_result) = Inr (ended, env_uuid e)"
    and en: "end_service flt (env_now e) \<lparr> er_OnboardingID = sq_OnboardingID req, er_Reason = sq_Reason req,
      er_Actor = sq_Actor req, er_KeepProfiles = True \<rparr> db = (Inr ended, db1)"
    and new: "new = map (replacement_row e req ended) (filter (\<lambda>r. o_ID r = sq_OnboardingID req) (od_onboardings (sv_onb db1)))"
    and db': "db' = db1\<lparr> sv_onb := (sv_onb db1)\<lparr> od_onboardings := od_onboardings (sv_onb db1) @ new \<rparr> \<rparr>"
    and dist: "distinct (map o_ID (od_onboardings (sv_onb db1) @ new))"
    and idx: "onboardings_open_serial_idx (od_onboardings (sv_onb db1) @ new)"
  have r: "ended = r" "newID = env_uuid e" using res by simp_all
  obtain why where lock: "lockInService flt (sq_OnboardingID req) db = Inr (en_DeviceID r)"
    and onb: "od_onboardings (sv_onb db1) = update_where (\<lambda>x. o_ID x = sq_OnboardingID req) (end_row (env_now e) why) (od_onboardings (sv_onb db))"
    and role: "en_MappingRole r = en_MappingRole (fold note_mapping (filter (of_device (en_DeviceID r)) (sv_mappings db))
       \<lparr> en_DeviceID = en_DeviceID r, en_Accounts = [], en_Archived = [], en_MappingRole = [], en_MappingPlan = [] \<rparr>)"
    and keep: "sv_profiles db1 = sv_profiles db" "sv_archive db1 = sv_archive db"
    by (rule end_service_state [OF wf en [unfolded r]]) simp
  from lock obtain old where old: "find (\<lambda>x. o_ID x = sq_OnboardingID req) (od_onboardings (sv_onb db)) = Some old" "o_State old = StateInService"
    by (rule lockInService_Inr)
  have f: "find (\<lambda>x. o_ID x = sq_OnboardingID req) (od_onboardings (sv_onb db1)) = Some (end_row (env_now e) why old)"
    using old(1) find_key [OF old(1)] by (simp add: onb find_update_where)
  then have new1: "new = [replacement_row e req r (end_row (env_now e) why old)]"
    using filter_find [of o_ID "od_onboardings (sv_onb db1)"] dist by (simp add: new r)
  then have "\<forall>x \<in> set (od_onboardings (sv_onb db1)). o_ID x \<noteq> newID" using dist r(2) by (auto simp: image_iff)
  then have "filter (\<lambda>x. o_ID x = newID) (od_onboardings (sv_onb db')) = [replacement_row e req r (end_row (env_now e) why old)]"
    by (simp add: db' new1 r(2) filter_empty_conv)
  then show thesis
    by (rule that [OF old refl]) (use f keep idx role in \<open>simp_all add: stored_state_def db' find_append\<close>)
qed simp


definition shop_swap :: SwapRequest where
  "shop_swap = \<lparr> sq_OnboardingID = ''s1'', sq_Reason = ''rma'', sq_NewSerial = '' SN2'', sq_NewOUI = [], sq_Actor = ''op'' \<rparr>"


text \<open>The sale of a replacement inherits the source of the old sale, and the sync follows only sales with
  the source bss: the replacement of a device sold through the console is never mapped to the account.\<close>

lemma swap_of_console_sale_unsynced:
  assumes "svc_wf db" "Swap flt fault commit e req db = (Inr (r, newID), db')"
    and "\<forall>o' \<in> set (od_onboardings (sv_onb db)). o_ID o' = sq_OnboardingID req \<longrightarrow> o_Source o' \<noteq> ''bss''"
  shows "\<exists>new. filter (\<lambda>x. o_ID x = newID) (od_onboardings (sv_onb db')) = [new] \<and> o_BSSRole new = en_MappingRole r \<and>
    \<not> needs_sync d (new\<lparr> o_DeviceID := did, o_State := st \<rparr>)"
  using assms(1,2)
proof (rule Swap_rows)
  fix old new why
  assume old: "find (\<lambda>x. o_ID x = sq_OnboardingID req) (od_onboardings (sv_onb db)) = Some old"
    and new: "new = replacement_row e req r (end_row (env_now e) why old)"
    and f: "filter (\<lambda>x. o_ID x = newID) (od_onboardings (sv_onb db')) = [new]"
  have "o_Source old \<noteq> ''bss''" using assms(3) find_key [OF old] old by (auto simp: find_Some_iff)
  then have "o_BSSRole new = en_MappingRole r \<and> \<not> needs_sync d (new\<lparr> o_DeviceID := did, o_State := st \<rparr>)"
    by (simp add: new needs_sync_def)
  then show ?thesis using f by blast
qed

end
