(* ===== verification/Credentials.thy ===== *)
theory Credentials
  imports Go_Aead Jobs Op_Contract
begin

text \<open>
  Package \<^verbatim>\<open>internal/credentials\<close>: versioned per-device credentials, their passwords sealed at rest, and the
  API handlers that activate and revoke them (\<^verbatim>\<open>cmd/api/credential_handlers.go\<close>). The table
  device_credentials obeys the unique indexes of migrations 0014 and 0078. Random bytes are
  arguments; the repository's key is \<open>None\<close> when encryption is not configured.
\<close>

section \<open>Credentials and their table\<close>

definition TypeConnectionRequest :: string where "TypeConnectionRequest = ''CONNECTION_REQUEST''"
definition TypeCWMPDigest :: string where "TypeCWMPDigest = ''CWMP_DIGEST''"
definition TypeXMPP :: string where "TypeXMPP = ''XMPP''"

definition ValidType :: "string \<Rightarrow> bool" where
  "ValidType t \<longleftrightarrow> t = TypeConnectionRequest \<or> t = TypeCWMPDigest"

datatype cred_status = CredPending | CredActive | CredGrace | CredRevoked

record credential_row =
  cr_id :: string
  cr_device_id :: string
  cr_type :: string
  cr_version :: nat
  cr_username :: string
  cr_password :: string
  cr_status :: cred_status
  cr_command_key :: "string option"
  cr_created_at :: time
  cr_activated_at :: "time option"
  cr_revoked_at :: "time option"

record Credential =
  cred_ID :: string
  cred_DeviceID :: string
  cred_CredentialType :: string
  cred_Version :: nat
  cred_Username :: string
  cred_Password :: string
  cred_Status :: cred_status
  cred_CommandKey :: string
  cred_CreatedAt :: time
  cred_ActivatedAt :: "time option"
  cred_RevokedAt :: "time option"

text \<open>The columns of devices that the graduation of a device reads and writes.\<close>

record boot_device =
  bd_id :: string
  bd_oui_serial :: string
  bd_manufacturer :: string
  bd_oui :: string
  bd_product_class :: string
  bd_serial_number :: string
  bd_data_model_root :: string
  bd_last_inform_at :: "time option"
  bd_cwmp_auth_mode :: string
  bd_reenroll_until :: "time option"

record cred_db =
  cd_creds :: "credential_row list"
  cd_devices :: "boot_device list"

datatype cred_error = ErrCredNotFound | ErrNoActiveCredential | ErrUnsupportedType | ErrRandom | ErrCredDB
  | ErrCredDecode | ErrCredTooShort | ErrCredNotAuthentic

type_synonym 'a cred_result = "cred_error + 'a"

section \<open>Generating and sealing\<close>

definition GenerateUsernamePasswordForType :: "bool \<Rightarrow> string \<Rightarrow> string \<Rightarrow> string \<Rightarrow> (string \<times> string) cred_result" where
  "GenerateUsernamePasswordForType fault credentialType u p =
     (if \<not> ValidType credentialType then Inl ErrUnsupportedType
      else if fault then Inl ErrRandom
      else Inr ((if credentialType = TypeCWMPDigest then ''cwmp-'' else ''cr-'') @ hex_encode u, hex_encode p))"

definition GenerateXMPPCredential :: "bool \<Rightarrow> string \<Rightarrow> string \<Rightarrow> (string \<times> string) cred_result" where
  "GenerateXMPPCredential fault u p = (if fault then Inl ErrRandom else Inr (''xmpp-'' @ hex_encode u, hex_encode p))"

definition encPrefix :: string where "encPrefix = ''enc:''"

definition NewRepository :: "string \<Rightarrow> string option" where
  "NewRepository encryptionKeySeed = (if encryptionKeySeed = [] then None else Some (sha256 encryptionKeySeed))"

definition Encrypted :: "string option \<Rightarrow> bool" where
  "Encrypted key \<longleftrightarrow> key \<noteq> None"

definition encrypt :: "string option \<Rightarrow> bool \<Rightarrow> string \<Rightarrow> string \<Rightarrow> string cred_result" where
  "encrypt key fault nonce plaintext =
     (case key of
        None \<Rightarrow> Inr plaintext
      | Some k \<Rightarrow> if fault then Inl ErrRandom else Inr (encPrefix @ hex_encode (nonce @ gcm_seal k nonce plaintext [])))"

definition decrypt :: "string option \<Rightarrow> string \<Rightarrow> string cred_result" where
  "decrypt key stored =
     (case key of
        None \<Rightarrow> Inr stored
      | Some k \<Rightarrow>
          if \<not> HasPrefix stored encPrefix then Inr stored
          else case hex_decode (TrimPrefix stored encPrefix) of
            None \<Rightarrow> Inl ErrCredDecode
          | Some raw \<Rightarrow>
              if length raw < gcm_nonce_size then Inl ErrCredTooShort
              else case gcm_open k (take gcm_nonce_size raw) (drop gcm_nonce_size raw) [] of
                None \<Rightarrow> Inl ErrCredNotAuthentic
              | Some plaintext \<Rightarrow> Inr plaintext)"

section \<open>The repository\<close>

definition scanCredential :: "string option \<Rightarrow> credential_row \<Rightarrow> Credential cred_result" where
  "scanCredential key r =
     (case decrypt key (cr_password r) of
        Inl e \<Rightarrow> Inl e
      | Inr plaintext \<Rightarrow> Inr \<lparr> cred_ID = cr_id r, cred_DeviceID = cr_device_id r, cred_CredentialType = cr_type r,
          cred_Version = cr_version r, cred_Username = cr_username r, cred_Password = plaintext, cred_Status = cr_status r,
          cred_CommandKey = (case cr_command_key r of None \<Rightarrow> [] | Some k \<Rightarrow> k), cred_CreatedAt = cr_created_at r,
          cred_ActivatedAt = cr_activated_at r, cred_RevokedAt = cr_revoked_at r \<rparr>)"

definition newest :: "credential_row list \<Rightarrow> credential_row list" where
  "newest rs = sort_key (\<lambda>r. - int (cr_version r)) rs"

definition scan_one :: "string option \<Rightarrow> bool \<Rightarrow> cred_error \<Rightarrow> credential_row list \<Rightarrow> Credential cred_result" where
  "scan_one key fault missing rs =
     (if fault then Inl ErrCredDB else case rs of [] \<Rightarrow> Inl missing | r # _ \<Rightarrow> scanCredential key r)"

definition ByID_cred :: "string option \<Rightarrow> bool \<Rightarrow> string \<Rightarrow> cred_db \<Rightarrow> Credential cred_result" where
  "ByID_cred key fault cid db = scan_one key fault ErrCredNotFound (filter (\<lambda>r. cr_id r = cid) (cd_creds db))"

fun scan_list :: "string option \<Rightarrow> credential_row list \<Rightarrow> Credential list cred_result" where
  "scan_list key [] = Inr []"
| "scan_list key (r # rs) =
     (case scanCredential key r of Inl e \<Rightarrow> Inl e
      | Inr c \<Rightarrow> (case scan_list key rs of Inl e \<Rightarrow> Inl e | Inr cs \<Rightarrow> Inr (c # cs)))"

definition ListByDevice_cred :: "string option \<Rightarrow> bool \<Rightarrow> string \<Rightarrow> cred_db \<Rightarrow> Credential list cred_result" where
  "ListByDevice_cred key fault deviceID db =
     (if fault then Inl ErrCredDB else scan_list key (newest (filter (\<lambda>r. cr_device_id r = deviceID) (cd_creds db))))"

definition PendingForDevice :: "string option \<Rightarrow> bool \<Rightarrow> string \<Rightarrow> string \<Rightarrow> cred_db \<Rightarrow> Credential cred_result" where
  "PendingForDevice key fault deviceID credType db = scan_one key fault ErrCredNotFound
     (newest (filter (\<lambda>r. cr_device_id r = deviceID \<and> cr_type r = credType \<and> cr_status r = CredPending) (cd_creds db)))"

definition ActiveForDevice :: "string option \<Rightarrow> bool \<Rightarrow> string \<Rightarrow> string \<Rightarrow> cred_db \<Rightarrow> Credential cred_result" where
  "ActiveForDevice key fault deviceID credType db = scan_one key fault ErrNoActiveCredential
     (filter (\<lambda>r. cr_device_id r = deviceID \<and> cr_type r = credType \<and> cr_status r = CredActive) (cd_creds db))"

definition live_digest :: "string \<Rightarrow> credential_row \<Rightarrow> bool" where
  "live_digest username r \<longleftrightarrow> cr_type r = TypeCWMPDigest \<and> cr_username r = username \<and>
     cr_status r \<in> {CredPending, CredActive, CredGrace}"

definition LookupCWMPDigest :: "string option \<Rightarrow> bool \<Rightarrow> string \<Rightarrow> cred_db \<Rightarrow> Credential cred_result" where
  "LookupCWMPDigest key fault username db =
     scan_one key fault ErrCredNotFound (newest (filter (live_digest username) (cd_creds db)))"

definition next_version :: "string \<Rightarrow> string \<Rightarrow> credential_row list \<Rightarrow> nat" where
  "next_version deviceID credType rs =
     fold max (map cr_version (filter (\<lambda>r. cr_device_id r = deviceID \<and> cr_type r = credType) rs)) 0 + 1"

text \<open>The CHECK, the unique indexes and the foreign key; a new row is PENDING.\<close>

definition one_pending_digest :: "credential_row list \<Rightarrow> bool" where
  "one_pending_digest rs \<longleftrightarrow>
     distinct (map cr_device_id (filter (\<lambda>r. cr_type r = TypeCWMPDigest \<and> cr_status r = CredPending) rs))"

definition one_active :: "credential_row list \<Rightarrow> bool" where
  "one_active rs \<longleftrightarrow> distinct (map (\<lambda>r. (cr_device_id r, cr_type r)) (filter (\<lambda>r. cr_status r = CredActive) rs))"

definition version_key :: "credential_row list \<Rightarrow> bool" where
  "version_key rs \<longleftrightarrow> distinct (map (\<lambda>r. (cr_device_id r, cr_type r, cr_version r)) rs)"

definition insert_credential :: "credential_row \<Rightarrow> cred_db \<Rightarrow> cred_db option" where
  "insert_credential r db =
     (let rs = cd_creds db @ [r] in
      if cr_type r \<notin> {TypeConnectionRequest, TypeCWMPDigest, TypeXMPP} \<or> cr_id r \<in> cr_id ` set (cd_creds db) \<or>
         \<not> version_key rs \<or> \<not> one_pending_digest rs \<or> cr_device_id r \<notin> bd_id ` set (cd_devices db)
      then None else Some (db\<lparr> cd_creds := rs \<rparr>))"

definition pending_row :: "env \<Rightarrow> string \<Rightarrow> string \<Rightarrow> nat \<Rightarrow> string \<Rightarrow> string \<Rightarrow> string \<Rightarrow> credential_row" where
  "pending_row e deviceID credType version username stored commandKey =
     \<lparr> cr_id = env_uuid e, cr_device_id = deviceID, cr_type = credType, cr_version = version, cr_username = username,
       cr_password = stored, cr_status = CredPending, cr_command_key = Some commandKey, cr_created_at = env_now e,
       cr_activated_at = None, cr_revoked_at = None \<rparr>"

text \<open>The part of a transaction that inserts; \<open>db\<close> is what a rollback restores. Statement \<open>n\<close> inserts,
  the next one commits.\<close>

definition insert_pending ::
  "string option \<Rightarrow> faults \<Rightarrow> nat \<Rightarrow> credential_row \<Rightarrow> cred_db \<Rightarrow> Credential cred_result \<times> cred_db" where
  "insert_pending key flt n r db =
     (if flt n then (Inl ErrCredDB, db)
      else case insert_credential r db of
        None \<Rightarrow> (Inl ErrCredDB, db)
      | Some db' \<Rightarrow>
          (case scanCredential key r of
             Inl e \<Rightarrow> (Inl e, db)
           | Inr cred \<Rightarrow> if flt (n + 1) then (Inl ErrCredDB, db) else (Inr cred, db')))"

definition Create_cred ::
  "string option \<Rightarrow> faults \<Rightarrow> env \<Rightarrow> string \<Rightarrow> string \<Rightarrow> string \<Rightarrow> string \<Rightarrow> string \<Rightarrow> string \<Rightarrow> cred_db \<Rightarrow>
   Credential cred_result \<times> cred_db" where
  "Create_cred key flt e nonce deviceID credType username password commandKey db =
     (if flt 0 \<or> flt 1 then (Inl ErrCredDB, db)
      else case encrypt key (flt 2) nonce password of
        Inl err \<Rightarrow> (Inl err, db)
      | Inr stored \<Rightarrow>
          insert_pending key flt 3
            (pending_row e deviceID credType (next_version deviceID credType (cd_creds db)) username stored commandKey) db)"

definition demote :: "credential_row \<Rightarrow> credential_row" where
  "demote r = r\<lparr> cr_status := CredGrace, cr_revoked_at := None \<rparr>"

definition promote :: "time \<Rightarrow> credential_row \<Rightarrow> credential_row" where
  "promote now r = r\<lparr> cr_status := CredActive, cr_activated_at := Some now \<rparr>"

definition Activate :: "string option \<Rightarrow> faults \<Rightarrow> time \<Rightarrow> string \<Rightarrow> cred_db \<Rightarrow> Credential cred_result \<times> cred_db" where
  "Activate key flt now cid db =
     (if flt 0 then (Inl ErrCredDB, db)
      else case ByID_cred key (flt 1) cid db of
        Inl err \<Rightarrow> (Inl err, db)
      | Inr cred \<Rightarrow>
          (let rows1 = update_where (\<lambda>r. cr_device_id r = cred_DeviceID cred \<and> cr_type r = cred_CredentialType cred \<and>
                 cr_status r = CredActive) demote (cd_creds db);
               rows2 = update_where (\<lambda>r. cr_id r = cid) (promote now) rows1
           in if flt 2 \<or> flt 3 \<or> \<not> one_active rows2 \<or> flt 4 then (Inl ErrCredDB, db)
              else (ByID_cred key (flt 5) cid (db\<lparr> cd_creds := rows2 \<rparr>), db\<lparr> cd_creds := rows2 \<rparr>)))"

definition revocable :: "string \<Rightarrow> credential_row \<Rightarrow> bool" where
  "revocable cid r \<longleftrightarrow> cr_id r = cid \<and> cr_status r \<in> {CredGrace, CredPending}"

definition revoke_row :: "time \<Rightarrow> credential_row \<Rightarrow> credential_row" where
  "revoke_row now r = r\<lparr> cr_status := CredRevoked, cr_revoked_at := Some now \<rparr>"

definition Revoke :: "string option \<Rightarrow> faults \<Rightarrow> time \<Rightarrow> string \<Rightarrow> cred_db \<Rightarrow> Credential cred_result \<times> cred_db" where
  "Revoke key flt now cid db =
     (if flt 0 then (Inl ErrCredDB, db)
      else if rows_affected (revocable cid) (cd_creds db) = 0 then (Inl ErrCredNotFound, db)
      else let db' = db\<lparr> cd_creds := update_where (revocable cid) (revoke_row now) (cd_creds db) \<rparr>
           in (ByID_cred key (flt 1) cid db', db'))"

text \<open>\<^verbatim>\<open>id\<close> is a UUID in canonical form.\<close>

definition bootstrapCommandKey :: "string \<Rightarrow> string" where
  "bootstrapCommandKey cid = ''bootstrap-'' @ take 22 (ReplaceAll cid (CHR ''-'') [])"

definition EnsurePendingCWMPDigest ::
  "string option \<Rightarrow> faults \<Rightarrow> env \<Rightarrow> string \<Rightarrow> string \<Rightarrow> string \<Rightarrow> string \<Rightarrow> cred_db \<Rightarrow> Credential cred_result \<times> cred_db" where
  "EnsurePendingCWMPDigest key flt e u p nonce deviceID db =
     (if flt 0 \<or> flt 1 then (Inl ErrCredDB, db)
      else if deviceID \<notin> bd_id ` set (cd_devices db) then (Inl ErrCredNotFound, db)
      else case PendingForDevice key (flt 2) deviceID TypeCWMPDigest db of
        Inr cred \<Rightarrow> (if flt 3 then Inl ErrCredDB else Inr cred, db)
      | Inl err \<Rightarrow>
          if err \<noteq> ErrCredNotFound then (Inl err, db)
          else case GenerateUsernamePasswordForType (flt 4) TypeCWMPDigest u p of
            Inl err' \<Rightarrow> (Inl err', db)
          | Inr (username, password) \<Rightarrow>
              (case encrypt key (flt 5) nonce password of
                 Inl err' \<Rightarrow> (Inl err', db)
               | Inr stored \<Rightarrow>
                   if flt 6 then (Inl ErrCredDB, db)
                   else insert_pending key flt 7
                     (pending_row e deviceID TypeCWMPDigest (next_version deviceID TypeCWMPDigest (cd_creds db)) username stored
                        (bootstrapCommandKey (env_uuid e))) db))"

section \<open>Who activates and revokes\<close>

text \<open>The API handlers after the scope check of the path's device; the result is the HTTP status.\<close>

definition credentialMayBeManuallyActivated :: "Credential \<Rightarrow> bool" where
  "credentialMayBeManuallyActivated c \<longleftrightarrow> cred_CredentialType c = TypeConnectionRequest"

definition activateDeviceCredential :: "string option \<Rightarrow> bool \<Rightarrow> faults \<Rightarrow> time \<Rightarrow> string \<Rightarrow> string \<Rightarrow> cred_db \<Rightarrow> nat \<times> cred_db" where
  "activateDeviceCredential key fault flt now deviceID credID db =
     (case ByID_cred key fault credID db of
        Inl err \<Rightarrow> (if err = ErrCredNotFound then 404 else 500, db)
      | Inr existing \<Rightarrow>
          if cred_DeviceID existing \<noteq> deviceID then (404, db)
          else if \<not> credentialMayBeManuallyActivated existing then (409, db)
          else case Activate key flt now credID db of
            (Inl err, db') \<Rightarrow> (if err = ErrCredNotFound then 404 else 500, db')
          | (Inr _, db') \<Rightarrow> (200, db'))"

definition revokeDeviceCredential :: "string option \<Rightarrow> bool \<Rightarrow> faults \<Rightarrow> time \<Rightarrow> string \<Rightarrow> string \<Rightarrow> cred_db \<Rightarrow> nat \<times> cred_db" where
  "revokeDeviceCredential key fault flt now deviceID credID db =
     (case ByID_cred key fault credID db of
        Inl err \<Rightarrow> (if err = ErrCredNotFound then 404 else 500, db)
      | Inr existing \<Rightarrow>
          if cred_DeviceID existing \<noteq> deviceID then (404, db)
          else case Revoke key flt now credID db of
            (Inl err, db') \<Rightarrow> (if err = ErrCredNotFound then 404 else 500, db')
          | (Inr _, db') \<Rightarrow> (200, db'))"

text \<open>The hooks of the gateway's authenticator (\<^verbatim>\<open>cmd/acs/main.go\<close>). Graduation closes a re-enrolment window;
  failing to is only logged.\<close>

definition lookup_hook :: "string option \<Rightarrow> bool \<Rightarrow> cred_db \<Rightarrow> string \<Rightarrow> (string \<times> string) option" where
  "lookup_hook key fault db username =
     (case LookupCWMPDigest key fault username db of
        Inl _ \<Rightarrow> None
      | Inr cred \<Rightarrow> Some (cred_Password cred, cred_DeviceID cred))"

definition CloseReenrollment :: "bool \<Rightarrow> string \<Rightarrow> cred_db \<Rightarrow> cred_db" where
  "CloseReenrollment fault deviceID db =
     (if fault then db
      else db\<lparr> cd_devices := update_where (\<lambda>d. bd_id d = deviceID \<and> bd_reenroll_until d \<noteq> None)
             (\<lambda>d. d\<lparr> bd_reenroll_until := None \<rparr>) (cd_devices db) \<rparr>)"

definition OnAuthenticated :: "string option \<Rightarrow> bool \<Rightarrow> bool \<Rightarrow> faults \<Rightarrow> time \<Rightarrow> string \<Rightarrow> cred_db \<Rightarrow> cred_db" where
  "OnAuthenticated key fault fault' flt now username db =
     (case LookupCWMPDigest key fault username db of
        Inl _ \<Rightarrow> db
      | Inr cred \<Rightarrow>
          if cred_Status cred \<noteq> CredPending then db
          else case Activate key flt now (cred_ID cred) db of
            (Inl _, db') \<Rightarrow> db'
          | (Inr _, db') \<Rightarrow> CloseReenrollment fault' (cred_DeviceID cred) db')"

section \<open>What every operation keeps\<close>

lemma decrypt_encrypt:
  assumes "length nonce = gcm_nonce_size" "encrypt key fault nonce plaintext = Inr stored"
  shows "decrypt key stored = Inr plaintext"
proof (cases key)
  case (Some k)
  have s: "stored = encPrefix @ hex_encode (nonce @ gcm_seal k nonce plaintext [])"
    using assms(2) by (auto simp: encrypt_def Some split: if_splits)
  have "HasPrefix stored encPrefix" "TrimPrefix stored encPrefix = hex_encode (nonce @ gcm_seal k nonce plaintext [])"
    by (simp_all add: s HasPrefix_def TrimPrefix_def)
  then show ?thesis using assms(1) by (simp add: decrypt_def Some)
qed (use assms(2) in \<open>simp add: encrypt_def decrypt_def\<close>)

definition readable :: "string option \<Rightarrow> credential_row \<Rightarrow> bool" where
  "readable key r \<longleftrightarrow> (case decrypt key (cr_password r) of Inl _ \<Rightarrow> False | Inr _ \<Rightarrow> True)"

definition cred_wf :: "string option \<Rightarrow> cred_db \<Rightarrow> bool" where
  "cred_wf key db \<longleftrightarrow> distinct (map cr_id (cd_creds db)) \<and> version_key (cd_creds db) \<and> one_active (cd_creds db) \<and>
     one_pending_digest (cd_creds db) \<and> list_all (readable key) (cd_creds db) \<and>
     list_all (\<lambda>r. cr_device_id r \<in> bd_id ` set (cd_devices db)) (cd_creds db) \<and>
     distinct (map bd_id (cd_devices db)) \<and> distinct (map bd_oui_serial (cd_devices db))"

text \<open>How a row may change in one step: never what it is a credential for, and a CWMP Digest credential
  comes into use only if it is among those proved in the step, and never after it was revoked.\<close>

definition in_use :: "credential_row \<Rightarrow> bool" where
  "in_use r \<longleftrightarrow> cr_status r = CredActive \<or> cr_status r = CredGrace"

definition cred_key :: "credential_row \<Rightarrow> string \<times> string \<times> string \<times> nat \<times> string \<times> string" where
  "cred_key r = (cr_id r, cr_device_id r, cr_type r, cr_version r, cr_username r, cr_password r)"

definition evolves :: "string set \<Rightarrow> credential_row \<Rightarrow> credential_row \<Rightarrow> bool" where
  "evolves proved r r' \<longleftrightarrow> cred_key r' = cred_key r \<and>
     (cr_type r = TypeCWMPDigest \<longrightarrow> (cr_status r = CredRevoked \<longrightarrow> cr_status r' = CredRevoked) \<and>
       (in_use r' \<longrightarrow> in_use r \<or> cr_id r \<in> proved))"

definition cred_step :: "string option \<Rightarrow> string set \<Rightarrow> cred_db \<Rightarrow> cred_db \<Rightarrow> bool" where
  "cred_step key proved db db' \<longleftrightarrow> cred_wf key db' \<and>
     (\<exists>f new. cd_creds db' = map f (cd_creds db) @ new \<and> (\<forall>r \<in> set (cd_creds db). evolves proved r (f r)) \<and>
       (\<forall>r \<in> set new. cr_status r = CredPending))"

lemma evolves_refl: "evolves proved r r"
  by (simp add: evolves_def)

lemma cred_step_refl: "cred_wf key db \<Longrightarrow> cred_step key proved db db"
  unfolding cred_step_def by (intro conjI exI [of _ id] exI [of _ "[]"]) (simp_all add: evolves_refl)

lemma scan_readable: "scanCredential key r = Inr c \<Longrightarrow> readable key r"
  by (simp add: scanCredential_def readable_def split: sum.splits)

lemma scanCredential_fields:
  "scanCredential key r = Inr c \<Longrightarrow> cred_ID c = cr_id r \<and> cred_DeviceID c = cr_device_id r \<and>
     cred_CredentialType c = cr_type r \<and> cred_Status c = cr_status r \<and> cred_Username c = cr_username r \<and>
     decrypt key (cr_password r) = Inr (cred_Password c)"
  by (auto simp: scanCredential_def split: sum.splits)

lemma insert_credential_Some:
  assumes "insert_credential r db = Some db'"
  shows "db' = db\<lparr> cd_creds := cd_creds db @ [r] \<rparr> \<and> cr_id r \<notin> cr_id ` set (cd_creds db) \<and> version_key (cd_creds db @ [r]) \<and>
    one_pending_digest (cd_creds db @ [r]) \<and> cr_device_id r \<in> bd_id ` set (cd_devices db)"
  using assms by (simp add: insert_credential_def Let_def split: if_splits)

lemma insert_pending_cases:
  "snd (insert_pending key flt n r db) = db \<or>
   (\<exists>db' c. snd (insert_pending key flt n r db) = db' \<and> insert_credential r db = Some db' \<and> scanCredential key r = Inr c)"
  by (simp add: insert_pending_def split: option.split sum.split)

lemma insert_pending_step:
  assumes wf: "cred_wf key db" and r: "cr_status r = CredPending"
  shows "cred_step key {} db (snd (insert_pending key flt n r db))"
  using insert_pending_cases [of key flt n r db]
proof (elim disjE exE conjE)
  fix db' c
  assume d: "snd (insert_pending key flt n r db) = db'" and i: "insert_credential r db = Some db'" and c: "scanCredential key r = Inr c"
  have "cred_wf key db'"
    using wf scan_readable [OF c] insert_credential_Some [OF i] r by (simp add: cred_wf_def one_active_def)
  then show ?thesis
    unfolding d cred_step_def using insert_credential_Some [OF i]
    by (intro conjI exI [of _ id] exI [of _ "[r]"]) (simp_all add: evolves_refl r)
qed (simp add: cred_step_refl [OF wf])

lemma Create_cred_step:
  assumes wf: "cred_wf key db"
  shows "cred_step key {} db (snd (Create_cred key flt e nonce dev ty u p ck db))"
proof -
  have "cred_step key {} db (snd (insert_pending key flt n (pending_row e dev ty v u st ck) db))" for n v st
    by (rule insert_pending_step [OF wf]) (simp add: pending_row_def)
  then show ?thesis using cred_step_refl [OF wf] by (simp add: Create_cred_def split: sum.split)
qed

lemma EnsurePending_step:
  assumes wf: "cred_wf key db"
  shows "cred_step key {} db (snd (EnsurePendingCWMPDigest key flt e u p nonce dev db))"
proof -
  have "cred_step key {} db (snd (insert_pending key flt n (pending_row e dev ty v un st ck) db))" for n ty v un st ck
    by (rule insert_pending_step [OF wf]) (simp add: pending_row_def)
  then show ?thesis using cred_step_refl [OF wf]
    by (simp add: EnsurePendingCWMPDigest_def split: sum.split prod.split)
qed

lemma ByID_Inr:
  assumes "ByID_cred key fault cid db = Inr c" "cred_wf key db"
  obtains r where "r \<in> set (cd_creds db)" "cr_id r = cid" "scanCredential key r = Inr c"
    "\<forall>x \<in> set (cd_creds db). cr_id x = cid \<longrightarrow> x = r"
proof -
  obtain r rs where f: "filter (\<lambda>r. cr_id r = cid) (cd_creds db) = r # rs" "scanCredential key r = Inr c"
    using assms(1) by (auto simp: ByID_cred_def scan_one_def split: if_splits list.splits)
  then have r: "r \<in> set (cd_creds db)" "cr_id r = cid" by (auto simp: filter_eq_Cons_iff)
  have "x = r" if "x \<in> set (cd_creds db)" "cr_id x = cid" for x
    using assms(2) r that by (auto simp: cred_wf_def distinct_map inj_on_def)
  then show thesis using that [OF r f(2)] by blast
qed

text \<open>An UPDATE that leaves what the rows are credentials for.\<close>

lemma update_creds_step:
  assumes wf: "cred_wf key db" and key: "\<And>r. cred_key (f r) = cred_key r"
    and ev: "\<And>r. r \<in> set (cd_creds db) \<Longrightarrow> evolves proved r (f r)"
    and pend: "\<And>r. cr_status (f r) = CredPending \<Longrightarrow> cr_status r = CredPending"
    and act: "one_active (map f (cd_creds db))"
  shows "cred_step key proved db (db\<lparr> cd_creds := map f (cd_creds db) \<rparr>)"
proof -
  have k: "cr_id (f r) = cr_id r" "cr_device_id (f r) = cr_device_id r" "cr_type (f r) = cr_type r"
    "cr_version (f r) = cr_version r" "cr_password (f r) = cr_password r" for r
    using key [of r] by (simp_all add: cred_key_def)
  have "one_pending_digest (update_where (\<lambda>_. True) f (cd_creds db))"
    using wf unfolding one_pending_digest_def cred_wf_def by (intro distinct_filter_update) (auto simp: k pend)
  then have "one_pending_digest (map f (cd_creds db))" by (simp add: update_where_def)
  moreover have "map cr_id (map f (cd_creds db)) = map cr_id (cd_creds db)" by (simp add: k)
  moreover have "version_key (map f (cd_creds db))" using wf by (simp add: cred_wf_def version_key_def comp_def k)
  moreover have "readable key (f r) = readable key r" for r by (simp add: readable_def k)
  ultimately have "cred_wf key (db\<lparr> cd_creds := map f (cd_creds db) \<rparr>)"
    using wf act by (simp add: cred_wf_def list_all_iff comp_def k)
  then show ?thesis
    unfolding cred_step_def by (intro conjI exI [of _ f] exI [of _ "[]"]) (simp_all add: ev)
qed

definition switch_row :: "time \<Rightarrow> string \<Rightarrow> string \<Rightarrow> string \<Rightarrow> credential_row \<Rightarrow> credential_row" where
  "switch_row now cid dev ty r =
     (let r1 = (if cr_device_id r = dev \<and> cr_type r = ty \<and> cr_status r = CredActive then demote r else r)
      in if cr_id r = cid then promote now r1 else r1)"

lemma switch_rows:
  "update_where (\<lambda>r. cr_id r = cid) (promote now)
     (update_where (\<lambda>r. cr_device_id r = dev \<and> cr_type r = ty \<and> cr_status r = CredActive) demote rs) =
   map (switch_row now cid dev ty) rs"
  by (simp add: update_where_def switch_row_def Let_def demote_def)

lemma switch_row_status:
  "cred_key (switch_row now cid dev ty r) = cred_key r"
  "cr_status (switch_row now cid dev ty r) = (if cr_id r = cid then CredActive
     else if cr_device_id r = dev \<and> cr_type r = ty \<and> cr_status r = CredActive then CredGrace else cr_status r)"
  by (simp_all add: switch_row_def Let_def demote_def promote_def cred_key_def)

lemma Activate_cases:
  assumes "Activate key flt now cid db = (res, db')" "cred_wf key db"
  obtains "db' = db" "\<exists>e. res = Inl e"
  | r c where "r \<in> set (cd_creds db)" "cr_id r = cid" "scanCredential key r = Inr c"
    "db' = db\<lparr> cd_creds := map (switch_row now cid (cr_device_id r) (cr_type r)) (cd_creds db) \<rparr>"
    "one_active (cd_creds db')" "res = ByID_cred key (flt 5) cid db'"
proof (cases "flt 0 \<or> (\<exists>e. ByID_cred key (flt 1) cid db = Inl e)")
  case True
  then show thesis using assms(1) by (intro that(1)) (auto simp: Activate_def split: if_splits dest: sym)
next
  case False
  then obtain c where c: "ByID_cred key (flt 1) cid db = Inr c" "\<not> flt 0" by (cases "ByID_cred key (flt 1) cid db") auto
  obtain r where r: "r \<in> set (cd_creds db)" "cr_id r = cid" "scanCredential key r = Inr c"
    using c(1) assms(2) by (rule ByID_Inr) blast
  let ?rows = "map (switch_row now cid (cr_device_id r) (cr_type r)) (cd_creds db)"
  have fields: "cred_DeviceID c = cr_device_id r" "cred_CredentialType c = cr_type r"
    using scanCredential_fields [OF r(3)] by simp_all
  have a: "(res, db') = (if flt 2 \<or> flt 3 \<or> \<not> one_active ?rows \<or> flt 4 then (Inl ErrCredDB, db)
      else (ByID_cred key (flt 5) cid (db\<lparr> cd_creds := ?rows \<rparr>), db\<lparr> cd_creds := ?rows \<rparr>))"
    using assms(1) c(2) unfolding Activate_def c(1) sum.case Let_def fields switch_rows by (auto split: if_splits)
  show thesis
    by (cases "flt 2 \<or> flt 3 \<or> \<not> one_active ?rows \<or> flt 4") (use a that(1) that(2) [OF r] in simp_all)
qed

lemma Activate_step:
  assumes wf: "cred_wf key db"
    and ok: "\<And>r. r \<in> set (cd_creds db) \<Longrightarrow> cr_id r = cid \<Longrightarrow> cr_type r = TypeCWMPDigest \<Longrightarrow> cid \<in> proved \<and> cr_status r \<noteq> CredRevoked"
  shows "cred_step key proved db (snd (Activate key flt now cid db))"
proof -
  obtain res db' where a: "Activate key flt now cid db = (res, db')" by (rule prod.exhaust)
  have "cred_step key proved db db'"
    using a wf
  proof (rule Activate_cases)
    fix r :: credential_row
    let ?f = "switch_row now cid (cr_device_id r) (cr_type r)"
    assume db': "db' = db\<lparr> cd_creds := map ?f (cd_creds db) \<rparr>" and act: "one_active (cd_creds db')"
    have "evolves proved x (?f x)" if "x \<in> set (cd_creds db)" for x
      using ok [OF that] unfolding evolves_def switch_row_status in_use_def by auto
    then show "cred_step key proved db db'"
      unfolding db' by (rule update_creds_step [OF wf switch_row_status(1)])
        (use act in \<open>auto simp: switch_row_status db' split: if_splits\<close>)
  qed (simp add: cred_step_refl [OF wf])
  then show ?thesis by (simp add: a)
qed

lemma Revoke_step:
  assumes wf: "cred_wf key db"
  shows "cred_step key {} db (snd (Revoke key flt now cid db))"
proof -
  let ?f = "\<lambda>r. if revocable cid r then revoke_row now r else r"
  have "one_active (update_where (revocable cid) (revoke_row now) (cd_creds db))"
    using wf unfolding one_active_def cred_wf_def by (intro distinct_filter_update) (auto simp: revoke_row_def)
  then have "cred_step key {} db (db\<lparr> cd_creds := map ?f (cd_creds db) \<rparr>)"
    by (intro update_creds_step [OF wf])
      (auto simp: update_where_def revoke_row_def cred_key_def evolves_def in_use_def split: if_splits)
  then show ?thesis using cred_step_refl [OF wf] by (simp add: Revoke_def Let_def update_where_def)
qed

lemma activateDeviceCredential_step:
  assumes wf: "cred_wf key db"
  shows "cred_step key {} db (snd (activateDeviceCredential key fault flt now dev cid db))"
proof (cases "ByID_cred key fault cid db")
  case (Inr c)
  then obtain r where r: "r \<in> set (cd_creds db)" "cr_id r = cid" "scanCredential key r = Inr c"
    "\<forall>x \<in> set (cd_creds db). cr_id x = cid \<longrightarrow> x = r" using wf by (rule ByID_Inr)
  show ?thesis
  proof (cases "cred_CredentialType c = TypeConnectionRequest")
    case True
    have "cr_type r = TypeConnectionRequest" using scanCredential_fields [OF r(3)] True by simp
    then have "cr_type r \<noteq> TypeCWMPDigest" by (simp add: TypeConnectionRequest_def TypeCWMPDigest_def)
    then have "cred_step key {} db (snd (Activate key flt now cid db))" using r(4) by (intro Activate_step [OF wf]) auto
    then show ?thesis using cred_step_refl [OF wf]
      by (simp add: activateDeviceCredential_def Inr case_prod_unfold split: sum.split)
  qed (simp add: activateDeviceCredential_def Inr credentialMayBeManuallyActivated_def cred_step_refl [OF wf])
qed (simp add: activateDeviceCredential_def cred_step_refl [OF wf])

lemma revokeDeviceCredential_step:
  "cred_wf key db \<Longrightarrow> cred_step key {} db (snd (revokeDeviceCredential key fault flt now dev cid db))"
  using Revoke_step by (simp add: revokeDeviceCredential_def cred_step_refl case_prod_unfold split: sum.split)

lemma CloseReenrollment_frame:
  "cd_creds (CloseReenrollment fault dev db) = cd_creds db"
  "map bd_id (cd_devices (CloseReenrollment fault dev db)) = map bd_id (cd_devices db)"
  "map bd_oui_serial (cd_devices (CloseReenrollment fault dev db)) = map bd_oui_serial (cd_devices db)"
  by (simp_all add: CloseReenrollment_def map_update_where)

lemma cred_step_devices:
  assumes "cred_step key proved db d" "cd_creds d' = cd_creds d" "map bd_id (cd_devices d') = map bd_id (cd_devices d)"
    "map bd_oui_serial (cd_devices d') = map bd_oui_serial (cd_devices d)"
  shows "cred_step key proved db d'"
proof -
  have "bd_id ` set (cd_devices d') = bd_id ` set (cd_devices d)" using assms(3) by (metis list.set_map)
  then show ?thesis using assms by (simp add: cred_step_def cred_wf_def)
qed

lemma Lookup_Inr:
  assumes "LookupCWMPDigest key fault username db = Inr c"
  obtains r where "r \<in> set (cd_creds db)" "live_digest username r" "scanCredential key r = Inr c"
proof -
  obtain r rs where f: "newest (filter (live_digest username) (cd_creds db)) = r # rs" "scanCredential key r = Inr c"
    using assms by (auto simp: LookupCWMPDigest_def scan_one_def split: if_splits list.splits)
  have "r \<in> set (newest (filter (live_digest username) (cd_creds db)))" by (simp add: f(1))
  then show thesis using that f(2) by (auto simp: newest_def)
qed

lemma OnAuthenticated_step:
  assumes wf: "cred_wf key db"
  shows "cred_step key {cred_ID c | c. LookupCWMPDigest key fault username db = Inr c} db
    (OnAuthenticated key fault fault' flt now username db)"
proof (cases "LookupCWMPDigest key fault username db")
  case (Inr c)
  then obtain r where r: "r \<in> set (cd_creds db)" "live_digest username r" "scanCredential key r = Inr c" by (rule Lookup_Inr)
  have "x = r" if "x \<in> set (cd_creds db)" "cr_id x = cred_ID c" for x
    using wf r that scanCredential_fields [OF r(3)] by (auto simp: cred_wf_def distinct_map inj_on_def)
  then have a: "cred_step key {cred_ID c} db (snd (Activate key flt now (cred_ID c) db))"
    using r(2) by (intro Activate_step [OF wf]) (auto simp: live_digest_def)
  have "cred_step key {cred_ID c} db (CloseReenrollment fault' (cred_DeviceID c) (snd (Activate key flt now (cred_ID c) db)))"
    by (rule cred_step_devices [OF a]) (simp_all add: CloseReenrollment_frame)
  then show ?thesis using a cred_step_refl [OF wf]
    by (auto simp: OnAuthenticated_def Inr case_prod_unfold split: sum.split)
qed (simp add: OnAuthenticated_def cred_step_refl [OF wf])

end
