(* ===== verification/Graduation.thy ===== *)
theory Graduation
  imports Credentials Digest_Auth Gateway_Session
begin

text \<open>
  How a gateway gets its own credential and comes to use it: the guards before the session handler
  (\<^verbatim>\<open>cmd/acs/mux.go\<close>), the bootstrap exchange that hands a new gateway its pending CWMP Digest
  credential (\<^verbatim>\<open>cmd/acs/bootstrap_graduation.go\<close>, \<^verbatim>\<open>internal/devices/bootstrap.go\<close>), and the
  authentication of a message and the identity check of an Inform that puts the credential in use
  (\<^verbatim>\<open>cmd/acs/session.go\<close>). The verdicts of the rate limiters, the parsed body and the random values of a
  request are arguments.
\<close>

section \<open>Requests and answers\<close>

text \<open>\<open>wq_peer_cn\<close> is the common name of a verified client certificate. \<open>wq_allowed\<close> are the verdicts of the
  limiters in the order they are asked.\<close>

datatype body_read = BodyUnsupported string | BodyUnreadable | BodyRead string "(string \<times> InboundBody) option"

record web_request =
  wq_http :: http_request
  wq_tls :: bool
  wq_peer_cn :: "string option"
  wq_allowed :: "nat \<Rightarrow> bool"
  wq_cookie :: "string option"
  wq_body :: body_read

datatype cookie_action = KeepCookie | SetCookie string | ClearCookie

text \<open>\<open>PassOn\<close>: the next handler gets the request. \<open>ToSession\<close>: the session handler goes on with this identity.\<close>

datatype answer = PassOn | Challenged "string list" | Answered reply cookie_action | ToSession inboundIdentity

abbreviation refuse :: "nat \<Rightarrow> string \<Rightarrow> answer" where
  "refuse code why \<equiv> Answered (ReplyError code why) KeepCookie"

record boot_deps =
  bo_key :: "string option"
  bo_auth :: DigestAuthenticator
  bo_now :: time
  bo_bytes :: string
  bo_verify_fault :: bool
  bo_flt :: faults
  bo_pending_flt :: faults
  bo_device_uuid :: string
  bo_env :: env
  bo_user :: string
  bo_pass :: string
  bo_nonce :: string
  bo_id :: string
  bo_rpc_id :: string

definition has_peer_certificate :: "web_request \<Rightarrow> bool" where
  "has_peer_certificate r \<longleftrightarrow> wq_peer_cn r \<noteq> None"

section \<open>Scheme and user name of an Authorization header\<close>

definition hasAuthScheme :: "string \<Rightarrow> string \<Rightarrow> bool" where
  "hasAuthScheme header scheme \<longleftrightarrow>
     header \<noteq> [] \<and> (case SplitN 1 (CHR '' '') header of [a, _] \<Rightarrow> EqualFold a scheme | _ \<Rightarrow> False)"

definition trim_quotes :: "string \<Rightarrow> string" where
  "trim_quotes s = rev (dropWhile (\<lambda>c. c = CHR 0x22) (rev (dropWhile (\<lambda>c. c = CHR 0x22) s)))"

fun username_directive :: "string list \<Rightarrow> string" where
  "username_directive [] = []"
| "username_directive (directive # rest) =
     (case SplitN 1 (CHR ''='') (TrimSpace directive) of
        [k, v] \<Rightarrow> if EqualFold (TrimSpace k) ''username'' then trim_quotes (TrimSpace v) else username_directive rest
      | _ \<Rightarrow> username_directive rest)"

definition digestAuthorizationUsername :: "string \<Rightarrow> string" where
  "digestAuthorizationUsername header =
     (case SplitN 1 (CHR '' '') header of
        [a, b] \<Rightarrow> if EqualFold a ''Digest'' then username_directive (Split (CHR '','') b) else []
      | _ \<Rightarrow> [])"

definition productionCWMPGuard :: "string \<Rightarrow> string \<Rightarrow> web_request \<Rightarrow> answer" where
  "productionCWMPGuard profile digestUsername r =
     (if EqualFold (TrimSpace profile) ''production'' then
        let authorization = TrimSpace (rq_Authorization (wq_http r)); sharedUsername = TrimSpace digestUsername
        in if \<not> wq_tls r then refuse 426 ''CWMP TLS required in production''
           else if hasAuthScheme authorization ''Basic'' then refuse 403 ''HTTP Basic is not permitted for production CWMP''
           else if sharedUsername \<noteq> [] \<and> hasAuthScheme authorization ''Digest'' \<and> digestAuthorizationUsername authorization = sharedUsername
           then refuse 403 ''shared CWMP credential is not permitted in production''
           else PassOn
      else PassOn)"

definition configuredBootstrapDigestAuthenticator :: "string \<Rightarrow> string \<Rightarrow> string \<Rightarrow> string \<Rightarrow> string \<Rightarrow> bool \<Rightarrow> DigestAuthenticator" where
  "configuredBootstrapDigestAuthenticator username password sharedPassword credentialKey algorithms has_db =
     \<lparr> da_Username = TrimSpace username, da_Password = password, da_AllowBasic = False, da_Lookup = None,
       da_Algorithms = filter (\<lambda>a. a \<noteq> []) (map TrimSpace (Split (CHR '','') (TrimSpace algorithms))),
       da_NonceSecret = (if sharedPassword \<noteq> [] then sharedPassword else credentialKey), da_shared = has_db \<rparr>"

section \<open>Devices\<close>

definition ReenrollmentOpen :: "time \<Rightarrow> boot_device \<Rightarrow> bool" where
  "ReenrollmentOpen now d \<longleftrightarrow> (case bd_reenroll_until d of None \<Rightarrow> False | Some t \<Rightarrow> now < t)"

definition bootstrapDeviceIsEstablished :: "time \<Rightarrow> boot_device \<Rightarrow> bool" where
  "bootstrapDeviceIsEstablished now d \<longleftrightarrow> \<not> ReenrollmentOpen now d \<and>
     (bd_last_inform_at d \<noteq> None \<or>
      (let authMode = ToUpper (TrimSpace (bd_cwmp_auth_mode d)) in authMode \<noteq> [] \<and> authMode \<noteq> ''NONE''))"

fun infer_root :: "string \<Rightarrow> ParameterValueStruct list \<Rightarrow> string" where
  "infer_root dmroot [] = dmroot"
| "infer_root dmroot (p # ps) =
     (let candidate = (if HasPrefix (pv_Name p) ''InternetGatewayDevice.'' then Some ''IGD1''
          else if HasPrefix (pv_Name p) ''Device.'' then Some ''DEVICE2'' else None)
      in case candidate of
           None \<Rightarrow> infer_root dmroot ps
         | Some c \<Rightarrow> if dmroot \<noteq> ''UNKNOWN'' \<and> dmroot \<noteq> c then ''UNKNOWN'' else infer_root c ps)"

definition inferBootstrapDataModelRoot :: "ParameterValueStruct list \<Rightarrow> string" where
  "inferBootstrapDataModelRoot params = infer_root ''UNKNOWN'' params"

definition boot_GetByOUIserial :: "bool \<Rightarrow> string \<Rightarrow> cred_db \<Rightarrow> boot_device option cred_result" where
  "boot_GetByOUIserial fault ouiSerial db =
     (if fault then Inl ErrCredDB else Inr (find (\<lambda>d. bd_oui_serial d = ouiSerial) (cd_devices db)))"

definition boot_Get :: "bool \<Rightarrow> string \<Rightarrow> cred_db \<Rightarrow> boot_device option" where
  "boot_Get fault did db = (if fault then None else find (\<lambda>d. bd_id d = did) (cd_devices db))"

text \<open>INSERT ... ON CONFLICT (oui_serial) DO UPDATE ... RETURNING, of a fresh row and of what it
  changes in an existing one.\<close>

definition upsert_device :: "bool \<Rightarrow> boot_device \<Rightarrow> (boot_device \<Rightarrow> boot_device) \<Rightarrow> cred_db \<Rightarrow> boot_device option \<times> cred_db" where
  "upsert_device fault fresh f db =
     (if fault then (None, db)
      else case find (\<lambda>d. bd_oui_serial d = bd_oui_serial fresh) (cd_devices db) of
        Some d \<Rightarrow> (Some (f d), db\<lparr> cd_devices := update_where (\<lambda>x. bd_oui_serial x = bd_oui_serial fresh) f (cd_devices db) \<rparr>)
      | None \<Rightarrow>
          if bd_id fresh \<in> bd_id ` set (cd_devices db) then (None, db)
          else (Some fresh, db\<lparr> cd_devices := cd_devices db @ [fresh] \<rparr>))"

definition new_device :: "string \<Rightarrow> DeviceID \<Rightarrow> boot_device" where
  "new_device uuid i =
     \<lparr> bd_id = uuid, bd_oui_serial = NaturalKey i, bd_manufacturer = Manufacturer i, bd_oui = OUI i, bd_product_class = ProductClass i,
       bd_serial_number = SerialNumber i, bd_data_model_root = ''UNKNOWN'', bd_last_inform_at = None, bd_cwmp_auth_mode = ''NONE'',
       bd_reenroll_until = None \<rparr>"

definition fill_manufacturer :: "string \<Rightarrow> boot_device \<Rightarrow> boot_device" where
  "fill_manufacturer m d = d\<lparr> bd_manufacturer := (if bd_manufacturer d = [] then m else bd_manufacturer d) \<rparr>"

definition EnsureBootstrapRegistration :: "bool \<Rightarrow> string \<Rightarrow> DeviceID \<Rightarrow> string \<Rightarrow> cred_db \<Rightarrow> boot_device option \<times> cred_db" where
  "EnsureBootstrapRegistration fault uuid informed inferredRoot db =
     (let i = Normalized informed;
          dmroot = (if inferredRoot \<in> {''DEVICE2'', ''IGD1''} then inferredRoot else ''UNKNOWN'')
      in upsert_device fault ((new_device uuid i)\<lparr> bd_data_model_root := dmroot \<rparr>)
           (\<lambda>d. fill_manufacturer (Manufacturer i) d
              \<lparr> bd_data_model_root := (if bd_data_model_root d = ''UNKNOWN'' \<and> dmroot \<noteq> ''UNKNOWN'' then dmroot else bd_data_model_root d) \<rparr>) db)"

definition UpsertFromInform :: "bool \<Rightarrow> string \<Rightarrow> time \<Rightarrow> DeviceID \<Rightarrow> cred_db \<Rightarrow> boot_device option \<times> cred_db" where
  "UpsertFromInform fault uuid now i db =
     upsert_device fault ((new_device uuid i)\<lparr> bd_last_inform_at := Some now \<rparr>)
       (\<lambda>d. fill_manufacturer (Manufacturer i) d\<lparr> bd_last_inform_at := Some now \<rparr>) db"

definition UpdateAuthMode :: "bool \<Rightarrow> string \<Rightarrow> string \<Rightarrow> cred_db \<Rightarrow> cred_db" where
  "UpdateAuthMode fault deviceID authMode db =
     (if fault then db
      else db\<lparr> cd_devices := update_where (\<lambda>d. bd_id d = deviceID) (\<lambda>d. d\<lparr> bd_cwmp_auth_mode := authMode \<rparr>) (cd_devices db) \<rparr>)"

definition OpenReenrollment :: "bool \<Rightarrow> string \<Rightarrow> time \<Rightarrow> cred_db \<Rightarrow> cred_db" where
  "OpenReenrollment fault deviceID until db =
     (if fault then db
      else db\<lparr> cd_devices := update_where (\<lambda>d. bd_id d = deviceID) (\<lambda>d. d\<lparr> bd_reenroll_until := Some until \<rparr>) (cd_devices db) \<rparr>)"

definition openReenrollment :: "bool \<Rightarrow> time \<Rightarrow> string \<Rightarrow> int \<Rightarrow> cred_db \<Rightarrow> nat \<times> cred_db" where
  "openReenrollment fault now deviceID minutes db =
     (if minutes \<le> 0 \<or> 24 * 60 < minutes then (400, db)
      else (if fault then 500 else 200, OpenReenrollment fault deviceID (now + minutes * minute) db))"

section \<open>The cookie of the exchange\<close>

definition encodeBootstrapCredentialCookie :: "string \<Rightarrow> string \<Rightarrow> string" where
  "encodeBootstrapCredentialCookie credentialID ns = credentialID @ ''.'' @ b64_encode True ns"

definition decodeBootstrapCredentialCookie :: "string \<Rightarrow> (string \<times> string) option" where
  "decodeBootstrapCredentialCookie val =
     (case Cut (CHR ''.'') val of
        (_, None) \<Rightarrow> None
      | (credentialID, Some encodedNS) \<Rightarrow>
          if credentialID = [] \<or> encodedNS = [] then None
          else case b64_decode True encodedNS of
            None \<Rightarrow> None
          | Some rawNS \<Rightarrow> if rawNS = [] then None else Some (credentialID, rawNS))"

section \<open>The bootstrap exchange\<close>

text \<open>ManagementServer.Username and .Password under a data-model root (\<^verbatim>\<open>adapters.ResolvePath\<close>).\<close>

datatype CanonicalParameter = DeviceInfoSoftwareVersion | ManagementServerConnectionRequestURL
  | ManagementServerConnectionRequestUser | ManagementServerConnectionRequestPass | ManagementServerUsername
  | ManagementServerPassword | WiFiSSID | WiFiKeyPassphrase | WiFiEnable

fun device2Paths :: "CanonicalParameter \<Rightarrow> string" where
  "device2Paths DeviceInfoSoftwareVersion = ''Device.DeviceInfo.SoftwareVersion''"
| "device2Paths ManagementServerConnectionRequestURL = ''Device.ManagementServer.ConnectionRequestURL''"
| "device2Paths ManagementServerConnectionRequestUser = ''Device.ManagementServer.ConnectionRequestUsername''"
| "device2Paths ManagementServerConnectionRequestPass = ''Device.ManagementServer.ConnectionRequestPassword''"
| "device2Paths ManagementServerUsername = ''Device.ManagementServer.Username''"
| "device2Paths ManagementServerPassword = ''Device.ManagementServer.Password''"
| "device2Paths WiFiSSID = ''Device.WiFi.SSID.1.SSID''"
| "device2Paths WiFiKeyPassphrase = ''Device.WiFi.AccessPoint.1.Security.KeyPassphrase''"
| "device2Paths WiFiEnable = ''Device.WiFi.SSID.1.Enable''"

fun igd1Paths :: "CanonicalParameter \<Rightarrow> string" where
  "igd1Paths DeviceInfoSoftwareVersion = ''InternetGatewayDevice.DeviceInfo.SoftwareVersion''"
| "igd1Paths ManagementServerConnectionRequestURL = ''InternetGatewayDevice.ManagementServer.ConnectionRequestURL''"
| "igd1Paths ManagementServerConnectionRequestUser = ''InternetGatewayDevice.ManagementServer.ConnectionRequestUsername''"
| "igd1Paths ManagementServerConnectionRequestPass = ''InternetGatewayDevice.ManagementServer.ConnectionRequestPassword''"
| "igd1Paths ManagementServerUsername = ''InternetGatewayDevice.ManagementServer.Username''"
| "igd1Paths ManagementServerPassword = ''InternetGatewayDevice.ManagementServer.Password''"
| "igd1Paths WiFiSSID = ''InternetGatewayDevice.LANDevice.1.WLANConfiguration.1.SSID''"
| "igd1Paths WiFiKeyPassphrase = ''InternetGatewayDevice.LANDevice.1.WLANConfiguration.1.PreSharedKey.1.KeyPassphrase''"
| "igd1Paths WiFiEnable = ''InternetGatewayDevice.LANDevice.1.WLANConfiguration.1.Enable''"

definition ResolvePathCandidates :: "string \<Rightarrow> CanonicalParameter \<Rightarrow> string list" where
  "ResolvePathCandidates dmroot p =
     (if dmroot = ''IGD1''
      then igd1Paths p # (if p = WiFiKeyPassphrase then [''InternetGatewayDevice.LANDevice.1.WLANConfiguration.1.KeyPassphrase''] else [])
      else [device2Paths p])"

definition ResolvePath :: "string \<Rightarrow> CanonicalParameter \<Rightarrow> string option" where
  "ResolvePath dmroot p = (case ResolvePathCandidates dmroot p of [] \<Rightarrow> None | c # _ \<Rightarrow> Some c)"

definition ResolveWritablePath :: "string \<Rightarrow> CanonicalParameter \<Rightarrow> (string \<times> bool) list option \<Rightarrow> string option" where
  "ResolveWritablePath dmroot p discovered =
     (case (ResolvePathCandidates dmroot p, discovered) of
        ([], _) \<Rightarrow> None
      | (c # _, None) \<Rightarrow> Some c
      | (cs, Some names) \<Rightarrow> find (\<lambda>c. map_of names c = Some True \<or> map_of names (NormalizePath c) = Some True) cs)"

definition handleBootstrapCredentialInstall :: "boot_deps \<Rightarrow> Credential \<Rightarrow> boot_device \<Rightarrow> string \<Rightarrow> answer" where
  "handleBootstrapCredentialInstall b cred device ns =
     (if bd_data_model_root device \<noteq> ''DEVICE2'' \<and> bd_data_model_root device \<noteq> ''IGD1''
      then Answered (ReplyError 409 ''device data-model root is unknown; automatic credential installation is unavailable'') ClearCookie
      else case (ResolvePath (bd_data_model_root device) ManagementServerUsername,
                 ResolvePath (bd_data_model_root device) ManagementServerPassword) of
        (Some usernamePath, Some passwordPath) \<Rightarrow>
          Answered (ReplyXml (RewriteCWMPNamespace (RenderSetParameterValues (bo_rpc_id b)
            [\<lparr> pv_Name = usernamePath, pv_Value = cred_Username cred, pv_Type = [] \<rparr>,
             \<lparr> pv_Name = passwordPath, pv_Value = cred_Password cred, pv_Type = [] \<rparr>]
            (ClampParameterKey (cred_CommandKey cred))) ns)) KeepCookie
      | _ \<Rightarrow> refuse 409 ''device credential parameter mapping unavailable'')"

definition loadBootstrapGraduationState :: "boot_deps \<Rightarrow> web_request \<Rightarrow> cred_db \<Rightarrow> (Credential \<times> boot_device \<times> string) option" where
  "loadBootstrapGraduationState b r db =
     (case wq_cookie r of
        None \<Rightarrow> None
      | Some val \<Rightarrow>
          (case decodeBootstrapCredentialCookie val of
             None \<Rightarrow> None
           | Some (credentialID, ns) \<Rightarrow>
               (case ByID_cred (bo_key b) (bo_flt b 2) credentialID db of
                  Inl _ \<Rightarrow> None
                | Inr cred \<Rightarrow>
                    if cred_CredentialType cred \<noteq> TypeCWMPDigest \<or> cred_Status cred \<noteq> CredPending then None
                    else case boot_Get (bo_flt b 3) (cred_DeviceID cred) db of
                      None \<Rightarrow> None
                    | Some device \<Rightarrow> Some (cred, device, ns))))"

definition handleBootstrapGraduationInform ::
  "boot_deps \<Rightarrow> web_request \<Rightarrow> string \<Rightarrow> string \<Rightarrow> Inform \<Rightarrow> cred_db \<Rightarrow> answer \<times> cred_db" where
  "handleBootstrapGraduationInform b r raw headerID inform db =
     (let informed = Normalized (DeviceId inform); naturalKey = NaturalKey informed;
          respID = (if headerID = [] then bo_id b else headerID); ns = DetectCWMPNamespace raw
      in if OUI informed = [] \<or> SerialNumber informed = []
         then (refuse 400 ''Inform DeviceId requires OUI and SerialNumber'', db)
         else if \<not> wq_allowed r 1 then (refuse 429 ''rate limit exceeded'', db)
         else case boot_GetByOUIserial (bo_flt b 0) naturalKey db of
           Inl _ \<Rightarrow> (Answered internal_error KeepCookie, db)
         | Inr existing \<Rightarrow>
             if (case existing of None \<Rightarrow> False | Some d \<Rightarrow> bootstrapDeviceIsEstablished (bo_now b) d)
             then (refuse 403 ''bootstrap credential cannot authenticate an established device'', db)
             else case EnsureBootstrapRegistration (bo_flt b 1) (bo_device_uuid b) informed
                         (inferBootstrapDataModelRoot (InformParameterList inform)) db of
               (None, db1) \<Rightarrow> (Answered internal_error KeepCookie, db1)
             | (Some device, db1) \<Rightarrow>
                 if bootstrapDeviceIsEstablished (bo_now b) device
                 then (refuse 403 ''bootstrap credential cannot authenticate an established device'', db1)
                 else case EnsurePendingCWMPDigest (bo_key b) (bo_pending_flt b) (bo_env b) (bo_user b) (bo_pass b) (bo_nonce b)
                             (bd_id device) db1 of
                   (Inl _, db2) \<Rightarrow> (Answered internal_error KeepCookie, db2)
                 | (Inr cred, db2) \<Rightarrow>
                     (Answered (ReplyXml (RenderInformResponseNS respID ns)) (SetCookie (encodeBootstrapCredentialCookie (cred_ID cred) ns)), db2))"

text \<open>A message of the exchange other than an Inform.\<close>

definition bootstrap_message :: "boot_deps \<Rightarrow> web_request \<Rightarrow> string \<Rightarrow> string \<Rightarrow> InboundBody \<Rightarrow> cred_db \<Rightarrow> answer" where
  "bootstrap_message b r raw headerID body db =
     (case loadBootstrapGraduationState b r db of
        None \<Rightarrow> Answered (ReplyError 403 ''bootstrap graduation state missing or no longer valid'') ClearCookie
      | Some (cred, device, ns) \<Rightarrow>
          if bootstrapDeviceIsEstablished (bo_now b) device
          then Answered (ReplyError 403 ''bootstrap credential cannot manage an established device'') ClearCookie
          else case writeCPEInitiatedReply body (if headerID = [] then bo_id b else headerID) (DetectCWMPNamespace raw) of
            Some out \<Rightarrow> Answered (ReplyXml out) KeepCookie
          | None \<Rightarrow>
              if IsEmpty body then handleBootstrapCredentialInstall b cred device ns
              else if b_SetParameterValuesResponse body \<noteq> None \<or> b_Fault body \<noteq> None then Answered ReplyEmpty ClearCookie
              else refuse 403 ''bootstrap credential is restricted to credential graduation'')"

definition bootstrap_scope :: "DigestAuthenticator \<Rightarrow> web_request \<Rightarrow> bool" where
  "bootstrap_scope d r \<longleftrightarrow> rq_Method (wq_http r) = ''POST'' \<and> \<not> has_peer_certificate r \<and> da_Username d \<noteq> [] \<and>
     (let authorization = TrimSpace (rq_Authorization (wq_http r))
      in hasAuthScheme authorization ''Digest'' \<and> digestAuthorizationUsername authorization = da_Username d)"

definition read_failed :: "body_read \<Rightarrow> answer" where
  "read_failed body = (case body of
     BodyUnsupported encoding \<Rightarrow> refuse 415 (''unsupported Content-Encoding: '' @ encoding)
   | BodyUnreadable \<Rightarrow> refuse 400 ''body too large, unreadable, or invalidly compressed''
   | BodyRead _ _ \<Rightarrow> refuse 400 ''malformed XML'')"

definition bootstrapCWMPGraduationGuard :: "boot_deps \<Rightarrow> web_request \<Rightarrow> cred_db \<times> auth_state \<Rightarrow> answer \<times> cred_db \<times> auth_state" where
  "bootstrapCWMPGraduationGuard b r st =
     (case st of (db, s) \<Rightarrow>
      if \<not> Enabled (bo_auth b) \<or> \<not> bootstrap_scope (bo_auth b) r then (PassOn, db, s)
      else if \<not> wq_allowed r 0 then (refuse 429 ''rate limit exceeded'', db, s)
      else case Verify (bo_auth b) (bo_verify_fault b) (wq_http r) (bo_now b) s of
        (v, s1) \<Rightarrow>
          if \<not> v_ok v
          then (Challenged (if v_stale v then ChallengeStale (bo_auth b) (bo_bytes b) (bo_now b) else Challenge (bo_auth b) (bo_bytes b) (bo_now b)), db, s1)
          else case wq_body r of
            BodyRead raw (Some (headerID, body)) \<Rightarrow>
              (case b_Inform body of
                 Some inform \<Rightarrow> (case handleBootstrapGraduationInform b r raw headerID inform db of (a, db1) \<Rightarrow> (a, db1, s1))
               | None \<Rightarrow> (bootstrap_message b r raw headerID body db, db, s1))
          | failed \<Rightarrow> (read_failed failed, db, s1))"

text \<open>The guard behind it, which only acknowledges a first Inform.\<close>

definition bootstrapCWMPGuard :: "boot_deps \<Rightarrow> web_request \<Rightarrow> cred_db \<times> auth_state \<Rightarrow> answer \<times> cred_db \<times> auth_state" where
  "bootstrapCWMPGuard b r st =
     (case st of (db, s) \<Rightarrow>
      if \<not> Enabled (bo_auth b) \<or> \<not> bootstrap_scope (bo_auth b) r then (PassOn, db, s)
      else if \<not> wq_allowed r 2 then (refuse 429 ''rate limit exceeded'', db, s)
      else case Verify (bo_auth b) (bo_verify_fault b) (wq_http r) (bo_now b) s of
        (v, s1) \<Rightarrow>
          if \<not> v_ok v
          then (Challenged (if v_stale v then ChallengeStale (bo_auth b) (bo_bytes b) (bo_now b) else Challenge (bo_auth b) (bo_bytes b) (bo_now b)), db, s1)
          else case wq_body r of
            BodyRead raw (Some (headerID, body)) \<Rightarrow>
              (if IsEmpty body then (Answered ReplyEmpty KeepCookie, db, s1)
               else case b_Inform body of
                 None \<Rightarrow> (refuse 403 ''bootstrap credential is restricted to first-contact Inform'', db, s1)
               | Some inform \<Rightarrow>
                   let informed = Normalized (DeviceId inform)
                   in (if OUI informed = [] \<or> SerialNumber informed = [] then refuse 400 ''Inform DeviceId requires OUI and SerialNumber''
                       else if \<not> wq_allowed r 3 then refuse 429 ''rate limit exceeded''
                       else case boot_GetByOUIserial (bo_flt b 0) (NaturalKey informed) db of
                         Inl _ \<Rightarrow> Answered internal_error KeepCookie
                       | Inr existing \<Rightarrow>
                           if (case existing of None \<Rightarrow> False | Some d \<Rightarrow> bootstrapDeviceIsEstablished (bo_now b) d)
                           then refuse 403 ''bootstrap credential cannot authenticate an established device''
                           else Answered (ReplyXml (RenderInformResponseNS (if headerID = [] then bo_id b else headerID) (DetectCWMPNamespace raw))) KeepCookie,
                       db, s1))
          | failed \<Rightarrow> (read_failed failed, db, s1))"

section \<open>Authentication and the Inform\<close>

text \<open>
  \<open>cw_auth\<close> without its hooks: the credential store provides them. \<open>cw_flt\<close>: 0 the lookup of the
  authenticator, 1 and 2 \<^verbatim>\<open>GetByOUIserial\<close>, 3 the lookup of the hook, 4 closing the re-enrolment
  window, 5 the upsert, 6 the auth mode.
\<close>

record cwmp_deps =
  cw_key :: "string option"
  cw_auth :: DigestAuthenticator
  cw_now :: time
  cw_bytes :: string
  cw_verify_fault :: bool
  cw_flt :: faults
  cw_activate_flt :: faults
  cw_device_uuid :: string
  cw_s :: sdeps

definition hooked :: "cwmp_deps \<Rightarrow> cred_db \<Rightarrow> DigestAuthenticator" where
  "hooked c db = (cw_auth c)\<lparr> da_Lookup := Some (lookup_hook (cw_key c) (cw_flt c 0) db) \<rparr>"

definition no_binding :: inboundIdentity where
  "no_binding = \<lparr> credentialDeviceID = [], credentialUsername = [], mtlsNaturalKey = [], sharedCredential = False \<rparr>"

definition authenticate :: "cwmp_deps \<Rightarrow> web_request \<Rightarrow> cred_db \<Rightarrow> auth_state \<Rightarrow> (answer + inboundIdentity \<times> string) \<times> auth_state" where
  "authenticate c r db s =
     (case wq_peer_cn r of
        Some cn \<Rightarrow> (Inr (no_binding\<lparr> mtlsNaturalKey := TrimSpace cn \<rparr>, ''MTLS''), s)
      | None \<Rightarrow>
          if \<not> Enabled (hooked c db) then (Inr (no_binding, ''NONE''), s)
          else case Verify (hooked c db) (cw_verify_fault c) (wq_http r) (cw_now c) s of
            (v, s1) \<Rightarrow>
              if \<not> v_ok v
              then (Inl (Challenged (if v_stale v then ChallengeStale (hooked c db) (cw_bytes c) (cw_now c)
                       else Challenge (hooked c db) (cw_bytes c) (cw_now c))), s1)
              else (Inr (no_binding\<lparr> credentialDeviceID := id_BoundDeviceID (v_identity v),
                      credentialUsername := id_Username (v_identity v),
                      sharedCredential := id_SharedCredential (v_identity v) \<rparr>, ''DIGEST''), s1))"

definition inform_look :: "cwmp_deps \<Rightarrow> cred_db \<Rightarrow> nat \<Rightarrow> string \<Rightarrow> device_lookup" where
  "inform_look c db n k =
     (case boot_GetByOUIserial (cw_flt c (n + 1)) k db of
        Inl _ \<Rightarrow> DeviceError | Inr None \<Rightarrow> DeviceUnknown | Inr (Some d) \<Rightarrow> DeviceFound (bd_id d))"

text \<open>The Inform up to the device's row; the session then goes on with the identity.\<close>

definition acceptInform :: "cwmp_deps \<Rightarrow> inboundIdentity \<Rightarrow> string \<Rightarrow> Inform \<Rightarrow> cred_db \<Rightarrow> answer \<times> cred_db" where
  "acceptInform c bound authMode inform db =
     (case informIdentity (cw_s c) (inform_look c db) bound (DeviceId inform) of
        (res, proved) \<Rightarrow>
          let db1 = (case proved of None \<Rightarrow> db
                | Some username \<Rightarrow> OnAuthenticated (cw_key c) (cw_flt c 3) (cw_flt c 4) (cw_activate_flt c) (cw_now c) username db)
          in case res of
            Inl refusal \<Rightarrow> (Answered refusal KeepCookie, db1)
          | Inr naturalKey \<Rightarrow>
              (case UpsertFromInform (cw_flt c 5) (cw_device_uuid c) (cw_now c) (Normalized (DeviceId inform)) db1 of
                 (None, db2) \<Rightarrow> (Answered internal_error KeepCookie, db2)
               | (Some device, db2) \<Rightarrow> (ToSession bound, UpdateAuthMode (cw_flt c 6) (bd_id device) authMode db2)))"

definition handleCWMP :: "cwmp_deps \<Rightarrow> web_request \<Rightarrow> cred_db \<times> auth_state \<Rightarrow> answer \<times> cred_db \<times> auth_state" where
  "handleCWMP c r st =
     (case st of (db, s) \<Rightarrow>
      if rq_Method (wq_http r) \<noteq> ''POST'' then (refuse 405 ''CWMP requires POST'', db, s)
      else if \<not> wq_allowed r 4 then (refuse 429 ''rate limit exceeded'', db, s)
      else case authenticate c r db s of
        (Inl a, s1) \<Rightarrow> (a, db, s1)
      | (Inr (bound, authMode), s1) \<Rightarrow>
          (case wq_body r of
             BodyRead raw (Some (headerID, body)) \<Rightarrow>
               if sharedCredential bound \<and> sd_bootstrap_only (cw_s c) \<and> b_Inform body = None
               then (refuse 403 ''shared credential is restricted to device bootstrap'', db, s1)
               else if \<not> wq_allowed r 5 then (refuse 429 ''rate limit exceeded'', db, s1)
               else (case b_Inform body of
                  None \<Rightarrow> (ToSession bound, db, s1)
                | Some inform \<Rightarrow> (case acceptInform c bound authMode inform db of (a, db1) \<Rightarrow> (a, db1, s1)))
           | failed \<Rightarrow> (read_failed failed, db, s1)))"

section \<open>The route of a request\<close>

definition then_handler ::
  "(web_request \<Rightarrow> 's \<Rightarrow> answer \<times> 's) \<Rightarrow> (web_request \<Rightarrow> 's \<Rightarrow> answer \<times> 's) \<Rightarrow> web_request \<Rightarrow> 's \<Rightarrow> answer \<times> 's" where
  "then_handler guard inner r s = (case guard r s of (PassOn, s') \<Rightarrow> inner r s' | res \<Rightarrow> res)"

definition newACSMux :: "string \<Rightarrow> string \<Rightarrow> boot_deps \<Rightarrow> cwmp_deps \<Rightarrow> web_request \<Rightarrow> cred_db \<times> auth_state \<Rightarrow> answer \<times> cred_db \<times> auth_state" where
  "newACSMux profile digestUsername b c =
     then_handler (\<lambda>r s. (productionCWMPGuard profile digestUsername r, s))
       (then_handler (bootstrapCWMPGraduationGuard b) (then_handler (bootstrapCWMPGuard b) (handleCWMP c)))"

end
