(* ===== verification/Graduation_Safety.thy ===== *)
theory Graduation_Safety
  imports Graduation
begin

text \<open>
  What the credential lifecycle promises over every sequence of requests and operator actions: a CWMP
  Digest credential comes into use only by an Inform that was authenticated with it and that claims the
  device it is bound to, and the fleet's bootstrap credential never reaches a device that is in service.
\<close>

section \<open>When a fact came about\<close>

context op_contract
begin

lemma run_flip:
  assumes "inv s" "\<not> Q s" "Q (fold exec ops s)"
  obtains n where "n < length ops" "inv (fold exec (take n ops) s)" "\<not> Q (fold exec (take n ops) s)"
    "Q (exec (ops ! n) (fold exec (take n ops) s))" "rel (exec (ops ! n) (fold exec (take n ops) s)) (fold exec ops s)"
  using assms
proof (induction ops arbitrary: s thesis)
  case (Cons op ops)
  have inv: "inv (exec op s)" using exec_keeps [OF Cons.prems(2)] by simp
  show ?case
  proof (cases "Q (exec op s)")
    case True
    show ?thesis by (rule Cons.prems(1) [of 0]) (use True Cons.prems run_keeps [OF inv] in auto)
  next
    case False
    show ?thesis
    proof (rule Cons.IH [OF _ inv False])
      show "Q (fold exec ops (exec op s))" using Cons.prems(4) by simp
      fix n
      assume "n < length ops" "inv (fold exec (take n ops) (exec op s))" "\<not> Q (fold exec (take n ops) (exec op s))"
        "Q (exec (ops ! n) (fold exec (take n ops) (exec op s)))" "rel (exec (ops ! n) (fold exec (take n ops) (exec op s))) (fold exec ops (exec op s))"
      then show thesis by (intro Cons.prems(1) [of "Suc n"]) simp_all
    qed
  qed
qed simp

end

section \<open>Requests step by step\<close>

lemma cred_step_mono:
  assumes "cred_step key p db db'" "p \<subseteq> q"
  shows "cred_step key q db db'"
proof -
  have "evolves q r r'" if "evolves p r r'" for r r' using that assms(2) by (auto simp: evolves_def)
  then show ?thesis using assms(1) unfolding cred_step_def by blast
qed

lemma cred_step_creds: "cred_step key p d db' \<Longrightarrow> cd_creds d = cd_creds db \<Longrightarrow> cred_step key p db db'"
  by (simp add: cred_step_def)

lemma cred_step_wf: "cred_step key p db db' \<Longrightarrow> cred_wf key db'"
  by (simp add: cred_step_def)

lemma upsert_device_creds: "cd_creds (snd (upsert_device fault fresh f db)) = cd_creds db"
  by (simp add: upsert_device_def split: option.split)

lemma upsert_device_step:
  assumes f: "\<And>d. bd_id (f d) = bd_id d" "\<And>d. bd_oui_serial (f d) = bd_oui_serial d" and step: "cred_step key p db d"
  shows "cred_step key p db (snd (upsert_device fault fresh f d))"
proof (cases "fault \<or> find (\<lambda>x. bd_oui_serial x = bd_oui_serial fresh) (cd_devices d) \<noteq> None \<or> bd_id fresh \<in> bd_id ` set (cd_devices d)")
  case True
  have "map bd_id (cd_devices (snd (upsert_device fault fresh f d))) = map bd_id (cd_devices d)"
    "map bd_oui_serial (cd_devices (snd (upsert_device fault fresh f d))) = map bd_oui_serial (cd_devices d)"
    using True by (auto simp: upsert_device_def map_update_where f split: option.split)
  then show ?thesis by (rule cred_step_devices [OF step upsert_device_creds])
next
  case False
  then have new: "snd (upsert_device fault fresh f d) = d\<lparr> cd_devices := cd_devices d @ [fresh] \<rparr>"
    "bd_id fresh \<notin> bd_id ` set (cd_devices d)" "bd_oui_serial fresh \<notin> bd_oui_serial ` set (cd_devices d)"
    by (simp_all add: upsert_device_def) (auto simp: find_None_iff)
  then show ?thesis using step unfolding new(1) by (auto simp: cred_step_def cred_wf_def list_all_iff)
qed

lemma EnsureBootstrapRegistration_step:
  "cred_wf key db \<Longrightarrow> cred_step key {} db (snd (EnsureBootstrapRegistration fault uuid i rt db))"
  unfolding EnsureBootstrapRegistration_def Let_def
  by (rule upsert_device_step) (simp_all add: fill_manufacturer_def cred_step_refl)

lemma EnsureBootstrapRegistration_creds: "cd_creds (snd (EnsureBootstrapRegistration fault uuid i rt db)) = cd_creds db"
  by (simp add: EnsureBootstrapRegistration_def Let_def upsert_device_creds)

lemma UpsertFromInform_step: "cred_step key p db d \<Longrightarrow> cred_step key p db (snd (UpsertFromInform fault uuid now i d))"
  unfolding UpsertFromInform_def by (rule upsert_device_step) (simp_all add: fill_manufacturer_def)

lemma UpdateAuthMode_step: "cred_step key p db d \<Longrightarrow> cred_step key p db (UpdateAuthMode fault dev m d)"
  by (erule cred_step_devices) (simp_all add: UpdateAuthMode_def map_update_where)

lemma OpenReenrollment_step: "cred_step key p db d \<Longrightarrow> cred_step key p db (OpenReenrollment fault dev t d)"
  by (erule cred_step_devices) (simp_all add: OpenReenrollment_def map_update_where)

lemma handleBootstrapGraduationInform_step:
  assumes wf: "cred_wf (bo_key b) db"
  shows "cred_step (bo_key b) {} db (snd (handleBootstrapGraduationInform b r raw hid inform db))"
proof -
  let ?reg = "EnsureBootstrapRegistration (bo_flt b 1) (bo_device_uuid b) (Normalized (DeviceId inform)) (inferBootstrapDataModelRoot (InformParameterList inform)) db"
  have reg: "cred_step (bo_key b) {} db (snd ?reg)" by (rule EnsureBootstrapRegistration_step [OF wf])
  have "cred_step (bo_key b) {} db (snd (EnsurePendingCWMPDigest (bo_key b) flt e u p nonce dev (snd ?reg)))" for flt e u p nonce dev
    by (rule cred_step_creds [OF EnsurePending_step [OF cred_step_wf [OF reg]] EnsureBootstrapRegistration_creds])
  then show ?thesis using reg cred_step_refl [OF wf]
    unfolding handleBootstrapGraduationInform_def Let_def case_prod_unfold by (simp split: sum.split option.split)
qed

definition handled :: "answer \<Rightarrow> bool" where
  "handled a \<longleftrightarrow> (case a of PassOn \<Rightarrow> False | Challenged _ \<Rightarrow> True | Answered _ _ \<Rightarrow> True | ToSession _ \<Rightarrow> False)"

lemma handled_simps [simp]: "\<not> handled PassOn" "handled (Challenged cs)" "handled (Answered x k)" "\<not> handled (ToSession i)"
  by (simp_all add: handled_def)

lemma handleBootstrapGraduationInform_answers: "handled (fst (handleBootstrapGraduationInform b r raw hid inform db))"
  unfolding handleBootstrapGraduationInform_def Let_def case_prod_unfold by (simp split: sum.split option.split)

lemma bootstrap_message_answers: "handled (bootstrap_message b r raw hid body db)"
  by (simp add: bootstrap_message_def handleBootstrapCredentialInstall_def split: option.split)

lemma read_failed_answers: "handled (read_failed body)"
  by (simp add: read_failed_def split: body_read.split)

lemma productionCWMPGuard_answers:
  "productionCWMPGuard profile user r = PassOn \<or> (\<exists>code why. productionCWMPGuard profile user r = refuse code why)"
  by (simp add: productionCWMPGuard_def Let_def)

text \<open>The guard passes a request on unchanged, or handles it itself.\<close>

definition guarded :: "boot_deps \<Rightarrow> web_request \<Rightarrow> bool" where
  "guarded b r \<longleftrightarrow> Enabled (bo_auth b) \<and> bootstrap_scope (bo_auth b) r"

lemma guards_pass:
  "\<not> guarded b r \<Longrightarrow> bootstrapCWMPGraduationGuard b r st = (PassOn, st)"
  "\<not> guarded b r \<Longrightarrow> bootstrapCWMPGuard b r st = (PassOn, st)"
  by (auto simp: guarded_def bootstrapCWMPGraduationGuard_def bootstrapCWMPGuard_def case_prod_unfold)

lemma guard_cases:
  assumes "guarded b r"
  obtains a s1 where "bootstrapCWMPGraduationGuard b r (db, s) = (a, db, s1)" "handled a"
  | raw hid body inform s1 where "wq_body r = BodyRead raw (Some (hid, body))" "b_Inform body = Some inform"
    "bootstrapCWMPGraduationGuard b r (db, s) =
       (fst (handleBootstrapGraduationInform b r raw hid inform db), snd (handleBootstrapGraduationInform b r raw hid inform db), s1)"
proof -
  let ?v = "Verify (bo_auth b) (bo_verify_fault b) (wq_http r) (bo_now b) s"
  let ?direct = "\<exists>a s1. bootstrapCWMPGraduationGuard b r (db, s) = (a, db, s1) \<and> handled a"
  have g: "Enabled (bo_auth b)" "bootstrap_scope (bo_auth b) r" using assms by (simp_all add: guarded_def)
  show thesis
  proof (cases "wq_allowed r 0 \<and> v_ok (fst ?v)")
    case False
    then have ?direct using g by (simp add: bootstrapCWMPGraduationGuard_def case_prod_unfold)
    then show thesis using that(1) by blast
  next
    case True
    note def = bootstrapCWMPGraduationGuard_def case_prod_unfold
    show thesis
    proof (cases "wq_body r")
      case (BodyRead raw parsed)
      show thesis
      proof (cases parsed)
        case None
        then have ?direct using g True BodyRead read_failed_answers by (simp add: def)
        then show thesis using that(1) by blast
      next
        case (Some m)
        obtain hid body where m: "m = (hid, body)" by (rule prod.exhaust)
        show thesis
        proof (cases "b_Inform body")
          case None
          then have ?direct using g True BodyRead Some m bootstrap_message_answers by (simp add: def)
          then show thesis using that(1) by blast
        next
          case inf: (Some inform)
          show thesis by (rule that(2)) (use g True BodyRead Some m inf in \<open>simp_all add: def\<close>)
        qed
      qed
    qed (use g True read_failed_answers that(1) in \<open>auto simp: def\<close>)
  qed
qed

lemma guard_handled: "guarded b r \<Longrightarrow> handled (fst (bootstrapCWMPGraduationGuard b r (db, s)))"
  by (rule guard_cases [of b r db s]) (simp_all add: handleBootstrapGraduationInform_answers)

lemma graduation_guard_step:
  assumes wf: "cred_wf (bo_key b) db"
  shows "cred_step (bo_key b) {} db (fst (snd (bootstrapCWMPGraduationGuard b r (db, s))))"
proof (cases "guarded b r")
  case True
  then show ?thesis
    by (rule guard_cases [of b r db s]) (simp_all add: handleBootstrapGraduationInform_step [OF wf] cred_step_refl [OF wf])
qed (simp add: guards_pass cred_step_refl [OF wf])

section \<open>The Inform that proves a credential\<close>

text \<open>
  A request proves the credential of a row if it authenticates with the row's user name as the device
  of the row, and its Inform claims the natural key of that device.
\<close>

definition proves :: "cwmp_deps \<Rightarrow> web_request \<Rightarrow> cred_db \<times> auth_state \<Rightarrow> credential_row \<Rightarrow> bool" where
  "proves c r st row \<longleftrightarrow> wq_peer_cn r = None \<and>
     fst (Verify (hooked c (fst st)) (cw_verify_fault c) (wq_http r) (cw_now c) (snd st)) =
       \<lparr> v_ok = True, v_stale = False,
         v_identity = \<lparr> id_Username = cr_username row, id_BoundDeviceID = cr_device_id row, id_SharedCredential = False \<rparr> \<rparr> \<and>
     (case wq_body r of
        BodyRead _ (Some (_, body)) \<Rightarrow>
          (case b_Inform body of
             None \<Rightarrow> False
           | Some inform \<Rightarrow> list_ex (\<lambda>d. bd_id d = cr_device_id row \<and>
               bd_oui_serial d = NaturalKey (Normalized (DeviceId inform))) (cd_devices (fst st)))
      | _ \<Rightarrow> False)"

lemma Verify_ok:
  assumes "v_ok (fst (Verify d fault r now s))"
  obtains pw dev perDevice user where "passwordFor d user = Some (pw, dev, perDevice)"
    "fst (Verify d fault r now s) = \<lparr> v_ok = True, v_stale = False,
       v_identity = \<lparr> id_Username = user, id_BoundDeviceID = dev, id_SharedCredential = \<not> perDevice \<rparr> \<rparr>"
proof -
  consider (dig) "HasPrefix (rq_Authorization r) ''Digest ''" | (bas) "\<not> HasPrefix (rq_Authorization r) ''Digest ''" by blast
  then show thesis
  proof cases
    case dig
    then show thesis using assms that
      by (auto simp: Verify_def verifyDigest_def check_response_def rejected_def Let_def
          split: option.splits if_splits prod.splits)
  next
    case bas
    then show thesis using assms that
      by (auto simp: Verify_def verifyBasic_def rejected_def Let_def split: option.splits if_splits prod.splits)
  qed
qed

lemma informIdentity_proved:
  assumes "snd (informIdentity s look bound informed) = Some username"
  shows "username = credentialUsername bound \<and> credentialDeviceID bound \<noteq> [] \<and>
    look 1 (NaturalKey (Normalized informed)) = DeviceFound (credentialDeviceID bound)"
  using assms by (auto simp: informIdentity_def Let_def split: if_splits option.splits device_lookup.splits)

lemma acceptInform_step:
  assumes wf: "cred_wf (cw_key c) db"
  shows "cred_step (cw_key c)
    {cred_ID x | x u. snd (informIdentity (cw_s c) (inform_look c db) bound (DeviceId inform)) = Some u \<and>
       LookupCWMPDigest (cw_key c) (cw_flt c 3) u db = Inr x} db (snd (acceptInform c bound m inform db))"
proof -
  let ?i = "informIdentity (cw_s c) (inform_look c db) bound (DeviceId inform)"
  let ?p = "{cred_ID x | x u. snd ?i = Some u \<and> LookupCWMPDigest (cw_key c) (cw_flt c 3) u db = Inr x}"
  define db1 where "db1 = (case snd ?i of None \<Rightarrow> db
    | Some username \<Rightarrow> OnAuthenticated (cw_key c) (cw_flt c 3) (cw_flt c 4) (cw_activate_flt c) (cw_now c) username db)"
  have 1: "cred_step (cw_key c) ?p db db1"
  proof (cases "snd ?i")
    case (Some u)
    have "cred_step (cw_key c) {cred_ID x | x. LookupCWMPDigest (cw_key c) (cw_flt c 3) u db = Inr x} db db1"
      unfolding db1_def Some option.case by (rule OnAuthenticated_step [OF wf])
    then show ?thesis by (rule cred_step_mono) (auto simp: Some)
  qed (simp add: db1_def cred_step_refl [OF wf])
  have "acceptInform c bound m inform db = (case fst ?i of
      Inl refusal \<Rightarrow> (Answered refusal KeepCookie, db1)
    | Inr naturalKey \<Rightarrow> (case UpsertFromInform (cw_flt c 5) (cw_device_uuid c) (cw_now c) (Normalized (DeviceId inform)) db1 of
         (None, db2) \<Rightarrow> (Answered internal_error KeepCookie, db2)
       | (Some device, db2) \<Rightarrow> (ToSession bound, UpdateAuthMode (cw_flt c 6) (bd_id device) m db2)))"
    unfolding acceptInform_def db1_def Let_def case_prod_unfold ..
  then show ?thesis using 1 UpsertFromInform_step [OF 1] UpdateAuthMode_step [OF UpsertFromInform_step [OF 1]]
    by (simp add: case_prod_unfold split: sum.split option.split)
qed

lemma hooked_device:
  assumes "passwordFor (hooked c db) user = Some (pw, dev, perDevice)" "dev \<noteq> []"
  shows "perDevice \<and> (\<exists>x. LookupCWMPDigest (cw_key c) (cw_flt c 0) user db = Inr x \<and> cred_DeviceID x = dev)"
  using assms by (auto simp: passwordFor_def hooked_def lookup_hook_def split: if_splits option.splits sum.splits)

lemma Lookup_fault: "LookupCWMPDigest key f user db = Inr x \<Longrightarrow> LookupCWMPDigest key g user db = Inr y \<Longrightarrow> x = y"
  by (simp add: LookupCWMPDigest_def scan_one_def split: if_splits)

lemma authenticate_Inr:
  assumes "authenticate c r db s = (Inr (bound, m), s1)" "credentialDeviceID bound \<noteq> []"
  obtains x where "LookupCWMPDigest (cw_key c) (cw_flt c 0) (credentialUsername bound) db = Inr x" "cred_DeviceID x = credentialDeviceID bound"
    "wq_peer_cn r = None" "fst (Verify (hooked c db) (cw_verify_fault c) (wq_http r) (cw_now c) s) =
       \<lparr> v_ok = True, v_stale = False, v_identity = \<lparr> id_Username = credentialUsername bound,
         id_BoundDeviceID = credentialDeviceID bound, id_SharedCredential = False \<rparr> \<rparr>"
proof -
  let ?v = "Verify (hooked c db) (cw_verify_fault c) (wq_http r) (cw_now c) s"
  have n: "wq_peer_cn r = None" "v_ok (fst ?v)" "credentialDeviceID bound = id_BoundDeviceID (v_identity (fst ?v))"
    "credentialUsername bound = id_Username (v_identity (fst ?v))"
    using assms by (auto simp: authenticate_def no_binding_def case_prod_unfold split: option.splits if_splits)
  obtain pw dev perDevice user where v: "passwordFor (hooked c db) user = Some (pw, dev, perDevice)"
    "fst ?v = \<lparr> v_ok = True, v_stale = False,
       v_identity = \<lparr> id_Username = user, id_BoundDeviceID = dev, id_SharedCredential = \<not> perDevice \<rparr> \<rparr>"
    using n(2) by (rule Verify_ok)
  have "dev \<noteq> []" using n(3) v(2) assms(2) by simp
  then show thesis using hooked_device [OF v(1)] n v(2) that by auto
qed

lemma acceptInform_proves:
  assumes wf: "cred_wf (cw_key c) db" and auth: "authenticate c r db s = (Inr (bound, m), s1)"
    and body: "wq_body r = BodyRead raw (Some (hid, body))" "b_Inform body = Some inform"
  shows "cred_step (cw_key c) (cr_id ` {row \<in> set (cd_creds db). proves c r (db, s) row}) db (snd (acceptInform c bound m inform db))"
proof (rule cred_step_mono [OF acceptInform_step [OF wf]], rule subsetI)
  fix cid
  assume "cid \<in> {cred_ID x | x u. snd (informIdentity (cw_s c) (inform_look c db) bound (DeviceId inform)) = Some u \<and>
    LookupCWMPDigest (cw_key c) (cw_flt c 3) u db = Inr x}"
  then obtain x u where x: "cid = cred_ID x" "snd (informIdentity (cw_s c) (inform_look c db) bound (DeviceId inform)) = Some u"
    "LookupCWMPDigest (cw_key c) (cw_flt c 3) u db = Inr x" by blast
  note i = informIdentity_proved [OF x(2)]
  then obtain y where y: "LookupCWMPDigest (cw_key c) (cw_flt c 0) u db = Inr y" "cred_DeviceID y = credentialDeviceID bound"
    "wq_peer_cn r = None" "fst (Verify (hooked c db) (cw_verify_fault c) (wq_http r) (cw_now c) s) =
       \<lparr> v_ok = True, v_stale = False, v_identity = \<lparr> id_Username = u,
         id_BoundDeviceID = credentialDeviceID bound, id_SharedCredential = False \<rparr> \<rparr>"
    using authenticate_Inr [OF auth] by metis
  obtain row where row: "row \<in> set (cd_creds db)" "live_digest u row" "scanCredential (cw_key c) row = Inr x" using x(3) by (rule Lookup_Inr)
  have f: "cr_id row = cid" "cr_device_id row = credentialDeviceID bound" "cr_username row = u"
    using scanCredential_fields [OF row(3)] x(1) y(2) Lookup_fault [OF x(3) y(1)] row(2) by (simp_all add: live_digest_def)
  have "\<exists>d \<in> set (cd_devices db). bd_id d = cr_device_id row \<and> bd_oui_serial d = NaturalKey (Normalized (DeviceId inform))"
    using i f(2) by (auto simp: inform_look_def boot_GetByOUIserial_def find_Some_iff split: if_splits option.splits)
  then have "proves c r (db, s) row" using y(3,4) f body by (simp add: proves_def list_ex_iff)
  then show "cid \<in> cr_id ` {row \<in> set (cd_creds db). proves c r (db, s) row}" using row(1) f(1) by blast
qed

lemma handleCWMP_step:
  assumes wf: "cred_wf (cw_key c) db"
  shows "cred_step (cw_key c) (cr_id ` {row \<in> set (cd_creds db). proves c r (db, s) row}) db (fst (snd (handleCWMP c r (db, s))))"
proof (cases "\<exists>bound m s1 raw hid body inform. authenticate c r db s = (Inr (bound, m), s1) \<and>
    wq_body r = BodyRead raw (Some (hid, body)) \<and> b_Inform body = Some inform")
  case True
  then obtain bound m s1 raw hid body inform where a: "authenticate c r db s = (Inr (bound, m), s1)"
    "wq_body r = BodyRead raw (Some (hid, body))" "b_Inform body = Some inform" by blast
  show ?thesis using acceptInform_proves [OF wf a] cred_step_refl [OF wf]
    by (simp add: handleCWMP_def a case_prod_unfold)
next
  case False
  then have "fst (snd (handleCWMP c r (db, s))) = db"
    by (auto simp: handleCWMP_def split: body_read.split option.split prod.split sum.split)
  then show ?thesis using cred_step_refl [OF wf] by simp
qed

lemma then_handler_pass: "guard r s = (PassOn, s') \<Longrightarrow> then_handler guard inner r s = inner r s'"
  by (simp add: then_handler_def)

lemma then_handler_stop: "fst (guard r s) \<noteq> PassOn \<Longrightarrow> then_handler guard inner r s = guard r s"
  by (cases "guard r s"; cases "fst (guard r s)") (simp_all add: then_handler_def)

lemma newACSMux_route:
  "newACSMux profile user b c r st =
     (if productionCWMPGuard profile user r \<noteq> PassOn then (productionCWMPGuard profile user r, st)
      else if guarded b r then bootstrapCWMPGraduationGuard b r st else handleCWMP c r st)"
proof -
  obtain db s where st: "st = (db, s)" by (rule prod.exhaust)
  have "handled (fst (bootstrapCWMPGraduationGuard b r st))" if "guarded b r"
    unfolding st using that by (rule guard_handled)
  then have "fst (bootstrapCWMPGraduationGuard b r st) \<noteq> PassOn" if "guarded b r" using that by force
  then show ?thesis
    unfolding newACSMux_def by (auto simp: then_handler_pass then_handler_stop guards_pass)
qed

lemma newACSMux_step:
  assumes wf: "cred_wf key db" and keys: "bo_key b = key" "cw_key c = key"
  shows "cred_step key (cr_id ` {row \<in> set (cd_creds db). proves c r (db, s) row}) db
    (fst (snd (newACSMux profile user b c r (db, s))))"
  using cred_step_mono [OF graduation_guard_step [of b db r s] empty_subsetI] handleCWMP_step [of c db r s] cred_step_refl [OF wf] wf keys
  by (auto simp: newACSMux_route)

section \<open>Every sequence of requests and operator actions\<close>

text \<open>Every process opens the repository with the same key.\<close>

datatype grad_op = GradCreate faults env string string string string string string
  | GradActivate bool faults time string string | GradRevoke bool faults time string string
  | GradReenroll bool time string int | GradRequest string string boot_deps cwmp_deps web_request

fun grad_exec :: "string option \<Rightarrow> grad_op \<Rightarrow> cred_db \<times> auth_state \<Rightarrow> cred_db \<times> auth_state" where
  "grad_exec key (GradCreate flt e nonce dev ty u p ck) (db, s) = (snd (Create_cred key flt e nonce dev ty u p ck db), s)"
| "grad_exec key (GradActivate fault flt now dev cid) (db, s) = (snd (activateDeviceCredential key fault flt now dev cid db), s)"
| "grad_exec key (GradRevoke fault flt now dev cid) (db, s) = (snd (revokeDeviceCredential key fault flt now dev cid db), s)"
| "grad_exec key (GradReenroll fault now dev minutes) (db, s) = (snd (openReenrollment fault now dev minutes db), s)"
| "grad_exec key (GradRequest profile user b c r) st =
     snd (newACSMux profile user (b\<lparr> bo_key := key \<rparr>) (c\<lparr> cw_key := key \<rparr>) r st)"

definition proved_by :: "string option \<Rightarrow> grad_op \<Rightarrow> cred_db \<times> auth_state \<Rightarrow> credential_row \<Rightarrow> bool" where
  "proved_by key op st row \<longleftrightarrow> (case op of GradRequest _ _ _ c r \<Rightarrow> proves (c\<lparr> cw_key := key \<rparr>) r st row | _ \<Rightarrow> False)"

lemma proved_by_key:
  assumes "cred_key x = cred_key r"
  shows "proved_by key op st x = proved_by key op st r"
proof -
  have eq: "cr_username x = cr_username r" "cr_device_id x = cr_device_id r" using assms by (simp_all add: cred_key_def)
  show ?thesis unfolding proved_by_def proves_def eq ..
qed

lemma grad_exec_step:
  assumes wf: "cred_wf key (fst st)"
  shows "cred_step key (cr_id ` {row \<in> set (cd_creds (fst st)). proved_by key op st row}) (fst st) (fst (grad_exec key op st))"
proof -
  obtain db s where st: "st = (db, s)" by (rule prod.exhaust)
  have wf: "cred_wf key db" using wf st by simp
  show ?thesis
  proof (cases op)
    case (GradRequest profile user b c r)
    show ?thesis using newACSMux_step [OF wf, of "b\<lparr> bo_key := key \<rparr>" "c\<lparr> cw_key := key \<rparr>"]
      by (simp add: st GradRequest proved_by_def)
  next
    case (GradReenroll fault now dev minutes)
    then show ?thesis using cred_step_refl [OF wf] OpenReenrollment_step
      by (simp add: st openReenrollment_def)
  qed (use st wf Create_cred_step activateDeviceCredential_step revokeDeviceCredential_step
      in \<open>auto intro: cred_step_mono [of key "{}"]\<close>)
qed

text \<open>What holds between two states: no credential changes whom it is for, and a revoked CWMP Digest
  credential stays revoked.\<close>

definition grad_rel :: "cred_db \<times> auth_state \<Rightarrow> cred_db \<times> auth_state \<Rightarrow> bool" where
  "grad_rel st st' \<longleftrightarrow> (\<forall>r \<in> set (cd_creds (fst st)). \<exists>r' \<in> set (cd_creds (fst st')). cred_key r' = cred_key r \<and>
     (cr_type r = TypeCWMPDigest \<and> cr_status r = CredRevoked \<longrightarrow> cr_status r' = CredRevoked))"

lemma cred_step_rel: "cred_step key p db db' \<Longrightarrow> grad_rel (db, s) (db', s')"
  unfolding cred_step_def grad_rel_def evolves_def by force

interpretation grad: op_contract "\<lambda>st. cred_wf key (fst st)" grad_rel "grad_exec key" for key
proof unfold_locales
  fix st and t u :: "cred_db \<times> auth_state" and op
  show "grad_rel st t \<Longrightarrow> grad_rel t u \<Longrightarrow> grad_rel st u"
    unfolding grad_rel_def by (metis (no_types, lifting) cred_key_def prod.inject)
  assume wf: "cred_wf key (fst st)"
  show "cred_wf key (fst (grad_exec key op st)) \<and> grad_rel st (grad_exec key op st)"
    using grad_exec_step [OF wf, of op] cred_step_wf cred_step_rel [of key _ "fst st" "fst (grad_exec key op st)" "snd st" "snd (grad_exec key op st)"]
    by simp
qed (auto simp: grad_rel_def)

definition digest_in_use :: "string \<Rightarrow> cred_db \<times> auth_state \<Rightarrow> bool" where
  "digest_in_use cid st \<longleftrightarrow> list_ex (\<lambda>r. cr_id r = cid \<and> cr_type r = TypeCWMPDigest \<and> in_use r) (cd_creds (fst st))"

lemma cred_wf_unique: "cred_wf key db \<Longrightarrow> r \<in> set (cd_creds db) \<Longrightarrow> x \<in> set (cd_creds db) \<Longrightarrow> cr_id x = cr_id r \<Longrightarrow> x = r"
  by (auto simp: cred_wf_def distinct_map inj_on_def)

lemma comes_into_use:
  assumes wf: "cred_wf key (fst t)" and no: "\<not> digest_in_use cid t" and yes: "digest_in_use cid (grad_exec key op t)"
  obtains row where "row \<in> set (cd_creds (fst (grad_exec key op t)))" "cr_id row = cid" "proved_by key op t row"
proof -
  obtain x where x: "x \<in> set (cd_creds (fst (grad_exec key op t)))" "cr_id x = cid" "cr_type x = TypeCWMPDigest" "in_use x"
    using yes by (auto simp: digest_in_use_def list_ex_iff)
  obtain f new where step: "cd_creds (fst (grad_exec key op t)) = map f (cd_creds (fst t)) @ new"
    "\<forall>r \<in> set (cd_creds (fst t)). evolves (cr_id ` {row \<in> set (cd_creds (fst t)). proved_by key op t row}) r (f r)"
    "\<forall>r \<in> set new. cr_status r = CredPending"
    using grad_exec_step [OF wf, of op] unfolding cred_step_def by blast
  obtain r where r: "r \<in> set (cd_creds (fst t))" "x = f r" using x step by (auto simp: in_use_def)
  have ev: "cred_key x = cred_key r" "cr_type r = TypeCWMPDigest \<Longrightarrow> in_use r \<or> cr_id r \<in> cr_id ` {row \<in> set (cd_creds (fst t)). proved_by key op t row}"
    using step(2) r x(4) by (auto simp: evolves_def)
  have "cr_id r = cid" "cr_type r = TypeCWMPDigest" using ev(1) x(2,3) by (simp_all add: cred_key_def)
  then have "cr_id r \<in> cr_id ` {row \<in> set (cd_creds (fst t)). proved_by key op t row}"
    using ev(2) no r(1) by (auto simp: digest_in_use_def list_ex_iff)
  then have "proved_by key op t r" using cred_wf_unique [OF wf r(1)] by auto
  then have "proved_by key op t x" using proved_by_key [OF ev(1)] by simp
  then show thesis using that x by blast
qed

text \<open>
  C3. Whatever requests reach the gateway and whatever operators create, activate, revoke and re-enrol,
  with any failures: a CWMP Digest credential that is in use was in use at the start, or a request of
  the run authenticated with it, over no client certificate, and sent an Inform that claims the device
  the credential is bound to. A revoked one stays revoked. There is never a second active credential of
  a type for a device, nor a second pending CWMP Digest one, and every stored password can be opened.
\<close>

theorem credential_in_use_proved:
  assumes "cred_wf key (fst st)"
  shows "cred_wf key (fst (fold (grad_exec key) ops st)) \<and>
    (\<forall>row \<in> set (cd_creds (fst (fold (grad_exec key) ops st))). cr_type row = TypeCWMPDigest \<and> in_use row \<longrightarrow>
       (\<exists>r \<in> set (cd_creds (fst st)). cr_id r = cr_id row \<and> in_use r) \<or>
       (\<exists>n < length ops. proved_by key (ops ! n) (fold (grad_exec key) (take n ops) st) row)) \<and>
    (\<forall>r \<in> set (cd_creds (fst st)). cr_type r = TypeCWMPDigest \<and> cr_status r = CredRevoked \<longrightarrow>
       (\<forall>row \<in> set (cd_creds (fst (fold (grad_exec key) ops st))). cr_id row = cr_id r \<longrightarrow> cr_status row = CredRevoked))"
proof (intro conjI ballI impI)
  let ?st = "fold (grad_exec key) ops st"
  have k: "cred_wf key (fst ?st)" "grad_rel st ?st" using grad.run_keeps [of key st ops] assms by simp_all
  show "cred_wf key (fst ?st)" by (rule k)
  {
    fix row assume row: "row \<in> set (cd_creds (fst ?st))" "cr_type row = TypeCWMPDigest \<and> in_use row"
    show "(\<exists>r \<in> set (cd_creds (fst st)). cr_id r = cr_id row \<and> in_use r) \<or>
      (\<exists>n < length ops. proved_by key (ops ! n) (fold (grad_exec key) (take n ops) st) row)"
    proof (cases "digest_in_use (cr_id row) st")
      case True
      then show ?thesis by (auto simp: digest_in_use_def list_ex_iff)
    next
      case False
      have "digest_in_use (cr_id row) ?st" using row by (auto simp: digest_in_use_def list_ex_iff)
      then obtain n where n: "n < length ops" "cred_wf key (fst (fold (grad_exec key) (take n ops) st))"
        "\<not> digest_in_use (cr_id row) (fold (grad_exec key) (take n ops) st)"
        "digest_in_use (cr_id row) (grad_exec key (ops ! n) (fold (grad_exec key) (take n ops) st))"
        "grad_rel (grad_exec key (ops ! n) (fold (grad_exec key) (take n ops) st)) ?st"
        by (rule grad.run_flip [where Q = "digest_in_use (cr_id row)", OF assms False])
      obtain x where x: "x \<in> set (cd_creds (fst (grad_exec key (ops ! n) (fold (grad_exec key) (take n ops) st))))"
        "cr_id x = cr_id row" "proved_by key (ops ! n) (fold (grad_exec key) (take n ops) st) x"
        using n(2-4) by (rule comes_into_use)
      obtain x' where x': "x' \<in> set (cd_creds (fst ?st))" "cred_key x' = cred_key x" using n(5) x(1) by (auto simp: grad_rel_def)
      have "x' = row" by (rule cred_wf_unique [OF k(1) row(1) x'(1)]) (use x'(2) x(2) in \<open>simp add: cred_key_def\<close>)
      then show ?thesis using n(1) x(3) proved_by_key [OF x'(2)] by auto
    qed
  }
  fix r row assume r: "r \<in> set (cd_creds (fst st))" "cr_type r = TypeCWMPDigest \<and> cr_status r = CredRevoked"
    and row: "row \<in> set (cd_creds (fst ?st))" "cr_id row = cr_id r"
  obtain r' where r': "r' \<in> set (cd_creds (fst ?st))" "cred_key r' = cred_key r" "cr_status r' = CredRevoked"
    using k(2) r by (auto simp: grad_rel_def)
  have "r' = row" by (rule cred_wf_unique [OF k(1) row(1) r'(1)]) (use r'(2) row(2) in \<open>simp add: cred_key_def\<close>)
  then show "cr_status row = CredRevoked" using r'(3) by simp
qed

section \<open>What the bootstrap credential can reach\<close>

lemma Normalized_idem: "Normalized (Normalized i) = Normalized i"
  by (simp add: Normalized_def)

lemma insert_pending_creds:
  "snd (insert_pending key flt n r db) = db \<or> snd (insert_pending key flt n r db) = db\<lparr> cd_creds := cd_creds db @ [r] \<rparr>"
  using insert_pending_cases [of key flt n r db] insert_credential_Some by metis

lemma EnsurePending_creds:
  "snd (EnsurePendingCWMPDigest key flt e u p nonce dev db) = db \<or>
   (\<exists>row. cr_device_id row = dev \<and> snd (EnsurePendingCWMPDigest key flt e u p nonce dev db) = db\<lparr> cd_creds := cd_creds db @ [row] \<rparr>)"
proof -
  have "snd (insert_pending key flt n (pending_row e dev ty v un st ck) db) = db \<or>
    (\<exists>row. cr_device_id row = dev \<and> snd (insert_pending key flt n (pending_row e dev ty v un st ck) db) = db\<lparr> cd_creds := cd_creds db @ [row] \<rparr>)"
    for n ty v un st ck
  proof -
    have "cr_device_id (pending_row e dev ty v un st ck) = dev" by (simp add: pending_row_def)
    then show ?thesis using insert_pending_creds [of key flt n "pending_row e dev ty v un st ck" db] by blast
  qed
  then show ?thesis by (simp add: EnsurePendingCWMPDigest_def split: sum.split prod.split)
qed

lemma upsert_device_effect:
  assumes u: "upsert_device fault fresh f db = (res, db1)"
  shows "d \<in> set (cd_devices db) \<Longrightarrow> bd_oui_serial d \<noteq> bd_oui_serial fresh \<Longrightarrow> d \<in> set (cd_devices db1)"
    "res = Some device \<Longrightarrow> device \<in> set (cd_devices db1)"
proof -
  let ?f = "find (\<lambda>d. bd_oui_serial d = bd_oui_serial fresh) (cd_devices db)"
  have "(d \<in> set (cd_devices db) \<longrightarrow> bd_oui_serial d \<noteq> bd_oui_serial fresh \<longrightarrow> d \<in> set (cd_devices db1)) \<and>
    (res = Some device \<longrightarrow> device \<in> set (cd_devices db1))"
  proof (cases "fault \<or> (?f = None \<and> bd_id fresh \<in> bd_id ` set (cd_devices db))")
    case True
    then have "upsert_device fault fresh f db = (None, db)" by (elim disjE conjE) (simp_all add: upsert_device_def)
    then show ?thesis using u by simp
  next
    case ok: False
    show ?thesis
    proof (cases ?f)
      case None
      then have "res = Some fresh" "db1 = db\<lparr> cd_devices := cd_devices db @ [fresh] \<rparr>" using u ok by (auto simp: upsert_device_def)
      then show ?thesis by simp
    next
      case (Some x)
      then have x: "x \<in> set (cd_devices db)" "bd_oui_serial x = bd_oui_serial fresh" by (auto simp: find_Some_iff)
      have r: "res = Some (f x)"
        "db1 = db\<lparr> cd_devices := update_where (\<lambda>y. bd_oui_serial y = bd_oui_serial fresh) f (cd_devices db) \<rparr>"
        using u ok Some by (auto simp: upsert_device_def)
      then show ?thesis using x by (auto simp: update_where_def image_iff)
    qed
  qed
  then show "d \<in> set (cd_devices db) \<Longrightarrow> bd_oui_serial d \<noteq> bd_oui_serial fresh \<Longrightarrow> d \<in> set (cd_devices db1)"
    "res = Some device \<Longrightarrow> device \<in> set (cd_devices db1)" by blast+
qed

lemma registration_effect:
  assumes "EnsureBootstrapRegistration fault uuid i rt db = (res, db1)"
  shows "cd_creds db1 = cd_creds db"
    "d \<in> set (cd_devices db) \<Longrightarrow> bd_oui_serial d \<noteq> NaturalKey (Normalized i) \<Longrightarrow> d \<in> set (cd_devices db1)"
    "res = Some device \<Longrightarrow> device \<in> set (cd_devices db1)"
proof -
  show "cd_creds db1 = cd_creds db" using assms EnsureBootstrapRegistration_creds by (metis snd_conv)
  note u = upsert_device_effect [OF assms [unfolded EnsureBootstrapRegistration_def Let_def]]
  show "d \<in> set (cd_devices db) \<Longrightarrow> bd_oui_serial d \<noteq> NaturalKey (Normalized i) \<Longrightarrow> d \<in> set (cd_devices db1)"
    by (rule u(1)) (simp_all add: new_device_def)
  show "res = Some device \<Longrightarrow> device \<in> set (cd_devices db1)" by (rule u(2))
qed

lemma graduation_inform_cases:
  assumes "handleBootstrapGraduationInform b r raw hid inform db = (a, db')"
  obtains "db' = db"
  | res db1 where "EnsureBootstrapRegistration (bo_flt b 1) (bo_device_uuid b) (Normalized (DeviceId inform))
      (inferBootstrapDataModelRoot (InformParameterList inform)) db = (res, db1)"
    "\<forall>d. find (\<lambda>d. bd_oui_serial d = NaturalKey (Normalized (DeviceId inform))) (cd_devices db) = Some d \<longrightarrow>
      \<not> bootstrapDeviceIsEstablished (bo_now b) d"
    "db' = db1 \<or> (\<exists>device. res = Some device \<and> \<not> bootstrapDeviceIsEstablished (bo_now b) device \<and>
      db' = snd (EnsurePendingCWMPDigest (bo_key b) (bo_pending_flt b) (bo_env b) (bo_user b) (bo_pass b) (bo_nonce b) (bd_id device) db1))"
  using assms unfolding handleBootstrapGraduationInform_def boot_GetByOUIserial_def Let_def
  by (auto split: if_splits option.splits sum.splits prod.splits)

lemma graduation_inform_spares:
  assumes wf: "cred_wf (bo_key b) db" and h: "handleBootstrapGraduationInform b r raw hid inform db = (a, db')"
    and d: "d \<in> set (cd_devices db)" "bootstrapDeviceIsEstablished (bo_now b) d"
  shows "d \<in> set (cd_devices db') \<and> filter (\<lambda>r. cr_device_id r = bd_id d) (cd_creds db') = filter (\<lambda>r. cr_device_id r = bd_id d) (cd_creds db)"
  using h
proof (rule graduation_inform_cases)
  fix res db1
  assume reg: "EnsureBootstrapRegistration (bo_flt b 1) (bo_device_uuid b) (Normalized (DeviceId inform))
      (inferBootstrapDataModelRoot (InformParameterList inform)) db = (res, db1)"
    and free: "\<forall>d. find (\<lambda>d. bd_oui_serial d = NaturalKey (Normalized (DeviceId inform))) (cd_devices db) = Some d \<longrightarrow>
      \<not> bootstrapDeviceIsEstablished (bo_now b) d"
    and db': "db' = db1 \<or> (\<exists>device. res = Some device \<and> \<not> bootstrapDeviceIsEstablished (bo_now b) device \<and>
      db' = snd (EnsurePendingCWMPDigest (bo_key b) (bo_pending_flt b) (bo_env b) (bo_user b) (bo_pass b) (bo_nonce b) (bd_id device) db1))"
  have "distinct (map bd_oui_serial (cd_devices db))" using wf by (simp add: cred_wf_def)
  then have "bd_oui_serial d \<noteq> NaturalKey (Normalized (DeviceId inform))"
    using free d find_distinct [of bd_oui_serial "cd_devices db" d] by metis
  then have d1: "d \<in> set (cd_devices db1)"
    using registration_effect(2) [OF reg d(1)] by (simp add: Normalized_idem)
  have wf1: "cred_wf (bo_key b) db1"
    using cred_step_wf [OF EnsureBootstrapRegistration_step [OF wf]] reg by (metis snd_conv)
  have "bd_id device \<noteq> bd_id d" if "res = Some device" "\<not> bootstrapDeviceIsEstablished (bo_now b) device" for device
    using registration_effect(3) [OF reg that(1)] d1 that(2) d(2) wf1 by (auto simp: cred_wf_def distinct_map inj_on_def)
  note other = this
  show ?thesis
    using db'
  proof (elim disjE exE conjE)
    fix device
    assume res: "res = Some device" "\<not> bootstrapDeviceIsEstablished (bo_now b) device"
      and e: "db' = snd (EnsurePendingCWMPDigest (bo_key b) (bo_pending_flt b) (bo_env b) (bo_user b) (bo_pass b) (bo_nonce b) (bd_id device) db1)"
    have "db' = db1 \<or> (\<exists>row. cr_device_id row = bd_id device \<and> db' = db1\<lparr> cd_creds := cd_creds db1 @ [row] \<rparr>)"
      unfolding e by (rule EnsurePending_creds)
    then show ?thesis using d1 registration_effect(1) [OF reg] other [OF res] by (elim disjE exE conjE) simp_all
  qed (simp add: d1 registration_effect(1) [OF reg])
qed (use d in simp)

lemma bootstrap_message_pending:
  assumes "bootstrap_message b r raw hid body db = Answered (ReplyXml x) c" "cred_wf (bo_key b) db"
  obtains row d where "row \<in> set (cd_creds db)" "cr_type row = TypeCWMPDigest" "cr_status row = CredPending"
    "d \<in> set (cd_devices db)" "bd_id d = cr_device_id row" "\<not> bootstrapDeviceIsEstablished (bo_now b) d"
proof -
  obtain cred d ns where l: "loadBootstrapGraduationState b r db = Some (cred, d, ns)" "\<not> bootstrapDeviceIsEstablished (bo_now b) d"
    using assms(1) by (auto simp: bootstrap_message_def split: option.splits if_splits)
  obtain cid where c: "ByID_cred (bo_key b) (bo_flt b 2) cid db = Inr cred" "cred_CredentialType cred = TypeCWMPDigest"
    "cred_Status cred = CredPending" "boot_Get (bo_flt b 3) (cred_DeviceID cred) db = Some d"
    using l(1) by (auto simp: loadBootstrapGraduationState_def split: option.splits sum.splits if_splits)
  obtain row where row: "row \<in> set (cd_creds db)" "scanCredential (bo_key b) row = Inr cred"
    using c(1) assms(2) by (rule ByID_Inr) blast
  have "d \<in> set (cd_devices db)" "bd_id d = cred_DeviceID cred"
    using c(4) by (auto simp: boot_Get_def find_Some_iff split: if_splits)
  then show thesis using that [OF row(1)] scanCredential_fields [OF row(2)] c(2,3) l(2) by simp
qed

text \<open>
  C9. A request in the scope of the fleet's bootstrap credential never reaches a session, and cannot touch
  a device that is in service and has no open re-enrolment window: its row and all its credentials are
  as before, whatever fails. Outside an Inform, an RPC is sent only while a CWMP Digest credential is
  pending for a device that is not in service.
\<close>

theorem bootstrap_spares_established:
  assumes "cred_wf (bo_key b) db" "guarded b r" "newACSMux profile user b c r (db, s) = (a, db', s')"
  shows "handled a \<and>
    (\<forall>d \<in> set (cd_devices db). bootstrapDeviceIsEstablished (bo_now b) d \<longrightarrow>
       d \<in> set (cd_devices db') \<and>
       filter (\<lambda>r. cr_device_id r = bd_id d) (cd_creds db') = filter (\<lambda>r. cr_device_id r = bd_id d) (cd_creds db)) \<and>
    (\<forall>raw hid body x k. wq_body r = BodyRead raw (Some (hid, body)) \<and> b_Inform body = None \<and> a = Answered (ReplyXml x) k \<longrightarrow>
       (\<exists>row \<in> set (cd_creds db). \<exists>d \<in> set (cd_devices db). cr_type row = TypeCWMPDigest \<and> cr_status row = CredPending \<and>
          bd_id d = cr_device_id row \<and> \<not> bootstrapDeviceIsEstablished (bo_now b) d))"
proof (cases "productionCWMPGuard profile user r = PassOn")
  case False
  then have "a = productionCWMPGuard profile user r" "db' = db" using assms(3) by (simp_all add: newACSMux_route)
  then show ?thesis using productionCWMPGuard_answers [of profile user r] False by auto
next
  case True
  then have g: "bootstrapCWMPGraduationGuard b r (db, s) = (a, db', s')" using assms(2,3) by (simp add: newACSMux_route)
  have "handled a" using guard_handled [OF assms(2), of db s] g by simp
  moreover have "d \<in> set (cd_devices db') \<and> filter (\<lambda>r. cr_device_id r = bd_id d) (cd_creds db') = filter (\<lambda>r. cr_device_id r = bd_id d) (cd_creds db)"
    if "d \<in> set (cd_devices db)" "bootstrapDeviceIsEstablished (bo_now b) d" for d
    using assms(2)
  proof (rule guard_cases [of b r db s])
    fix raw hid body inform s1
    assume "bootstrapCWMPGraduationGuard b r (db, s) =
      (fst (handleBootstrapGraduationInform b r raw hid inform db), snd (handleBootstrapGraduationInform b r raw hid inform db), s1)"
    then have "handleBootstrapGraduationInform b r raw hid inform db = (a, db')" using g by (simp add: prod_eq_iff)
    then show ?thesis by (rule graduation_inform_spares [OF assms(1) _ that])
  qed (use g that in auto)
  moreover have "\<exists>row \<in> set (cd_creds db). \<exists>d \<in> set (cd_devices db). cr_type row = TypeCWMPDigest \<and> cr_status row = CredPending \<and>
          bd_id d = cr_device_id row \<and> \<not> bootstrapDeviceIsEstablished (bo_now b) d"
    if body: "wq_body r = BodyRead raw (Some (hid, body))" "b_Inform body = None" and x: "a = Answered (ReplyXml x) k" for raw hid body x k
  proof -
    have "bootstrap_message b r raw hid body db = Answered (ReplyXml x) k"
      using assms(2) g body x by (auto simp: bootstrapCWMPGraduationGuard_def guarded_def case_prod_unfold split: if_splits)
    then show ?thesis using bootstrap_message_pending [OF _ assms(1)] by metis
  qed
  ultimately show ?thesis by blast
qed

section \<open>A gateway that graduates\<close>

definition demo_device :: "string \<Rightarrow> string \<Rightarrow> time option \<Rightarrow> boot_device" where
  "demo_device did serial informed = (new_device did \<lparr> Manufacturer = ''ACME'', OUI = ''00AA11'', ProductClass = [], SerialNumber = serial \<rparr>)
     \<lparr> bd_data_model_root := ''DEVICE2'', bd_last_inform_at := informed \<rparr>"

definition demo_row :: "string \<Rightarrow> string \<Rightarrow> cred_status \<Rightarrow> credential_row" where
  "demo_row cid did st = \<lparr> cr_id = cid, cr_device_id = did, cr_type = TypeCWMPDigest, cr_version = 1, cr_username = ''cwmp-'' @ cid,
     cr_password = ''pw'', cr_status = st, cr_command_key = None, cr_created_at = 0, cr_activated_at = None, cr_revoked_at = None \<rparr>"

definition demo_creds :: cred_db where
  "demo_creds = \<lparr> cd_creds = [demo_row ''1'' ''d1'' cred_status.CredActive, demo_row ''2'' ''d2'' CredPending],
     cd_devices = [demo_device ''d1'' ''S1'' (Some 5), demo_device ''d2'' ''S2'' None] \<rparr>"

definition demo_replay :: auth_state where
  "demo_replay = \<lparr> nonceCache = [], cwmp_digest_nonces = [] \<rparr>"

definition demo_inform :: "string \<Rightarrow> InboundBody" where
  "demo_inform serial = empty_body\<lparr> b_Inform := Some \<lparr> DeviceId = \<lparr> Manufacturer = ''ACME'', OUI = ''00aa11'', ProductClass = [],
     SerialNumber = serial \<rparr>, Event = [], MaxEnvelopes = 1, CurrentTime = [], RetryCount = 0, InformParameterList = [] \<rparr> \<rparr>"

definition demo_request :: "string \<Rightarrow> InboundBody \<Rightarrow> web_request" where
  "demo_request header body = \<lparr> wq_http = \<lparr> rq_Method = ''POST'', rq_RequestURI = ''/'', rq_Authorization = header \<rparr>, wq_tls = True,
     wq_peer_cn = None, wq_allowed = (\<lambda>_. True), wq_cookie = None, wq_body = BodyRead [] (Some (''1'', body)) \<rparr>"

definition demo_auth :: "string \<Rightarrow> string \<Rightarrow> bool \<Rightarrow> DigestAuthenticator" where
  "demo_auth user pw basic = \<lparr> da_Username = user, da_Password = pw, da_AllowBasic = basic, da_Lookup = None, da_Algorithms = [],
     da_NonceSecret = ''k'', da_shared = True \<rparr>"

definition demo_boot :: boot_deps where
  "demo_boot = \<lparr> bo_key = None, bo_auth = demo_auth ''boot'' ''secret'' False, bo_now = 1000000000, bo_bytes = ''abcdef'', bo_verify_fault = False,
     bo_flt = no_faults, bo_pending_flt = no_faults, bo_device_uuid = ''d3'', bo_env = idem_env, bo_user = ''u'', bo_pass = ''p'',
     bo_nonce = [], bo_id = ''9'', bo_rpc_id = ''10'' \<rparr>"

definition demo_cwmp :: "sdeps \<Rightarrow> cwmp_deps" where
  "demo_cwmp sd = \<lparr> cw_key = None, cw_auth = demo_auth [] [] True, cw_now = 9, cw_bytes = [], cw_verify_fault = False, cw_flt = no_faults,
     cw_activate_flt = no_faults, cw_device_uuid = ''d4'', cw_s = sd \<rparr>"

definition demo_graduation :: "sdeps \<Rightarrow> grad_op list" where
  "demo_graduation sd = [GradRequest [] [] demo_boot (demo_cwmp sd) (demo_request (''Basic '' @ b64_encode False ''cwmp-2:pw'') (demo_inform ''S2''))]"

lemma demo_creds_wf: "cred_wf None demo_creds"
  by code_simp

lemma demo_graduates:
  "list_ex (\<lambda>row. cr_id row = ''2'' \<and> cr_type row = TypeCWMPDigest \<and> cr_status row = cred_status.CredActive)
     (cd_creds (fst (fold (grad_exec None) (demo_graduation sd) (demo_creds, demo_replay))))"
  by code_simp

theorem credential_in_use_proved_witness:
  "\<forall>sd. \<exists>row \<in> set (cd_creds (fst (fold (grad_exec None) (demo_graduation sd) (demo_creds, demo_replay)))).
     cr_id row = ''2'' \<and> cr_status row = cred_status.CredActive \<and> proved_by None (demo_graduation sd ! 0) (demo_creds, demo_replay) row"
proof
  fix sd
  define st where "st = fold (grad_exec None) (demo_graduation sd) (demo_creds, demo_replay)"
  obtain row where row: "row \<in> set (cd_creds (fst st))" "cr_id row = ''2''" "cr_type row = TypeCWMPDigest" "cr_status row = cred_status.CredActive"
    using demo_graduates [of sd] unfolding st_def [symmetric] list_ex_iff by blast
  have old: "\<not> (\<exists>r \<in> set (cd_creds (fst (demo_creds, demo_replay))). cr_id r = cr_id row \<and> in_use r)"
    by (simp add: demo_creds_def demo_row_def row(2) in_use_def)
  have wf: "cred_wf None (fst (demo_creds, demo_replay))" by (simp add: demo_creds_wf)
  have "cr_type row = TypeCWMPDigest \<and> in_use row" using row(3,4) by (simp add: in_use_def)
  then obtain n where n: "n < length (demo_graduation sd)"
    "proved_by None (demo_graduation sd ! n) (fold (grad_exec None) (take n (demo_graduation sd)) (demo_creds, demo_replay)) row"
    using credential_in_use_proved [OF wf, of "demo_graduation sd"] row(1) old unfolding st_def [symmetric] by blast
  have "length (demo_graduation sd) = 1" by (simp add: demo_graduation_def)
  then have "n = 0" using n(1) by simp
  then have "proved_by None (demo_graduation sd ! 0) (demo_creds, demo_replay) row" using n(2) by simp
  then show "\<exists>row \<in> set (cd_creds (fst (fold (grad_exec None) (demo_graduation sd) (demo_creds, demo_replay)))).
      cr_id row = ''2'' \<and> cr_status row = cred_status.CredActive \<and> proved_by None (demo_graduation sd ! 0) (demo_creds, demo_replay) row"
    using row unfolding st_def by blast
qed

end
