(* ===== verification/Graduation_Progress.thy ===== *)
theory Graduation_Progress
  imports Graduation_Safety Digest_Replay
begin

text \<open>
  The credential lifecycle makes progress: activating a credential switches a device over at once, a new
  gateway is handed its own credential by the bootstrap exchange, and its first Inform with that
  credential puts it in use. One lemma shows where the guard of a production system reads a header
  otherwise than the authenticator.
\<close>

section \<open>Activation\<close>

lemma switch_one_active:
  assumes wf: "cred_wf key db" and row: "row \<in> set (cd_creds db)" "cr_id row = cid"
  shows "one_active (map (switch_row now cid (cr_device_id row) (cr_type row)) (cd_creds db))"
proof -
  let ?f = "switch_row now cid (cr_device_id row) (cr_type row)"
  have k: "cr_id (?f r) = cr_id r" "cr_device_id (?f r) = cr_device_id r" "cr_type (?f r) = cr_type r" for r
    using switch_row_status(1) [of now cid "cr_device_id row" "cr_type row" r] by (simp_all add: cred_key_def)
  have old: "r = x" if "r \<in> set (cd_creds db)" "x \<in> set (cd_creds db)" "cr_status r = cred_status.CredActive" "cr_status x = cred_status.CredActive"
    "cr_device_id r = cr_device_id x" "cr_type r = cr_type x" for r x
    using wf that by (auto simp: cred_wf_def one_active_def distinct_map inj_on_def)
  have "distinct (map cr_id (map ?f (cd_creds db)))" using wf by (simp add: cred_wf_def comp_def k)
  then have d: "distinct (map ?f (cd_creds db))" unfolding distinct_map [of cr_id] by simp
  have "?f r = ?f x"
    if r: "r \<in> set (cd_creds db)" "cr_status (?f r) = cred_status.CredActive" and x: "x \<in> set (cd_creds db)" "cr_status (?f x) = cred_status.CredActive"
      and eq: "cr_device_id r = cr_device_id x" "cr_type r = cr_type x" for r x
  proof (cases "cr_id r = cid \<or> cr_id x = cid")
    case True
    have "cr_id r = cid" "cr_id x = cid"
      using True r x eq cred_wf_unique [OF wf row(1)] row(2) unfolding switch_row_status by (auto split: if_splits)
    then show ?thesis using cred_wf_unique [OF wf r(1) x(1)] by simp
  next
    case False
    then have "r = x" using r x eq unfolding switch_row_status by (intro old) (auto split: if_splits)
    then show ?thesis by simp
  qed
  then have "inj_on (\<lambda>r. (cr_device_id r, cr_type r)) (set (filter (\<lambda>r. cr_status r = cred_status.CredActive) (map ?f (cd_creds db))))"
    by (auto simp: inj_on_def k)
  then show ?thesis unfolding one_active_def distinct_map using d by simp
qed

lemma scan_ok:
  assumes "cred_wf key db" "row \<in> set (cd_creds db)"
  obtains c where "scanCredential key row = Inr c"
proof -
  have "readable key row" using assms by (simp add: cred_wf_def list_all_iff)
  then show thesis using that by (cases "decrypt key (cr_password row)") (simp_all add: readable_def scanCredential_def)
qed

lemma filter_id:
  assumes "cred_wf key db" "row \<in> set (cd_creds db)"
  shows "filter (\<lambda>r. cr_id r = cr_id row) (cd_creds db) = [row]"
  using assms by (intro filter_find find_distinct) (simp_all add: cred_wf_def)

lemma Activate_ok:
  assumes wf: "cred_wf key db" and row: "row \<in> set (cd_creds db)"
  obtains c where "Activate key no_faults now (cr_id row) db =
    (Inr c, db\<lparr> cd_creds := map (switch_row now (cr_id row) (cr_device_id row) (cr_type row)) (cd_creds db) \<rparr>)"
proof -
  let ?f = "switch_row now (cr_id row) (cr_device_id row) (cr_type row)"
  obtain c where c: "scanCredential key row = Inr c" using wf row by (rule scan_ok)
  have k: "cr_id (?f r) = cr_id r" "cr_password (?f r) = cr_password r" for r
    using switch_row_status(1) [of now "cr_id row" "cr_device_id row" "cr_type row" r] by (simp_all add: cred_key_def)
  have "filter (\<lambda>r. cr_id r = cr_id row) (map ?f (cd_creds db)) = [?f row]"
    by (simp add: filter_map comp_def k filter_id [OF wf row])
  moreover obtain c' where c': "scanCredential key (?f row) = Inr c'"
    using c k(2) [of row] by (auto simp: scanCredential_def split: sum.splits)
  ultimately have again: "ByID_cred key False (cr_id row) (db\<lparr> cd_creds := map ?f (cd_creds db) \<rparr>) = Inr c'"
    by (simp add: ByID_cred_def scan_one_def)
  have first: "ByID_cred key False (cr_id row) db = Inr c" using c by (simp add: ByID_cred_def scan_one_def filter_id [OF wf row])
  have fields: "cred_DeviceID c = cr_device_id row" "cred_CredentialType c = cr_type row" using scanCredential_fields [OF c] by simp_all
  have "Activate key no_faults now (cr_id row) db = (Inr c', db\<lparr> cd_creds := map ?f (cd_creds db) \<rparr>)"
    unfolding Activate_def Let_def first sum.case fields switch_rows using again switch_one_active [OF wf row refl] by simp
  then show thesis by (rule that)
qed


section \<open>The first Inform with the new credential\<close>

lemma OnAuthenticated_ok:
  assumes wf: "cred_wf key db" and row: "row \<in> set (cd_creds db)" "cr_type row = TypeCWMPDigest" "cr_status row = CredPending"
    and unique: "\<forall>x \<in> set (cd_creds db). live_digest (cr_username row) x \<longrightarrow> x = row"
  shows "OnAuthenticated key False False no_faults now (cr_username row) db =
    CloseReenrollment False (cr_device_id row)
      (db\<lparr> cd_creds := map (switch_row now (cr_id row) (cr_device_id row) (cr_type row)) (cd_creds db) \<rparr>)"
proof -
  have live: "live_digest (cr_username row) row" using row by (simp add: live_digest_def)
  have "filter (live_digest (cr_username row)) (cd_creds db) = filter (\<lambda>r. cr_id r = cr_id row) (cd_creds db)"
    using unique live cred_wf_unique [OF wf row(1)] by (intro filter_cong) auto
  then have one: "filter (live_digest (cr_username row)) (cd_creds db) = [row]" by (simp add: filter_id [OF wf row(1)])
  obtain c where c: "scanCredential key row = Inr c" using wf row(1) by (rule scan_ok)
  have look: "LookupCWMPDigest key False (cr_username row) db = Inr c"
    by (simp add: LookupCWMPDigest_def one newest_def scan_one_def c)
  have fields: "cred_ID c = cr_id row" "cred_Status c = CredPending" "cred_DeviceID c = cr_device_id row"
    using scanCredential_fields [OF c] row(3) by simp_all
  obtain c' where "Activate key no_faults now (cr_id row) db =
      (Inr c', db\<lparr> cd_creds := map (switch_row now (cr_id row) (cr_device_id row) (cr_type row)) (cd_creds db) \<rparr>)"
    using wf row(1) by (rule Activate_ok)
  then show ?thesis unfolding OnAuthenticated_def look sum.case fields by simp
qed

definition settled :: "cwmp_deps \<Rightarrow> web_request \<Rightarrow> bool" where
  "settled c r \<longleftrightarrow> cw_flt c = no_faults \<and> cw_activate_flt c = no_faults \<and> wq_allowed r = (\<lambda>_. True) \<and> rq_Method (wq_http r) = ''POST''"

lemma authenticate_ok:
  assumes "proves c r (db, s) row"
  obtains s1 where "authenticate c r db s =
    (Inr (no_binding\<lparr> credentialDeviceID := cr_device_id row, credentialUsername := cr_username row, sharedCredential := False \<rparr>, ''DIGEST''), s1)"
proof -
  let ?v = "Verify (hooked c db) (cw_verify_fault c) (wq_http r) (cw_now c) s"
  have "Enabled (hooked c db)" by (simp add: Enabled_def hooked_def)
  then have "authenticate c r db s =
    (Inr (no_binding\<lparr> credentialDeviceID := cr_device_id row, credentialUsername := cr_username row, sharedCredential := False \<rparr>, ''DIGEST''), snd ?v)"
    using assms by (simp add: authenticate_def proves_def case_prod_unfold)
  then show thesis by (rule that)
qed

lemma inform_accepted:
  assumes wf: "cred_wf (cw_key c) db" and flt: "cw_flt c = no_faults"
    and dev: "d \<in> set (cd_devices db)" "bd_oui_serial d = NaturalKey (Normalized i)" "bd_id d = dev" "dev \<noteq> []" "user \<noteq> []"
    and i: "OUI (Normalized i) \<noteq> []" "SerialNumber (Normalized i) \<noteq> []"
  shows "informIdentity sd (inform_look c db) (no_binding\<lparr> credentialDeviceID := dev, credentialUsername := user, sharedCredential := False \<rparr>) i =
    (Inr (NaturalKey (Normalized i)), Some user)"
proof -
  have "find (\<lambda>d. bd_oui_serial d = NaturalKey (Normalized i)) (cd_devices db) = Some d"
    using wf dev(1,2) find_distinct [of bd_oui_serial "cd_devices db" d] by (simp add: cred_wf_def)
  then have "inform_look c db 1 (NaturalKey (Normalized i)) = DeviceFound dev"
    using flt dev(3) by (simp add: inform_look_def boot_GetByOUIserial_def)
  then show ?thesis using i dev(4,5) by (simp add: informIdentity_def no_binding_def Let_def)
qed

definition window_closed :: "string \<Rightarrow> boot_device \<Rightarrow> bool" where
  "window_closed dev d \<longleftrightarrow> (bd_id d = dev \<longrightarrow> bd_reenroll_until d = None)"

lemma keep_update_where: "(\<And>x. P x \<Longrightarrow> P (f x)) \<Longrightarrow> \<forall>x \<in> set xs. P x \<Longrightarrow> \<forall>x \<in> set (update_where q f xs). P x"
  by (induction xs) (simp_all add: update_where_def)

lemma CloseReenrollment_closes: "\<forall>d \<in> set (cd_devices (CloseReenrollment False dev db)). window_closed dev d"
proof
  let ?p = "\<lambda>d. bd_id d = dev \<and> bd_reenroll_until d \<noteq> None"
  fix d assume "d \<in> set (cd_devices (CloseReenrollment False dev db))"
  then obtain x where x: "d = (if ?p x then x\<lparr> bd_reenroll_until := None \<rparr> else x)"
    by (auto simp: CloseReenrollment_def set_update_where)
  show "window_closed dev d"
  proof (cases "?p x")
    case True
    then have "d = x\<lparr> bd_reenroll_until := None \<rparr>" using x by simp
    then show ?thesis by (simp add: window_closed_def)
  next
    case False
    then have "d = x" using x by simp
    then show ?thesis using False by (simp add: window_closed_def)
  qed
qed

text \<open>An Inform of a known device, after the hook.\<close>

lemma known_device_informs:
  assumes "d \<in> set (cd_devices db)" "bd_oui_serial d = NaturalKey i" "distinct (map bd_oui_serial (cd_devices db))"
    and closed: "\<forall>d \<in> set (cd_devices db). window_closed dev d"
  obtains device db2 where "UpsertFromInform False uuid now i db = (Some device, db2)" "cd_creds db2 = cd_creds db"
    "\<forall>d \<in> set (cd_devices (UpdateAuthMode False (bd_id device) m db2)). window_closed dev d"
    "cd_creds (UpdateAuthMode False (bd_id device) m db2) = cd_creds db"
proof -
  let ?f = "\<lambda>d. fill_manufacturer (Manufacturer i) d\<lparr> bd_last_inform_at := Some now \<rparr>"
  let ?db = "db\<lparr> cd_devices := update_where (\<lambda>x. bd_oui_serial x = NaturalKey i) ?f (cd_devices db) \<rparr>"
  have "find (\<lambda>x. bd_oui_serial x = NaturalKey i) (cd_devices db) = Some d"
    using assms(1-3) find_distinct [of bd_oui_serial "cd_devices db" d] by simp
  then have u: "UpsertFromInform False uuid now i db = (Some (?f d), ?db)"
    by (simp add: UpsertFromInform_def upsert_device_def new_device_def)
  have "\<forall>d \<in> set (cd_devices ?db). window_closed dev d"
    using keep_update_where [of "window_closed dev" ?f "cd_devices db"] closed by (simp add: window_closed_def fill_manufacturer_def)
  then have "\<forall>d \<in> set (cd_devices (UpdateAuthMode False (bd_id (?f d)) m ?db)). window_closed dev d"
    using keep_update_where [of "window_closed dev" "\<lambda>d. d\<lparr> bd_cwmp_auth_mode := m \<rparr>" "cd_devices ?db"]
    by (simp add: UpdateAuthMode_def window_closed_def)
  then show thesis by (intro that [OF u]) (simp_all add: UpdateAuthMode_def)
qed

text \<open>
  C17. If nothing fails, the first Inform that proves a pending CWMP Digest credential puts it in use: the
  session goes on as the device the credential is bound to, the credential is active, whatever was
  active for the device before is in its grace period, and an open re-enrolment window of the device is
  closed. The user name must not be that of another live credential.
\<close>

theorem proved_credential_activates:
  assumes wf: "cred_wf (cw_key c) db" and ok: "settled c r"
    and row: "row \<in> set (cd_creds db)" "cr_type row = TypeCWMPDigest" "cr_status row = CredPending" "cr_device_id row \<noteq> []" "cr_username row \<noteq> []"
    and unique: "\<forall>x \<in> set (cd_creds db). live_digest (cr_username row) x \<longrightarrow> x = row"
    and proved: "proves c r (db, s) row"
    and inform: "wq_body r = BodyRead raw (Some (hid, body))" "b_Inform body = Some inform"
      "OUI (Normalized (DeviceId inform)) \<noteq> []" "SerialNumber (Normalized (DeviceId inform)) \<noteq> []"
    and res: "handleCWMP c r (db, s) = (a, db', s')"
  shows "(\<exists>bound. a = ToSession bound \<and> credentialDeviceID bound = cr_device_id row) \<and>
    cd_creds db' = map (switch_row (cw_now c) (cr_id row) (cr_device_id row) TypeCWMPDigest) (cd_creds db) \<and>
    map cr_status (filter (\<lambda>r. cr_id r = cr_id row) (cd_creds db')) = [cred_status.CredActive] \<and>
    (\<forall>d \<in> set (cd_devices db'). bd_id d = cr_device_id row \<longrightarrow> bd_reenroll_until d = None)"
proof -
  let ?f = "switch_row (cw_now c) (cr_id row) (cr_device_id row) (cr_type row)"
  let ?i = "DeviceId inform" and ?bound = "no_binding\<lparr> credentialDeviceID := cr_device_id row, credentialUsername := cr_username row, sharedCredential := False \<rparr>"
  define db1 where "db1 = CloseReenrollment False (cr_device_id row) (db\<lparr> cd_creds := map ?f (cd_creds db) \<rparr>)"
  have flt: "cw_flt c = no_faults" "cw_activate_flt c = no_faults" using ok by (simp_all add: settled_def)
  obtain s1 where auth: "authenticate c r db s = (Inr (?bound, ''DIGEST''), s1)" using proved by (rule authenticate_ok)
  obtain d where d: "d \<in> set (cd_devices db)" "bd_id d = cr_device_id row" "bd_oui_serial d = NaturalKey (Normalized ?i)"
    using proved inform(1,2) by (auto simp: proves_def list_ex_iff)
  have ident: "informIdentity (cw_s c) (inform_look c db) ?bound ?i = (Inr (NaturalKey (Normalized ?i)), Some (cr_username row))"
    by (rule inform_accepted [OF wf flt(1) d(1,3,2) row(4,5) inform(3,4)])
  have hook: "OnAuthenticated (cw_key c) False False no_faults (cw_now c) (cr_username row) db = db1"
    unfolding db1_def by (rule OnAuthenticated_ok [OF wf row(1-3) unique])
  have oui: "map bd_oui_serial (cd_devices db1) = map bd_oui_serial (cd_devices db)" by (simp add: db1_def CloseReenrollment_frame)
  then have "NaturalKey (Normalized ?i) \<in> set (map bd_oui_serial (cd_devices db1))" using d by force
  then obtain d1 where d1: "d1 \<in> set (cd_devices db1)" "bd_oui_serial d1 = NaturalKey (Normalized ?i)" by auto
  have "distinct (map bd_oui_serial (cd_devices db1))" using wf oui by (simp add: cred_wf_def)
  then obtain device db2 where u: "UpsertFromInform False (cw_device_uuid c) (cw_now c) (Normalized ?i) db1 = (Some device, db2)"
    "\<forall>d \<in> set (cd_devices (UpdateAuthMode False (bd_id device) ''DIGEST'' db2)). window_closed (cr_device_id row) d"
    "cd_creds (UpdateAuthMode False (bd_id device) ''DIGEST'' db2) = cd_creds db1"
    using known_device_informs [OF d1, of "cr_device_id row"] CloseReenrollment_closes db1_def by metis
  have "acceptInform c ?bound ''DIGEST'' inform db = (ToSession ?bound, UpdateAuthMode False (bd_id device) ''DIGEST'' db2)"
    unfolding acceptInform_def ident using hook u(1) by (simp add: flt Let_def)
  then have fin: "a = ToSession ?bound" "db' = UpdateAuthMode False (bd_id device) ''DIGEST'' db2"
    using res ok auth inform(1,2) by (auto simp: handleCWMP_def settled_def no_binding_def)
  have creds: "cd_creds db' = map ?f (cd_creds db)" using fin(2) u(3) by (simp add: db1_def CloseReenrollment_frame)
  have "cr_id (?f r) = cr_id r" for r using switch_row_status(1) [of "cw_now c" "cr_id row" "cr_device_id row" "cr_type row" r] by (simp add: cred_key_def)
  then have "map cr_status (filter (\<lambda>r. cr_id r = cr_id row) (cd_creds db')) = [cred_status.CredActive]"
    by (simp add: creds filter_map comp_def filter_id [OF wf row(1)] switch_row_status)
  moreover have "\<exists>bound. a = ToSession bound \<and> credentialDeviceID bound = cr_device_id row" using fin(1) by simp
  moreover have "\<forall>d \<in> set (cd_devices db'). bd_id d = cr_device_id row \<longrightarrow> bd_reenroll_until d = None"
    using u(2) unfolding fin(2) window_closed_def .
  ultimately show ?thesis using creds unfolding row(2) by blast
qed

section \<open>The bootstrap exchange\<close>

lemma cookie_roundtrip:
  assumes "CHR ''.'' \<notin> set cid" "cid \<noteq> []" "ns \<noteq> []"
  shows "decodeBootstrapCredentialCookie (encodeBootstrapCredentialCookie cid ns) = Some (cid, ns)"
proof -
  have "b64_encode True ns \<noteq> []"
  proof
    assume "b64_encode True ns = []"
    then have "b64_decode True [] = Some ns" by (metis b64_decode_encode)
    then show False using assms(3) by (simp add: b64_decode_def)
  qed
  then show ?thesis using assms by (simp add: decodeBootstrapCredentialCookie_def encodeBootstrapCredentialCookie_def)
qed

lemma fold_max_le: "(n :: nat) \<le> fold max xs n" "x \<in> set xs \<Longrightarrow> x \<le> fold max xs n"
proof -
  have le: "n \<le> fold max xs n" for n and xs :: "nat list"
  proof (induction xs arbitrary: n)
    case (Cons y ys)
    show ?case using Cons.IH [of "max y n"] by simp
  qed simp
  show "n \<le> fold max xs n" by (rule le)
  show "x \<in> set xs \<Longrightarrow> x \<le> fold max xs n"
  proof (induction xs arbitrary: n)
    case (Cons y ys)
    show ?case
    proof (cases "x = y")
      case True
      have "x \<le> max y n" using True by simp
      also have "\<dots> \<le> fold max ys (max y n)" by (rule le)
      finally show ?thesis by simp
    qed (use Cons in simp)
  qed simp
qed

lemma next_version_fresh:
  assumes "r \<in> set rs" "cr_device_id r = dev" "cr_type r = ty"
  shows "cr_version r \<noteq> next_version dev ty rs"
  using assms fold_max_le(2) [of "cr_version r" "map cr_version (filter (\<lambda>r. cr_device_id r = dev \<and> cr_type r = ty) rs)" 0]
  by (auto simp: next_version_def)

definition pending_digest :: "string \<Rightarrow> credential_row \<Rightarrow> bool" where
  "pending_digest dev r \<longleftrightarrow> cr_device_id r = dev \<and> cr_type r = TypeCWMPDigest \<and> cr_status r = CredPending"

lemma insert_fresh_pending:
  assumes wf: "cred_wf key db" and dev: "dev \<in> bd_id ` set (cd_devices db)" and uuid: "env_uuid e \<notin> cr_id ` set (cd_creds db)"
    and none: "\<forall>r \<in> set (cd_creds db). \<not> pending_digest dev r" and dec: "decrypt key stored = Inr pw"
  obtains c where "insert_pending key no_faults n (pending_row e dev TypeCWMPDigest (next_version dev TypeCWMPDigest (cd_creds db)) u stored ck) db =
    (Inr c, db\<lparr> cd_creds := cd_creds db @ [pending_row e dev TypeCWMPDigest (next_version dev TypeCWMPDigest (cd_creds db)) u stored ck] \<rparr>)"
    "cred_ID c = env_uuid e"
proof -
  define row where "row = pending_row e dev TypeCWMPDigest (next_version dev TypeCWMPDigest (cd_creds db)) u stored ck"
  have f: "cr_id row = env_uuid e" "cr_device_id row = dev" "cr_type row = TypeCWMPDigest" "cr_status row = CredPending" "cr_password row = stored"
    "cr_version row = next_version dev TypeCWMPDigest (cd_creds db)"
    by (simp_all add: row_def pending_row_def)
  have "version_key (cd_creds db @ [row])"
    using wf next_version_fresh by (fastforce simp: version_key_def cred_wf_def f)
  moreover have "one_pending_digest (cd_creds db @ [row])"
    using wf none by (fastforce simp: one_pending_digest_def cred_wf_def f pending_digest_def)
  ultimately have ins: "insert_credential row db = Some (db\<lparr> cd_creds := cd_creds db @ [row] \<rparr>)"
    using uuid dev by (simp add: insert_credential_def f)
  obtain c where c: "scanCredential key row = Inr c" "cred_ID c = env_uuid e" using dec f by (simp add: scanCredential_def)
  show thesis by (rule that [of c]) (simp_all add: row_def [symmetric] insert_pending_def ins c)
qed

lemma EnsurePending_ok:
  assumes wf: "cred_wf key db" and dev: "dev \<in> bd_id ` set (cd_devices db)" and uuid: "env_uuid e \<notin> cr_id ` set (cd_creds db)"
    and nonce: "length nonce = gcm_nonce_size"
  obtains c db' row where "EnsurePendingCWMPDigest key no_faults e u p nonce dev db = (Inr c, db')"
    "cd_devices db' = cd_devices db" "row \<in> set (cd_creds db')" "pending_digest dev row" "cr_id row = cred_ID c"
    "cr_id row \<in> insert (env_uuid e) (cr_id ` set (cd_creds db))"
proof (cases "newest (filter (pending_digest dev) (cd_creds db))")
  case Nil
  then have "set (newest (filter (pending_digest dev) (cd_creds db))) = {}" by simp
  then have none: "\<forall>r \<in> set (cd_creds db). \<not> pending_digest dev r" by (auto simp: newest_def)
  obtain st where st: "encrypt key False nonce (hex_encode p) = Inr st" by (cases key) (simp_all add: encrypt_def)
  have dec: "decrypt key st = Inr (hex_encode p)" by (rule decrypt_encrypt [OF nonce st])
  obtain c where c: "insert_pending key no_faults 7 (pending_row e dev TypeCWMPDigest (next_version dev TypeCWMPDigest (cd_creds db)) (''cwmp-'' @ hex_encode u) st (bootstrapCommandKey (env_uuid e))) db =
    (Inr c, db\<lparr> cd_creds := cd_creds db @ [pending_row e dev TypeCWMPDigest (next_version dev TypeCWMPDigest (cd_creds db)) (''cwmp-'' @ hex_encode u) st (bootstrapCommandKey (env_uuid e))] \<rparr>)"
    "cred_ID c = env_uuid e"
    using wf dev uuid none dec by (rule insert_fresh_pending)
  have "PendingForDevice key False dev TypeCWMPDigest db = Inl ErrCredNotFound"
    using Nil by (simp add: PendingForDevice_def scan_one_def pending_digest_def [abs_def])
  then have e: "EnsurePendingCWMPDigest key no_faults e u p nonce dev db =
      (Inr c, db\<lparr> cd_creds := cd_creds db @ [pending_row e dev TypeCWMPDigest (next_version dev TypeCWMPDigest (cd_creds db)) (''cwmp-'' @ hex_encode u) st (bootstrapCommandKey (env_uuid e))] \<rparr>)"
    using dev st c(1) by (simp add: EnsurePendingCWMPDigest_def GenerateUsernamePasswordForType_def ValidType_def)
  show thesis by (rule that [OF e]) (auto simp: c(2) pending_row_def pending_digest_def)
next
  case (Cons row rows)
  then have "row \<in> set (newest (filter (pending_digest dev) (cd_creds db)))" by simp
  then have row: "row \<in> set (cd_creds db)" "pending_digest dev row" by (simp_all add: newest_def)
  obtain c where c: "scanCredential key row = Inr c" using wf row(1) by (rule scan_ok)
  have "PendingForDevice key False dev TypeCWMPDigest db = Inr c"
    using Cons c by (simp add: PendingForDevice_def scan_one_def pending_digest_def [abs_def])
  then have "EnsurePendingCWMPDigest key no_faults e u p nonce dev db = (Inr c, db)" using dev by (simp add: EnsurePendingCWMPDigest_def)
  then show thesis using row scanCredential_fields [OF c] by (intro that [of c db row]) auto
qed

lemma registration_ok:
  assumes free: "\<forall>d \<in> set (cd_devices db). bd_oui_serial d = NaturalKey (Normalized i) \<longrightarrow> \<not> bootstrapDeviceIsEstablished now d"
    and uuid: "uuid \<notin> bd_id ` set (cd_devices db)"
  obtains device db1 where "EnsureBootstrapRegistration False uuid i rt db = (Some device, db1)"
    "bd_oui_serial device = NaturalKey (Normalized i)" "\<not> bootstrapDeviceIsEstablished now device"
proof -
  let ?fresh = "\<lambda>rt. (new_device uuid (Normalized i))\<lparr> bd_data_model_root := rt \<rparr>"
  let ?find = "find (\<lambda>d. bd_oui_serial d = NaturalKey (Normalized i)) (cd_devices db)"
  have fresh: "bd_oui_serial (?fresh rt) = NaturalKey (Normalized i)" "bd_id (?fresh rt) = uuid" "\<not> bootstrapDeviceIsEstablished now (?fresh rt)" for rt
    by (simp_all add: new_device_def bootstrapDeviceIsEstablished_def ReenrollmentOpen_def ToUpper_def upper_char_def TrimSpace_def is_space_def)
  show thesis
  proof (cases ?find)
    case None
    then show thesis using uuid fresh
      by (intro that) (auto simp: EnsureBootstrapRegistration_def Let_def upsert_device_def new_device_def)
  next
    case (Some d)
    then have d: "d \<in> set (cd_devices db)" "bd_oui_serial d = NaturalKey (Normalized i)" by (auto simp: find_Some_iff)
    then have free: "\<not> bootstrapDeviceIsEstablished now d" using free by simp
    let ?rt = "if rt \<in> {''DEVICE2'', ''IGD1''} then rt else ''UNKNOWN''"
    let ?f = "\<lambda>d. fill_manufacturer (Manufacturer (Normalized i)) d
      \<lparr> bd_data_model_root := (if bd_data_model_root d = ''UNKNOWN'' \<and> ?rt \<noteq> ''UNKNOWN'' then ?rt else bd_data_model_root d) \<rparr>"
    have f: "bd_oui_serial (?f d) = bd_oui_serial d" "bootstrapDeviceIsEstablished now (?f d) = bootstrapDeviceIsEstablished now d"
      by (simp_all add: fill_manufacturer_def bootstrapDeviceIsEstablished_def ReenrollmentOpen_def)
    have "find (\<lambda>x. bd_oui_serial x = bd_oui_serial (?fresh ?rt)) (cd_devices db) = Some d" unfolding fresh by (rule Some)
    then have "EnsureBootstrapRegistration False uuid i rt db =
        (Some (?f d), db\<lparr> cd_devices := update_where (\<lambda>x. bd_oui_serial x = bd_oui_serial (?fresh ?rt)) ?f (cd_devices db) \<rparr>)"
      unfolding EnsureBootstrapRegistration_def Let_def upsert_device_def by (simp only: if_False option.case)
    then show thesis by (rule that) (use f d free in simp_all)
  qed
qed

definition boot_settled :: "boot_deps \<Rightarrow> web_request \<Rightarrow> auth_state \<Rightarrow> bool" where
  "boot_settled b r s \<longleftrightarrow> guarded b r \<and> wq_allowed r = (\<lambda>_. True) \<and> bo_flt b = no_faults \<and> bo_pending_flt b = no_faults \<and>
     length (bo_nonce b) = gcm_nonce_size \<and> v_ok (fst (Verify (bo_auth b) (bo_verify_fault b) (wq_http r) (bo_now b) s))"

lemma settled_guard:
  assumes "boot_settled b r s" "wq_body r = BodyRead raw (Some (hid, body))"
  shows "fst (bootstrapCWMPGraduationGuard b r (db, s)) = (case b_Inform body of
      Some inform \<Rightarrow> fst (handleBootstrapGraduationInform b r raw hid inform db) | None \<Rightarrow> bootstrap_message b r raw hid body db)"
    "fst (snd (bootstrapCWMPGraduationGuard b r (db, s))) = (case b_Inform body of
      Some inform \<Rightarrow> snd (handleBootstrapGraduationInform b r raw hid inform db) | None \<Rightarrow> db)"
  using assms by (simp_all add: boot_settled_def guarded_def bootstrapCWMPGraduationGuard_def case_prod_unfold split: option.split)

lemma graduation_inform_ok:
  assumes wf: "cred_wf (bo_key b) db" and ok: "boot_settled b r s"
    and i: "OUI (Normalized (DeviceId inform)) \<noteq> []" "SerialNumber (Normalized (DeviceId inform)) \<noteq> []"
    and free: "\<forall>d \<in> set (cd_devices db). bd_oui_serial d = NaturalKey (Normalized (DeviceId inform)) \<longrightarrow> \<not> bootstrapDeviceIsEstablished (bo_now b) d"
    and uuid: "bo_device_uuid b \<notin> bd_id ` set (cd_devices db)" "env_uuid (bo_env b) \<notin> cr_id ` set (cd_creds db)"
  obtains device db' row where "handleBootstrapGraduationInform b r raw hid inform db =
      (Answered (ReplyXml (RenderInformResponseNS (if hid = [] then bo_id b else hid) (DetectCWMPNamespace raw)))
         (SetCookie (encodeBootstrapCredentialCookie (cr_id row) (DetectCWMPNamespace raw))), db')"
    "device \<in> set (cd_devices db')" "bd_oui_serial device = NaturalKey (Normalized (DeviceId inform))" "\<not> bootstrapDeviceIsEstablished (bo_now b) device"
    "row \<in> set (cd_creds db')" "pending_digest (bd_id device) row" "cr_id row \<in> insert (env_uuid (bo_env b)) (cr_id ` set (cd_creds db))"
proof -
  let ?i = "Normalized (DeviceId inform)" and ?rt = "inferBootstrapDataModelRoot (InformParameterList inform)"
  have flt: "bo_flt b = no_faults" "bo_pending_flt b = no_faults" "length (bo_nonce b) = gcm_nonce_size" "wq_allowed r = (\<lambda>_. True)"
    using ok by (simp_all add: boot_settled_def)
  have free': "\<forall>d \<in> set (cd_devices db). bd_oui_serial d = NaturalKey (Normalized ?i) \<longrightarrow> \<not> bootstrapDeviceIsEstablished (bo_now b) d"
    using free by (simp add: Normalized_idem)
  obtain device db1 where reg: "EnsureBootstrapRegistration False (bo_device_uuid b) ?i ?rt db = (Some device, db1)"
    "bd_oui_serial device = NaturalKey (Normalized ?i)" "\<not> bootstrapDeviceIsEstablished (bo_now b) device"
    using free' uuid(1) by (rule registration_ok)
  have dev: "device \<in> set (cd_devices db1)" by (rule registration_effect(3) [OF reg(1) refl])
  have creds: "cd_creds db1 = cd_creds db" by (rule registration_effect(1) [OF reg(1)])
  have wf1: "cred_wf (bo_key b) db1" using cred_step_wf [OF EnsureBootstrapRegistration_step [OF wf]] reg(1) by (metis snd_conv)
  have "bd_id device \<in> bd_id ` set (cd_devices db1)" "env_uuid (bo_env b) \<notin> cr_id ` set (cd_creds db1)" using dev uuid(2) creds by simp_all
  then obtain c db' row where p: "EnsurePendingCWMPDigest (bo_key b) no_faults (bo_env b) (bo_user b) (bo_pass b) (bo_nonce b) (bd_id device) db1 = (Inr c, db')"
    "cd_devices db' = cd_devices db1" "row \<in> set (cd_creds db')" "pending_digest (bd_id device) row" "cr_id row = cred_ID c"
    "cr_id row \<in> insert (env_uuid (bo_env b)) (cr_id ` set (cd_creds db1))"
    using EnsurePending_ok [OF wf1 _ _ flt(3)] by metis
  have look: "\<not> (case find (\<lambda>d. bd_oui_serial d = NaturalKey ?i) (cd_devices db) of None \<Rightarrow> False | Some d \<Rightarrow> bootstrapDeviceIsEstablished (bo_now b) d)"
    using free by (auto simp: find_Some_iff split: option.split)
  have "handleBootstrapGraduationInform b r raw hid inform db =
      (Answered (ReplyXml (RenderInformResponseNS (if hid = [] then bo_id b else hid) (DetectCWMPNamespace raw)))
         (SetCookie (encodeBootstrapCredentialCookie (cr_id row) (DetectCWMPNamespace raw))), db')"
    unfolding handleBootstrapGraduationInform_def Let_def boot_GetByOUIserial_def
    using i flt reg p(1,5) look by simp
  then show thesis
    by (rule that) (use dev p(2-4,6) reg(2,3) creds in \<open>simp_all add: Normalized_idem\<close>)
qed

lemma DetectCWMPNamespace_nonempty: "DetectCWMPNamespace raw \<noteq> []"
  by (simp add: DetectCWMPNamespace_def Let_def DefaultCWMPNamespace_def)

text \<open>The paths the credential is written to.\<close>

definition credential_path :: "string \<Rightarrow> string \<Rightarrow> string" where
  "credential_path dmroot leaf = (if dmroot = ''IGD1'' then ''InternetGatewayDevice'' else ''Device'') @ ''.ManagementServer.'' @ leaf"

lemma install_ok:
  assumes wf: "cred_wf (bo_key b) db" and ok: "boot_settled b r s"
    and row: "row \<in> set (cd_creds db)" "pending_digest (bd_id d) row" "CHR ''.'' \<notin> set (cr_id row)" "cr_id row \<noteq> []"
    and d: "d \<in> set (cd_devices db)" "\<not> bootstrapDeviceIsEstablished (bo_now b) d" "bd_data_model_root d \<in> {''DEVICE2'', ''IGD1''}"
    and cookie: "wq_cookie r = Some (encodeBootstrapCredentialCookie (cr_id row) ns)" "ns \<noteq> []"
  obtains pw where "decrypt (bo_key b) (cr_password row) = Inr pw"
    "bootstrap_message b r raw hid empty_body db = Answered (ReplyXml (RewriteCWMPNamespace (RenderSetParameterValues (bo_rpc_id b)
       [\<lparr> pv_Name = credential_path (bd_data_model_root d) ''Username'', pv_Value = cr_username row, pv_Type = [] \<rparr>,
        \<lparr> pv_Name = credential_path (bd_data_model_root d) ''Password'', pv_Value = pw, pv_Type = [] \<rparr>]
       (ClampParameterKey (case cr_command_key row of None \<Rightarrow> [] | Some k \<Rightarrow> k))) ns)) KeepCookie"
proof -
  obtain c where c: "scanCredential (bo_key b) row = Inr c" using wf row(1) by (rule scan_ok)
  note f = scanCredential_fields [OF c]
  have ck: "cred_CommandKey c = (case cr_command_key row of None \<Rightarrow> [] | Some k \<Rightarrow> k)"
    using c by (auto simp: scanCredential_def split: sum.splits)
  have p: "cr_device_id row = bd_id d" "cr_type row = TypeCWMPDigest" "cr_status row = CredPending" using row(2) by (simp_all add: pending_digest_def)
  have flt: "bo_flt b = no_faults" using ok by (simp add: boot_settled_def)
  have "ByID_cred (bo_key b) False (cr_id row) db = Inr c" using c by (simp add: ByID_cred_def scan_one_def filter_id [OF wf row(1)])
  moreover have "boot_Get False (bd_id d) db = Some d" using wf d(1) find_distinct [of bd_id "cd_devices db" d] by (simp add: boot_Get_def cred_wf_def)
  ultimately have load: "loadBootstrapGraduationState b r db = Some (c, d, ns)"
    using cookie cookie_roundtrip [OF row(3,4) cookie(2)] f p by (simp add: loadBootstrapGraduationState_def flt)
  have "writeCPEInitiatedReply empty_body k m = None" for k m
    by (simp add: writeCPEInitiatedReply_def empty_body_def UnsupportedRequest_def)
  moreover have "IsEmpty empty_body" by (simp add: IsEmpty_def empty_body_def UnsupportedRequest_def)
  ultimately have "bootstrap_message b r raw hid empty_body db = handleBootstrapCredentialInstall b c d ns"
    using d(2) by (simp add: bootstrap_message_def load)
  then show thesis
    using that [of "cred_Password c"] f d(3) ck
    by (auto simp: handleBootstrapCredentialInstall_def ResolvePath_def ResolvePathCandidates_def credential_path_def)
qed


section \<open>Where the production guard and the authenticator read differently\<close>

text \<open>
  The production guard takes the first user name of a header, the authenticator the last: a header that
  names another user first is not recognised as one of the shared credential.
\<close>

definition two_users :: string where
  "two_users = ''Digest username=a, username=fleet''"

lemma production_guard_misses_shared:
  "productionCWMPGuard ''production'' ''fleet'' (demo_request two_users empty_body) = PassOn \<and>
   param (parseDigestParams (drop (length ''Digest '') two_users)) ''username'' = ''fleet''"
  by code_simp

section \<open>Examples\<close>


definition demo_first :: web_request where
  "demo_first = demo_request (''Basic '' @ b64_encode False ''cwmp-2:pw'') (demo_inform ''S2'')"

lemma demo_proves: "proves (demo_cwmp sd) demo_first (demo_creds, demo_replay) (demo_row ''2'' ''d2'' CredPending)"
  by code_simp

theorem proved_credential_activates_witness:
  "\<forall>sd. \<exists>a db' s'. handleCWMP (demo_cwmp sd) demo_first (demo_creds, demo_replay) = (a, db', s') \<and>
     map cr_status (filter (\<lambda>r. cr_id r = ''2'') (cd_creds db')) = [cred_status.CredActive]"
proof
  fix sd
  obtain a db' s' where h: "handleCWMP (demo_cwmp sd) demo_first (demo_creds, demo_replay) = (a, db', s')" by (metis prod.exhaust)
  have wf: "cred_wf (cw_key (demo_cwmp sd)) demo_creds" by (simp add: demo_cwmp_def demo_creds_wf)
  have "map cr_status (filter (\<lambda>r. cr_id r = cr_id (demo_row ''2'' ''d2'' CredPending)) (cd_creds db')) = [cred_status.CredActive]"
    by (rule proved_credential_activates [OF wf _ _ _ _ _ _ _ demo_proves [of sd] _ _ _ _ h, THEN conjunct2, THEN conjunct2, THEN conjunct1])
      (auto simp: demo_cwmp_def settled_def demo_first_def demo_request_def demo_creds_def demo_row_def live_digest_def
        demo_inform_def NormalizeOUI_def ToUpper_def upper_char_def)
  then show "\<exists>a db' s'. handleCWMP (demo_cwmp sd) demo_first (demo_creds, demo_replay) = (a, db', s') \<and>
     map cr_status (filter (\<lambda>r. cr_id r = ''2'') (cd_creds db')) = [cred_status.CredActive]" using h by (simp add: demo_row_def)
qed

text \<open>A new gateway under the bootstrap credential, next to a device that is in service.\<close>

definition demo_bootstrap :: boot_deps where
  "demo_bootstrap = demo_boot\<lparr> bo_nonce := replicate 12 (CHR ''n'') \<rparr>"

definition demo_new :: web_request where
  "demo_new = (demo_request [] (demo_inform ''S3''))\<lparr> wq_http := client_request ''MD5'' md5Hex ''boot'' ''secret'' ''POST'' ''/''
     (newNonce (bo_auth demo_bootstrap) ''abcdef'' (bo_now demo_bootstrap)) \<rparr>"

lemma Split_append: "c \<notin> set a \<Longrightarrow> Split c (a @ c # r) = a # Split c r"
  by (induction a) auto

lemma TrimSpace_ends: "\<not> is_space x \<Longrightarrow> \<not> is_space y \<Longrightarrow> TrimSpace (x # s @ [y]) = x # s @ [y]"
  by (simp add: TrimSpace_def)

lemma demo_new_header:
  obtains rest where "rq_Authorization (wq_http demo_new) = ''Digest username='' @ qt @ ''boot'' @ qt @ '','' @ rest @ qt"
  by (rule that) (simp add: demo_new_def client_request_def client_params_def qt_def)

lemma demo_new_guarded: "guarded demo_bootstrap demo_new"
proof -
  obtain rest where h: "rq_Authorization (wq_http demo_new) = ''Digest username='' @ qt @ ''boot'' @ qt @ '','' @ rest @ qt"
    by (rule demo_new_header)
  let ?v = "''username='' @ qt @ ''boot'' @ qt"
  have t: "TrimSpace (rq_Authorization (wq_http demo_new)) = ''Digest'' @ CHR '' '' # ?v @ CHR '','' # rest @ qt"
    unfolding h using TrimSpace_ends [of "CHR ''D''" "CHR 0x22" "''igest username='' @ qt @ ''boot'' @ qt @ '','' @ rest"]
    by (simp add: qt_def is_space_def)
  have sp: "SplitN 1 (CHR '' '') (''Digest'' @ CHR '' '' # y) = [''Digest'', y]" for y by (simp add: numeral_eq_Suc del: append.simps)
  have "username_directive (?v # ps) = ''boot''" for ps by code_simp
  then have "digestAuthorizationUsername (TrimSpace (rq_Authorization (wq_http demo_new))) = ''boot''"
    unfolding t digestAuthorizationUsername_def sp using Split_append [of "CHR '',''" ?v "rest @ qt"] by (simp add: EqualFold_def qt_def)
  moreover have "hasAuthScheme (TrimSpace (rq_Authorization (wq_http demo_new))) ''Digest''"
    unfolding t hasAuthScheme_def sp by (simp add: EqualFold_def)
  ultimately show ?thesis
    by (simp add: guarded_def bootstrap_scope_def Enabled_def demo_bootstrap_def demo_boot_def demo_auth_def demo_new_def demo_request_def
        client_request_def has_peer_certificate_def Let_def)
qed

lemma demo_new_settled: "boot_settled demo_bootstrap demo_new demo_replay"
proof -
  let ?d = "bo_auth demo_bootstrap" and ?now = "bo_now demo_bootstrap"
  have now: "unix ?now = 1" by (simp add: demo_bootstrap_def demo_boot_def unix_def second_def)
  have pw: "passwordFor ?d ''boot'' = Some (''secret'', [], False)" by (simp add: passwordFor_def demo_bootstrap_def demo_boot_def demo_auth_def)
  have md5: "hashFuncFor ''MD5'' = Some md5Hex" by (simp add: hashFuncFor_def ToUpper_def upper_char_def)
  have trim: "TrimSpace ''boot'' = ''boot''" "TrimSpace ''/'' = ''/''" by (simp_all add: TrimSpace_def is_space_def)
  have later: "?now \<le> of_unix (unix ?now) + nonceTTL" unfolding now by (simp add: demo_bootstrap_def demo_boot_def of_unix_def nonceTTL_def time_units)
  have "v_ok (fst (Verify ?d False (wq_http demo_new) ?now demo_replay))"
    unfolding demo_new_def
    using answers_challenge [OF pw md5 _ _ trim(1) _ trim(2) _ _ later, of demo_replay "''abcdef''" "''POST''"]
    by (simp add: now demo_replay_def nonceCacheMax_def defaultChallengeAlgorithms_def)
  then show ?thesis
    using demo_new_guarded
    by (simp add: boot_settled_def demo_bootstrap_def demo_boot_def gcm_nonce_size_def demo_new_def demo_request_def)
qed


theorem bootstrap_spares_established_witness:
  "\<forall>sd. \<exists>a db' s'. newACSMux [] [] demo_bootstrap (demo_cwmp sd) demo_new (demo_creds, demo_replay) = (a, db', s') \<and> handled a \<and>
     demo_device ''d1'' ''S1'' (Some 5) \<in> set (cd_devices db') \<and> bootstrapDeviceIsEstablished (bo_now demo_bootstrap) (demo_device ''d1'' ''S1'' (Some 5))"
proof
  fix sd
  obtain a db' s' where n: "newACSMux [] [] demo_bootstrap (demo_cwmp sd) demo_new (demo_creds, demo_replay) = (a, db', s')" by (metis prod.exhaust)
  have wf: "cred_wf (bo_key demo_bootstrap) demo_creds" by (simp add: demo_bootstrap_def demo_boot_def demo_creds_wf)
  have est: "bootstrapDeviceIsEstablished (bo_now demo_bootstrap) (demo_device ''d1'' ''S1'' (Some 5))"
    by (simp add: bootstrapDeviceIsEstablished_def ReenrollmentOpen_def demo_device_def new_device_def)
  have "demo_device ''d1'' ''S1'' (Some 5) \<in> set (cd_devices demo_creds)" by (simp add: demo_creds_def)
  then have "handled a" "demo_device ''d1'' ''S1'' (Some 5) \<in> set (cd_devices db')"
    using bootstrap_spares_established [OF wf demo_new_guarded n] est by blast+
  then show "\<exists>a db' s'. newACSMux [] [] demo_bootstrap (demo_cwmp sd) demo_new (demo_creds, demo_replay) = (a, db', s') \<and> handled a \<and>
     demo_device ''d1'' ''S1'' (Some 5) \<in> set (cd_devices db') \<and> bootstrapDeviceIsEstablished (bo_now demo_bootstrap) (demo_device ''d1'' ''S1'' (Some 5))"
    using n est by blast
qed

end
