(* ===== verification/Spec2Isabelle.thy ===== *)
theory Spec2Isabelle
  imports Probe_Session Discovery Onboarding_Reconcile Onboarding_Outcomes Digest_Replay Transfer_Token Parameter_Cache Secret_Store Gateway_Typed Gateway_Isolation Lifecycle Graduation_Progress
begin

text \<open>
  A verification library for the TR-069 auto-configuration server under \<^verbatim>\<open>src/backend\<close>.
\<close>

end
